(* ===== verification/Prelude.thy ===== *)
theory Prelude
  imports Main "HOL-Library.Word" "HOL-Library.Sublist"
begin

text \<open>
  Shared vocabulary of the development: the identifier and time types every
  component uses, the Go standard-library time arithmetic the sources call
  (\<open>time.Time.Sub\<close>, \<open>Before\<close>, \<open>After\<close>, \<open>Truncate\<close>, \<open>IsZero\<close>), the
  theorem collections the component proofs share, Go's string helpers
  (\<open>strings.ToLower\<close> and \<open>EqualFold\<close> on ASCII, \<open>Contains\<close>), the
  wrap-around of \<open>int64\<close> products, and generic lemmas on lists, sorted
  ids and \<open>int32\<close> words.
\<close>

section \<open>Theorem collections\<close>

named_theorems model_defs
  "definitions of model operations that component proofs unfold"
named_theorems list_helpers
  "generic list facts the component proofs pass to simp"

section \<open>Strings\<close>

text \<open>
  \<open>strings.EqualFold\<close> on ASCII: letters compare without case.  (Go's full
  Unicode simple folding also relates a few non-ASCII letters to ASCII ones,
  for instance the Kelvin sign to \<open>k\<close>; the model keeps to ASCII.)
\<close>

definition ascii_lower :: "char \<Rightarrow> char" where
  "ascii_lower c = (let k = (of_char c :: nat) in if 65 \<le> k \<and> k \<le> 90 then char_of (k + 32) else c)"

text \<open>\<open>strings.ToLower\<close> on ASCII.\<close>

definition to_lower :: "string \<Rightarrow> string" where
  "to_lower s = map ascii_lower s"

definition equal_fold :: "string \<Rightarrow> string \<Rightarrow> bool" where
  "equal_fold s t \<longleftrightarrow> map ascii_lower s = map ascii_lower t"

text \<open>\<open>strings.Contains\<close>: a contiguous occurrence.\<close>

definition str_contains :: "string \<Rightarrow> string \<Rightarrow> bool" where
  "str_contains s sub \<longleftrightarrow> sublist sub s"

section \<open>Identifiers and time\<close>

text \<open>
  A \<open>uuid.UUID\<close> is an opaque 128-bit value compared only for equality and,
  in \<open>uniqueSortedUUIDs\<close>, by its canonical string.  Its fixed-width hex
  string orders exactly like the number it denotes, so a UUID is modelled
  as a natural number below \<open>2 ^ 128\<close>; \<open>uuid.Nil\<close> is \<open>0\<close>.
\<close>

type_synonym uuid = nat

definition uuid_nil :: uuid where
  "uuid_nil = 0"

text \<open>
  A Go \<open>time.Time\<close> is modelled as the number of nanoseconds since Go's zero
  time (1 January of year 1, UTC), so \<open>IsZero\<close> is equality with \<open>0\<close>.
  A \<open>time.Duration\<close> is an \<open>int64\<close> of nanoseconds; \<open>Time.Sub\<close> saturates at
  the bounds of \<open>int64\<close> instead of wrapping, which \<open>time_sub\<close> writes out.
\<close>

type_synonym time = int
type_synonym duration = int

definition duration_min :: duration where
  "duration_min = - (2 ^ 63)"

definition duration_max :: duration where
  "duration_max = 2 ^ 63 - 1"

text \<open>An \<open>int64\<close> product or sum as Go computes it: wrapped into the signed 64-bit range.\<close>

definition wrap_int64 :: "int \<Rightarrow> int" where
  "wrap_int64 x = sint (word_of_int x :: 64 word)"

definition time_sub :: "time \<Rightarrow> time \<Rightarrow> duration" where
  "time_sub t u = max duration_min (min duration_max (t - u))"

definition time_before :: "time \<Rightarrow> time \<Rightarrow> bool" where
  "time_before t u \<longleftrightarrow> t < u"

definition time_after :: "time \<Rightarrow> time \<Rightarrow> bool" where
  "time_after t u \<longleftrightarrow> u < t"

definition time_is_zero :: "time \<Rightarrow> bool" where
  "time_is_zero t \<longleftrightarrow> t = 0"

definition time_truncate :: "time \<Rightarrow> duration \<Rightarrow> time" where
  "time_truncate t d = (if d \<le> 0 then t else t - t mod d)"

definition millisecond :: duration where
  "millisecond = 1000000"

definition second :: duration where
  "second = 1000000000"

definition minute :: duration where
  "minute = 60 * second"

definition hour :: duration where
  "hour = 60 * minute"

section \<open>Generic lemmas\<close>

lemma time_sub_bounds [simp]:
  "duration_min \<le> time_sub t u" "time_sub t u \<le> duration_max"
  by (simp_all add: time_sub_def duration_min_def duration_max_def)

lemma time_sub_exact:
  "duration_min \<le> t - u \<Longrightarrow> t - u \<le> duration_max \<Longrightarrow> time_sub t u = t - u"
  by (simp add: time_sub_def)

lemma time_sub_pos_iff [simp]:
  "0 < time_sub t u \<longleftrightarrow> u < t"
  by (auto simp: time_sub_def duration_min_def duration_max_def)

lemma time_truncate_le:
  "time_truncate t d \<le> t"
  by (simp add: time_truncate_def)

lemma time_truncate_gt:
  "0 < d \<Longrightarrow> t < time_truncate t d + d"
  by (simp add: time_truncate_def)

lemma time_truncate_mod: "0 < d \<Longrightarrow> time_truncate t d mod d = 0"
  by (simp add: time_truncate_def minus_mod_eq_div_mult)

lemma minute_pos [simp]: "0 < minute"
  by (simp add: minute_def second_def)

text \<open>Comparing a multiple of \<open>d\<close> with a truncated time is comparing it with the time.\<close>

lemma time_truncate_multiple:
  assumes d: "0 < d" and m: "m mod d = 0"
  shows "m \<le> time_truncate t d \<longleftrightarrow> m \<le> t"
proof
  assume "m \<le> time_truncate t d"
  then show "m \<le> t" using time_truncate_le [of t d] by linarith
next
  assume "m \<le> t"
  then have "m div d * d \<le> t div d * d" using d by (simp add: zdiv_mono1)
  moreover have "m div d * d = m" using m by (metis add.right_neutral div_mult_mod_eq)
  moreover have "time_truncate t d = t div d * d"
    using d by (simp add: time_truncate_def minus_mod_eq_div_mult)
  ultimately show "m \<le> time_truncate t d" by simp
qed

text \<open>Below the saturation bound, comparing a positive duration with \<open>Sub\<close> is exact.\<close>

lemma time_sub_gt_iff:
  assumes "0 < x" and "x < duration_max"
  shows "x < time_sub t u \<longleftrightarrow> u + x < t"
proof -
  have "duration_min < 0" by (simp add: duration_min_def)
  then show ?thesis using assms unfolding time_sub_def by linarith
qed

lemma filter_map_keep [list_helpers]:
  "(\<And>x. x \<in> set xs \<Longrightarrow> P (f x) \<longleftrightarrow> P x) \<Longrightarrow>
   (\<And>x. x \<in> set xs \<Longrightarrow> P x \<Longrightarrow> f x = x) \<Longrightarrow>
   filter P (map f xs) = filter P xs"
  by (induction xs) auto

lemma butlast_append_single [list_helpers]:
  "butlast (xs @ [x]) = xs"
  by simp

lemma list_all_butlast_filter [list_helpers]:
  "list_all P (butlast xs) \<Longrightarrow> list_all P (butlast (filter Q xs))"
proof (induction xs)
  case Nil
  then show ?case by simp
next
  case (Cons x xs)
  then show ?case
    by (cases xs) (auto simp: butlast_append split: if_splits)
qed

lemma list_all_butlast_last [list_helpers]:
  assumes "list_all P (butlast xs)" and "\<exists>v \<in> set xs. \<not> P v"
  shows "xs \<noteq> [] \<and> \<not> P (last xs)"
proof (cases xs rule: rev_cases)
  case Nil
  then show ?thesis using assms by simp
next
  case (snoc ys y)
  then show ?thesis using assms by (auto simp: list_all_iff)
qed

lemma find_append_None [list_helpers]:
  "find P xs = None \<Longrightarrow> find P (xs @ ys) = find P ys"
  by (induction xs) auto

text \<open>The last element of a stable sort has the greatest key.\<close>

lemma last_sort_key_max:
  assumes "xs \<noteq> []"
  shows "last (sort_key f xs) \<in> set xs \<and> (\<forall>x \<in> set xs. f x \<le> f (last (sort_key f xs)))"
proof -
  define s where "s = sort_key f xs"
  have ne: "s \<noteq> []" using assms unfolding s_def by (metis length_0_conv length_sort)
  have sp: "butlast s @ [last s] = s" using ne by simp
  have "sorted (map f s)" unfolding s_def by simp
  then have "sorted (map f (butlast s @ [last s]))" by (simp only: sp)
  then have le: "\<forall>x \<in> set (butlast s). f x \<le> f (last s)" by (simp add: sorted_append)
  have "\<forall>x \<in> set s. f x \<le> f (last s)"
  proof
    fix x assume "x \<in> set s"
    then have "x \<in> set (butlast s @ [last s])" by (simp only: sp)
    then show "f x \<le> f (last s)" using le by auto
  qed
  moreover have "last s \<in> set xs" using ne last_in_set [OF ne] unfolding s_def by simp
  ultimately show ?thesis by (simp add: s_def)
qed

section \<open>Sorted ids and machine integers\<close>

lemma sorted_less_last: "sorted_wrt (<) xs \<Longrightarrow> x \<in> set xs \<Longrightarrow> (x::int) \<le> last xs"
proof (induction xs)
  case Nil
  then show ?case by simp
next
  case (Cons a xs)
  show ?case
  proof (cases "xs = []")
    case True
    then show ?thesis using Cons.prems by simp
  next
    case False
    then have l: "last (a # xs) = last xs" and m: "last xs \<in> set xs" by simp_all
    show ?thesis
    proof (cases "x = a")
      case True
      then show ?thesis using Cons.prems(1) l m by (auto intro: less_imp_le)
    next
      case False
      then show ?thesis using Cons l by simp
    qed
  qed
qed

text \<open>Inside the \<open>int64\<close> range the wrap-around is the identity.\<close>

lemma wrap_int64_id:
  assumes "- (2 ^ 63) \<le> x" and "x < 2 ^ 63"
  shows "wrap_int64 x = x"
proof -
  have "(x mod 2 ^ 64 + 2 ^ 63) mod 2 ^ 64 = (x + 2 ^ 63) mod (2 ^ 64 :: int)" by (simp add: mod_add_left_eq)
  also have "\<dots> = x + 2 ^ 63" using assms by simp
  finally show ?thesis
    by (simp add: wrap_int64_def sint_uint uint_word_of_int_eq take_bit_eq_mod signed_take_bit_eq_take_bit_shift)
qed

text \<open>The successor of an \<open>int32\<close>: one more, except at the maximum, which wraps to the minimum.\<close>

lemma sint_succ_int32:
  "sint (w + 1 :: 32 word) = (if sint w = 2 ^ 31 - 1 then - (2 ^ 31) else sint w + 1)"
proof -
  have b: "- (2 ^ 31) \<le> sint w" "sint w < 2 ^ 31" using sint_ge [of w] sint_lt [of w] by simp_all
  have "sint (w + 1) = signed_take_bit 31 (sint w + 1)"
    by (simp add: sint_word_ariths)
  then show ?thesis using b
    by (auto simp: signed_take_bit_int_eq_self signed_take_bit_eq_take_bit_shift take_bit_eq_mod)
qed

text \<open>An \<open>int32\<close> plus a length that keeps it below \<open>2^31\<close> does not wrap.\<close>

lemma sint_add_nat_nowrap:
  fixes w :: "32 word"
  assumes "0 \<le> sint w" and "sint w + int t < 2 ^ 31"
  shows "sint (w + word_of_nat t) = sint w + int t"
proof -
  have "sint (word_of_nat t :: 32 word) = int t"
    using assms by (simp add: signed_of_nat signed_take_bit_int_eq_self)
  then show ?thesis
    using assms by (simp add: sint_word_ariths signed_take_bit_int_eq_self)
qed

end
