(* ===== verification/Queue.thy ===== *)
theory Queue
  imports Prelude
begin

text \<open>
  The per-peer coalescing send queue of the tailnet coordinator (spec \<section>4.3,
  \<section>9): node records, the updates a peer receives, enqueue with
  coalescing, dequeue by the send loop, and what a receiver learns by
  applying the updates it is sent.  The lemmas show that coalescing loses
  nothing a receiver can observe (a refinement of the plain FIFO), that it
  keeps per-source order, that \<open>PeerGone\<close> is never dropped, and that the
  queue holds at most one pending node per source.
\<close>

section \<open>Nodes and updates\<close>

type_synonym ip_addr = "128 word"

record ip_prefix =
  prefix_addr :: ip_addr
  prefix_bits :: nat

record node =
  node_key :: nat
  node_addresses :: "ip_prefix list"
  node_preferred_derp :: int
  node_seq :: nat

datatype update =
    NodeUpdate uuid node
  | PeerGone uuid
  | MultiAgentUpdate uuid "node option"

primrec upd_peer :: "update \<Rightarrow> uuid" where
  "upd_peer (NodeUpdate p n) = p"
| "upd_peer (PeerGone p) = p"
| "upd_peer (MultiAgentUpdate p n) = p"

primrec upd_node :: "update \<Rightarrow> node option" where
  "upd_node (NodeUpdate p n) = Some n"
| "upd_node (PeerGone p) = None"
| "upd_node (MultiAgentUpdate p n) = n"

section \<open>The coalescing queue\<close>

definition pending_node :: "uuid \<Rightarrow> update \<Rightarrow> bool" where
  "pending_node p u \<longleftrightarrow> upd_peer u = p \<and> upd_node u \<noteq> None"

text \<open>
  Enqueue: a gone-update removes every pending node of its peer and is
  appended; a node update overwrites the pending node of its peer in place
  (its slot) or, when there is none, is appended.
\<close>

definition enqueue :: "update \<Rightarrow> update list \<Rightarrow> update list" where
  "enqueue u q =
     (let p = upd_peer u in
      if upd_node u = None then filter (\<lambda>v. \<not> pending_node p v) q @ [u]
      else if list_ex (pending_node p) q
      then map (\<lambda>v. if pending_node p v then u else v) q
      else q @ [u])"

fun enqueue_all :: "update list \<Rightarrow> update list \<Rightarrow> update list" where
  "enqueue_all [] q = q"
| "enqueue_all (u # us) q = enqueue_all us (enqueue u q)"

definition dequeue :: "update list \<Rightarrow> (update \<times> update list) option" where
  "dequeue q = (case q of [] \<Rightarrow> None | u # q' \<Rightarrow> Some (u, q'))"

definition purge_node :: "uuid \<Rightarrow> update list \<Rightarrow> update list" where
  "purge_node p q = filter (\<lambda>v. \<not> pending_node p v) q"

section \<open>Specification: what a receiver learns\<close>

type_synonym view = "uuid \<rightharpoonup> node"

definition apply_upd :: "view \<Rightarrow> update \<Rightarrow> view" where
  "apply_upd v u = v(upd_peer u := upd_node u)"

definition deliver :: "view \<Rightarrow> update list \<Rightarrow> view" where
  "deliver v q = fold (\<lambda>u w. apply_upd w u) q v"

definition about :: "uuid \<Rightarrow> update list \<Rightarrow> update list" where
  "about p q = filter (\<lambda>v. upd_peer v = p) q"

text \<open>
  The queue invariant: for every peer, all updates about it but the last
  are gone-updates; so there is at most one pending node per peer, and it
  is the newest update about that peer.
\<close>

definition queue_inv :: "update list \<Rightarrow> bool" where
  "queue_inv q \<longleftrightarrow>
     (\<forall>p \<in> set (map upd_peer q). list_all (\<lambda>v. upd_node v = None) (butlast (about p q)))"

declare pending_node_def [model_defs] enqueue_def [model_defs] about_def [model_defs]
  purge_node_def [model_defs] dequeue_def [model_defs]

section \<open>Lemmas on the projection to one peer\<close>

lemma about_append [simp]: "about p (xs @ ys) = about p xs @ about p ys"
  by (simp add: about_def)

lemma about_Cons: "about p (u # q) = (if upd_peer u = p then u # about p q else about p q)"
  by (simp add: about_def)

lemma about_Nil [simp]: "about p [] = []"
  by (simp add: about_def)

lemma about_other_peer [simp]: "upd_peer u \<noteq> p \<Longrightarrow> about p [u] = []"
  by (simp add: about_def)

lemma about_peer [simp]: "about (upd_peer u) [u] = [u]"
  by (simp add: about_def)

lemma queue_inv_iff:
  "queue_inv q \<longleftrightarrow> (\<forall>p. list_all (\<lambda>v. upd_node v = None) (butlast (about p q)))"
proof -
  have "about p q = []" if "p \<notin> set (map upd_peer q)" for p
    using that by (auto simp: about_def filter_empty_conv)
  then show ?thesis
    unfolding queue_inv_def by fastforce
qed

lemma about_purge_same:
  "about p (filter (\<lambda>v. \<not> pending_node p v) q) = filter (\<lambda>v. upd_node v = None) (about p q)"
  by (induction q) (auto simp: about_def pending_node_def)

lemma about_purge_other:
  "p \<noteq> p' \<Longrightarrow> about p (filter (\<lambda>v. \<not> pending_node p' v) q) = about p q"
  by (induction q) (auto simp: about_def pending_node_def)

lemma about_replace_same:
  "upd_peer u = p \<Longrightarrow> upd_node u \<noteq> None \<Longrightarrow>
   about p (map (\<lambda>v. if pending_node p v then u else v) q) =
   map (\<lambda>v. if upd_node v \<noteq> None then u else v) (about p q)"
  by (induction q) (auto simp: about_def pending_node_def)

lemma about_replace_other:
  "upd_peer u \<noteq> p \<Longrightarrow>
   about p (map (\<lambda>v. if pending_node (upd_peer u) v then u else v) q) = about p q"
  by (induction q) (auto simp: about_def pending_node_def)

lemma list_ex_pending_about:
  "list_ex (pending_node p) q \<longleftrightarrow> (\<exists>v \<in> set (about p q). upd_node v \<noteq> None)"
  by (auto simp: about_def pending_node_def list_ex_iff)

lemma about_enqueue_other:
  "upd_peer u \<noteq> p \<Longrightarrow> about p (enqueue u q) = about p q"
  by (auto simp: enqueue_def Let_def about_purge_other about_replace_other)

text \<open>The three shapes of the updates about the enqueued peer.\<close>

lemma about_enqueue_gone:
  "upd_node u = None \<Longrightarrow>
   about (upd_peer u) (enqueue u q) = filter (\<lambda>v. upd_node v = None) (about (upd_peer u) q) @ [u]"
  by (simp add: enqueue_def about_purge_same)

lemma about_enqueue_replace:
  "upd_node u \<noteq> None \<Longrightarrow> list_ex (pending_node (upd_peer u)) q \<Longrightarrow>
   about (upd_peer u) (enqueue u q) =
   map (\<lambda>v. if upd_node v \<noteq> None then u else v) (about (upd_peer u) q)"
  by (auto simp: enqueue_def Let_def about_replace_same)

lemma about_enqueue_append:
  "upd_node u \<noteq> None \<Longrightarrow> \<not> list_ex (pending_node (upd_peer u)) q \<Longrightarrow>
   enqueue u q = q @ [u]"
  by (auto simp: enqueue_def Let_def)

text \<open>Under the invariant, the pending node of a peer is the last update about it.\<close>

lemma pending_is_last:
  assumes "queue_inv q" and "list_ex (pending_node p) q"
  shows "about p q \<noteq> [] \<and> upd_node (last (about p q)) \<noteq> None"
proof -
  from assms(1) have "list_all (\<lambda>v. upd_node v = None) (butlast (about p q))"
    by (simp add: queue_inv_iff)
  moreover from assms(2) have "\<exists>v \<in> set (about p q). \<not> upd_node v = None"
    by (simp add: list_ex_pending_about)
  ultimately show ?thesis
    by (rule list_all_butlast_last)
qed

section \<open>What a receiver learns\<close>

lemma deliver_Cons: "deliver v (u # q) = deliver (apply_upd v u) q"
  by (simp add: deliver_def)

lemma deliver_append: "deliver v (xs @ ys) = deliver (deliver v xs) ys"
  by (simp add: deliver_def)

lemma deliver_at:
  "deliver v q p = (if about p q = [] then v p else upd_node (last (about p q)))"
proof (induction q arbitrary: v)
  case Nil
  then show ?case by (simp add: deliver_def)
next
  case (Cons u q)
  then show ?case
    by (auto simp: deliver_Cons about_Cons apply_upd_def)
qed

lemma deliver_cong_about:
  "(\<And>p. about p q = about p q') \<Longrightarrow> deliver v q = deliver v q'"
  by (rule ext) (simp add: deliver_at)

text \<open>
  Coalescing refines the plain FIFO: a receiver that applies the coalesced
  queue learns exactly what it would learn from every update enqueued.
\<close>

lemma enqueue_deliver:
  assumes inv: "queue_inv q"
  shows "deliver v (enqueue u q) = deliver v (q @ [u])"
proof (rule ext)
  fix x
  show "deliver v (enqueue u q) x = deliver v (q @ [u]) x"
  proof (cases "x = upd_peer u")
    case False
    then show ?thesis
      by (simp add: deliver_at about_enqueue_other)
  next
    case x: True
    consider (gone) "upd_node u = None"
      | (repl) "upd_node u \<noteq> None" "list_ex (pending_node (upd_peer u)) q"
      | (app) "upd_node u \<noteq> None" "\<not> list_ex (pending_node (upd_peer u)) q"
      by blast
    then show ?thesis
    proof cases
      case gone
      then show ?thesis by (simp add: x deliver_at about_enqueue_gone)
    next
      case repl
      have "about (upd_peer u) q \<noteq> [] \<and> upd_node (last (about (upd_peer u) q)) \<noteq> None"
        using inv repl(2) by (rule pending_is_last)
      with repl show ?thesis
        by (simp add: x deliver_at about_enqueue_replace last_map)
    next
      case app
      then show ?thesis by (simp add: about_enqueue_append)
    qed
  qed
qed

lemma queue_inv_enqueue:
  assumes inv: "queue_inv q"
  shows "queue_inv (enqueue u q)"
  unfolding queue_inv_iff
proof
  fix x
  have all: "list_all (\<lambda>v. upd_node v = None) (butlast (about x q))"
    using inv by (simp add: queue_inv_iff)
  show "list_all (\<lambda>v. upd_node v = None) (butlast (about x (enqueue u q)))"
  proof (cases "x = upd_peer u")
    case False
    then show ?thesis using all by (simp add: about_enqueue_other)
  next
    case x: True
    consider (gone) "upd_node u = None"
      | (repl) "upd_node u \<noteq> None" "list_ex (pending_node (upd_peer u)) q"
      | (app) "upd_node u \<noteq> None" "\<not> list_ex (pending_node (upd_peer u)) q"
      by blast
    then show ?thesis
    proof cases
      case gone
      then show ?thesis by (simp add: x about_enqueue_gone list_all_iff)
    next
      case repl
      then show ?thesis
        using all by (simp add: x about_enqueue_replace map_butlast [symmetric] list_all_iff)
    next
      case app
      then have "list_all (\<lambda>v. upd_node v = None) (about x q)"
        by (auto simp: x list_ex_pending_about list_all_iff)
      with app show ?thesis by (simp add: x about_enqueue_append)
    qed
  qed
qed

text \<open>
  Per-source order after coalescing (P5): the updates about one peer that
  stay in the queue are a subsequence, in order, of those enqueued; an
  overwritten node is only ever replaced by a newer one.
\<close>

lemma subseq_about_enqueue:
  assumes inv: "queue_inv q"
  shows "subseq (about x (enqueue u q)) (about x (q @ [u]))"
proof (cases "x = upd_peer u")
  case False
  then show ?thesis by (simp add: about_enqueue_other)
next
  case x: True
  consider (gone) "upd_node u = None"
    | (repl) "upd_node u \<noteq> None" "list_ex (pending_node (upd_peer u)) q"
    | (app) "upd_node u \<noteq> None" "\<not> list_ex (pending_node (upd_peer u)) q"
    by blast
  then show ?thesis
  proof cases
    case gone
    then show ?thesis by (simp add: x about_enqueue_gone)
  next
    case repl
    let ?a = "about (upd_peer u) q"
    let ?f = "\<lambda>v. if upd_node v \<noteq> None then u else v"
    have ne: "?a \<noteq> [] \<and> upd_node (last ?a) \<noteq> None"
      using inv repl(2) by (rule pending_is_last)
    from inv have "list_all (\<lambda>v. upd_node v = None) (butlast ?a)"
      by (simp add: queue_inv_iff)
    then have keep: "map ?f (butlast ?a) = butlast ?a"
      by (intro map_idI) (auto simp: list_all_iff)
    have split: "?a = butlast ?a @ [last ?a]"
      using ne by simp
    have "map ?f ?a = map ?f (butlast ?a) @ [?f (last ?a)]"
      by (subst split) simp
    also have "\<dots> = butlast ?a @ [u]"
      using keep ne by simp
    finally have "about x (enqueue u q) = butlast ?a @ [u]"
      using repl by (simp add: x about_enqueue_replace)
    moreover have "about x (q @ [u]) = butlast ?a @ [last ?a, u]"
      using split by (metis x about_append about_peer append.assoc append_Cons append_Nil)
    ultimately show ?thesis
      by (simp add: subseq_append')
  next
    case app
    then show ?thesis by (simp add: about_enqueue_append)
  qed
qed

text \<open>\<open>PeerGone\<close> is never dropped: the gone-updates of a queue only grow.\<close>

lemma enqueue_keeps_gone:
  "filter (\<lambda>v. upd_node v = None) (enqueue u q) =
   filter (\<lambda>v. upd_node v = None) q @ (if upd_node u = None then [u] else [])"
proof -
  have f: "filter (\<lambda>v. upd_node v = None) (map (\<lambda>v. if pending_node (upd_peer u) v then u else v) q)
        = filter (\<lambda>v. upd_node v = None) q" if "upd_node u \<noteq> None"
    using that by (intro filter_map_keep) (auto simp: pending_node_def)
  have g: "filter (\<lambda>v. \<not> pending_node p v \<and> upd_node v = None) q
        = filter (\<lambda>v. upd_node v = None) q" for p
    by (rule filter_cong) (auto simp: pending_node_def)
  show ?thesis
    by (auto simp: enqueue_def Let_def f g)
qed

text \<open>Bound: at most one pending node per source peer.\<close>

lemma queue_inv_snoc_prefix:
  "queue_inv (q @ [u]) \<Longrightarrow> queue_inv q"
  unfolding queue_inv_iff
proof
  fix p
  assume all: "\<forall>p. list_all (\<lambda>v. upd_node v = None) (butlast (about p (q @ [u])))"
  then show "list_all (\<lambda>v. upd_node v = None) (butlast (about p q))"
    by (cases "upd_peer u = p") (auto dest: spec [of _ p] simp: list_all_iff in_set_butlastD)
qed

lemma queue_inv_snoc_node:
  "queue_inv (q @ [u]) \<Longrightarrow> upd_node u \<noteq> None \<Longrightarrow> \<not> list_ex (pending_node (upd_peer u)) q"
  by (auto simp: queue_inv_iff list_ex_pending_about list_all_iff dest: spec [of _ "upd_peer u"])

lemma queue_inv_distinct_pending:
  "queue_inv q \<Longrightarrow> distinct (map upd_peer (filter (\<lambda>v. upd_node v \<noteq> None) q))"
proof (induction q rule: rev_induct)
  case Nil
  then show ?case by simp
next
  case (snoc u q)
  from snoc.prems have "queue_inv q" by (rule queue_inv_snoc_prefix)
  with snoc.IH have d: "distinct (map upd_peer (filter (\<lambda>v. upd_node v \<noteq> None) q))" .
  show ?case
  proof (cases "upd_node u = None")
    case True
    with d show ?thesis by simp
  next
    case False
    with snoc.prems have "\<not> list_ex (pending_node (upd_peer u)) q"
      by (rule queue_inv_snoc_node)
    with False d show ?thesis
      by (auto simp: list_ex_iff pending_node_def)
  qed
qed

section \<open>Runs of enqueues\<close>

lemma queue_inv_Nil [simp]: "queue_inv []"
  by (simp add: queue_inv_def)

lemma queue_inv_enqueue_all:
  "queue_inv q \<Longrightarrow> queue_inv (enqueue_all us q)"
  by (induction us arbitrary: q) (simp_all add: queue_inv_enqueue)

lemma enqueue_all_deliver:
  "queue_inv q \<Longrightarrow> deliver v (enqueue_all us q) = deliver v (q @ us)"
proof (induction us arbitrary: q)
  case Nil
  then show ?case by simp
next
  case (Cons u us)
  have "deliver v (enqueue_all us (enqueue u q)) = deliver v (enqueue u q @ us)"
    using Cons.prems by (intro Cons.IH queue_inv_enqueue)
  also have "\<dots> = deliver (deliver v (enqueue u q)) us"
    by (rule deliver_append)
  also have "\<dots> = deliver (deliver v (q @ [u])) us"
    using Cons.prems by (simp only: enqueue_deliver)
  also have "\<dots> = deliver v (q @ u # us)"
    by (simp only: deliver_append [symmetric] append_assoc append_Cons append_Nil)
  finally show ?case by simp
qed

lemma subseq_about_enqueue_all:
  "queue_inv q \<Longrightarrow> subseq (about x (enqueue_all us q)) (about x (q @ us))"
proof (induction us arbitrary: q)
  case Nil
  then show ?case by simp
next
  case (Cons u us)
  have "subseq (about x (enqueue_all us (enqueue u q))) (about x (enqueue u q @ us))"
    using Cons.prems by (intro Cons.IH queue_inv_enqueue)
  moreover have "subseq (about x (enqueue u q) @ about x us) (about x (q @ [u]) @ about x us)"
    using subseq_about_enqueue [OF Cons.prems, of x u] subseq_order.order_refl
    by (rule list_emb_append_mono)
  moreover have "about x (u # us) = about x [u] @ about x us"
    by (metis about_append append_Cons append_Nil)
  ultimately have "subseq (about x (enqueue u q @ us)) (about x (q @ u # us))"
    by simp
  with \<open>subseq (about x (enqueue_all us (enqueue u q))) (about x (enqueue u q @ us))\<close>
  show ?case
    by (auto intro: subseq_order.trans)
qed

text \<open>Re-enqueueing the same node update changes nothing.\<close>

lemma enqueue_node_idem:
  assumes node: "upd_node u \<noteq> None"
  shows "enqueue u (enqueue u q) = enqueue u q"
proof (cases "list_ex (pending_node (upd_peer u)) q")
  case True
  let ?f = "\<lambda>v. if pending_node (upd_peer u) v then u else v"
  have self: "pending_node (upd_peer u) u" using node by (simp add: pending_node_def)
  have e1: "enqueue u q = map ?f q"
    using True node by (auto simp: enqueue_def Let_def)
  have ex: "list_ex (pending_node (upd_peer u)) (map ?f q)"
    using True self by (auto simp: list_ex_iff)
  have e2: "enqueue u (map ?f q) = map ?f (map ?f q)"
    using ex node by (auto simp: enqueue_def Let_def)
  have "map ?f (map ?f q) = map ?f q"
    using self by (induction q) auto
  with e1 e2 show ?thesis by simp
next
  case False
  have self: "pending_node (upd_peer u) u" using node by (simp add: pending_node_def)
  have e1: "enqueue u q = q @ [u]"
    using node False by (rule about_enqueue_append)
  have ex: "list_ex (pending_node (upd_peer u)) (q @ [u])"
    using self by simp
  have "map (\<lambda>v. if pending_node (upd_peer u) v then u else v) (q @ [u]) = q @ [u]"
    using False self by (auto simp: list_ex_iff intro: map_idI)
  with e1 ex node show ?thesis
    by (auto simp: enqueue_def Let_def)
qed

section \<open>The send loop's dequeue\<close>

lemma queue_inv_Cons: "queue_inv (u # q) \<Longrightarrow> queue_inv q"
  unfolding queue_inv_iff
proof
  fix p
  assume all: "\<forall>p. list_all (\<lambda>v. upd_node v = None) (butlast (about p (u # q)))"
  then show "list_all (\<lambda>v. upd_node v = None) (butlast (about p q))"
    by (cases "about p q") (auto dest: spec [of _ p] simp: about_Cons split: if_splits)
qed

lemma dequeue_deliver:
  "dequeue q = Some (u, q') \<Longrightarrow> deliver v q = deliver (apply_upd v u) q'"
  by (auto simp: dequeue_def deliver_Cons split: list.splits)

lemma dequeue_inv:
  "queue_inv q \<Longrightarrow> dequeue q = Some (u, q') \<Longrightarrow> queue_inv q'"
  by (auto simp: dequeue_def split: list.splits intro: queue_inv_Cons)

lemma about_purge_node:
  "about p (purge_node p q) = filter (\<lambda>v. upd_node v = None) (about p q)"
  by (simp add: purge_node_def about_purge_same)

lemma queue_inv_purge_node:
  "queue_inv q \<Longrightarrow> queue_inv (purge_node p q)"
proof -
  assume inv: "queue_inv q"
  have "list_all (\<lambda>v. upd_node v = None) (butlast (about x (purge_node p q)))" for x
  proof (cases "x = p")
    case True
    then show ?thesis by (auto simp: about_purge_node list_all_iff dest: in_set_butlastD)
  next
    case False
    then show ?thesis
      using inv by (simp add: purge_node_def about_purge_other queue_inv_iff)
  qed
  then show ?thesis by (simp add: queue_inv_iff)
qed

lemma deliver_snoc_at: "deliver v (q @ [u]) (upd_peer u) = upd_node u"
  by (simp add: deliver_append deliver_def apply_upd_def)

lemma enqueue_all_keeps_gone:
  "filter (\<lambda>u. upd_node u = None) (enqueue_all us q) = filter (\<lambda>u. upd_node u = None) (q @ us)"
  by (induction us arbitrary: q) (simp_all add: enqueue_keeps_gone)

end
