(* ===== verification/Coordinator.thy ===== *)
theory Coordinator
  imports Queue
begin

text \<open>
  The tailnet coordinator (spec \<section>3, \<section>4.1 to \<section>4.5, \<section>4.8): the
  peer registry, the subscription graph kept as two adjacency maps that
  must agree, the receive loop's dispatch of a peer's messages, the
  fan-out of node changes into the coalescing queues of \<^theory_text>\<open>Queue\<close>,
  disconnect and shutdown.  Everything happens under the coordinator lock,
  so each operation is one atomic state transition; \<open>coord_step\<close> is the
  interleaving of all of them and \<open>coord_reach\<close> its reachable states.
\<close>

section \<open>State\<close>

datatype peer_kind = Agent | Client | MultiAgent

record peer =
  peer_kind :: peer_kind
  peer_node :: "node option"
  peer_queue :: "update list"

record coord =
  c_peers :: "uuid \<rightharpoonup> peer"
  c_subscriptions :: "uuid \<Rightarrow> uuid set"
  c_subscribers :: "uuid \<Rightarrow> uuid set"
  c_closed :: bool

datatype coord_error = ErrDuplicatePeer | ErrClosed | ErrProtocol | ErrTransport

definition coord_init :: coord where
  "coord_init = \<lparr>c_peers = Map.empty, c_subscriptions = (\<lambda>_. {}),
                 c_subscribers = (\<lambda>_. {}), c_closed = False\<rparr>"

definition new_peer :: "peer_kind \<Rightarrow> peer" where
  "new_peer k = \<lparr>peer_kind = k, peer_node = None, peer_queue = []\<rparr>"

section \<open>Peer registry (C1)\<close>

definition register :: "uuid \<Rightarrow> peer_kind \<Rightarrow> coord \<Rightarrow> coord_error + coord" where
  "register i k s =
     (if c_closed s then Inl ErrClosed
      else if i \<in> dom (c_peers s) then Inl ErrDuplicatePeer
      else Inr (s\<lparr>c_peers := (c_peers s)(i \<mapsto> new_peer k)\<rparr>))"

definition node_of :: "coord \<Rightarrow> uuid \<Rightarrow> node option" where
  "node_of s i = (case c_peers s i of None \<Rightarrow> None | Some p \<Rightarrow> peer_node p)"

section \<open>Fan-out engine (C5)\<close>

text \<open>
  A multi-agent receives updates tagged with the agent they pertain to; any
  other peer receives a \<open>NodeUpdate\<close> or a \<open>PeerGone\<close>.
\<close>

definition tagged :: "peer_kind \<Rightarrow> uuid \<Rightarrow> node option \<Rightarrow> update" where
  "tagged k src n =
     (if k = MultiAgent then MultiAgentUpdate src n
      else (case n of Some m \<Rightarrow> NodeUpdate src m | None \<Rightarrow> PeerGone src))"

definition push :: "uuid \<Rightarrow> node option \<Rightarrow> peer \<Rightarrow> peer" where
  "push src n p = p\<lparr>peer_queue := enqueue (tagged (peer_kind p) src n) (peer_queue p)\<rparr>"

definition push_to :: "uuid set \<Rightarrow> uuid \<Rightarrow> node option \<Rightarrow> (uuid \<rightharpoonup> peer) \<Rightarrow> (uuid \<rightharpoonup> peer)" where
  "push_to ts src n ps = (\<lambda>t. if t \<in> ts then map_option (push src n) (ps t) else ps t)"

text \<open>
  The peers that hear of a change of \<open>i\<close>: an agent's subscribers; for a
  client or a multi-agent, the agents it is subscribed to.
\<close>

definition observers :: "coord \<Rightarrow> uuid \<Rightarrow> peer_kind \<Rightarrow> uuid set" where
  "observers s i k = (if k = Agent then c_subscribers s i else c_subscriptions s i)"

definition fanout :: "uuid \<Rightarrow> peer_kind \<Rightarrow> node option \<Rightarrow> coord \<Rightarrow> coord" where
  "fanout i k n s = s\<lparr>c_peers := push_to (observers s i k) i n (c_peers s)\<rparr>"

section \<open>Receive loop (C4) and subscription graph (C2)\<close>

datatype msg = SelfUpdate node | Subscribe uuid | Unsubscribe uuid | Malformed

text \<open>
  A self-update whose sequence number goes backwards is a protocol error;
  an equal one (a byte-identical re-announce) is accepted and fanned out.
\<close>

definition seq_ok :: "peer \<Rightarrow> node \<Rightarrow> bool" where
  "seq_ok p n = (case peer_node p of None \<Rightarrow> True | Some m \<Rightarrow> node_seq m \<le> node_seq n)"

definition self_update :: "uuid \<Rightarrow> node \<Rightarrow> coord \<Rightarrow> coord_error + coord" where
  "self_update i n s =
     (case c_peers s i of
        None \<Rightarrow> Inl ErrClosed
      | Some p \<Rightarrow>
          if \<not> seq_ok p n then Inl ErrProtocol
          else Inr (fanout i (peer_kind p) (Some n)
                      (s\<lparr>c_peers := (c_peers s)(i \<mapsto> p\<lparr>peer_node := Some n\<rparr>)\<rparr>)))"

definition add_edge :: "uuid \<Rightarrow> uuid \<Rightarrow> coord \<Rightarrow> coord" where
  "add_edge c a s =
     s\<lparr>c_subscriptions := (c_subscriptions s)(c := insert a (c_subscriptions s c)),
       c_subscribers := (c_subscribers s)(a := insert c (c_subscribers s a))\<rparr>"

definition del_edge :: "uuid \<Rightarrow> uuid \<Rightarrow> coord \<Rightarrow> coord" where
  "del_edge c a s =
     s\<lparr>c_subscriptions := (c_subscriptions s)(c := c_subscriptions s c - {a}),
       c_subscribers := (c_subscribers s)(a := c_subscribers s a - {c})\<rparr>"

text \<open>
  Subscribe inserts the edge and, when the agent is connected and has a
  node, puts the agent's current node on the subscriber's queue (the
  snapshot of \<section>4.2).  Subscribing again replays the snapshot, which the
  coalescing queue absorbs.
\<close>

definition subscribe :: "uuid \<Rightarrow> uuid \<Rightarrow> coord \<Rightarrow> coord_error + coord" where
  "subscribe c a s =
     (case c_peers s c of
        None \<Rightarrow> Inl ErrClosed
      | Some pc \<Rightarrow>
          if peer_kind pc = Agent then Inl ErrProtocol
          else (case c_peers s a of
                  Some pa \<Rightarrow>
                    if peer_kind pa = Agent \<and> peer_node pa \<noteq> None
                    then Inr ((add_edge c a s)\<lparr>c_peers := (c_peers s)(c \<mapsto> push a (peer_node pa) pc)\<rparr>)
                    else Inr (add_edge c a s)
                | None \<Rightarrow> Inr (add_edge c a s)))"

definition purge_peer :: "uuid \<Rightarrow> uuid \<Rightarrow> (uuid \<rightharpoonup> peer) \<Rightarrow> (uuid \<rightharpoonup> peer)" where
  "purge_peer t src ps =
     (case ps t of
        None \<Rightarrow> ps
      | Some p \<Rightarrow> ps(t \<mapsto> p\<lparr>peer_queue := purge_node src (peer_queue p)\<rparr>))"

text \<open>
  Unsubscribe removes the edge and enqueues nothing; the pending nodes the
  two ends held of each other are withdrawn, so that subscribe followed by
  unsubscribe leaves no pending update for the agent (spec \<section>8).
\<close>

definition unsubscribe :: "uuid \<Rightarrow> uuid \<Rightarrow> coord \<Rightarrow> coord_error + coord" where
  "unsubscribe c a s =
     (case c_peers s c of
        None \<Rightarrow> Inl ErrClosed
      | Some pc \<Rightarrow>
          if peer_kind pc = Agent then Inl ErrProtocol
          else Inr ((del_edge c a s)\<lparr>c_peers := purge_peer a c (purge_peer c a (c_peers s))\<rparr>))"

section \<open>Disconnect and shutdown\<close>

text \<open>
  Disconnect unregisters the peer and fans \<open>PeerGone\<close> out to its
  observers.  A client's (or multi-agent's) edges are removed; an agent's
  edges are kept, so that its subscribers resume when it reconnects
  (spec \<section>3, Lifecycle).  Disconnecting an unknown peer changes nothing.
\<close>

definition disconnect :: "uuid \<Rightarrow> coord \<Rightarrow> coord" where
  "disconnect i s =
     (case c_peers s i of
        None \<Rightarrow> s
      | Some p \<Rightarrow>
          if peer_kind p = Agent then
            s\<lparr>c_peers := push_to (c_subscribers s i) i None ((c_peers s)(i := None))\<rparr>
          else
            (let ags = c_subscriptions s i
             in s\<lparr>c_peers := push_to ags i None ((c_peers s)(i := None)),
                  c_subscriptions := (c_subscriptions s)(i := {}),
                  c_subscribers := (\<lambda>a. if a \<in> ags then c_subscribers s a - {i}
                                        else c_subscribers s a)\<rparr>))"

definition handle_msg :: "uuid \<Rightarrow> msg \<Rightarrow> coord \<Rightarrow> coord_error + coord" where
  "handle_msg i m s =
     (case m of
        SelfUpdate n \<Rightarrow> self_update i n s
      | Subscribe a \<Rightarrow> subscribe i a s
      | Unsubscribe a \<Rightarrow> unsubscribe i a s
      | Malformed \<Rightarrow> Inl ErrProtocol)"

text \<open>Any error of a receive step closes the connection and unregisters the peer.\<close>

definition receive :: "uuid \<Rightarrow> msg \<Rightarrow> coord \<Rightarrow> coord" where
  "receive i m s = (case handle_msg i m s of Inl e \<Rightarrow> disconnect i s | Inr s' \<Rightarrow> s')"

definition send_next :: "uuid \<Rightarrow> coord \<Rightarrow> (update \<times> coord) option" where
  "send_next i s =
     (case c_peers s i of
        None \<Rightarrow> None
      | Some p \<Rightarrow>
          (case dequeue (peer_queue p) of
             None \<Rightarrow> None
           | Some (u, q) \<Rightarrow> Some (u, s\<lparr>c_peers := (c_peers s)(i \<mapsto> p\<lparr>peer_queue := q\<rparr>)\<rparr>)))"

definition shutdown :: "coord \<Rightarrow> coord" where
  "shutdown s = s\<lparr>c_peers := Map.empty, c_subscriptions := (\<lambda>_. {}),
                  c_subscribers := (\<lambda>_. {}), c_closed := True\<rparr>"

section \<open>Interleaving of all operations\<close>

inductive coord_step :: "coord \<Rightarrow> coord \<Rightarrow> bool" where
  step_register: "register i k s = Inr s' \<Longrightarrow> coord_step s s'"
| step_receive: "i \<in> dom (c_peers s) \<Longrightarrow> coord_step s (receive i m s)"
| step_disconnect: "coord_step s (disconnect i s)"
| step_send: "send_next i s = Some (u, s') \<Longrightarrow> coord_step s s'"
| step_shutdown: "coord_step s (shutdown s)"

inductive coord_reach :: "coord \<Rightarrow> bool" where
  reach_init: "coord_reach coord_init"
| reach_step: "coord_reach s \<Longrightarrow> coord_step s s' \<Longrightarrow> coord_reach s'"

inductive_cases coord_stepE: "coord_step s s'"

declare register_def [model_defs] node_of_def [model_defs] tagged_def [model_defs]
  push_def [model_defs] push_to_def [model_defs] observers_def [model_defs]
  fanout_def [model_defs] seq_ok_def [model_defs] self_update_def [model_defs]
  add_edge_def [model_defs] del_edge_def [model_defs] subscribe_def [model_defs]
  purge_peer_def [model_defs] unsubscribe_def [model_defs] disconnect_def [model_defs]
  handle_msg_def [model_defs] receive_def [model_defs] send_next_def [model_defs]
  shutdown_def [model_defs]

section \<open>Invariant\<close>

definition kind_of :: "coord \<Rightarrow> uuid \<Rightarrow> peer_kind option" where
  "kind_of s i = map_option peer_kind (c_peers s i)"

text \<open>\<open>observes s t src\<close>: peer \<open>t\<close> is among the peers that hear of changes of \<open>src\<close>.\<close>

definition observes :: "coord \<Rightarrow> uuid \<Rightarrow> uuid \<Rightarrow> bool" where
  "observes s t src = (case c_peers s src of None \<Rightarrow> False | Some p \<Rightarrow> t \<in> observers s src (peer_kind p))"

text \<open>P1: the two adjacency maps describe the same edges.\<close>

definition sym_edges :: "coord \<Rightarrow> bool" where
  "sym_edges s \<longleftrightarrow> (\<forall>c a. a \<in> c_subscriptions s c \<longleftrightarrow> c \<in> c_subscribers s a)"

text \<open>Only a connected client or multi-agent holds subscriptions.\<close>

definition subs_registered :: "coord \<Rightarrow> bool" where
  "subs_registered s \<longleftrightarrow>
     (\<forall>c. c_subscriptions s c \<noteq> {} \<longrightarrow> kind_of s c \<in> {Some Client, Some MultiAgent})"

definition queues_ok :: "coord \<Rightarrow> bool" where
  "queues_ok s \<longleftrightarrow> (\<forall>t p. c_peers s t = Some p \<longrightarrow> queue_inv (peer_queue p))"

text \<open>
  No ghost state: every node still waiting in a queue is the current node
  of a connected peer, and the queue's owner is one of that peer's observers.
\<close>

definition fresh_pending :: "coord \<Rightarrow> bool" where
  "fresh_pending s \<longleftrightarrow>
     (\<forall>t p. c_peers s t = Some p \<longrightarrow>
        (\<forall>u \<in> set (peer_queue p). upd_node u \<noteq> None \<longrightarrow>
           node_of s (upd_peer u) = upd_node u \<and> observes s t (upd_peer u)))"

definition coord_inv :: "coord \<Rightarrow> bool" where
  "coord_inv s \<longleftrightarrow> sym_edges s \<and> subs_registered s \<and> queues_ok s \<and> fresh_pending s"

subsection \<open>Facts about the building blocks\<close>

lemma push_to_apply [simp]:
  "push_to ts src n ps t = (if t \<in> ts then map_option (push src n) (ps t) else ps t)"
  by (simp add: push_to_def)

lemma push_fields [simp]:
  "peer_kind (push src n p) = peer_kind p"
  "peer_node (push src n p) = peer_node p"
  "peer_queue (push src n p) = enqueue (tagged (peer_kind p) src n) (peer_queue p)"
  by (simp_all add: push_def)

lemma tagged_fields [simp]:
  "upd_peer (tagged k src n) = src"
  "upd_node (tagged k src n) = n"
  by (simp_all add: tagged_def split: option.splits)

lemma purge_peer_apply [simp]:
  "purge_peer t src ps x =
     (if x = t then map_option (\<lambda>p. p\<lparr>peer_queue := purge_node src (peer_queue p)\<rparr>) (ps t) else ps x)"
  by (simp add: purge_peer_def split: option.splits)

lemma set_enqueue:
  "v \<in> set (enqueue u q) \<Longrightarrow> v = u \<or> (v \<in> set q \<and> \<not> pending_node (upd_peer u) v)"
  by (auto simp: enqueue_def Let_def list_ex_iff split: if_splits)

lemma set_purge_node [simp]:
  "v \<in> set (purge_node p q) \<longleftrightarrow> v \<in> set q \<and> \<not> pending_node p v"
  by (simp add: purge_node_def)

lemma kind_of_push_to [simp]: "map_option peer_kind (push_to ts src n ps t) = map_option peer_kind (ps t)"
  by (simp add: option.map_comp comp_def)

subsection \<open>Symmetric edges (P1)\<close>

lemma sym_edges_init: "sym_edges coord_init"
  by (simp add: sym_edges_def coord_init_def)

lemma sym_add_edge: "sym_edges s \<Longrightarrow> sym_edges ((add_edge c a s)\<lparr>c_peers := ps\<rparr>)"
  by (auto simp: sym_edges_def add_edge_def)

lemma sym_del_edge: "sym_edges s \<Longrightarrow> sym_edges ((del_edge c a s)\<lparr>c_peers := ps\<rparr>)"
  by (auto simp: sym_edges_def del_edge_def)

lemma sym_peers_only: "sym_edges s \<Longrightarrow> sym_edges (s\<lparr>c_peers := ps\<rparr>)"
  by (simp add: sym_edges_def)

lemma sym_disconnect: "sym_edges s \<Longrightarrow> sym_edges (disconnect i s)"
  by (auto simp: sym_edges_def disconnect_def Let_def split: option.splits)

subsection \<open>Subscriptions held by connected clients\<close>

lemma subs_registered_init: "subs_registered coord_init"
  by (simp add: subs_registered_def coord_init_def)

subsection \<open>Freshness of pending nodes\<close>

lemma fresh_pendingI:
  "(\<And>t p u. c_peers s t = Some p \<Longrightarrow> u \<in> set (peer_queue p) \<Longrightarrow> upd_node u \<noteq> None \<Longrightarrow>
      node_of s (upd_peer u) = upd_node u \<and> observes s t (upd_peer u)) \<Longrightarrow> fresh_pending s"
  by (auto simp: fresh_pending_def)

lemma fresh_pendingD:
  "fresh_pending s \<Longrightarrow> c_peers s t = Some p \<Longrightarrow> u \<in> set (peer_queue p) \<Longrightarrow> upd_node u \<noteq> None \<Longrightarrow>
      node_of s (upd_peer u) = upd_node u \<and> observes s t (upd_peer u)"
  by (auto simp: fresh_pending_def)

lemma node_of_peers:
  "node_of (s\<lparr>c_peers := ps\<rparr>) src = (case ps src of None \<Rightarrow> None | Some p \<Rightarrow> peer_node p)"
  by (simp add: node_of_def)

lemma observers_peers [simp]: "observers (s\<lparr>c_peers := ps\<rparr>) i k = observers s i k"
  by (simp add: observers_def)

lemma observes_peers:
  "observes (s\<lparr>c_peers := ps\<rparr>) t src =
     (case ps src of None \<Rightarrow> False | Some p \<Rightarrow> t \<in> observers s src (peer_kind p))"
  by (simp add: observes_def split: option.split)

lemma node_of_dom: "node_of s i \<noteq> None \<Longrightarrow> i \<in> dom (c_peers s)"
  by (auto simp: node_of_def split: option.splits)

lemma fresh_register:
  assumes "register i k s = Inr s'" and fresh: "fresh_pending s"
  shows "fresh_pending s'"
proof -
  from assms(1) have i: "i \<notin> dom (c_peers s)" and s': "s' = s\<lparr>c_peers := (c_peers s)(i \<mapsto> new_peer k)\<rparr>"
    by (auto simp: register_def split: if_splits)
  show ?thesis
  proof (rule fresh_pendingI)
    fix t p u
    assume tp: "c_peers s' t = Some p" and u: "u \<in> set (peer_queue p)" and n: "upd_node u \<noteq> None"
    from tp u have "t \<noteq> i" by (auto simp: s' new_peer_def split: if_splits)
    with tp have "c_peers s t = Some p" by (simp add: s')
    from fresh this u n have old: "node_of s (upd_peer u) = upd_node u \<and> observes s t (upd_peer u)"
      by (rule fresh_pendingD)
    with i n node_of_dom have "upd_peer u \<noteq> i" by force
    with old show "node_of s' (upd_peer u) = upd_node u \<and> observes s' t (upd_peer u)"
      by (auto simp: s' observes_peers node_of_def observes_def split: option.splits)
  qed
qed

lemma node_of_push_to:
  "node_of (s\<lparr>c_peers := push_to T i n (c_peers s)\<rparr>) x = node_of s x"
  by (simp add: node_of_def split: option.split)

lemma observes_push_to:
  "observes (s\<lparr>c_peers := push_to T i n (c_peers s)\<rparr>) t x = observes s t x"
  by (simp add: observes_def split: option.split)

text \<open>
  Fanning a change of \<open>i\<close> out to \<open>T\<close> restores freshness, when the state
  is fresh for every other source, the nodes of \<open>i\<close> still pending sit in
  queues of \<open>T\<close>, and \<open>i\<close>'s node is the one fanned out.
\<close>

lemma fresh_push_to:
  assumes other: "\<And>t p u. c_peers s t = Some p \<Longrightarrow> u \<in> set (peer_queue p) \<Longrightarrow> upd_node u \<noteq> None \<Longrightarrow>
            upd_peer u \<noteq> i \<Longrightarrow> node_of s (upd_peer u) = upd_node u \<and> observes s t (upd_peer u)"
    and self: "\<And>t p u. c_peers s t = Some p \<Longrightarrow> u \<in> set (peer_queue p) \<Longrightarrow> upd_node u \<noteq> None \<Longrightarrow>
            upd_peer u = i \<Longrightarrow> t \<in> T"
    and node: "node_of s i = n"
    and obs: "\<And>t. n \<noteq> None \<Longrightarrow> t \<in> T \<Longrightarrow> t \<in> dom (c_peers s) \<Longrightarrow> observes s t i"
  shows "fresh_pending (s\<lparr>c_peers := push_to T i n (c_peers s)\<rparr>)"
proof (rule fresh_pendingI)
  fix t q u
  assume tq: "c_peers (s\<lparr>c_peers := push_to T i n (c_peers s)\<rparr>) t = Some q"
    and u: "u \<in> set (peer_queue q)" and nu: "upd_node u \<noteq> None"
  note frame = node_of_push_to observes_push_to
  show "node_of (s\<lparr>c_peers := push_to T i n (c_peers s)\<rparr>) (upd_peer u) = upd_node u \<and>
        observes (s\<lparr>c_peers := push_to T i n (c_peers s)\<rparr>) t (upd_peer u)"
  proof (cases "t \<in> T")
    case True
    with tq obtain q0 where q0: "c_peers s t = Some q0" and q: "q = push i n q0"
      by auto
    from u q have "u = tagged (peer_kind q0) i n \<or> (u \<in> set (peer_queue q0) \<and> \<not> pending_node i u)"
      using set_enqueue by fastforce
    then show ?thesis
    proof
      assume "u = tagged (peer_kind q0) i n"
      moreover from q0 have "t \<in> dom (c_peers s)" by blast
      ultimately show ?thesis
        using nu node obs [OF _ True] by (simp add: frame)
    next
      assume old: "u \<in> set (peer_queue q0) \<and> \<not> pending_node i u"
      with nu have "upd_peer u \<noteq> i" by (auto simp: pending_node_def)
      with other [OF q0] old nu show ?thesis by (simp add: frame)
    qed
  next
    case False
    with tq have q0: "c_peers s t = Some q" by simp
    with self [OF q0 u nu] False have "upd_peer u \<noteq> i" by blast
    with other [OF q0 u nu] show ?thesis by (simp add: frame)
  qed
qed

lemma fresh_self_update:
  assumes ok: "self_update i n s = Inr s'" and fresh: "fresh_pending s"
  shows "fresh_pending s'"
proof -
  from ok obtain p where pi: "c_peers s i = Some p"
    and s': "s' = fanout i (peer_kind p) (Some n) (s\<lparr>c_peers := (c_peers s)(i \<mapsto> p\<lparr>peer_node := Some n\<rparr>)\<rparr>)"
    by (auto simp: self_update_def split: option.splits if_splits)
  let ?s1 = "s\<lparr>c_peers := (c_peers s)(i \<mapsto> p\<lparr>peer_node := Some n\<rparr>)\<rparr>"
  have s'': "s' = ?s1\<lparr>c_peers := push_to (observers s i (peer_kind p)) i (Some n) (c_peers ?s1)\<rparr>"
    by (simp add: s' fanout_def)
  have old: "\<exists>q'. c_peers s t = Some q' \<and> peer_queue q' = peer_queue q" if "c_peers ?s1 t = Some q" for t q
    using that pi by (auto split: if_splits)
  show ?thesis
    unfolding s''
  proof (rule fresh_push_to)
    fix t q u
    assume tq: "c_peers ?s1 t = Some q" and u: "u \<in> set (peer_queue q)" and nu: "upd_node u \<noteq> None"
    from old [OF tq] obtain q' where q': "c_peers s t = Some q'" "peer_queue q' = peer_queue q" by blast
    with fresh u nu have f: "node_of s (upd_peer u) = upd_node u \<and> observes s t (upd_peer u)"
      by (metis fresh_pendingD)
    show "upd_peer u \<noteq> i \<Longrightarrow> node_of ?s1 (upd_peer u) = upd_node u \<and> observes ?s1 t (upd_peer u)"
      using f by (auto simp: node_of_def observes_def split: option.splits)
    show "upd_peer u = i \<Longrightarrow> t \<in> observers s i (peer_kind p)"
      using f pi by (simp add: observes_def)
  next
    show "node_of ?s1 i = Some n" by (simp add: node_of_def)
  next
    fix t
    assume "t \<in> observers s i (peer_kind p)"
    then show "observes ?s1 t i" by (simp add: observes_def)
  qed
qed

lemma fresh_disconnect:
  assumes fresh: "fresh_pending s"
  shows "fresh_pending (disconnect i s)"
proof (cases "c_peers s i")
  case None
  with fresh show ?thesis by (simp add: disconnect_def)
next
  case (Some p)
  show ?thesis
  proof (cases "peer_kind p = Agent")
    case True
    let ?s1 = "s\<lparr>c_peers := (c_peers s)(i := None)\<rparr>"
    have eq: "disconnect i s = ?s1\<lparr>c_peers := push_to (c_subscribers s i) i None (c_peers ?s1)\<rparr>"
      using Some True by (simp add: disconnect_def)
    show ?thesis
      unfolding eq
    proof (rule fresh_push_to)
      fix t q u
      assume tq: "c_peers ?s1 t = Some q" and u: "u \<in> set (peer_queue q)" and nu: "upd_node u \<noteq> None"
      from tq have q: "c_peers s t = Some q" by (simp split: if_splits)
      have f: "node_of s (upd_peer u) = upd_node u \<and> observes s t (upd_peer u)"
        using fresh q u nu by (rule fresh_pendingD)
      show "upd_peer u \<noteq> i \<Longrightarrow> node_of ?s1 (upd_peer u) = upd_node u \<and> observes ?s1 t (upd_peer u)"
        using f by (auto simp: node_of_def observes_def split: option.splits)
      show "upd_peer u = i \<Longrightarrow> t \<in> c_subscribers s i"
        using f Some True by (simp add: observes_def observers_def)
    qed (simp_all add: node_of_def)
  next
    case False
    let ?ags = "c_subscriptions s i"
    let ?s1 = "s\<lparr>c_peers := (c_peers s)(i := None), c_subscriptions := (c_subscriptions s)(i := {}),
                 c_subscribers := (\<lambda>a. if a \<in> ?ags then c_subscribers s a - {i} else c_subscribers s a)\<rparr>"
    have eq: "disconnect i s = ?s1\<lparr>c_peers := push_to ?ags i None (c_peers ?s1)\<rparr>"
      using Some False by (simp add: disconnect_def Let_def)
    show ?thesis
      unfolding eq
    proof (rule fresh_push_to)
      fix t q u
      assume tq: "c_peers ?s1 t = Some q" and u: "u \<in> set (peer_queue q)" and nu: "upd_node u \<noteq> None"
      from tq have q: "c_peers s t = Some q" and ti: "t \<noteq> i" by (simp_all split: if_splits)
      have f: "node_of s (upd_peer u) = upd_node u \<and> observes s t (upd_peer u)"
        using fresh q u nu by (rule fresh_pendingD)
      show "upd_peer u \<noteq> i \<Longrightarrow> node_of ?s1 (upd_peer u) = upd_node u \<and> observes ?s1 t (upd_peer u)"
        using f ti by (auto simp: node_of_def observes_def observers_def split: option.splits)
      show "upd_peer u = i \<Longrightarrow> t \<in> ?ags"
        using f Some False by (simp add: observes_def observers_def)
    qed (simp_all add: node_of_def)
  qed
qed

lemma observers_add_edge: "t \<in> observers s x k \<Longrightarrow> t \<in> observers (add_edge c a s) x k"
  by (auto simp: observers_def add_edge_def)

lemma observers_del_edge:
  "t \<in> observers s x k \<Longrightarrow> \<not> (x = a \<and> k = Agent \<and> t = c) \<Longrightarrow> \<not> (x = c \<and> k \<noteq> Agent \<and> t = a) \<Longrightarrow>
   t \<in> observers (del_edge c a s) x k"
  by (auto simp: observers_def del_edge_def)

lemma fresh_subscribe:
  assumes ok: "subscribe c a s = Inr s'" and fresh: "fresh_pending s"
  shows "fresh_pending s'"
proof -
  from ok obtain pc where pc: "c_peers s c = Some pc" "peer_kind pc \<noteq> Agent"
    by (auto simp: subscribe_def split: option.splits if_splits)
  have mono: "observes ((add_edge c a s)\<lparr>c_peers := ps\<rparr>) t x"
    if o: "observes s t x" and k: "\<And>y. map_option peer_kind (ps y) = map_option peer_kind (c_peers s y)"
    for t x ps
  proof -
    from o obtain p where p: "c_peers s x = Some p" "t \<in> observers s x (peer_kind p)"
      by (auto simp: observes_def split: option.splits)
    from k [of x] p(1) obtain p' where "ps x = Some p'" "peer_kind p' = peer_kind p"
      by (cases "ps x") auto
    with p(2) show ?thesis
      by (simp add: observes_def observers_add_edge)
  qed
  consider (snap) pa m where "c_peers s a = Some pa" "peer_kind pa = Agent" "peer_node pa = Some m"
      "s' = (add_edge c a s)\<lparr>c_peers := (c_peers s)(c \<mapsto> push a (Some m) pc)\<rparr>"
    | (plain) "s' = add_edge c a s"
    using ok pc by (auto simp: subscribe_def split: option.splits if_splits)
  then show ?thesis
  proof cases
    case plain
    have "add_edge c a s = (add_edge c a s)\<lparr>c_peers := c_peers s\<rparr>" by (simp add: add_edge_def)
    show ?thesis
    proof (rule fresh_pendingI)
      fix t q u
      assume "c_peers s' t = Some q" "u \<in> set (peer_queue q)" "upd_node u \<noteq> None"
      then have "node_of s (upd_peer u) = upd_node u \<and> observes s t (upd_peer u)"
        using fresh by (intro fresh_pendingD) (simp_all add: plain add_edge_def)
      then show "node_of s' (upd_peer u) = upd_node u \<and> observes s' t (upd_peer u)"
        using mono [of t "upd_peer u" "c_peers s"] \<open>add_edge c a s = _\<close>
        by (simp add: plain node_of_def add_edge_def)
    qed
  next
    case snap
    let ?ps = "(c_peers s)(c \<mapsto> push a (Some m) pc)"
    have kinds: "map_option peer_kind (?ps y) = map_option peer_kind (c_peers s y)" for y
      using pc by simp
    show ?thesis
      unfolding snap(4)
    proof (rule fresh_pendingI)
      fix t q u
      assume tq: "c_peers ((add_edge c a s)\<lparr>c_peers := ?ps\<rparr>) t = Some q"
        and u: "u \<in> set (peer_queue q)" and nu: "upd_node u \<noteq> None"
      have nodes: "node_of ((add_edge c a s)\<lparr>c_peers := ?ps\<rparr>) x = node_of s x" for x
        using pc by (simp add: node_of_def add_edge_def)
      show "node_of ((add_edge c a s)\<lparr>c_peers := ?ps\<rparr>) (upd_peer u) = upd_node u \<and>
            observes ((add_edge c a s)\<lparr>c_peers := ?ps\<rparr>) t (upd_peer u)"
      proof (cases "t = c \<and> u = tagged (peer_kind pc) a (Some m)")
        case True
        have "a \<noteq> c" using snap pc by auto
        with True show ?thesis
          using snap pc by (simp add: nodes node_of_def observes_def observers_def add_edge_def)
      next
        case False
        with tq u have "\<exists>q0. c_peers s t = Some q0 \<and> u \<in> set (peer_queue q0)"
          using pc set_enqueue by (fastforce split: if_splits)
        then obtain q0 where "c_peers s t = Some q0" "u \<in> set (peer_queue q0)" by blast
        with fresh nu have "node_of s (upd_peer u) = upd_node u \<and> observes s t (upd_peer u)"
          by (meson fresh_pendingD)
        with kinds show ?thesis by (simp add: nodes mono)
      qed
    qed
  qed
qed

lemma purge_twice:
  assumes "purge_peer a c (purge_peer c a ps) t = Some q"
  shows "\<exists>q0. ps t = Some q0 \<and> peer_kind q = peer_kind q0 \<and> peer_node q = peer_node q0 \<and>
           (\<forall>v \<in> set (peer_queue q). v \<in> set (peer_queue q0) \<and>
              (t = c \<longrightarrow> \<not> pending_node a v) \<and> (t = a \<longrightarrow> \<not> pending_node c v))"
  using assms by (auto split: if_splits)

lemma purge_twice_node_of:
  "(case purge_peer a c (purge_peer c a ps) x of None \<Rightarrow> None | Some p \<Rightarrow> peer_node p) =
   (case ps x of None \<Rightarrow> None | Some p \<Rightarrow> peer_node p)"
  by (simp split: option.split)

lemma purge_twice_kind:
  "map_option peer_kind (purge_peer a c (purge_peer c a ps) x) = map_option peer_kind (ps x)"
  by (simp add: option.map_comp comp_def)

lemma fresh_unsubscribe:
  assumes ok: "unsubscribe c a s = Inr s'" and fresh: "fresh_pending s"
  shows "fresh_pending s'"
proof -
  let ?ps = "purge_peer a c (purge_peer c a (c_peers s))"
  from ok have s': "s' = (del_edge c a s)\<lparr>c_peers := ?ps\<rparr>"
    by (auto simp: unsubscribe_def split: option.splits if_splits)
  show ?thesis
  proof (rule fresh_pendingI)
    fix t q u
    assume tq: "c_peers s' t = Some q" and u: "u \<in> set (peer_queue q)" and nu: "upd_node u \<noteq> None"
    from tq have "?ps t = Some q" by (simp add: s')
    then obtain q0 where q0: "c_peers s t = Some q0"
      and rest: "\<forall>v \<in> set (peer_queue q). v \<in> set (peer_queue q0) \<and>
                   (t = c \<longrightarrow> \<not> pending_node a v) \<and> (t = a \<longrightarrow> \<not> pending_node c v)"
      by (blast dest: purge_twice)
    from rest u have uq0: "u \<in> set (peer_queue q0)" and nc: "t = c \<Longrightarrow> \<not> pending_node a u"
      and na: "t = a \<Longrightarrow> \<not> pending_node c u"
      by blast+
    have f: "node_of s (upd_peer u) = upd_node u \<and> observes s t (upd_peer u)"
      using fresh q0 uq0 nu by (rule fresh_pendingD)
    then obtain px where px: "c_peers s (upd_peer u) = Some px"
      "t \<in> observers s (upd_peer u) (peer_kind px)"
      by (auto simp: observes_def split: option.splits)
    from px(1) purge_twice_kind [of a c "c_peers s" "upd_peer u"] obtain px' where
      px': "?ps (upd_peer u) = Some px'" "peer_kind px' = peer_kind px"
      by (cases "?ps (upd_peer u)") simp_all
    have "t \<in> observers (del_edge c a s) (upd_peer u) (peer_kind px)"
      using px(2) nc na nu by (intro observers_del_edge) (auto simp: pending_node_def)
    then have "observes s' t (upd_peer u)"
      using px' unfolding s' observes_def by simp
    moreover have "node_of s' (upd_peer u) = node_of s (upd_peer u)"
      unfolding s' node_of_def del_edge_def by (simp del: purge_peer_apply add: purge_twice_node_of)
    ultimately show "node_of s' (upd_peer u) = upd_node u \<and> observes s' t (upd_peer u)"
      using f by simp
  qed
qed

lemma fresh_send_next:
  assumes ok: "send_next i s = Some (u, s')" and fresh: "fresh_pending s"
  shows "fresh_pending s'"
proof -
  from ok obtain p q where p: "c_peers s i = Some p" and dq: "dequeue (peer_queue p) = Some (u, q)"
    and s': "s' = s\<lparr>c_peers := (c_peers s)(i \<mapsto> p\<lparr>peer_queue := q\<rparr>)\<rparr>"
    by (auto simp: send_next_def split: option.splits)
  from dq have sub: "set q \<subseteq> set (peer_queue p)"
    by (auto simp: dequeue_def split: list.splits)
  show ?thesis
  proof (rule fresh_pendingI)
    fix t r v
    assume tr: "c_peers s' t = Some r" and v: "v \<in> set (peer_queue r)" and nv: "upd_node v \<noteq> None"
    from tr v sub p obtain r0 where "c_peers s t = Some r0" "v \<in> set (peer_queue r0)"
      by (auto simp: s' split: if_splits)
    with fresh nv have "node_of s (upd_peer v) = upd_node v \<and> observes s t (upd_peer v)"
      by (meson fresh_pendingD)
    with p show "node_of s' (upd_peer v) = upd_node v \<and> observes s' t (upd_peer v)"
      by (auto simp: s' node_of_def observes_def split: option.splits)
  qed
qed

lemma fresh_shutdown: "fresh_pending (shutdown s)"
  by (simp add: fresh_pending_def shutdown_def)

lemma kind_of_push_to_state [simp]:
  "kind_of (s\<lparr>c_peers := push_to T i n ps\<rparr>) x = map_option peer_kind (ps x)"
  by (simp add: kind_of_def option.map_comp comp_def)

lemma queues_okD: "queues_ok s \<Longrightarrow> c_peers s t = Some p \<Longrightarrow> queue_inv (peer_queue p)"
  by (simp add: queues_ok_def)

lemma queues_ok_push_to:
  "c_peers s = push_to T i n ps \<Longrightarrow> (\<And>t p. ps t = Some p \<Longrightarrow> queue_inv (peer_queue p)) \<Longrightarrow> queues_ok s"
  by (auto simp: queues_ok_def queue_inv_enqueue)

subsection \<open>Each operation keeps the other parts\<close>

lemma register_parts:
  assumes ok: "register i k s = Inr s'" and inv: "sym_edges s" "subs_registered s" "queues_ok s"
  shows "sym_edges s' \<and> subs_registered s' \<and> queues_ok s'"
proof -
  from ok have i: "i \<notin> dom (c_peers s)" and s': "s' = s\<lparr>c_peers := (c_peers s)(i \<mapsto> new_peer k)\<rparr>"
    by (auto simp: register_def split: if_splits)
  from inv(2) i have "c_subscriptions s i = {}"
    by (auto simp: subs_registered_def kind_of_def)
  with inv show ?thesis
    by (auto simp: s' sym_edges_def subs_registered_def kind_of_def queues_ok_def new_peer_def)
qed

lemma self_update_parts:
  assumes ok: "self_update i n s = Inr s'" and inv: "sym_edges s" "subs_registered s" "queues_ok s"
  shows "sym_edges s' \<and> subs_registered s' \<and> queues_ok s'"
proof -
  from ok obtain p where pi: "c_peers s i = Some p"
    and s': "s' = fanout i (peer_kind p) (Some n) (s\<lparr>c_peers := (c_peers s)(i \<mapsto> p\<lparr>peer_node := Some n\<rparr>)\<rparr>)"
    by (auto simp: self_update_def split: option.splits if_splits)
  have q: "queue_inv (peer_queue q)" if "((c_peers s)(i \<mapsto> p\<lparr>peer_node := Some n\<rparr>)) t = Some q" for t q
    using that pi inv(3) by (auto simp: queues_ok_def split: if_splits)
  have "kind_of s' x = kind_of s x" for x
    using pi by (simp add: s' fanout_def kind_of_def option.map_comp comp_def)
  moreover have "queues_ok s'"
    by (rule queues_ok_push_to [where ps = "(c_peers s)(i \<mapsto> p\<lparr>peer_node := Some n\<rparr>)"])
       (auto simp: s' fanout_def intro: q)
  ultimately show ?thesis
    using inv by (auto simp: s' fanout_def sym_edges_def subs_registered_def)
qed

lemma subscribe_parts:
  assumes ok: "subscribe c a s = Inr s'" and inv: "sym_edges s" "subs_registered s" "queues_ok s"
  shows "sym_edges s' \<and> subs_registered s' \<and> queues_ok s'"
proof -
  from ok obtain pc where pc: "c_peers s c = Some pc" "peer_kind pc \<noteq> Agent"
    by (auto simp: subscribe_def split: option.splits if_splits)
  then have kc: "kind_of s c \<in> {Some Client, Some MultiAgent}"
    by (cases "peer_kind pc") (auto simp: kind_of_def)
  consider (snap) m where "s' = (add_edge c a s)\<lparr>c_peers := (c_peers s)(c \<mapsto> push a (Some m) pc)\<rparr>"
    | (plain) "s' = add_edge c a s"
    using ok pc by (auto simp: subscribe_def split: option.splits if_splits)
  then show ?thesis
  proof cases
    case snap
    have "queue_inv (peer_queue pc)" using inv(3) pc(1) by (rule queues_okD)
    then show ?thesis
      using inv kc pc
      by (auto simp: snap add_edge_def sym_edges_def subs_registered_def kind_of_def queues_ok_def
                     queue_inv_enqueue)
  next
    case plain
    then show ?thesis
      using inv kc by (auto simp: add_edge_def sym_edges_def subs_registered_def kind_of_def queues_ok_def)
  qed
qed

lemma unsubscribe_parts:
  assumes ok: "unsubscribe c a s = Inr s'" and inv: "sym_edges s" "subs_registered s" "queues_ok s"
  shows "sym_edges s' \<and> subs_registered s' \<and> queues_ok s'"
proof -
  let ?ps = "purge_peer a c (purge_peer c a (c_peers s))"
  from ok have s': "s' = (del_edge c a s)\<lparr>c_peers := ?ps\<rparr>"
    by (auto simp: unsubscribe_def split: option.splits if_splits)
  have k: "kind_of s' x = kind_of s x" for x
    using purge_twice_kind [of a c "c_peers s" x] by (simp add: s' kind_of_def del_edge_def)
  have q: "queues_ok s'"
    using inv(3) by (auto simp: s' queues_ok_def del_edge_def queue_inv_purge_node split: if_splits)
  have "subs_registered s'"
    using inv(2) k unfolding subs_registered_def by (auto simp: s' del_edge_def)
  moreover have "sym_edges s'" unfolding s' by (rule sym_del_edge [OF inv(1)])
  ultimately show ?thesis using q by simp
qed

lemma disconnect_parts:
  assumes inv: "sym_edges s" "subs_registered s" "queues_ok s"
  shows "sym_edges (disconnect i s) \<and> subs_registered (disconnect i s) \<and> queues_ok (disconnect i s)"
proof (cases "c_peers s i")
  case None
  with inv show ?thesis by (simp add: disconnect_def)
next
  case (Some p)
  have qs: "queue_inv (peer_queue q)" if "((c_peers s)(i := None)) t = Some q" for t q
    using that inv(3) by (auto simp: queues_ok_def split: if_splits)
  show ?thesis
  proof (cases "peer_kind p = Agent")
    case True
    with inv(2) Some have "c_subscriptions s i = {}"
      by (auto simp: subs_registered_def kind_of_def)
    have "queues_ok (disconnect i s)"
      by (rule queues_ok_push_to [OF _ qs]) (simp add: disconnect_def Some True)
    moreover have "sym_edges (disconnect i s)" using inv(1) by (rule sym_disconnect)
    moreover have "subs_registered (disconnect i s)"
      using inv(2) Some True \<open>c_subscriptions s i = {}\<close>
      by (auto simp: disconnect_def subs_registered_def kind_of_def option.map_comp comp_def)
    ultimately show ?thesis by simp
  next
    case False
    have "sym_edges (disconnect i s)" using inv(1) by (rule sym_disconnect)
    moreover have "queues_ok (disconnect i s)"
      by (rule queues_ok_push_to [OF _ qs]) (simp add: disconnect_def Let_def Some False)
    moreover have "subs_registered (disconnect i s)"
      using inv(2) Some False by (auto simp: disconnect_def Let_def subs_registered_def kind_of_def)
    ultimately show ?thesis by simp
  qed
qed

lemma send_next_parts:
  assumes ok: "send_next i s = Some (u, s')" and inv: "sym_edges s" "subs_registered s" "queues_ok s"
  shows "sym_edges s' \<and> subs_registered s' \<and> queues_ok s'"
proof -
  from ok obtain p q where p: "c_peers s i = Some p" and dq: "dequeue (peer_queue p) = Some (u, q)"
    and s': "s' = s\<lparr>c_peers := (c_peers s)(i \<mapsto> p\<lparr>peer_queue := q\<rparr>)\<rparr>"
    by (auto simp: send_next_def split: option.splits)
  have "queue_inv q" using dequeue_inv [OF queues_okD [OF inv(3) p] dq] .
  with inv p show ?thesis
    by (auto simp: s' sym_edges_def subs_registered_def kind_of_def queues_ok_def)
qed

lemma shutdown_parts: "sym_edges (shutdown s) \<and> subs_registered (shutdown s) \<and> queues_ok (shutdown s)"
  by (simp add: shutdown_def sym_edges_def subs_registered_def queues_ok_def)

subsection \<open>The invariant holds in every reachable state\<close>

lemma coord_inv_init: "coord_inv coord_init"
  by (simp add: coord_inv_def sym_edges_def subs_registered_def queues_ok_def fresh_pending_def
                coord_init_def)

lemma handle_msg_inv:
  assumes ok: "handle_msg i m s = Inr s'" and inv: "coord_inv s"
  shows "coord_inv s'"
proof -
  from inv have parts: "sym_edges s" "subs_registered s" "queues_ok s" "fresh_pending s"
    by (simp_all add: coord_inv_def)
  show ?thesis
  proof (cases m)
    case (SelfUpdate n)
    with ok have "self_update i n s = Inr s'" by (simp add: handle_msg_def)
    with parts show ?thesis
      by (simp add: coord_inv_def self_update_parts fresh_self_update)
  next
    case (Subscribe a)
    with ok have "subscribe i a s = Inr s'" by (simp add: handle_msg_def)
    with parts show ?thesis
      by (simp add: coord_inv_def subscribe_parts fresh_subscribe)
  next
    case (Unsubscribe a)
    with ok have "unsubscribe i a s = Inr s'" by (simp add: handle_msg_def)
    with parts show ?thesis
      by (simp add: coord_inv_def unsubscribe_parts fresh_unsubscribe)
  next
    case Malformed
    with ok show ?thesis by (simp add: handle_msg_def)
  qed
qed

lemma disconnect_inv: "coord_inv s \<Longrightarrow> coord_inv (disconnect i s)"
  by (simp add: coord_inv_def disconnect_parts fresh_disconnect)

lemma receive_inv: "coord_inv s \<Longrightarrow> coord_inv (receive i m s)"
  by (auto simp: receive_def handle_msg_inv disconnect_inv split: sum.split)

lemma coord_step_inv:
  assumes "coord_step s s'" and "coord_inv s"
  shows "coord_inv s'"
  using assms
proof (induction rule: coord_step.induct)
  case (step_register i k s s')
  then show ?case
    by (simp add: coord_inv_def register_parts fresh_register)
next
  case (step_receive i s m)
  then show ?case by (simp add: receive_inv)
next
  case (step_disconnect s i)
  then show ?case by (rule disconnect_inv)
next
  case (step_send i s u s')
  then show ?case
    by (simp add: coord_inv_def send_next_parts fresh_send_next)
next
  case (step_shutdown s)
  then show ?case
    by (simp add: coord_inv_def shutdown_parts fresh_shutdown)
qed

lemma coord_reach_inv: "coord_reach s \<Longrightarrow> coord_inv s"
proof (induction rule: coord_reach.induct)
  case reach_init
  then show ?case by (rule coord_inv_init)
next
  case (reach_step s s')
  then show ?case by (blast intro: coord_step_inv)
qed

subsection \<open>Facts the multi-agent layer uses\<close>

lemma disconnect_unregisters [simp]: "c_peers (disconnect i s) i = None"
  by (simp add: disconnect_def Let_def split: option.split)

lemma subscribe_snapshot_coord:
  assumes "c_peers s m = Some pm" "peer_kind pm \<noteq> Agent"
    and "c_peers s a = Some pa" "peer_kind pa = Agent" "peer_node pa = Some n"
  shows "subscribe m a s = Inr ((add_edge m a s)\<lparr>c_peers := (c_peers s)(m \<mapsto> push a (Some n) pm)\<rparr>)"
  using assms by (simp add: subscribe_def)

end
