(* ===== verification/Legacy.thy ===== *)
theory Legacy
  imports Coordinator
begin

text \<open>
  The ``is legacy'' query (\<open>src/enterprise/coderd/workspaceproxycoordinate.go\<close>,
  \<open>agentIsLegacy\<close>): the handler reads the agent's node from the coordinator
  (\<open>Node(agentID)\<close>, here \<^const>\<open>node_of\<close>) and answers whether it is connected
  and whether its first address is the historical per-agent address
  \<open>codersdk.WorkspaceAgentIP\<close>.  The same predicate answers the multi-agent's
  \<open>AgentIsLegacy\<close> (theory \<^theory_text>\<open>MultiAgent\<close>).
\<close>

text \<open>\<open>codersdk.WorkspaceAgentIP\<close> = \<open>fd7a:115c:a1e0:49d6:b259:b7ac:b1b2:48f4\<close>.\<close>

definition WorkspaceAgentIP :: ip_addr where
  "WorkspaceAgentIP = 0xfd7a115ca1e049d6b259b7acb1b248f4"

record agent_is_legacy_response =
  Found :: bool
  Legacy :: bool

datatype 'a http_reply =
    HttpJson nat 'a
  | HttpMessage nat string

text \<open>
  The body of the response: \<open>Found: node != nil\<close>,
  \<open>Legacy: node != nil && len(node.Addresses) > 0 &&
  node.Addresses[0].Addr() == codersdk.WorkspaceAgentIP\<close>.
\<close>

definition node_is_legacy :: "node option \<Rightarrow> bool" where
  "node_is_legacy node =
     (case node of
        None \<Rightarrow> False
      | Some n \<Rightarrow> 0 < length (node_addresses n) \<and>
                  prefix_addr (node_addresses n ! 0) = WorkspaceAgentIP)"

text \<open>
  The UUID path parameter is parsed by \<open>httpmw.ParseUUIDParam\<close> (not under
  \<open>src/\<close>); its result is the \<open>uuid option\<close> argument.  A failed parse is
  answered with 400 and the message of the source; otherwise 200 and the
  response computed from the coordinator's current state.
\<close>

definition agentIsLegacy :: "coord \<Rightarrow> uuid option \<Rightarrow> agent_is_legacy_response http_reply" where
  "agentIsLegacy s param =
     (case param of
        None \<Rightarrow> HttpMessage 400 ''Missing UUID in URL.''
      | Some agentID \<Rightarrow>
          (let node = node_of s agentID
           in HttpJson 200 \<lparr>Found = (node \<noteq> None), Legacy = node_is_legacy node\<rparr>))"

lemma node_is_legacy_found: "node_is_legacy node \<Longrightarrow> node \<noteq> None"
  by (auto simp: node_is_legacy_def split: option.splits)

lemma node_is_legacy_Some:
  "node_is_legacy (Some n) \<longleftrightarrow> node_addresses n \<noteq> [] \<and> prefix_addr (hd (node_addresses n)) = WorkspaceAgentIP"
  by (cases "node_addresses n") (auto simp: node_is_legacy_def)

end
