(* ===== verification/MultiAgent.thy ===== *)
theory MultiAgent
  imports Legacy
begin

text \<open>
  The multi-agent aggregator (spec \<section>4.6) behind the interface
  \<open>MultiAgentConn\<close>, whose method set is the generated mock
  \<open>src/tailnet/tailnettest/multiagentmock.go\<close>: \<open>AgentIsLegacy\<close>, \<open>Close\<close>,
  \<open>Enqueue\<close>, \<open>IsClosed\<close>, \<open>NextUpdate\<close>, \<open>SubscribeAgent\<close>,
  \<open>UnsubscribeAgent\<close>, \<open>UpdateSelf\<close>.  A multi-agent is a peer of kind
  \<^const>\<open>MultiAgent\<close> of the coordinator together with a handle that
  records its state (\<open>Fresh\<close>, \<open>Open\<close>, \<open>Closed\<close>), the updates left to
  drain after close, and whether the end of the stream was reported.
  \<open>sys\<close> composes the coordinator with the handles; \<open>sys_step\<close> interleaves
  coordinator steps with calls on handles.
\<close>

section \<open>Interface and state\<close>

datatype ma_op =
    AgentIsLegacy uuid
  | Close
  | Enqueue "update list"
  | IsClosed
  | NextUpdate
  | SubscribeAgent uuid
  | UnsubscribeAgent uuid
  | UpdateSelf node

datatype ma_result = MANil | MABool bool | MABatch "update list" bool | MAErr coord_error

datatype ma_state = MAFresh | MAOpen | MAClosed

record ma_handle =
  ma_state :: ma_state
  ma_buffer :: "update list"
  ma_eof :: bool

record sys =
  sys_coord :: coord
  sys_handles :: "uuid \<rightharpoonup> ma_handle"
  sys_waiting :: nat

definition sys_init :: sys where
  "sys_init = \<lparr>sys_coord = coord_init, sys_handles = Map.empty, sys_waiting = 0\<rparr>"

section \<open>Operations\<close>

text \<open>
  \<open>ServeMultiAgent(id)\<close>: register the multi-agent as a peer; the handle is
  open from then on.  A duplicate id is rejected and the existing
  multi-agent continues (spec \<section>4.8).
\<close>

definition serve_multi_agent :: "uuid \<Rightarrow> sys \<Rightarrow> coord_error + sys" where
  "serve_multi_agent i S =
     (case register i MultiAgent (sys_coord S) of
        Inl e \<Rightarrow> Inl e
      | Inr c \<Rightarrow> Inr (S\<lparr>sys_coord := c,
                       sys_handles := (sys_handles S)(i \<mapsto>
                          \<lparr>ma_state = MAOpen, ma_buffer = [], ma_eof = False\<rparr>)\<rparr>))"

text \<open>
  Closing unregisters the peer (its observers are told it is gone) and keeps
  the updates still queued for it, so that \<open>NextUpdate\<close> drains them.
\<close>

definition close_handle :: "uuid \<Rightarrow> sys \<Rightarrow> sys" where
  "close_handle i S =
     (let q = (case c_peers (sys_coord S) i of None \<Rightarrow> [] | Some p \<Rightarrow> peer_queue p)
      in S\<lparr>sys_coord := disconnect i (sys_coord S),
           sys_handles := (sys_handles S)(i \<mapsto> \<lparr>ma_state = MAClosed, ma_buffer = q, ma_eof = False\<rparr>)\<rparr>)"

text \<open>A subscription command or a self-update goes through the receive loop's dispatch.\<close>

definition ma_msg :: "uuid \<Rightarrow> msg \<Rightarrow> ma_handle \<Rightarrow> sys \<Rightarrow> ma_result \<times> sys" where
  "ma_msg i m h S =
     (if ma_state h \<noteq> MAOpen then (MAErr ErrClosed, S)
      else (case handle_msg i m (sys_coord S) of
              Inl e \<Rightarrow> (MAErr e, close_handle i S)
            | Inr c \<Rightarrow> (MANil, S\<lparr>sys_coord := c\<rparr>)))"

definition set_queue :: "uuid \<Rightarrow> peer \<Rightarrow> update list \<Rightarrow> sys \<Rightarrow> sys" where
  "set_queue i p q S =
     S\<lparr>sys_coord := (sys_coord S)\<lparr>c_peers := (c_peers (sys_coord S))(i \<mapsto> p\<lparr>peer_queue := q\<rparr>)\<rparr>\<rparr>"

text \<open>
  \<open>NextUpdate\<close>: while open, the whole pending queue as one batch, blocking
  (\<open>None\<close>) while it is empty; once closed, the drained rest and then, exactly
  once, \<open>more = false\<close>; after that \<open>ErrClosed\<close>.  An open handle whose peer
  is gone (coordinator shutdown) reports the end of the stream.
\<close>

definition next_update :: "uuid \<Rightarrow> ma_handle \<Rightarrow> sys \<Rightarrow> (ma_result \<times> sys) option" where
  "next_update i h S =
     (case ma_state h of
        MAOpen \<Rightarrow>
          (case c_peers (sys_coord S) i of
             None \<Rightarrow> Some (MABatch [] False,
                       S\<lparr>sys_handles := (sys_handles S)(i \<mapsto> h\<lparr>ma_state := MAClosed, ma_eof := True\<rparr>)\<rparr>)
           | Some p \<Rightarrow>
               if peer_queue p = [] then None
               else Some (MABatch (peer_queue p) True, set_queue i p [] S))
      | MAClosed \<Rightarrow>
          if ma_buffer h \<noteq> [] then
            Some (MABatch (ma_buffer h) True, S\<lparr>sys_handles := (sys_handles S)(i \<mapsto> h\<lparr>ma_buffer := []\<rparr>)\<rparr>)
          else if \<not> ma_eof h then
            Some (MABatch [] False, S\<lparr>sys_handles := (sys_handles S)(i \<mapsto> h\<lparr>ma_eof := True\<rparr>)\<rparr>)
          else Some (MAErr ErrClosed, S)
      | MAFresh \<Rightarrow> Some (MAErr ErrClosed, S))"

definition ma_enqueue :: "uuid \<Rightarrow> update list \<Rightarrow> ma_handle \<Rightarrow> sys \<Rightarrow> ma_result \<times> sys" where
  "ma_enqueue i us h S =
     (case c_peers (sys_coord S) i of
        Some p \<Rightarrow> if ma_state h = MAOpen then (MANil, set_queue i p (enqueue_all us (peer_queue p)) S)
                  else (MAErr ErrClosed, S)
      | None \<Rightarrow> (MAErr ErrClosed, S))"

definition ma_call :: "uuid \<Rightarrow> ma_op \<Rightarrow> sys \<Rightarrow> (ma_result \<times> sys) option" where
  "ma_call i op S =
     (case sys_handles S i of
        None \<Rightarrow> Some (MAErr ErrClosed, S)
      | Some h \<Rightarrow>
          (case op of
             AgentIsLegacy a \<Rightarrow> Some (MABool (node_is_legacy (node_of (sys_coord S) a)), S)
           | IsClosed \<Rightarrow> Some (MABool (ma_state h = MAClosed), S)
           | Close \<Rightarrow>
               if ma_state h = MAOpen then Some (MANil, close_handle i S)
               else Some (MAErr ErrClosed, S)
           | NextUpdate \<Rightarrow> next_update i h S
           | Enqueue us \<Rightarrow> Some (ma_enqueue i us h S)
           | SubscribeAgent a \<Rightarrow> Some (ma_msg i (Subscribe a) h S)
           | UnsubscribeAgent a \<Rightarrow> Some (ma_msg i (Unsubscribe a) h S)
           | UpdateSelf n \<Rightarrow> Some (ma_msg i (SelfUpdate n) h S)))"

text \<open>
  \<open>Enqueue\<close> is how the coordinator hands a multi-agent its updates; the
  fan-out of \<^theory_text>\<open>Coordinator\<close> performs it, so the external callers of a
  handle are the other seven methods.
\<close>

definition external_op :: "ma_op \<Rightarrow> bool" where
  "external_op op = (case op of Enqueue us \<Rightarrow> False | _ \<Rightarrow> True)"

section \<open>The system\<close>

inductive sys_step :: "sys \<Rightarrow> sys \<Rightarrow> bool" where
  sys_coord_step: "coord_step (sys_coord S) c \<Longrightarrow> sys_step S (S\<lparr>sys_coord := c\<rparr>)"
| sys_serve: "serve_multi_agent i S = Inr S' \<Longrightarrow> sys_step S S'"
| sys_call: "external_op op \<Longrightarrow> ma_call i op S = Some (r, S') \<Longrightarrow> sys_step S S'"

inductive sys_reach :: "sys \<Rightarrow> bool" where
  sys_reach_init: "sys_reach sys_init"
| sys_reach_step: "sys_reach S \<Longrightarrow> sys_step S S' \<Longrightarrow> sys_reach S'"

declare serve_multi_agent_def [model_defs] close_handle_def [model_defs] ma_msg_def [model_defs]
  set_queue_def [model_defs] next_update_def [model_defs] ma_enqueue_def [model_defs]
  ma_call_def [model_defs]

section \<open>Every system state carries a reachable coordinator\<close>

lemma drain_reach:
  "coord_reach c \<Longrightarrow> c_peers c i = Some p \<Longrightarrow>
   coord_reach (c\<lparr>c_peers := (c_peers c)(i \<mapsto> p\<lparr>peer_queue := []\<rparr>)\<rparr>)"
proof (induction "peer_queue p" arbitrary: c p)
  case Nil
  have "p\<lparr>peer_queue := []\<rparr> = p" by (simp add: Nil.hyps)
  with Nil.prems(2) have "c\<lparr>c_peers := (c_peers c)(i \<mapsto> p\<lparr>peer_queue := []\<rparr>)\<rparr> = c"
    by (simp add: fun_upd_idem)
  with Nil.prems(1) show ?case by (simp only:)
next
  case (Cons u q)
  let ?c' = "c\<lparr>c_peers := (c_peers c)(i \<mapsto> p\<lparr>peer_queue := q\<rparr>)\<rparr>"
  have "send_next i c = Some (u, ?c')"
    using Cons.prems(2) Cons.hyps(2) [symmetric] by (simp add: send_next_def dequeue_def)
  then have "coord_reach ?c'"
    using Cons.prems(1) by (blast intro: coord_reach.reach_step coord_step.step_send)
  moreover have "c_peers ?c' i = Some (p\<lparr>peer_queue := q\<rparr>)" by simp
  ultimately have "coord_reach (?c'\<lparr>c_peers := (c_peers ?c')(i \<mapsto> p\<lparr>peer_queue := q, peer_queue := []\<rparr>)\<rparr>)"
    using Cons.hyps(1) [of "p\<lparr>peer_queue := q\<rparr>" ?c'] by simp
  then show ?case by simp
qed

lemma handle_msg_receive:
  "handle_msg i m c = Inr c' \<Longrightarrow> receive i m c = c' \<and> i \<in> dom (c_peers c)"
  by (cases m) (auto simp: receive_def handle_msg_def self_update_def subscribe_def unsubscribe_def
                     split: option.splits if_splits)

lemma close_handle_reach:
  "coord_reach (sys_coord S) \<Longrightarrow> coord_reach (sys_coord (close_handle i S))"
  by (auto simp: close_handle_def Let_def intro: coord_reach.reach_step coord_step.step_disconnect)

lemma ma_msg_reach:
  assumes "coord_reach (sys_coord S)" and "ma_msg i m h S = (r, S')"
  shows "coord_reach (sys_coord S')"
proof (cases "handle_msg i m (sys_coord S)")
  case (Inl e)
  with assms show ?thesis by (auto simp: ma_msg_def close_handle_reach split: if_splits)
next
  case (Inr c)
  then have rc: "receive i m (sys_coord S) = c" and dom: "i \<in> dom (c_peers (sys_coord S))"
    by (simp_all add: handle_msg_receive)
  have "coord_reach c"
    using coord_reach.reach_step [OF assms(1) coord_step.step_receive [OF dom, of m]] rc by simp
  with assms Inr show ?thesis
    by (auto simp: ma_msg_def split: if_splits)
qed

lemma sys_step_reach:
  assumes step: "sys_step S S'" and reach: "coord_reach (sys_coord S)"
  shows "coord_reach (sys_coord S')"
  using step
proof cases
  case (sys_coord_step c)
  with reach show ?thesis by (auto intro: coord_reach.reach_step)
next
  case (sys_serve i)
  then obtain c where r: "register i MultiAgent (sys_coord S) = Inr c" and "sys_coord S' = c"
    by (auto simp: serve_multi_agent_def split: sum.splits)
  with reach show ?thesis
    by (metis coord_reach.reach_step coord_step.step_register)
next
  case (sys_call op i r)
  then show ?thesis
  proof (cases op)
    case NextUpdate
    with sys_call reach show ?thesis
      by (auto simp: ma_call_def next_update_def set_queue_def drain_reach
               split: option.splits ma_state.splits if_splits)
  next
    case (Enqueue us)
    with sys_call show ?thesis by (simp add: external_op_def)
  qed (use sys_call reach in \<open>auto simp: ma_call_def close_handle_reach
                              split: option.splits if_splits intro: ma_msg_reach\<close>)
qed

theorem sys_reach_coord: "sys_reach S \<Longrightarrow> coord_reach (sys_coord S)"
proof (induction rule: sys_reach.induct)
  case sys_reach_init
  show ?case by (simp add: sys_init_def coord_reach.reach_init)
next
  case (sys_reach_step S S')
  from sys_reach_step.hyps(2) sys_reach_step.IH show ?case by (rule sys_step_reach)
qed

lemma sys_reach_inv: "sys_reach S \<Longrightarrow> coord_inv (sys_coord S)"
  by (intro coord_reach_inv sys_reach_coord)

lemma sys_reach_queue_inv:
  "sys_reach S \<Longrightarrow> c_peers (sys_coord S) i = Some p \<Longrightarrow> queue_inv (peer_queue p)"
  using sys_reach_inv by (auto simp: coord_inv_def dest: queues_okD)

lemma sym_edges_reach:
  "sys_reach S \<Longrightarrow> a \<in> c_subscriptions (sys_coord S) m \<Longrightarrow> m \<in> c_subscribers (sys_coord S) a"
  using sys_reach_inv by (auto simp: coord_inv_def sym_edges_def)

end
