(* ===== verification/WorkspaceProxy.thy ===== *)
theory WorkspaceProxy
  imports MultiAgent
begin

text \<open>
  The \<open>GET /workspaceproxies/me/coordinate\<close> handler
  (\<open>src/enterprise/coderd/workspaceproxycoordinate.go\<close>,
  \<open>workspaceProxyCoordinate\<close>): it counts itself in the API's websocket wait
  group, accepts the websocket, binds a fresh multi-agent to it with
  \<open>ServeMultiAgent(uuid.New())\<close> and serves the proxy's session with
  \<open>tailnet.ServeWorkspaceProxy\<close>.  That function is not under \<open>src/\<close>: the
  session is the list of \<open>MultiAgentConn\<close> calls it makes, run in order
  until one blocks.  The deferred \<open>WebsocketWaitGroup.Done\<close> is the final
  decrement.
\<close>

datatype proxy_reply =
    ProxyBadRequest string
  | ProxySession "ma_result list"

fun run_session :: "uuid \<Rightarrow> ma_op list \<Rightarrow> sys \<Rightarrow> ma_result list \<times> sys" where
  "run_session i [] S = ([], S)"
| "run_session i (op # ops) S =
     (case ma_call i op S of
        None \<Rightarrow> ([], S)
      | Some (r, S') \<Rightarrow> (let (rs, S'') = run_session i ops S' in (r # rs, S'')))"

definition workspaceProxyCoordinate :: "bool \<Rightarrow> uuid \<Rightarrow> ma_op list \<Rightarrow> sys \<Rightarrow> proxy_reply \<times> sys" where
  "workspaceProxyCoordinate accepted proxy_id ops S =
     (let S1 = S\<lparr>sys_waiting := Suc (sys_waiting S)\<rparr>
      in if \<not> accepted
         then (ProxyBadRequest ''Failed to accept websocket.'', S1\<lparr>sys_waiting := sys_waiting S1 - 1\<rparr>)
         else (case serve_multi_agent proxy_id S1 of
                 Inl e \<Rightarrow> (ProxySession [], S1\<lparr>sys_waiting := sys_waiting S1 - 1\<rparr>)
               | Inr S2 \<Rightarrow>
                   (let (rs, S3) = run_session proxy_id ops S2
                    in (ProxySession rs, S3\<lparr>sys_waiting := sys_waiting S3 - 1\<rparr>))))"

lemma ma_call_waiting: "ma_call i op S = Some (r, S') \<Longrightarrow> sys_waiting S' = sys_waiting S"
  by (auto simp: ma_call_def next_update_def ma_msg_def close_handle_def set_queue_def ma_enqueue_def Let_def
           split: option.splits if_splits ma_op.splits ma_state.splits sum.splits)

lemma run_session_waiting: "sys_waiting (snd (run_session i ops S)) = sys_waiting S"
  by (induction i ops S rule: run_session.induct)
     (auto simp: ma_call_waiting split: option.splits prod.splits)

lemma serve_multi_agent_waiting: "serve_multi_agent i S = Inr S' \<Longrightarrow> sys_waiting S' = sys_waiting S"
  by (auto simp: serve_multi_agent_def split: sum.splits)

text \<open>The calls never read the wait-group counter, so they commute with setting it.\<close>

lemma ma_call_waiting_upd:
  "ma_call i op (S\<lparr>sys_waiting := k\<rparr>) = map_option (\<lambda>(r, S'). (r, S'\<lparr>sys_waiting := k\<rparr>)) (ma_call i op S)"
  by (cases op)
     (auto simp: ma_call_def next_update_def ma_msg_def close_handle_def set_queue_def ma_enqueue_def Let_def
           split: option.splits if_splits ma_state.splits sum.splits)

lemma run_session_waiting_upd:
  "run_session i ops (S\<lparr>sys_waiting := k\<rparr>) =
     (fst (run_session i ops S), (snd (run_session i ops S))\<lparr>sys_waiting := k\<rparr>)"
  by (induction i ops S rule: run_session.induct)
     (auto simp: ma_call_waiting_upd split: option.splits prod.splits)

lemma serve_multi_agent_waiting_upd:
  "serve_multi_agent i (S\<lparr>sys_waiting := k\<rparr>) = map_sum id (\<lambda>S'. S'\<lparr>sys_waiting := k\<rparr>) (serve_multi_agent i S)"
  by (auto simp: serve_multi_agent_def split: sum.splits)

lemma sys_waiting_same: "sys_waiting X = k \<Longrightarrow> X\<lparr>sys_waiting := k\<rparr> = X"
  by auto

text \<open>A session of external calls moves the system along \<^const>\<open>sys_step\<close>.\<close>

lemma run_session_reach:
  "sys_reach S \<Longrightarrow> list_all external_op ops \<Longrightarrow> sys_reach (snd (run_session i ops S))"
proof (induction i ops S rule: run_session.induct)
  case (1 i S)
  then show ?case by simp
next
  case (2 i op ops S)
  show ?case
  proof (cases "ma_call i op S")
    case None
    with "2.prems" show ?thesis by simp
  next
    case (Some rS)
    obtain r S' where rs: "rS = (r, S')" by fastforce
    have "sys_reach S'"
      using "2.prems" Some rs by (auto intro: sys_reach.sys_reach_step sys_step.sys_call)
    then have "sys_reach (snd (run_session i ops S'))"
      using "2.IH" [OF Some rs [symmetric]] "2.prems"(2) by simp
    then show ?thesis using Some rs by (simp add: case_prod_unfold Let_def)
  qed
qed

end
