(* ===== verification/CoordinatorProps.thy ===== *)
theory CoordinatorProps
  imports WorkspaceProxy
begin

text \<open>
  Properties of the coordinator as the multi-agent interface
  (\<open>MultiAgentConn\<close>, \<open>src/tailnet/tailnettest/multiagentmock.go\<close>) and the
  workspace-proxy handler see it: the invariants of every reachable system
  state, the testable properties P1 to P6 of spec \<section>8 observed through
  \<open>NextUpdate\<close>, and the multi-agent's close protocol.  Each property is
  applied to a concrete reachable state built from \<^const>\<open>sys_init\<close>.
\<close>

section \<open>Example system\<close>

definition ex_node :: "nat \<Rightarrow> node" where
  "ex_node k = \<lparr>node_key = 7, node_addresses = [\<lparr>prefix_addr = WorkspaceAgentIP, prefix_bits = 128\<rparr>],
                node_preferred_derp = 1, node_seq = k\<rparr>"

definition ex_open :: ma_handle where
  "ex_open = \<lparr>ma_state = MAOpen, ma_buffer = [], ma_eof = False\<rparr>"

text \<open>Multi-agent 1 is served, agent 2 is connected and announced \<open>ex_node 5\<close>.\<close>

definition ex_sys :: sys where
  "ex_sys = \<lparr>sys_coord = \<lparr>c_peers = [1 \<mapsto> new_peer MultiAgent, 2 \<mapsto> (new_peer Agent)\<lparr>peer_node := Some (ex_node 5)\<rparr>],
                          c_subscriptions = (\<lambda>_. {}), c_subscribers = (\<lambda>_. {}), c_closed = False\<rparr>,
             sys_handles = [1 \<mapsto> ex_open], sys_waiting = 0\<rparr>"

text \<open>Then the multi-agent subscribed to the agent and holds the snapshot.\<close>

definition ex_sys_sub :: sys where
  "ex_sys_sub = \<lparr>sys_coord = \<lparr>c_peers = [1 \<mapsto> (new_peer MultiAgent)\<lparr>peer_queue := [MultiAgentUpdate 2 (Some (ex_node 5))]\<rparr>,
                                          2 \<mapsto> (new_peer Agent)\<lparr>peer_node := Some (ex_node 5)\<rparr>],
                              c_subscriptions = (\<lambda>_. {})(1 := {2}), c_subscribers = (\<lambda>_. {})(2 := {1}),
                              c_closed = False\<rparr>,
                 sys_handles = [1 \<mapsto> ex_open], sys_waiting = 0\<rparr>"

section \<open>The example states are reachable\<close>

lemma ex_sys_reach: "sys_reach ex_sys"
proof -
  obtain S1 where s1: "serve_multi_agent 1 sys_init = Inr S1"
    and S1: "S1 = sys_init\<lparr>sys_coord := coord_init\<lparr>c_peers := [1 \<mapsto> new_peer MultiAgent]\<rparr>, sys_handles := [1 \<mapsto> ex_open]\<rparr>"
    by (simp add: serve_multi_agent_def register_def sys_init_def coord_init_def ex_open_def)
  have r1: "sys_reach S1" using s1 by (rule sys_reach.sys_reach_step [OF sys_reach.sys_reach_init sys_step.sys_serve])
  let ?c2 = "(sys_coord S1)\<lparr>c_peers := (c_peers (sys_coord S1))(2 \<mapsto> new_peer Agent)\<rparr>"
  have "register 2 Agent (sys_coord S1) = Inr ?c2"
    by (simp add: S1 register_def coord_init_def)
  then have r2: "sys_reach (S1\<lparr>sys_coord := ?c2\<rparr>)"
    using r1 by (blast intro: sys_reach.sys_reach_step sys_step.sys_coord_step coord_step.step_register)
  have dom: "2 \<in> dom (c_peers ?c2)" by simp
  have "coord_step (sys_coord (S1\<lparr>sys_coord := ?c2\<rparr>)) (receive 2 (SelfUpdate (ex_node 5)) ?c2)"
    using coord_step.step_receive [OF dom] by simp
  then have "sys_reach ((S1\<lparr>sys_coord := ?c2\<rparr>)\<lparr>sys_coord := receive 2 (SelfUpdate (ex_node 5)) ?c2\<rparr>)"
    by (rule sys_reach.sys_reach_step [OF r2 sys_step.sys_coord_step])
  then have r3: "sys_reach (S1\<lparr>sys_coord := receive 2 (SelfUpdate (ex_node 5)) ?c2\<rparr>)" by simp
  have "S1\<lparr>sys_coord := receive 2 (SelfUpdate (ex_node 5)) ?c2\<rparr> = ex_sys"
    by (simp add: S1 ex_sys_def receive_def handle_msg_def self_update_def seq_ok_def fanout_def
                  observers_def push_to_def new_peer_def coord_init_def sys_init_def fun_eq_iff)
  with r3 show ?thesis by simp
qed

lemma ex_sys_subscribe: "ma_call 1 (SubscribeAgent 2) ex_sys = Some (MANil, ex_sys_sub)"
  by (simp add: ma_call_def ex_sys_def ex_sys_sub_def ma_msg_def ex_open_def handle_msg_def subscribe_def
                add_edge_def push_def tagged_def enqueue_def new_peer_def fun_eq_iff)

lemma ex_sys_sub_reach: "sys_reach ex_sys_sub"
  using sys_reach.sys_reach_step [OF ex_sys_reach sys_step.sys_call [OF _ ex_sys_subscribe]]
  by (simp add: external_op_def)

lemmas ex_sys_defs = ex_sys_def ex_sys_sub_def ex_open_def new_peer_def

section \<open>Invariants of every reachable state\<close>

text \<open>
  C1.  In every reachable state of coordinator and multi-agents, the two
  adjacency maps describe the same edges (P1), only a connected client or
  multi-agent holds subscriptions, and every queue holds at most one
  pending node per source, as its newest update about that source.
\<close>

theorem coordinator_invariant:
  assumes "sys_reach S"
  shows "(\<forall>c a. a \<in> c_subscriptions (sys_coord S) c \<longleftrightarrow> c \<in> c_subscribers (sys_coord S) a) \<and>
         (\<forall>c. c_subscriptions (sys_coord S) c \<noteq> {} \<longrightarrow>
              kind_of (sys_coord S) c \<in> {Some Client, Some MultiAgent}) \<and>
         (\<forall>t p. c_peers (sys_coord S) t = Some p \<longrightarrow> queue_inv (peer_queue p))"
  using sys_reach_inv [OF assms] by (simp add: coord_inv_def sym_edges_def subs_registered_def queues_ok_def)

theorem coordinator_invariant_witness:
  "sys_reach ex_sys_sub \<and> 2 \<in> c_subscriptions (sys_coord ex_sys_sub) 1 \<and>
   1 \<in> c_subscribers (sys_coord ex_sys_sub) 2 \<and> kind_of (sys_coord ex_sys_sub) 1 = Some MultiAgent"
  using coordinator_invariant [OF ex_sys_sub_reach] ex_sys_sub_reach by (simp add: ex_sys_defs kind_of_def)

text \<open>
  C2.  No ghost state (P6): every node in a batch that \<open>NextUpdate\<close> hands to
  an open multi-agent is the current node of a connected peer, and the
  multi-agent is one of the peers observing it.
\<close>

theorem next_update_no_ghost:
  assumes reach: "sys_reach S"
    and h: "sys_handles S i = Some h" "ma_state h = MAOpen"
    and nx: "ma_call i NextUpdate S = Some (MABatch b has_more, S')"
    and u: "u \<in> set b" "upd_node u \<noteq> None"
  shows "node_of (sys_coord S) (upd_peer u) = upd_node u \<and> observes (sys_coord S) i (upd_peer u)"
proof -
  obtain p where p: "c_peers (sys_coord S) i = Some p" and b: "b = peer_queue p"
    using h nx u by (auto simp: ma_call_def next_update_def split: option.splits if_splits)
  have "fresh_pending (sys_coord S)" using sys_reach_inv [OF reach] by (simp add: coord_inv_def)
  then show ?thesis using p b u by (auto simp: fresh_pending_def)
qed

theorem next_update_no_ghost_witness:
  "node_of (sys_coord ex_sys_sub) 2 = Some (ex_node 5) \<and> observes (sys_coord ex_sys_sub) 1 2"
proof -
  have nx: "ma_call 1 NextUpdate ex_sys_sub =
              Some (MABatch [MultiAgentUpdate 2 (Some (ex_node 5))] True,
                    set_queue 1 ((new_peer MultiAgent)\<lparr>peer_queue := [MultiAgentUpdate 2 (Some (ex_node 5))]\<rparr>) [] ex_sys_sub)"
    by (simp add: ma_call_def next_update_def ex_sys_defs)
  have h1: "sys_handles ex_sys_sub 1 = Some ex_open" and h2: "ma_state ex_open = MAOpen"
    by (simp_all add: ex_sys_defs)
  have "node_of (sys_coord ex_sys_sub) (upd_peer (MultiAgentUpdate 2 (Some (ex_node 5)))) =
          upd_node (MultiAgentUpdate 2 (Some (ex_node 5))) \<and>
        observes (sys_coord ex_sys_sub) 1 (upd_peer (MultiAgentUpdate 2 (Some (ex_node 5))))"
    by (rule next_update_no_ghost [OF ex_sys_sub_reach h1 h2 nx]) simp_all
  then show ?thesis by simp
qed

section \<open>Snapshot, disconnect, coalescing\<close>

text \<open>
  C3.  Snapshot on subscribe (P3): when an open multi-agent subscribes to a
  connected agent that has a node, the call succeeds, the edge is in place,
  and the next batch it pulls delivers exactly that node for the agent.
\<close>

theorem subscribe_snapshot:
  assumes reach: "sys_reach S"
    and h: "sys_handles S m = Some h" "ma_state h = MAOpen"
    and pm: "c_peers (sys_coord S) m = Some pm" "peer_kind pm = MultiAgent"
    and pa: "c_peers (sys_coord S) a = Some pa" "peer_kind pa = Agent" "peer_node pa = Some n"
  shows "\<exists>S' b S''. ma_call m (SubscribeAgent a) S = Some (MANil, S') \<and>
                  ma_call m NextUpdate S' = Some (MABatch b True, S'') \<and>
                  deliver v b a = Some n \<and> a \<in> c_subscriptions (sys_coord S') m"
proof -
  let ?c' = "(add_edge m a (sys_coord S))\<lparr>c_peers := (c_peers (sys_coord S))(m \<mapsto> push a (Some n) pm)\<rparr>"
  let ?u = "MultiAgentUpdate a (Some n)"
  have sub: "subscribe m a (sys_coord S) = Inr ?c'"
    using pm pa by (simp add: subscribe_snapshot_coord)
  have call: "ma_call m (SubscribeAgent a) S = Some (MANil, S\<lparr>sys_coord := ?c'\<rparr>)"
    using h sub by (simp add: ma_call_def ma_msg_def handle_msg_def)
  have qi: "queue_inv (peer_queue pm)" using reach pm(1) by (rule sys_reach_queue_inv)
  have q': "peer_queue (push a (Some n) pm) = enqueue ?u (peer_queue pm)"
    using pm(2) by (simp add: push_def tagged_def)
  have ne: "enqueue ?u (peer_queue pm) \<noteq> []"
    by (auto simp: enqueue_def Let_def)
  have nx: "ma_call m NextUpdate (S\<lparr>sys_coord := ?c'\<rparr>) =
              Some (MABatch (enqueue ?u (peer_queue pm)) True,
                    set_queue m (push a (Some n) pm) [] (S\<lparr>sys_coord := ?c'\<rparr>))"
    using h q' ne by (simp add: ma_call_def next_update_def add_edge_def)
  have "deliver v (enqueue ?u (peer_queue pm)) a = Some n"
    using enqueue_deliver [OF qi, of v ?u] deliver_snoc_at [of v "peer_queue pm" ?u] by simp
  moreover have "a \<in> c_subscriptions ?c' m" by (simp add: add_edge_def)
  ultimately show ?thesis using call nx by auto
qed

theorem subscribe_snapshot_witness:
  "\<exists>S' b S''. ma_call 1 (SubscribeAgent 2) ex_sys = Some (MANil, S') \<and>
              ma_call 1 NextUpdate S' = Some (MABatch b True, S'') \<and>
              deliver Map.empty b 2 = Some (ex_node 5) \<and> 2 \<in> c_subscriptions (sys_coord S') 1"
  by (rule subscribe_snapshot [OF ex_sys_reach, of 1 ex_open "new_peer MultiAgent" 2
                                 "(new_peer Agent)\<lparr>peer_node := Some (ex_node 5)\<rparr>"])
     (simp_all add: ex_sys_defs)

text \<open>
  C4.  Gone on disconnect (P4): when an agent that an open multi-agent is
  subscribed to disconnects, the multi-agent's next batch ends, for that
  agent, with the gone-tagged entry, delivers no node for it, and the
  subscription is kept for the agent's return.
\<close>

theorem agent_disconnect_gone:
  assumes reach: "sys_reach S"
    and h: "sys_handles S m = Some h" "ma_state h = MAOpen"
    and pm: "c_peers (sys_coord S) m = Some pm" "peer_kind pm = MultiAgent"
    and pa: "c_peers (sys_coord S) a = Some pa" "peer_kind pa = Agent"
    and sub: "a \<in> c_subscriptions (sys_coord S) m"
  shows "\<exists>b S''. ma_call m NextUpdate (S\<lparr>sys_coord := disconnect a (sys_coord S)\<rparr>) = Some (MABatch b True, S'') \<and>
                deliver v b a = None \<and> last (about a b) = MultiAgentUpdate a None \<and>
                a \<in> c_subscriptions (disconnect a (sys_coord S)) m"
proof -
  let ?u = "MultiAgentUpdate a None"
  have ma: "m \<noteq> a" using pm pa by auto
  have obs: "m \<in> c_subscribers (sys_coord S) a" using reach sub by (rule sym_edges_reach)
  have peers: "c_peers (disconnect a (sys_coord S)) m = Some (push a None pm)"
    using pa pm ma obs by (simp add: disconnect_def)
  have q': "peer_queue (push a None pm) = enqueue ?u (peer_queue pm)"
    using pm(2) by (simp add: push_def tagged_def)
  have ne: "enqueue ?u (peer_queue pm) \<noteq> []" by (auto simp: enqueue_def Let_def)
  have qi: "queue_inv (peer_queue pm)" using reach pm(1) by (rule sys_reach_queue_inv)
  have nx: "ma_call m NextUpdate (S\<lparr>sys_coord := disconnect a (sys_coord S)\<rparr>) =
              Some (MABatch (enqueue ?u (peer_queue pm)) True,
                    set_queue m (push a None pm) [] (S\<lparr>sys_coord := disconnect a (sys_coord S)\<rparr>))"
    using h peers q' ne by (simp add: ma_call_def next_update_def)
  have "deliver v (enqueue ?u (peer_queue pm)) a = None"
    using enqueue_deliver [OF qi, of v ?u] deliver_snoc_at [of v "peer_queue pm" ?u] by simp
  moreover have "last (about a (enqueue ?u (peer_queue pm))) = ?u"
    using about_enqueue_gone [of ?u "peer_queue pm"] by simp
  moreover have "a \<in> c_subscriptions (disconnect a (sys_coord S)) m"
    using pa sub by (simp add: disconnect_def)
  ultimately show ?thesis using nx by auto
qed

theorem agent_disconnect_gone_witness:
  "\<exists>b S''. ma_call 1 NextUpdate (ex_sys_sub\<lparr>sys_coord := disconnect 2 (sys_coord ex_sys_sub)\<rparr>) =
             Some (MABatch b True, S'') \<and>
           deliver (Map.empty(2 \<mapsto> ex_node 5)) b 2 = None \<and> last (about 2 b) = MultiAgentUpdate 2 None \<and>
           2 \<in> c_subscriptions (disconnect 2 (sys_coord ex_sys_sub)) 1"
  by (rule agent_disconnect_gone [OF ex_sys_sub_reach, of 1 ex_open
        "(new_peer MultiAgent)\<lparr>peer_queue := [MultiAgentUpdate 2 (Some (ex_node 5))]\<rparr>"
        2 "(new_peer Agent)\<lparr>peer_node := Some (ex_node 5)\<rparr>"])
     (simp_all add: ex_sys_defs)

text \<open>
  C5.  Coalescing (P5) refines FIFO delivery: enqueueing a list of updates
  for a multi-agent leaves a queue whose delivery gives the same view as
  delivering the old queue followed by every update, keeps the updates
  about each source in order (a subsequence), and drops no gone-update.
\<close>

theorem enqueue_refines_fifo:
  assumes reach: "sys_reach S"
    and p: "c_peers (sys_coord S) i = Some p"
    and call: "ma_call i (Enqueue us) S = Some (MANil, S')"
  shows "\<exists>p'. c_peers (sys_coord S') i = Some p' \<and>
              deliver v (peer_queue p') = deliver v (peer_queue p @ us) \<and>
              (\<forall>x. subseq (about x (peer_queue p')) (about x (peer_queue p @ us))) \<and>
              filter (\<lambda>u. upd_node u = None) (peer_queue p') = filter (\<lambda>u. upd_node u = None) (peer_queue p @ us)"
proof -
  have qi: "queue_inv (peer_queue p)" using reach p by (rule sys_reach_queue_inv)
  obtain h where h: "sys_handles S i = Some h" "ma_state h = MAOpen"
    using call p by (auto simp: ma_call_def ma_enqueue_def split: option.splits if_splits)
  have "c_peers (sys_coord S') i = Some (p\<lparr>peer_queue := enqueue_all us (peer_queue p)\<rparr>)"
    using call h p by (auto simp: ma_call_def ma_enqueue_def set_queue_def)
  then show ?thesis
    using enqueue_all_deliver [OF qi] subseq_about_enqueue_all [OF qi] enqueue_all_keeps_gone by auto
qed

theorem enqueue_refines_fifo_witness:
  "\<exists>p'. c_peers (sys_coord (snd (the (ma_call 1 (Enqueue [MultiAgentUpdate 2 (Some (ex_node 6)),
                                                          MultiAgentUpdate 2 (Some (ex_node 7))]) ex_sys_sub)))) 1 = Some p' \<and>
        peer_queue p' = [MultiAgentUpdate 2 (Some (ex_node 7))] \<and>
        deliver Map.empty (peer_queue p') 2 = Some (ex_node 7)"
proof -
  let ?us = "[MultiAgentUpdate 2 (Some (ex_node 6)), MultiAgentUpdate 2 (Some (ex_node 7))]"
  let ?p = "(new_peer MultiAgent)\<lparr>peer_queue := [MultiAgentUpdate 2 (Some (ex_node 5))]\<rparr>"
  have call: "ma_call 1 (Enqueue ?us) ex_sys_sub =
                Some (MANil, set_queue 1 ?p [MultiAgentUpdate 2 (Some (ex_node 7))] ex_sys_sub)"
    by (simp add: ma_call_def ma_enqueue_def ex_sys_defs enqueue_def pending_node_def)
  have p: "c_peers (sys_coord ex_sys_sub) 1 = Some ?p" by (simp add: ex_sys_defs)
  obtain p' where "c_peers (sys_coord (set_queue 1 ?p [MultiAgentUpdate 2 (Some (ex_node 7))] ex_sys_sub)) 1 = Some p'"
    and "deliver Map.empty (peer_queue p') = deliver Map.empty (peer_queue ?p @ ?us)"
    using enqueue_refines_fifo [OF ex_sys_sub_reach p call] by blast
  then show ?thesis using call
    by (auto simp: set_queue_def deliver_def apply_upd_def)
qed

section \<open>Self-updates and subscriptions\<close>

text \<open>
  Monotone nodes (P2): a self-update of an open multi-agent whose
  sequence number goes backwards is a protocol error that closes the
  multi-agent and unregisters it; one that does not go backwards is
  accepted and becomes its node.
\<close>

theorem update_self_seq:
  assumes h: "sys_handles S i = Some h" "ma_state h = MAOpen"
    and p: "c_peers (sys_coord S) i = Some p" "peer_node p = Some m"
  shows "(node_seq n < node_seq m \<longrightarrow>
            ma_call i (UpdateSelf n) S = Some (MAErr ErrProtocol, close_handle i S) \<and>
            node_of (sys_coord (close_handle i S)) i = None \<and>
            ma_call i IsClosed (close_handle i S) = Some (MABool True, close_handle i S)) \<and>
         (node_seq m \<le> node_seq n \<longrightarrow>
            (\<exists>S'. ma_call i (UpdateSelf n) S = Some (MANil, S') \<and> node_of (sys_coord S') i = Some n))"
  using h p
  by (auto simp: ma_call_def ma_msg_def handle_msg_def self_update_def seq_ok_def fanout_def
                 node_of_def close_handle_def Let_def)

theorem update_self_seq_witness:
  "ma_call 1 (UpdateSelf (ex_node 2))
      (ex_sys\<lparr>sys_coord := (sys_coord ex_sys)\<lparr>c_peers := (c_peers (sys_coord ex_sys))
                (1 \<mapsto> (new_peer MultiAgent)\<lparr>peer_node := Some (ex_node 3)\<rparr>)\<rparr>\<rparr>)
     = Some (MAErr ErrProtocol, close_handle 1
      (ex_sys\<lparr>sys_coord := (sys_coord ex_sys)\<lparr>c_peers := (c_peers (sys_coord ex_sys))
                (1 \<mapsto> (new_peer MultiAgent)\<lparr>peer_node := Some (ex_node 3)\<rparr>)\<rparr>\<rparr>))"
proof -
  let ?S = "ex_sys\<lparr>sys_coord := (sys_coord ex_sys)\<lparr>c_peers := (c_peers (sys_coord ex_sys))
                (1 \<mapsto> (new_peer MultiAgent)\<lparr>peer_node := Some (ex_node 3)\<rparr>)\<rparr>\<rparr>"
  have h1: "sys_handles ?S 1 = Some ex_open" and h2: "ma_state ex_open = MAOpen"
    and p: "c_peers (sys_coord ?S) 1 = Some ((new_peer MultiAgent)\<lparr>peer_node := Some (ex_node 3)\<rparr>)"
    and pn: "peer_node ((new_peer MultiAgent)\<lparr>peer_node := Some (ex_node 3)\<rparr>) = Some (ex_node 3)"
    by (simp_all add: ex_sys_defs)
  show ?thesis using update_self_seq [OF h1 h2 p pn, of "ex_node 2"] by (simp add: ex_node_def)
qed

text \<open>
  Subscribe then unsubscribe (spec \<section>8): both calls of an open
  multi-agent succeed, and afterwards there is no edge between it and the
  agent and no pending node of the agent in its queue.
\<close>

theorem subscribe_unsubscribe_clean:
  assumes h: "sys_handles S m = Some h" "ma_state h = MAOpen"
    and pm: "c_peers (sys_coord S) m = Some pm" "peer_kind pm = MultiAgent"
    and s1: "ma_call m (SubscribeAgent a) S = Some (r1, S1)"
    and s2: "ma_call m (UnsubscribeAgent a) S1 = Some (r2, S2)"
  shows "r1 = MANil \<and> r2 = MANil \<and> a \<notin> c_subscriptions (sys_coord S2) m \<and>
         m \<notin> c_subscribers (sys_coord S2) a \<and>
         (\<exists>p2. c_peers (sys_coord S2) m = Some p2 \<and> \<not> list_ex (pending_node a) (peer_queue p2))"
proof -
  obtain c1 where sub: "subscribe m a (sys_coord S) = Inr c1" and r1: "r1 = MANil"
      and S1: "S1 = S\<lparr>sys_coord := c1\<rparr>"
    using h pm s1 by (auto simp: ma_call_def ma_msg_def handle_msg_def subscribe_def split: option.splits if_splits)
  obtain p1 where p1: "c_peers c1 m = Some p1" "peer_kind p1 = MultiAgent"
    using sub pm by (auto simp: subscribe_def add_edge_def push_def split: option.splits if_splits)
  have un: "unsubscribe m a c1 = Inr ((del_edge m a c1)\<lparr>c_peers := purge_peer a m (purge_peer m a (c_peers c1))\<rparr>)"
    using p1 by (simp add: unsubscribe_def)
  have S2: "r2 = MANil \<and> S2 = S1\<lparr>sys_coord := (del_edge m a c1)\<lparr>c_peers := purge_peer a m (purge_peer m a (c_peers c1))\<rparr>\<rparr>"
    using s2 h S1 un by (simp add: ma_call_def ma_msg_def handle_msg_def)
  have "list_ex (pending_node a) (purge_node a q) = False" for q
    by (simp add: purge_node_def list_ex_iff)
  then show ?thesis
    using S2 r1 p1 by (auto simp: del_edge_def purge_peer_def split: option.splits)
qed

theorem subscribe_unsubscribe_clean_witness:
  "ma_call 1 (UnsubscribeAgent 2) ex_sys_sub =
     Some (MANil, snd (the (ma_call 1 (UnsubscribeAgent 2) ex_sys_sub))) \<and>
   2 \<notin> c_subscriptions (sys_coord (snd (the (ma_call 1 (UnsubscribeAgent 2) ex_sys_sub)))) 1"
proof -
  let ?S2 = "snd (the (ma_call 1 (UnsubscribeAgent 2) ex_sys_sub))"
  have h1: "sys_handles ex_sys 1 = Some ex_open" and h2: "ma_state ex_open = MAOpen"
    and pm: "c_peers (sys_coord ex_sys) 1 = Some (new_peer MultiAgent)"
    and k: "peer_kind (new_peer MultiAgent) = MultiAgent"
    by (simp_all add: ex_sys_defs)
  have s2: "ma_call 1 (UnsubscribeAgent 2) ex_sys_sub = Some (MANil, ?S2)"
    by (simp add: ma_call_def ma_msg_def handle_msg_def unsubscribe_def ex_sys_defs)
  have "MANil = MANil \<and> MANil = MANil \<and> 2 \<notin> c_subscriptions (sys_coord ?S2) 1"
    using subscribe_unsubscribe_clean [OF h1 h2 pm k ex_sys_subscribe s2] by blast
  with s2 show ?thesis by simp
qed

section \<open>The close protocol of a multi-agent\<close>

text \<open>
  Closing an open multi-agent succeeds and unregisters it; from then
  on it reports closed, and closing again, subscribing and self-updates
  fail with \<open>ErrClosed\<close> without changing anything (spec \<section>4.6, \<section>4.8).
\<close>

theorem close_then_closed:
  assumes "sys_handles S i = Some h" "ma_state h = MAOpen"
  shows "\<exists>S1. ma_call i Close S = Some (MANil, S1) \<and>
              ma_call i Close S1 = Some (MAErr ErrClosed, S1) \<and>
              ma_call i IsClosed S1 = Some (MABool True, S1) \<and>
              ma_call i (SubscribeAgent a) S1 = Some (MAErr ErrClosed, S1) \<and>
              ma_call i (UpdateSelf n) S1 = Some (MAErr ErrClosed, S1) \<and>
              i \<notin> dom (c_peers (sys_coord S1))"
  using assms by (auto simp: ma_call_def close_handle_def ma_msg_def Let_def)

theorem close_then_closed_witness:
  "\<exists>S1. ma_call 1 Close ex_sys = Some (MANil, S1) \<and> ma_call 1 Close S1 = Some (MAErr ErrClosed, S1) \<and>
        ma_call 1 IsClosed S1 = Some (MABool True, S1) \<and>
        ma_call 1 (SubscribeAgent 2) S1 = Some (MAErr ErrClosed, S1) \<and>
        ma_call 1 (UpdateSelf (ex_node 1)) S1 = Some (MAErr ErrClosed, S1) \<and>
        1 \<notin> dom (c_peers (sys_coord S1))"
proof -
  have h1: "sys_handles ex_sys 1 = Some ex_open" and h2: "ma_state ex_open = MAOpen"
    by (simp_all add: ex_sys_defs)
  show ?thesis by (rule close_then_closed [OF h1 h2])
qed

text \<open>
  After \<open>Close\<close>, \<open>NextUpdate\<close> first drains what was queued, then
  reports \<open>more = false\<close> exactly once, then fails with \<open>ErrClosed\<close>
  (spec \<section>4.6).
\<close>

theorem drain_then_eof:
  assumes "sys_handles S i = Some h" "ma_state h = MAOpen"
    and "c_peers (sys_coord S) i = Some p" "peer_queue p \<noteq> []"
  shows "fst (run_session i [Close, NextUpdate, NextUpdate, NextUpdate, IsClosed] S) =
           [MANil, MABatch (peer_queue p) True, MABatch [] False, MAErr ErrClosed, MABool True]"
  using assms by (simp add: ma_call_def close_handle_def next_update_def Let_def)

theorem drain_then_eof_witness:
  "fst (run_session 1 [Close, NextUpdate, NextUpdate, NextUpdate, IsClosed] ex_sys_sub) =
     [MANil, MABatch [MultiAgentUpdate 2 (Some (ex_node 5))] True, MABatch [] False, MAErr ErrClosed, MABool True]"
proof -
  have h1: "sys_handles ex_sys_sub 1 = Some ex_open" and h2: "ma_state ex_open = MAOpen"
    and p: "c_peers (sys_coord ex_sys_sub) 1 =
              Some ((new_peer MultiAgent)\<lparr>peer_queue := [MultiAgentUpdate 2 (Some (ex_node 5))]\<rparr>)"
    by (simp_all add: ex_sys_defs)
  show ?thesis using drain_then_eof [OF h1 h2 p] by simp
qed

text \<open>
  The multi-agent's \<open>AgentIsLegacy\<close> agrees with the HTTP endpoint:
  both read the registry, and the boolean is the endpoint's \<open>Legacy\<close> field.
\<close>

theorem agent_is_legacy_agrees:
  assumes "sys_handles S i = Some h"
  shows "\<exists>r. Legacy.agentIsLegacy (sys_coord S) (Some a) = HttpJson 200 r \<and>
             ma_call i (AgentIsLegacy a) S = Some (MABool (Legacy r), S)"
  using assms by (simp add: ma_call_def agentIsLegacy_def Let_def)

theorem agent_is_legacy_agrees_witness:
  "ma_call 1 (AgentIsLegacy 2) ex_sys = Some (MABool True, ex_sys) \<and>
   Legacy.agentIsLegacy (sys_coord ex_sys) (Some 2) = HttpJson 200 \<lparr>Found = True, Legacy = True\<rparr>"
proof -
  have h: "sys_handles ex_sys 1 = Some ex_open" by (simp add: ex_sys_defs)
  have l: "Legacy.agentIsLegacy (sys_coord ex_sys) (Some 2) = HttpJson 200 \<lparr>Found = True, Legacy = True\<rparr>"
    by (simp add: agentIsLegacy_def node_of_def node_is_legacy_def ex_sys_defs ex_node_def)
  show ?thesis using agent_is_legacy_agrees [OF h, of 2] l by simp
qed

text \<open>
  Shutdown ends every open multi-agent's stream (its next pull reports
  the end and it is closed from then on), refuses new registrations with
  \<open>ErrClosed\<close>, and is idempotent.
\<close>

theorem shutdown_ends_streams:
  assumes "sys_handles S i = Some h" "ma_state h = MAOpen"
  shows "\<exists>S'. ma_call i NextUpdate (S\<lparr>sys_coord := shutdown (sys_coord S)\<rparr>) = Some (MABatch [] False, S') \<and>
              ma_call i IsClosed S' = Some (MABool True, S') \<and>
              serve_multi_agent j (S\<lparr>sys_coord := shutdown (sys_coord S)\<rparr>) = Inl ErrClosed \<and>
              shutdown (shutdown (sys_coord S)) = shutdown (sys_coord S)"
  using assms by (auto simp: ma_call_def next_update_def shutdown_def serve_multi_agent_def register_def)

theorem shutdown_ends_streams_witness:
  "\<exists>S'. ma_call 1 NextUpdate (ex_sys_sub\<lparr>sys_coord := shutdown (sys_coord ex_sys_sub)\<rparr>) = Some (MABatch [] False, S') \<and>
        ma_call 1 IsClosed S' = Some (MABool True, S') \<and>
        serve_multi_agent 3 (ex_sys_sub\<lparr>sys_coord := shutdown (sys_coord ex_sys_sub)\<rparr>) = Inl ErrClosed"
proof -
  have h1: "sys_handles ex_sys_sub 1 = Some ex_open" and h2: "ma_state ex_open = MAOpen"
    by (simp_all add: ex_sys_defs)
  show ?thesis using shutdown_ends_streams [OF h1 h2, of 3] by blast
qed

end
