(* ===== verification/DbRows.thy ===== *)
theory DbRows
  imports Complex_Main Prelude
begin

text \<open>
  The rows of the database fake (\<open>src/unnamed/part_005\<close>, package
  \<open>dbfake\<close>): the \<open>database\<close> structs (generated code, not under \<open>src/\<close>)
  with the fields the fake reads and writes, enums as datatypes with the
  constants' names, \<open>sql.Null*\<close> values as a value and a validity flag.
\<close>

section \<open>Rows of the workspace executor\<close>

datatype workspace_transition =
    WorkspaceTransitionStart | WorkspaceTransitionStop | WorkspaceTransitionDelete

datatype build_reason =
    BuildReasonInitiator | BuildReasonAutostart | BuildReasonAutostop
  | BuildReasonAutolock | BuildReasonAutodelete

datatype provisioner_job_status =
    ProvisionerJobPending | ProvisionerJobRunning | ProvisionerJobSucceeded
  | ProvisionerJobCanceling | ProvisionerJobCanceled | ProvisionerJobFailed

text \<open>\<open>sql.NullTime\<close> and \<open>sql.NullString\<close>: a value and whether it is set.\<close>

record null_time =
  nt_time :: time
  nt_valid :: bool

record null_string =
  ns_string :: string
  ns_valid :: bool

definition null_time_none :: null_time where
  "null_time_none = \<lparr>nt_time = 0, nt_valid = False\<rparr>"

text \<open>\<open>sql.NullInt64\<close>.\<close>

record null_int =
  ni_int :: int
  ni_valid :: bool

text \<open>\<open>database.Workspace\<close>.\<close>

record workspace =
  ws_id :: uuid
  ws_created_at :: time
  ws_updated_at :: time
  ws_owner_id :: uuid
  ws_organization_id :: uuid
  ws_template_id :: uuid
  ws_deleted :: bool
  ws_name :: string
  ws_autostart_schedule :: null_string
  ws_ttl :: null_int
  ws_last_used_at :: time
  ws_locked_at :: null_time
  ws_deleting_at :: null_time

text \<open>\<open>database.WorkspaceBuildTable\<close>; the provisioner state is a byte string.\<close>

record workspace_build =
  wb_id :: uuid
  wb_created_at :: time
  wb_updated_at :: time
  wb_workspace_id :: uuid
  wb_template_version_id :: uuid
  wb_build_number :: int
  wb_transition :: workspace_transition
  wb_initiator_id :: uuid
  wb_provisioner_state :: string
  wb_job_id :: uuid
  wb_deadline :: time
  wb_reason :: build_reason
  wb_daily_cost :: int
  wb_max_deadline :: time

datatype provisioner_job_type =
    ProvisionerJobTypeTemplateVersionImport | ProvisionerJobTypeWorkspaceBuild
  | ProvisionerJobTypeTemplateVersionDryRun

text \<open>
  \<open>database.ProvisionerJob\<close>.  \<open>Tags\<close> is a Go map, kept as an association
  list with distinct keys; \<open>WorkerID\<close> is a \<open>uuid.NullUUID\<close>.
\<close>

record provisioner_job =
  pj_id :: uuid
  pj_created_at :: time
  pj_updated_at :: time
  pj_started_at :: null_time
  pj_canceled_at :: null_time
  pj_completed_at :: null_time
  pj_error :: null_string
  pj_organization_id :: uuid
  pj_initiator_id :: uuid
  pj_provisioner :: string
  pj_file_id :: uuid
  pj_type :: provisioner_job_type
  pj_worker_id :: "uuid option"
  pj_tags :: "(string \<times> string) list"

text \<open>
  The status of a job as \<open>db2sdk.ProvisionerJobStatus\<close> (not under
  \<open>src/\<close>) derives it from the job's timestamps and error.
\<close>

definition ProvisionerJobStatus :: "provisioner_job \<Rightarrow> provisioner_job_status" where
  "ProvisionerJobStatus j =
     (if nt_valid (pj_canceled_at j) then
        (if \<not> nt_valid (pj_completed_at j) then ProvisionerJobCanceling
         else if ns_string (pj_error j) = [] then ProvisionerJobCanceled
         else ProvisionerJobFailed)
      else if \<not> nt_valid (pj_started_at j) then ProvisionerJobPending
      else if nt_valid (pj_completed_at j) then
        (if ns_string (pj_error j) = [] then ProvisionerJobSucceeded else ProvisionerJobFailed)
      else ProvisionerJobRunning)"

text \<open>\<open>uuid.NullUUID\<close>: compared as a struct, so two invalid values with different UUIDs differ.\<close>

record null_uuid =
  nu_uuid :: uuid
  nu_valid :: bool

section \<open>Templates\<close>

text \<open>
  \<open>database.TemplateTable\<close>, durations in nanoseconds.  The ACLs are Go
  maps from a UUID string to the granted actions; they are association
  lists with distinct keys, the keys already parsed (\<open>uuid.MustParse\<close>
  panics only on a key the API never writes), iterated in list order.
\<close>

record template =
  tmpl_id :: uuid
  tmpl_created_at :: time
  tmpl_updated_at :: time
  tmpl_organization_id :: uuid
  tmpl_deleted :: bool
  tmpl_name :: string
  tmpl_provisioner :: string
  tmpl_active_version_id :: uuid
  tmpl_description :: string
  tmpl_default_ttl :: duration
  tmpl_created_by :: uuid
  tmpl_icon :: string
  tmpl_user_acl :: "(uuid \<times> string list) list"
  tmpl_group_acl :: "(uuid \<times> string list) list"
  tmpl_display_name :: string
  tmpl_allow_user_cancel_workspace_jobs :: bool
  tmpl_max_ttl :: duration
  tmpl_allow_user_autostart :: bool
  tmpl_allow_user_autostop :: bool
  tmpl_failure_ttl :: duration
  tmpl_inactivity_ttl :: duration
  tmpl_locked_ttl :: duration
  tmpl_restart_requirement_days_of_week :: int
  tmpl_restart_requirement_weeks :: int

text \<open>\<open>database.TemplateVersionTable\<close>; the template is a \<open>NullUUID\<close>.\<close>

record template_version =
  tv_id :: uuid
  tv_template_id :: null_uuid
  tv_organization_id :: uuid
  tv_created_at :: time
  tv_updated_at :: time
  tv_name :: string
  tv_message :: string
  tv_readme :: string
  tv_job_id :: uuid
  tv_created_by :: uuid
  tv_git_auth_providers :: "string list"

text \<open>\<open>database.TemplateVersionParameter\<close>: the columns the queries read; the rest are carried unchanged.\<close>

record template_version_parameter =
  tvp_template_version_id :: uuid
  tvp_name :: string
  tvp_display_name :: string
  tvp_description :: string
  tvp_type :: string
  tvp_mutable :: bool
  tvp_default_value :: string
  tvp_options :: string
  tvp_required :: bool
  tvp_display_order :: int
  tvp_ephemeral :: bool

text \<open>\<open>database.TemplateVersionVariable\<close>.\<close>

record template_version_variable =
  tvv_template_version_id :: uuid
  tvv_name :: string
  tvv_description :: string
  tvv_type :: string
  tvv_value :: string
  tvv_default_value :: string
  tvv_required :: bool
  tvv_sensitive :: bool

section \<open>Users and API keys\<close>

datatype user_status = UserStatusActive | UserStatusSuspended | UserStatusDormant

datatype login_type = LoginTypePassword | LoginTypeGithub | LoginTypeOIDC | LoginTypeToken | LoginTypeNone

text \<open>\<open>database.User\<close>; byte slices are strings.\<close>

record user =
  usr_id :: uuid
  usr_email :: string
  usr_username :: string
  usr_hashed_password :: string
  usr_created_at :: time
  usr_updated_at :: time
  usr_status :: user_status
  usr_rbac_roles :: "string list"
  usr_login_type :: login_type
  usr_avatar_url :: null_string
  usr_deleted :: bool
  usr_last_seen_at :: time
  usr_quiet_hours_schedule :: string

datatype api_key_scope = APIKeyScopeAll | APIKeyScopeApplicationConnect

text \<open>\<open>database.APIKey\<close>; the IP address (\<open>pqtype.Inet\<close>) is its text.\<close>

record api_key =
  ak_id :: string
  ak_hashed_secret :: string
  ak_user_id :: uuid
  ak_last_used :: time
  ak_expires_at :: time
  ak_created_at :: time
  ak_updated_at :: time
  ak_login_type :: login_type
  ak_lifetime_seconds :: int
  ak_ip_address :: string
  ak_scope :: api_key_scope
  ak_token_name :: string

text \<open>\<open>database.GitSSHKey\<close>.\<close>

record git_ssh_key =
  gsk_user_id :: uuid
  gsk_created_at :: time
  gsk_updated_at :: time
  gsk_private_key :: string
  gsk_public_key :: string

section \<open>Groups\<close>

text \<open>\<open>database.Group\<close> and \<open>database.GroupMember\<close>.\<close>

record group =
  grp_id :: uuid
  grp_name :: string
  grp_display_name :: string
  grp_organization_id :: uuid
  grp_avatar_url :: string
  grp_quota_allowance :: int

record group_member =
  gm_user_id :: uuid
  gm_group_id :: uuid

section \<open>Job logs, replicas and licenses\<close>

datatype log_source = LogSourceProvisionerDaemon | LogSourceProvisioner

datatype log_level = LogLevelTrace | LogLevelDebug | LogLevelInfo | LogLevelWarn | LogLevelError

text \<open>\<open>database.ProvisionerJobLog\<close>: the id is a \<open>bigserial\<close> the fake assigns.\<close>

record provisioner_job_log =
  pjl_id :: int
  pjl_job_id :: uuid
  pjl_created_at :: time
  pjl_source :: log_source
  pjl_level :: log_level
  pjl_stage :: string
  pjl_output :: string

text \<open>\<open>database.Replica\<close>.\<close>

record replica =
  rep_id :: uuid
  rep_created_at :: time
  rep_started_at :: time
  rep_stopped_at :: null_time
  rep_updated_at :: time
  rep_hostname :: string
  rep_region_id :: int
  rep_relay_address :: string
  rep_database_latency :: int
  rep_version :: string
  rep_error :: string
  rep_primary :: bool

text \<open>\<open>database.License\<close>: the id is an \<open>int32\<close>.\<close>

record license =
  lic_id :: "32 word"
  lic_uploaded_at :: time
  lic_jwt :: string
  lic_exp :: time

section \<open>Organizations, proxies, files and links\<close>

text \<open>\<open>database.Organization\<close>, with the columns \<open>InsertOrganization\<close> sets.\<close>

record organization =
  org_id :: uuid
  org_name :: string
  org_created_at :: time
  org_updated_at :: time

text \<open>\<open>database.OrganizationMember\<close>.\<close>

record organization_member =
  om_organization_id :: uuid
  om_user_id :: uuid
  om_created_at :: time
  om_updated_at :: time
  om_roles :: "string list"

text \<open>\<open>database.WorkspaceProxy\<close>; the region id is an \<open>int32\<close>.\<close>

record workspace_proxy =
  wp_id :: uuid
  wp_name :: string
  wp_display_name :: string
  wp_icon :: string
  wp_url :: string
  wp_wildcard_hostname :: string
  wp_created_at :: time
  wp_updated_at :: time
  wp_deleted :: bool
  wp_token_hashed_secret :: string
  wp_region_id :: "32 word"
  wp_derp_enabled :: bool
  wp_derp_only :: bool

text \<open>\<open>database.File\<close>.\<close>

record file_row =
  file_id :: uuid
  file_hash :: string
  file_created_at :: time
  file_created_by :: uuid
  file_mimetype :: string
  file_data :: string

text \<open>\<open>database.GitAuthLink\<close>.\<close>

record git_auth_link =
  gal_provider_id :: string
  gal_user_id :: uuid
  gal_created_at :: time
  gal_updated_at :: time
  gal_oauth_access_token :: string
  gal_oauth_refresh_token :: string
  gal_oauth_expiry :: time

text \<open>\<open>database.UserLink\<close>.\<close>

record user_link =
  ul_user_id :: uuid
  ul_login_type :: login_type
  ul_linked_id :: string
  ul_oauth_access_token :: string
  ul_oauth_refresh_token :: string
  ul_oauth_expiry :: time

section \<open>Workspace agents, apps and resources\<close>

text \<open>\<open>database.WorkspaceAgentLifecycleState\<close>.\<close>

datatype agent_lifecycle_state =
    AgentLifecycleCreated | AgentLifecycleStarting | AgentLifecycleStartTimeout | AgentLifecycleStartError
  | AgentLifecycleReady | AgentLifecycleShuttingDown | AgentLifecycleShutdownTimeout
  | AgentLifecycleShutdownError | AgentLifecycleOff

text \<open>
  \<open>database.WorkspaceAgent\<close>, with the columns the queries set; the length
  of the agent's logs is an \<open>int32\<close>.
\<close>

record workspace_agent =
  wa_id :: uuid
  wa_created_at :: time
  wa_updated_at :: time
  wa_name :: string
  wa_first_connected_at :: null_time
  wa_last_connected_at :: null_time
  wa_disconnected_at :: null_time
  wa_resource_id :: uuid
  wa_auth_token :: uuid
  wa_auth_instance_id :: null_string
  wa_architecture :: string
  wa_environment_variables :: string
  wa_operating_system :: string
  wa_startup_script :: null_string
  wa_instance_metadata :: string
  wa_resource_metadata :: string
  wa_directory :: string
  wa_version :: string
  wa_connection_timeout_seconds :: int
  wa_troubleshooting_url :: string
  wa_motd_file :: string
  wa_lifecycle_state :: agent_lifecycle_state
  wa_startup_script_behavior :: string
  wa_expanded_directory :: string
  wa_shutdown_script :: null_string
  wa_subsystem :: string
  wa_started_at :: null_time
  wa_ready_at :: null_time
  wa_logs_length :: "32 word"
  wa_logs_overflowed :: bool

text \<open>\<open>database.WorkspaceAgentLog\<close>; the source is the enum's string.\<close>

record workspace_agent_log =
  wal_id :: int
  wal_agent_id :: uuid
  wal_created_at :: time
  wal_level :: log_level
  wal_source :: string
  wal_output :: string

text \<open>\<open>database.WorkspaceAgentMetadatum\<close>.\<close>

record workspace_agent_metadatum =
  wam_workspace_agent_id :: uuid
  wam_display_name :: string
  wam_key :: string
  wam_script :: string
  wam_value :: string
  wam_error :: string
  wam_timeout :: int
  wam_interval :: int
  wam_collected_at :: time

text \<open>\<open>database.WorkspaceAppHealth\<close>.\<close>

datatype app_health = AppHealthDisabled | AppHealthInitializing | AppHealthHealthy | AppHealthUnhealthy

text \<open>
  \<open>database.WorkspaceApp\<close>; the sharing level is the enum's string, as the
  code tests it against \<open>""\<close>.
\<close>

record workspace_app =
  app_id :: uuid
  app_created_at :: time
  app_agent_id :: uuid
  app_display_name :: string
  app_icon :: string
  app_command :: null_string
  app_url :: null_string
  app_healthcheck_url :: string
  app_healthcheck_interval :: int
  app_healthcheck_threshold :: int
  app_health :: app_health
  app_subdomain :: bool
  app_sharing_level :: string
  app_slug :: string
  app_external :: bool

text \<open>\<open>database.WorkspaceResource\<close>.\<close>

record workspace_resource =
  res_id :: uuid
  res_created_at :: time
  res_job_id :: uuid
  res_transition :: workspace_transition
  res_type :: string
  res_name :: string
  res_hide :: bool
  res_icon :: string
  res_daily_cost :: int

text \<open>\<open>database.WorkspaceResourceMetadatum\<close>.\<close>

record workspace_resource_metadatum =
  wrm_workspace_resource_id :: uuid
  wrm_key :: string
  wrm_value :: null_string
  wrm_sensitive :: bool
  wrm_id :: int

section \<open>Audit logs, parameters and provisioner daemons\<close>

text \<open>
  \<open>database.AuditLog\<close>: the action and resource type enums are their
  strings (the filters compare them as strings), the IP address
  (\<open>pqtype.Inet\<close>) and the JSON columns are their text.
\<close>

record audit_log =
  al_id :: uuid
  al_time :: time
  al_user_id :: uuid
  al_organization_id :: uuid
  al_ip :: string
  al_user_agent :: null_string
  al_resource_type :: string
  al_resource_id :: uuid
  al_resource_target :: string
  al_action :: string
  al_diff :: string
  al_status_code :: int
  al_additional_fields :: string
  al_request_id :: uuid
  al_resource_icon :: string

text \<open>The string of a \<open>database.BuildReason\<close>.\<close>

fun build_reason_string :: "build_reason \<Rightarrow> string" where
  "build_reason_string BuildReasonInitiator = ''initiator''"
| "build_reason_string BuildReasonAutostart = ''autostart''"
| "build_reason_string BuildReasonAutostop = ''autostop''"
| "build_reason_string BuildReasonAutolock = ''autolock''"
| "build_reason_string BuildReasonAutodelete = ''autodelete''"

record workspace_build_parameter =
  wbp_workspace_build_id :: uuid
  wbp_name :: string
  wbp_value :: string

text \<open>\<open>database.ParameterSchema\<close>: the columns the fake reads.\<close>

record parameter_schema =
  ps_id :: uuid
  ps_job_id :: uuid
  ps_name :: string
  ps_index :: int

record provisioner_daemon =
  pd_id :: uuid
  pd_created_at :: time
  pd_name :: string
  pd_provisioners :: "string list"
  pd_tags :: "(string \<times> string) list"

section \<open>Agent statistics\<close>

text \<open>
  \<open>database.WorkspaceAgentStat\<close>; the connections by protocol are their
  JSON text, the median latency (a \<open>float64\<close>) a real number.
\<close>

record workspace_agent_stat =
  was_id :: uuid
  was_created_at :: time
  was_workspace_id :: uuid
  was_agent_id :: uuid
  was_user_id :: uuid
  was_connections_by_proto :: string
  was_connection_count :: int
  was_rx_packets :: int
  was_rx_bytes :: int
  was_tx_packets :: int
  was_tx_bytes :: int
  was_template_id :: uuid
  was_session_count_vscode :: int
  was_session_count_jetbrains :: int
  was_session_count_reconnecting_pty :: int
  was_session_count_ssh :: int
  was_connection_median_latency_ms :: real

end
