(* ===== verification/GoSlice.thy ===== *)
theory GoSlice
  imports Prelude "HOL-Library.Sublist" "HOL-Library.Multiset"
begin

text \<open>
  The slice idioms the database fake (\<open>src/unnamed/part_005\<close>) builds its
  queries from, each as a function on the table (a Go slice as a list):
  the scan that updates the first row with a given key and returns it, or
  \<open>sql.ErrNoRows\<close>; the swap-remove of the first match
  (\<open>t[i] = t[len(t)-1]; t = t[:len(t)-1]\<close>); the deletion of every match
  by a loop running backwards over the indices; and the deletion of every
  match inside a \<open>for i, x := range t\<close> loop.  The last one is modelled with
  Go's slice semantics: the range expression is evaluated once (its length
  is fixed), each iteration reads the backing array at the current index,
  and \<open>append(t[:i], t[i+1:]...)\<close> shifts the elements inside the same
  array, leaves the positions past the new length unchanged, and panics
  when \<open>i + 1\<close> exceeds the current length.

  The lemmas: the update is a lookup followed by \<open>xs[i := f x]\<close>, the
  swap-remove removes exactly one row, the backward deletion is
  \<^const>\<open>filter\<close>, and the forward deletion, when it does not panic, keeps
  every row it should keep but may keep rows it should delete.
\<close>

abbreviation ErrNoRows :: string where
  "ErrNoRows \<equiv> ''sql: no rows in result set''"

section \<open>Definitions\<close>

text \<open>The index of the first match, \<open>length xs\<close> when there is none.\<close>

primrec first_index :: "('a \<Rightarrow> bool) \<Rightarrow> 'a list \<Rightarrow> nat" where
  "first_index P [] = 0"
| "first_index P (x # xs) = (if P x then 0 else Suc (first_index P xs))"

text \<open>
  \<open>for i, x := range t { if !P(x) { continue }; x = f(x); t[i] = x; return x, nil }\<close>
  followed by \<open>return ErrNoRows\<close>.
\<close>

primrec update_first :: "('a \<Rightarrow> bool) \<Rightarrow> ('a \<Rightarrow> 'a) \<Rightarrow> 'a list \<Rightarrow> ('a \<times> 'a list) option" where
  "update_first P f [] = None"
| "update_first P f (x # xs) =
     (if P x then Some (f x, f x # xs)
      else map_option (\<lambda>(r, ys). (r, x # ys)) (update_first P f xs))"

text \<open>\<open>t[i] = t[len(t)-1]; t = t[:len(t)-1]\<close> at the first match.\<close>

definition swap_remove :: "('a \<Rightarrow> bool) \<Rightarrow> 'a list \<Rightarrow> 'a list option" where
  "swap_remove P xs =
     (let i = first_index P xs
      in if i < length xs then Some (butlast (xs[i := last xs])) else None)"

text \<open>\<open>for i := len(t) - 1; i >= 0; i-- { if P(t[i]) { t = append(t[:i], t[i+1:]...) } }\<close>\<close>

fun delete_backward :: "('a \<Rightarrow> bool) \<Rightarrow> nat \<Rightarrow> 'a list \<Rightarrow> 'a list" where
  "delete_backward P 0 xs = xs"
| "delete_backward P (Suc i) xs =
     delete_backward P i (if P (xs ! i) then take i xs @ drop (Suc i) xs else xs)"

text \<open>
  \<open>for i, x := range t { if P(x) { t = append(t[:i], t[i+1:]...) } }\<close>:
  \<open>k\<close> iterations remain, \<open>i\<close> is the index, \<open>arr\<close> the backing array
  (its length fixed) and \<open>l\<close> the current length of \<open>t\<close>; \<^const>\<open>None\<close>
  is the slice-bounds panic.
\<close>

fun range_delete_loop :: "('a \<Rightarrow> bool) \<Rightarrow> nat \<Rightarrow> nat \<Rightarrow> 'a list \<Rightarrow> nat \<Rightarrow> ('a list \<times> nat) option" where
  "range_delete_loop P 0 i arr l = Some (arr, l)"
| "range_delete_loop P (Suc k) i arr l =
     (if P (arr ! i) then
        (if l < Suc i then None
         else range_delete_loop P k (Suc i) (take i arr @ drop (Suc i) (take l arr) @ drop (l - 1) arr) (l - 1))
      else range_delete_loop P k (Suc i) arr l)"

definition range_delete :: "('a \<Rightarrow> bool) \<Rightarrow> 'a list \<Rightarrow> 'a list option" where
  "range_delete P xs =
     map_option (\<lambda>(arr, l). take l arr) (range_delete_loop P (length xs) 0 xs (length xs))"

text \<open>The loop's invariant: the live part of the array is a subsequence of the table with the same rows to keep.\<close>

definition range_delete_inv :: "('a \<Rightarrow> bool) \<Rightarrow> 'a list \<Rightarrow> 'a list \<Rightarrow> nat \<Rightarrow> bool" where
  "range_delete_inv P xs arr l \<longleftrightarrow>
     length arr = length xs \<and> l \<le> length arr \<and> subseq (take l arr) xs \<and>
     filter (\<lambda>x. \<not> P x) (take l arr) = filter (\<lambda>x. \<not> P x) xs"

text \<open>
  Cursor pagination, as \<open>GetWorkspaceBuildsByWorkspaceID\<close> and
  \<open>GetTemplateVersionsByTemplateID\<close> both write it: the rows after the
  row whose id is \<open>AfterID\<close> (no such row is \<open>ErrNoRows\<close>), then
  \<open>OffsetOpt\<close> rows skipped (an offset at or past the length is
  \<open>ErrNoRows\<close>), then at most \<open>LimitOpt\<close> rows; an empty page is
  \<open>ErrNoRows\<close>.
\<close>

definition paginate :: "('a \<Rightarrow> uuid) \<Rightarrow> uuid \<Rightarrow> int \<Rightarrow> int \<Rightarrow> 'a list \<Rightarrow> string + 'a list" where
  "paginate idf after offset limit xs =
     (let h1 = (if after \<noteq> uuid_nil
                then (let k = first_index (\<lambda>v. idf v = after) xs
                      in if k < length xs then Some (drop (Suc k) xs) else None)
                else Some xs)
      in case h1 of
           None \<Rightarrow> Inl ErrNoRows
         | Some h \<Rightarrow>
             if 0 < offset \<and> int (length h) - 1 < offset then Inl ErrNoRows
             else let h2 = (if 0 < offset then drop (nat offset) h else h);
                      h3 = (if 0 < limit then take (nat limit) h2 else h2)
                  in if h3 = [] then Inl ErrNoRows else Inr h3)"

section \<open>Find and update\<close>

lemma first_index_le: "first_index P xs \<le> length xs"
  by (induction xs) auto

lemma first_index_less_iff: "first_index P xs < length xs \<longleftrightarrow> (\<exists>x \<in> set xs. P x)"
  by (induction xs) auto

lemma first_index_nth: "first_index P xs < length xs \<Longrightarrow> P (xs ! first_index P xs)"
  by (induction xs) auto

lemma first_index_before: "j < first_index P xs \<Longrightarrow> \<not> P (xs ! j)"
  by (induction xs arbitrary: j) (auto simp: nth_Cons split: nat.splits if_splits)

lemma update_first_None [simp]: "update_first P f xs = None \<longleftrightarrow> \<not> (\<exists>x \<in> set xs. P x)"
  by (induction xs) auto

text \<open>The update is the lookup of the first match followed by a write at its index.\<close>

lemma update_first_Some:
  "update_first P f xs =
     (if first_index P xs < length xs
      then Some (f (xs ! first_index P xs), xs[first_index P xs := f (xs ! first_index P xs)])
      else None)"
  by (induction xs) (auto simp: first_index_less_iff)

lemma update_first_find:
  "update_first P f xs = Some (r, ys) \<Longrightarrow> P r \<Longrightarrow> find P ys = Some r"
  by (induction xs arbitrary: ys) (auto split: if_splits)

lemma update_first_length: "update_first P f xs = Some (r, ys) \<Longrightarrow> length ys = length xs"
  by (induction xs arbitrary: ys) (auto split: if_splits)

lemma update_first_others:
  "update_first P f xs = Some (r, ys) \<Longrightarrow> filter (\<lambda>x. \<not> P x) ys = filter (\<lambda>x. \<not> P x) xs \<or> \<not> P r"
  by (induction xs arbitrary: ys) (auto split: if_splits)

lemma update_first_found:
  "find P xs = Some x \<Longrightarrow> P (f x) \<Longrightarrow> \<exists>ys. update_first P f xs = Some (f x, ys) \<and> find P ys = Some (f x)"
  by (induction xs) (auto split: if_splits)

section \<open>Swap-remove\<close>

lemma mset_butlast_swap:
  assumes i: "i < length xs"
  shows "mset (butlast (xs[i := last xs])) = mset xs - {# xs ! i #}"
proof -
  have ne: "xs \<noteq> []" using i by auto
  have "mset (xs[i := last xs]) = mset xs - {# xs ! i #} + {# last xs #}"
    using i by (simp add: mset_update)
  moreover have "last (xs[i := last xs]) = last xs"
    using i ne by (cases "i = length xs - 1") (simp_all add: last_conv_nth nth_list_update)
  moreover have "mset (xs[i := last xs]) = mset (butlast (xs[i := last xs])) + {# last (xs[i := last xs]) #}"
    using ne by (metis add.commute append_butlast_last_id length_0_conv length_list_update mset.simps(2)
                  mset_append mset_single_iff_right union_mset_add_mset_right)
  ultimately show ?thesis by simp
qed

lemma nth_butlast_swap: "j < i \<Longrightarrow> i < length xs \<Longrightarrow> butlast (xs[i := last xs]) ! j = xs ! j"
  by (simp add: nth_butlast)

lemma length_butlast_swap [simp]: "length (butlast (xs[i := last xs])) = length xs - 1"
  by simp

lemma swap_remove_mset:
  "swap_remove P xs = Some ys \<Longrightarrow>
     \<exists>i < length xs. P (xs ! i) \<and> (\<forall>j < i. \<not> P (xs ! j)) \<and> mset ys = mset xs - {# xs ! i #}"
proof -
  assume r: "swap_remove P xs = Some ys"
  define i where "i = first_index P xs"
  have i: "i < length xs" using r by (simp add: swap_remove_def i_def Let_def split: if_splits)
  have ys: "ys = butlast (xs[i := last xs])" using r by (simp add: swap_remove_def i_def Let_def split: if_splits)
  then have "mset ys = mset xs - {# xs ! i #}" using mset_butlast_swap [OF i] by simp
  then show ?thesis
    using i first_index_nth [of P xs] first_index_before [of _ P xs] by (auto simp: i_def)
qed

section \<open>Backward deletion\<close>

lemma delete_backward_prefix:
  "i \<le> length xs \<Longrightarrow> delete_backward P i xs = filter (\<lambda>x. \<not> P x) (take i xs) @ drop i xs"
proof (induction i arbitrary: xs)
  case 0
  then show ?case by simp
next
  case (Suc i)
  define xs' where "xs' = (if P (xs ! i) then take i xs @ drop (Suc i) xs else xs)"
  have i: "i < length xs" using Suc.prems by simp
  have len: "i \<le> length xs'" using i unfolding xs'_def by auto
  have tk: "take i xs' = take i xs" using i by (simp add: xs'_def)
  have dr: "drop i xs' = (if P (xs ! i) then drop (Suc i) xs else drop i xs)" using i by (simp add: xs'_def)
  have split: "take (Suc i) xs = take i xs @ [xs ! i]" using i by (simp add: take_Suc_conv_app_nth)
  have "drop i xs = xs ! i # drop (Suc i) xs" using i by (simp add: Cons_nth_drop_Suc)
  then show ?case
    using Suc.IH [OF len] tk dr split by (simp add: xs'_def [symmetric])
qed

section \<open>Deletion inside a range loop\<close>

lemma range_delete_shift:
  assumes "i < l" and "l \<le> length arr"
  shows "take (l - 1) (take i arr @ drop (Suc i) (take l arr) @ drop (l - 1) arr) =
           take i (take l arr) @ drop (Suc i) (take l arr)"
    and "length (take i arr @ drop (Suc i) (take l arr) @ drop (l - 1) arr) = length arr"
proof -
  have len: "length (take i arr @ drop (Suc i) (take l arr)) = l - 1" using assms by simp
  then have "take (l - 1) ((take i arr @ drop (Suc i) (take l arr)) @ drop (l - 1) arr) =
               take i arr @ drop (Suc i) (take l arr)"
    by (metis append_eq_conv_conj)
  moreover have "take i (take l arr) = take i arr" using assms by simp
  ultimately show "take (l - 1) (take i arr @ drop (Suc i) (take l arr) @ drop (l - 1) arr) =
           take i (take l arr) @ drop (Suc i) (take l arr)" by simp
  show "length (take i arr @ drop (Suc i) (take l arr) @ drop (l - 1) arr) = length arr"
    using len assms by (metis append.assoc length_append length_drop le_add_diff_inverse
                          diff_le_self order.trans)
qed

lemma remove_nth_filter:
  "i < length ys \<Longrightarrow> P (ys ! i) \<Longrightarrow>
     filter (\<lambda>x. \<not> P x) (take i ys @ drop (Suc i) ys) = filter (\<lambda>x. \<not> P x) ys"
  by (metis (no_types, lifting) filter.simps(2) filter_append id_take_nth_drop)

lemma remove_nth_subseq: "i < length ys \<Longrightarrow> subseq (take i ys @ drop (Suc i) ys) ys"
  by (metis id_take_nth_drop list_emb_Cons list_emb_append_mono subseq_order.refl)

lemma range_delete_inv_step:
  assumes inv: "range_delete_inv P xs arr l" and il: "i < l" and p: "P (arr ! i)"
  shows "range_delete_inv P xs (take i arr @ drop (Suc i) (take l arr) @ drop (l - 1) arr) (l - 1)"
proof -
  have l: "l \<le> length arr" using inv by (simp add: range_delete_inv_def)
  define ys where "ys = take l arr"
  have yi: "i < length ys" using il l by (simp add: ys_def)
  have pi: "P (ys ! i)" using p il by (simp add: ys_def)
  have sh: "take (l - 1) (take i arr @ drop (Suc i) (take l arr) @ drop (l - 1) arr) = take i ys @ drop (Suc i) ys"
    using range_delete_shift(1) [OF il l] by (simp add: ys_def)
  have "subseq (take i ys @ drop (Suc i) ys) xs"
    using remove_nth_subseq [OF yi] inv subseq_order.trans by (auto simp: range_delete_inv_def ys_def)
  moreover have "l - 1 \<le> length xs" using l inv by (simp add: range_delete_inv_def)
  ultimately show ?thesis
    using inv sh range_delete_shift(2) [OF il l] remove_nth_filter [of i ys P, OF yi pi] il
    by (simp add: range_delete_inv_def ys_def)
qed

lemma range_delete_loop_inv:
  "range_delete_loop P k i arr l = Some (arr', l') \<Longrightarrow> range_delete_inv P xs arr l \<Longrightarrow>
     range_delete_inv P xs arr' l'"
proof (induction P k i arr l rule: range_delete_loop.induct)
  case (1 P i arr l)
  then show ?case by simp
next
  case (2 P k i arr l)
  show ?case
  proof (cases "P (arr ! i)")
    case True
    then have il: "i < l" using "2.prems"(1) by (simp split: if_splits)
    then show ?thesis
      using "2.IH"(1) [OF True] "2.prems" True range_delete_inv_step [OF "2.prems"(2) il True]
      by simp
  next
    case False
    then show ?thesis using "2.IH"(2) [OF False] "2.prems" by simp
  qed
qed

lemma range_delete_loop_no_match:
  "\<forall>x \<in> set arr. \<not> P x \<Longrightarrow> i + k \<le> length arr \<Longrightarrow> range_delete_loop P k i arr l = Some (arr, l)"
  by (induction P k i arr l rule: range_delete_loop.induct) auto

text \<open>When the loop does not panic, it has removed only rows to delete, keeping the others in order.\<close>

lemma range_delete_keeps:
  "range_delete P xs = Some ys \<Longrightarrow> subseq ys xs \<and> filter (\<lambda>x. \<not> P x) ys = filter (\<lambda>x. \<not> P x) xs"
proof -
  assume r: "range_delete P xs = Some ys"
  then obtain arr l where loop: "range_delete_loop P (length xs) 0 xs (length xs) = Some (arr, l)"
    and ys: "ys = take l arr" by (auto simp: range_delete_def)
  have "range_delete_inv P xs xs (length xs)" by (simp add: range_delete_inv_def)
  then have "range_delete_inv P xs arr l" by (rule range_delete_loop_inv [OF loop])
  then show ?thesis using ys by (simp add: range_delete_inv_def)
qed

lemma range_delete_no_match: "\<forall>x \<in> set xs. \<not> P x \<Longrightarrow> range_delete P xs = Some xs"
  by (simp add: range_delete_def range_delete_loop_no_match)

lemma range_delete_shift_last:
  assumes "i < l" and "l \<le> length arr"
  shows "last (take i arr @ drop (Suc i) (take l arr) @ drop (l - 1) arr) = last arr"
proof -
  have "l - 1 < length arr" using assms by simp
  then show ?thesis by (simp add: last_drop)
qed

lemma range_delete_loop_del:
  "P (arr ! i) \<Longrightarrow> i < l \<Longrightarrow> range_delete_loop P (Suc k) i arr l =
     range_delete_loop P k (Suc i) (take i arr @ drop (Suc i) (take l arr) @ drop (l - 1) arr) (l - 1)"
  by simp

lemma range_delete_loop_keep:
  "\<not> P (arr ! i) \<Longrightarrow> range_delete_loop P (Suc k) i arr l = range_delete_loop P k (Suc i) arr l"
  by simp

lemma range_delete_loop_last_panics:
  "i + k = length arr \<Longrightarrow> 0 < k \<Longrightarrow> l < length arr \<Longrightarrow> P (last arr) \<Longrightarrow> range_delete_loop P k i arr l = None"
proof (induction k arbitrary: i arr l)
  case 0
  then show ?case by simp
next
  case (Suc k)
  show ?case
  proof (cases "k = 0")
    case True
    have ne: "arr \<noteq> []" using Suc.prems by (cases arr) simp_all
    have i: "i = length arr - 1" using Suc.prems True by simp
    then have "arr ! i = last arr" using ne by (simp add: last_conv_nth)
    moreover have "l < Suc i" using Suc.prems i by simp
    ultimately show ?thesis using Suc.prems True by simp
  next
    case False
    show ?thesis
    proof (cases "P (arr ! i) \<and> Suc i \<le> l")
      case True
      then have il: "i < l" by simp
      have l: "l \<le> length arr" using Suc.prems by simp
      have "range_delete_loop P k (Suc i) (take i arr @ drop (Suc i) (take l arr) @ drop (l - 1) arr) (l - 1) = None"
        using Suc.IH [of "Suc i" "take i arr @ drop (Suc i) (take l arr) @ drop (l - 1) arr" "l - 1"]
          Suc.prems False range_delete_shift(2) [OF il l] range_delete_shift_last [OF il l] by simp
      then show ?thesis using True by simp
    next
      case False
      then show ?thesis using Suc.IH [of "Suc i" arr l] Suc.prems \<open>k \<noteq> 0\<close> by auto
    qed
  qed
qed

lemma range_delete_loop_skip:
  "\<forall>w \<in> set ws. \<not> P w \<Longrightarrow>
     range_delete_loop P (length ws + k) (length pre) (pre @ ws @ post) l =
     range_delete_loop P k (length pre + length ws) (pre @ ws @ post) l"
proof (induction ws arbitrary: pre)
  case Nil
  then show ?case by simp
next
  case (Cons w ws)
  have "range_delete_loop P (length ws + k) (length (pre @ [w])) ((pre @ [w]) @ ws @ post) l =
        range_delete_loop P k (length (pre @ [w]) + length ws) ((pre @ [w]) @ ws @ post) l"
    using Cons.IH [of "pre @ [w]"] Cons.prems by simp
  then show ?case using Cons.prems by simp
qed

text \<open>
  The range reads the last position on its last iteration, and deleting
  keeps the last row there: when the last row is to be deleted after an
  earlier deletion, the slice expression panics.
\<close>

lemma range_delete_last_panics:
  assumes "P y" and "\<exists>r \<in> set rs. P r"
  shows "range_delete P (rs @ [y]) = None"
proof -
  obtain pre r post where "rs = pre @ r # post \<and> P r \<and> (\<forall>w \<in> set pre. \<not> P w)"
    using split_list_first_prop [OF assms(2)] by (elim exE) (rule that)
  then have rs: "rs = pre @ r # post" and pre: "\<forall>w \<in> set pre. \<not> P w" and r: "P r" by simp_all
  define arr where "arr = pre @ r # post @ [y]"
  define n where "n = length arr"
  have n: "n = length pre + Suc (Suc (length post))" by (simp add: arr_def n_def)
  have sk: "range_delete_loop P n 0 arr n = range_delete_loop P (Suc (Suc (length post))) (length pre) arr n"
    using range_delete_loop_skip [OF pre, of "Suc (Suc (length post))" "[]" "r # post @ [y]" n]
    by (simp add: arr_def n del: range_delete_loop.simps)
  have sh: "take (length pre) arr @ drop (Suc (length pre)) (take n arr) @ drop (n - 1) arr = pre @ post @ [y, y]"
    by (simp add: arr_def n)
  have ar: "arr ! length pre = r" by (simp add: arr_def)
  have nl: "\<not> n < Suc (length pre)" by (simp add: n)
  have "range_delete_loop P (Suc (length post)) (Suc (length pre)) (pre @ post @ [y, y]) (n - 1) = None"
    by (rule range_delete_loop_last_panics) (simp_all add: n assms(1))
  then have "range_delete_loop P n 0 arr n = None"
    using sk range_delete_loop_del [of P arr "length pre" n "Suc (length post)"] ar nl r sh
    by (simp del: range_delete_loop.simps)
  moreover have "rs @ [y] = arr" by (simp add: rs arr_def)
  ultimately show ?thesis by (simp add: range_delete_def n_def [symmetric] del: range_delete_loop.simps)
qed

text \<open>The row shifted into a deleted row's slot is never examined.\<close>

lemma range_delete_skips_next:
  assumes "\<forall>w \<in> set xs. \<not> P w" and "\<forall>w \<in> set zs. \<not> P w" and "P x" and "zs \<noteq> []"
  shows "range_delete P (xs @ x # y # zs) = Some (xs @ y # zs)"
proof -
  obtain zs0 z where zs: "zs = zs0 @ [z]" using assms(4) rev_exhaust by blast
  define arr where "arr = xs @ x # y # zs"
  define n where "n = length arr"
  define arr' where "arr' = (xs @ [y]) @ zs @ [z]"
  have n: "n = length xs + Suc (Suc (length zs))" by (simp add: arr_def n_def)
  have sk: "range_delete_loop P n 0 arr n = range_delete_loop P (Suc (Suc (length zs))) (length xs) arr n"
    using range_delete_loop_skip [OF assms(1), of "Suc (Suc (length zs))" "[]" "x # y # zs" n]
    by (simp add: arr_def n del: range_delete_loop.simps)
  have sh: "take (length xs) arr @ drop (Suc (length xs)) (take n arr) @ drop (n - 1) arr = arr'"
    by (simp add: arr_def n arr'_def zs)
  have ar: "arr ! length xs = x" by (simp add: arr_def)
  have nl: "length xs < n" by (simp add: n)
  have sk2: "range_delete_loop P (length zs + 1) (length (xs @ [y])) arr' (n - 1) =
             range_delete_loop P 1 (length (xs @ [y]) + length zs) arr' (n - 1)"
    unfolding arr'_def by (rule range_delete_loop_skip [OF assms(2)])
  have "\<not> P (arr' ! (length (xs @ [y]) + length zs))" using assms(2) by (simp add: arr'_def nth_append zs)
  then have "range_delete_loop P 1 (length (xs @ [y]) + length zs) arr' (n - 1) = Some (arr', n - 1)"
    by simp
  then have "range_delete_loop P (Suc (length zs)) (Suc (length xs)) arr' (n - 1) = Some (arr', n - 1)"
    using sk2 by (simp del: range_delete_loop.simps)
  then have "range_delete_loop P n 0 arr n = Some (arr', n - 1)"
    using sk range_delete_loop_del [of P arr "length xs" n "Suc (length zs)"] assms(3) ar nl sh
    by (simp del: range_delete_loop.simps)
  moreover have "take (n - 1) arr' = xs @ y # zs" by (simp add: arr'_def n zs)
  moreover have "xs @ x # y # zs = arr" by (simp add: arr_def)
  ultimately show ?thesis by (simp add: range_delete_def n_def [symmetric] del: range_delete_loop.simps)
qed


section \<open>Cursor pagination\<close>

lemma first_index_distinct:
  assumes "distinct (map f (ys @ y # zs))"
  shows "first_index (\<lambda>v. f v = f y) (ys @ y # zs) = length ys"
proof -
  have "f y \<notin> set (map f ys)" using assms by simp
  then show ?thesis by (induction ys) auto
qed

text \<open>Following the cursor: the page after a row is the next rows, up to the limit.\<close>

lemma paginate_cursor:
  assumes "distinct (map idf (ys @ y # zs))" and "idf y \<noteq> uuid_nil" and "0 < limit"
  shows "paginate idf (idf y) 0 limit (ys @ y # zs) = (if zs = [] then Inl ErrNoRows else Inr (take (nat limit) zs))"
  using assms first_index_distinct [OF assms(1)] by (simp add: paginate_def Let_def)

text \<open>Without a cursor or offset, the first page is the first rows, up to the limit.\<close>

lemma paginate_first:
  "0 < limit \<Longrightarrow> paginate idf uuid_nil 0 limit xs = (if xs = [] then Inl ErrNoRows else Inr (take (nat limit) xs))"
  by (simp add: paginate_def Let_def)

end
