(* ===== verification/DbFake.thy ===== *)
theory DbFake
  imports DbRows GoSlice
begin

text \<open>
  The in-memory database fake (\<open>src/unnamed/part_005\<close>, package \<open>dbfake\<close>):
  the rows the workspace executor reads and writes, the lookups it calls
  (\<open>GetWorkspaceByID\<close>, \<open>GetLatestWorkspaceBuildByWorkspaceID\<close>,
  \<open>GetProvisionerJobByID\<close>, \<open>GetTemplateByID\<close>), the prefilter query
  \<open>GetWorkspacesEligibleForTransition\<close>, the lock update
  \<open>UpdateWorkspaceLockedDeletingAt\<close>, and \<open>InTx\<close> with the advisory locks
  of a transaction (\<open>AcquireLock\<close>, \<open>TryAcquireLock\<close>, \<open>releaseLocks\<close>).
  Tables are lists scanned in order, as the fake's slices are; a lookup
  returns the first match and \<open>sql.ErrNoRows\<close> is \<^const>\<open>None\<close>.
  A job's status is computed from its row as \<open>db2sdk.ProvisionerJobStatus\<close>
  (not under \<open>src/\<close>) computes it.
\<close>

text \<open>
  The fake's \<open>data\<close>: the tables modelled, in the struct's order, the
  advisory locks held, and the last license id.
\<close>

record fake_db =
  db_api_keys :: "api_key list"
  db_users :: "user list"
  db_git_ssh_keys :: "git_ssh_key list"
  db_group_members :: "group_member list"
  db_groups :: "group list"
  db_licenses :: "license list"
  db_job_logs :: "provisioner_job_log list"
  db_jobs :: "provisioner_job list"
  db_replicas :: "replica list"
  db_templates :: "template list"
  db_template_versions :: "template_version list"
  db_template_version_parameters :: "template_version_parameter list"
  db_template_version_variables :: "template_version_variable list"
  db_builds :: "workspace_build list"
  db_workspaces :: "workspace list"
  db_organizations :: "organization list"
  db_organization_members :: "organization_member list"
  db_workspace_proxies :: "workspace_proxy list"
  db_default_proxy_display_name :: string
  db_default_proxy_icon_url :: string
  db_files :: "file_row list"
  db_git_auth_links :: "git_auth_link list"
  db_user_links :: "user_link list"
  db_workspace_agents :: "workspace_agent list"
  db_workspace_agent_logs :: "workspace_agent_log list"
  db_workspace_agent_metadata :: "workspace_agent_metadatum list"
  db_workspace_apps :: "workspace_app list"
  db_workspace_resources :: "workspace_resource list"
  db_workspace_resource_metadata :: "workspace_resource_metadatum list"
  db_audit_logs :: "audit_log list"
  db_parameter_schemas :: "parameter_schema list"
  db_provisioner_daemons :: "provisioner_daemon list"
  db_workspace_build_parameters :: "workspace_build_parameter list"
  db_workspace_agent_stats :: "workspace_agent_stat list"
  db_deployment_id :: string
  db_derp_mesh_key :: string
  db_last_update_check :: "string option"
  db_service_banner :: "string option"
  db_logo_url :: string
  db_app_security_key :: string
  db_oauth_signing_key :: string
  db_locks :: "int set"
  db_last_license_id :: "32 word"

text \<open>
  \<open>New()\<close>: every table empty, no lock held, no license issued, the
  byte-slice settings \<open>nil\<close> (\<^const>\<open>None\<close>), and the default proxy
  named \<open>Default\<close> with its icon.
\<close>

definition New :: fake_db where
  "New = \<lparr>db_api_keys = [], db_users = [], db_git_ssh_keys = [], db_group_members = [], db_groups = [],
          db_licenses = [], db_job_logs = [], db_jobs = [], db_replicas = [], db_templates = [],
          db_template_versions = [], db_template_version_parameters = [], db_template_version_variables = [],
          db_builds = [], db_workspaces = [], db_organizations = [], db_organization_members = [],
          db_workspace_proxies = [], db_default_proxy_display_name = ''Default'',
          db_default_proxy_icon_url = ''/emojis/1f3e1.png'', db_files = [],
          db_git_auth_links = [], db_user_links = [], db_workspace_agents = [], db_workspace_agent_logs = [],
          db_workspace_agent_metadata = [], db_workspace_apps = [], db_workspace_resources = [],
          db_workspace_resource_metadata = [], db_audit_logs = [], db_parameter_schemas = [],
          db_provisioner_daemons = [], db_workspace_build_parameters = [], db_workspace_agent_stats = [],
          db_deployment_id = [],
          db_derp_mesh_key = [], db_last_update_check = None, db_service_banner = None, db_logo_url = [],
          db_app_security_key = [], db_oauth_signing_key = [], db_locks = {}, db_last_license_id = 0\<rparr>"

text \<open>\<open>errDuplicateKey\<close>: the unique-violation error the fake returns, by its message.\<close>

definition errDuplicateKey :: string where
  "errDuplicateKey = ''duplicate key value violates unique constraint''"

section \<open>Lookups\<close>

definition getWorkspaceByID :: "fake_db \<Rightarrow> uuid \<Rightarrow> workspace option" where
  "getWorkspaceByID db i = find (\<lambda>w. ws_id w = i) (db_workspaces db)"

definition getProvisionerJobByID :: "fake_db \<Rightarrow> uuid \<Rightarrow> provisioner_job option" where
  "getProvisionerJobByID db i = find (\<lambda>j. pj_id j = i) (db_jobs db)"

definition getTemplateByID :: "fake_db \<Rightarrow> uuid \<Rightarrow> template option" where
  "getTemplateByID db i = find (\<lambda>t. tmpl_id t = i) (db_templates db)"

text \<open>
  The latest build: the scan keeps the row with the greatest build number,
  starting from \<open>-1\<close> and replacing only on a strictly greater number, so
  the first of equal numbers wins and no row leaves \<open>-1\<close> (\<open>ErrNoRows\<close>).
\<close>

definition latest_step :: "uuid \<Rightarrow> workspace_build \<Rightarrow> workspace_build option \<times> int \<Rightarrow> workspace_build option \<times> int" where
  "latest_step wid b acc =
     (if wb_workspace_id b = wid \<and> snd acc < wb_build_number b then (Some b, wb_build_number b) else acc)"

definition getLatestWorkspaceBuildByWorkspaceID :: "fake_db \<Rightarrow> uuid \<Rightarrow> workspace_build option" where
  "getLatestWorkspaceBuildByWorkspaceID db wid =
     (case fold (latest_step wid) (db_builds db) (None, -1) of
        (row, n) \<Rightarrow> if n = -1 then None else row)"

section \<open>The prefilter query\<close>

text \<open>
  \<open>GetWorkspacesEligibleForTransition(now)\<close>: every workspace passing one of
  five cheap tests, in table order; a workspace without a build, a build
  without a job, or a workspace without a template fails the whole query.
\<close>

fun eligible_for_transition :: "fake_db \<Rightarrow> time \<Rightarrow> workspace list \<Rightarrow> string + workspace list" where
  "eligible_for_transition db now [] = Inr []"
| "eligible_for_transition db now (w # ws) =
     (case getLatestWorkspaceBuildByWorkspaceID db (ws_id w) of
        None \<Rightarrow> Inl ''sql: no rows in result set''
      | Some build \<Rightarrow>
          (if wb_transition build = WorkspaceTransitionStart \<and> \<not> time_is_zero (wb_deadline build) \<and>
              time_before (wb_deadline build) now \<and> \<not> nt_valid (ws_locked_at w)
           then map_sum id (Cons w) (eligible_for_transition db now ws)
           else if wb_transition build = WorkspaceTransitionStop \<and> ns_valid (ws_autostart_schedule w) \<and>
                   \<not> nt_valid (ws_locked_at w)
           then map_sum id (Cons w) (eligible_for_transition db now ws)
           else (case getProvisionerJobByID db (wb_job_id build) of
                   None \<Rightarrow> Inl ''get provisioner job by ID: sql: no rows in result set''
                 | Some job \<Rightarrow>
                     if ProvisionerJobStatus job = ProvisionerJobFailed
                     then map_sum id (Cons w) (eligible_for_transition db now ws)
                     else (case getTemplateByID db (ws_template_id w) of
                             None \<Rightarrow> Inl ''get template by ID: sql: no rows in result set''
                           | Some tmpl \<Rightarrow>
                               if \<not> nt_valid (ws_locked_at w) \<and> 0 < tmpl_inactivity_ttl tmpl
                               then map_sum id (Cons w) (eligible_for_transition db now ws)
                               else if nt_valid (ws_locked_at w) \<and> 0 < tmpl_locked_ttl tmpl
                               then map_sum id (Cons w) (eligible_for_transition db now ws)
                               else eligible_for_transition db now ws))))"

definition getWorkspacesEligibleForTransition :: "fake_db \<Rightarrow> time \<Rightarrow> string + workspace list" where
  "getWorkspacesEligibleForTransition db now = eligible_for_transition db now (db_workspaces db)"

text \<open>
  The decision the scan makes for one workspace: an error, keep, or skip.
  It is the body of the loop above with the recursive call factored out.
\<close>

definition prefilter_keep :: "fake_db \<Rightarrow> time \<Rightarrow> workspace \<Rightarrow> string + bool" where
  "prefilter_keep db now w =
     (case getLatestWorkspaceBuildByWorkspaceID db (ws_id w) of
        None \<Rightarrow> Inl ''sql: no rows in result set''
      | Some build \<Rightarrow>
          (if wb_transition build = WorkspaceTransitionStart \<and> \<not> time_is_zero (wb_deadline build) \<and>
              time_before (wb_deadline build) now \<and> \<not> nt_valid (ws_locked_at w) then Inr True
           else if wb_transition build = WorkspaceTransitionStop \<and> ns_valid (ws_autostart_schedule w) \<and>
                   \<not> nt_valid (ws_locked_at w) then Inr True
           else (case getProvisionerJobByID db (wb_job_id build) of
                   None \<Rightarrow> Inl ''get provisioner job by ID: sql: no rows in result set''
                 | Some job \<Rightarrow>
                     if ProvisionerJobStatus job = ProvisionerJobFailed then Inr True
                     else (case getTemplateByID db (ws_template_id w) of
                             None \<Rightarrow> Inl ''get template by ID: sql: no rows in result set''
                           | Some tmpl \<Rightarrow>
                               Inr ((\<not> nt_valid (ws_locked_at w) \<and> 0 < tmpl_inactivity_ttl tmpl) \<or>
                                    (nt_valid (ws_locked_at w) \<and> 0 < tmpl_locked_ttl tmpl))))))"

section \<open>Locking a workspace\<close>

text \<open>
  \<open>UpdateWorkspaceLockedDeletingAt\<close> on the workspace row: set \<open>LockedAt\<close>;
  clearing it (zero time) also resets \<open>LastUsedAt\<close> to \<open>database.Now()\<close>
  and clears \<open>DeletingAt\<close>; setting it looks up the template (a missing
  template, or one whose id is \<open>uuid.Nil\<close>, is an error) and, when the
  template has a locked TTL, sets \<open>DeletingAt\<close> to \<open>LockedAt + LockedTTL\<close>.
\<close>

definition lock_row :: "fake_db \<Rightarrow> time \<Rightarrow> null_time \<Rightarrow> workspace \<Rightarrow> string + workspace" where
  "lock_row db now lockedAt w =
     (let w1 = w\<lparr>ws_locked_at := lockedAt\<rparr>;
          w2 = (if time_is_zero (nt_time lockedAt)
                then w1\<lparr>ws_last_used_at := now, ws_deleting_at := null_time_none\<rparr> else w1)
      in if \<not> time_is_zero (nt_time lockedAt) then
           (case find (\<lambda>t. tmpl_id t = ws_template_id w2) (db_templates db) of
              None \<Rightarrow> Inl ''unable to find workspace template''
            | Some t \<Rightarrow>
                if tmpl_id t = uuid_nil then Inl ''unable to find workspace template''
                else if 0 < tmpl_locked_ttl t
                then Inr (w2\<lparr>ws_deleting_at := \<lparr>nt_time = nt_time lockedAt + tmpl_locked_ttl t, nt_valid = True\<rparr>\<rparr>)
                else Inr w2)
         else Inr w2)"

primrec update_row :: "uuid \<Rightarrow> (workspace \<Rightarrow> string + workspace) \<Rightarrow> workspace list \<Rightarrow>
                       string + (workspace \<times> workspace list)" where
  "update_row i f [] = Inl ''sql: no rows in result set''"
| "update_row i f (w # ws) =
     (if ws_id w \<noteq> i then map_sum id (\<lambda>(r, ws'). (r, w # ws')) (update_row i f ws)
      else (case f w of Inl e \<Rightarrow> Inl e | Inr w' \<Rightarrow> Inr (w', w' # ws)))"

definition updateWorkspaceLockedDeletingAt ::
  "time \<Rightarrow> uuid \<Rightarrow> null_time \<Rightarrow> fake_db \<Rightarrow> string + (workspace \<times> fake_db)" where
  "updateWorkspaceLockedDeletingAt now i lockedAt db =
     (case update_row i (lock_row db now lockedAt) (db_workspaces db) of
        Inl e \<Rightarrow> Inl e
      | Inr (w, ws) \<Rightarrow> Inr (w, db\<lparr>db_workspaces := ws\<rparr>))"

section \<open>Transactions and advisory locks\<close>

text \<open>
  Inside \<open>InTx\<close> the store is a \<open>fakeTx\<close> sharing the fake's data and
  remembering the lock ids it took.  \<open>AcquireLock\<close> fails on a held id,
  \<open>TryAcquireLock\<close> reports it; both record a new id in both tables.  On
  return \<open>InTx\<close> releases the transaction's locks; data written by the body
  is not rolled back, whatever it returns.
\<close>

record fake_tx =
  tx_db :: fake_db
  tx_locks :: "int set"

definition acquireLock :: "int \<Rightarrow> fake_tx \<Rightarrow> string + fake_tx" where
  "acquireLock i tx =
     (if i \<in> db_locks (tx_db tx) then Inl ''cannot acquire lock: already held''
      else Inr \<lparr>tx_db = (tx_db tx)\<lparr>db_locks := insert i (db_locks (tx_db tx))\<rparr>,
                tx_locks = insert i (tx_locks tx)\<rparr>)"

definition tryAcquireLock :: "int \<Rightarrow> fake_tx \<Rightarrow> bool \<times> fake_tx" where
  "tryAcquireLock i tx =
     (if i \<in> db_locks (tx_db tx) then (False, tx)
      else (True, \<lparr>tx_db = (tx_db tx)\<lparr>db_locks := insert i (db_locks (tx_db tx))\<rparr>,
                   tx_locks = insert i (tx_locks tx)\<rparr>))"

definition releaseLocks :: "fake_tx \<Rightarrow> fake_tx" where
  "releaseLocks tx = \<lparr>tx_db = (tx_db tx)\<lparr>db_locks := db_locks (tx_db tx) - tx_locks tx\<rparr>, tx_locks = {}\<rparr>"

definition inTx :: "(fake_tx \<Rightarrow> 'e option \<times> fake_tx) \<Rightarrow> fake_db \<Rightarrow> 'e option \<times> fake_db" where
  "inTx fn db =
     (let (r, tx) = fn \<lparr>tx_db = db, tx_locks = {}\<rparr> in (r, tx_db (releaseLocks tx)))"

declare getWorkspaceByID_def [model_defs] getProvisionerJobByID_def [model_defs]
  getTemplateByID_def [model_defs] getLatestWorkspaceBuildByWorkspaceID_def [model_defs]
  getWorkspacesEligibleForTransition_def [model_defs] updateWorkspaceLockedDeletingAt_def [model_defs]
  acquireLock_def [model_defs] tryAcquireLock_def [model_defs] releaseLocks_def [model_defs] inTx_def [model_defs]

section \<open>Invariants and transaction bodies\<close>

text \<open>The latest-build scan's accumulator: a row exactly when the counter left \<open>-1\<close>, carrying it.\<close>

definition latest_inv :: "uuid \<Rightarrow> workspace_build option \<times> int \<Rightarrow> bool" where
  "latest_inv wid acc \<longleftrightarrow>
     -1 \<le> snd acc \<and> (fst acc = None \<longleftrightarrow> snd acc = -1) \<and>
     (\<forall>r. fst acc = Some r \<longrightarrow> wb_workspace_id r = wid \<and> wb_build_number r = snd acc)"

text \<open>
  A transaction body that takes advisory locks, as the callers of
  \<open>AcquireLock\<close> and \<open>TryAcquireLock\<close> do: an \<open>AcquireLock\<close> error ends the
  body with that error.
\<close>

datatype lock_call = CallAcquireLock int | CallTryAcquireLock int

fun lock_calls :: "lock_call list \<Rightarrow> fake_tx \<Rightarrow> string option \<times> fake_tx" where
  "lock_calls [] tx = (None, tx)"
| "lock_calls (CallAcquireLock i # cs) tx =
     (case acquireLock i tx of Inl e \<Rightarrow> (Some e, tx) | Inr tx' \<Rightarrow> lock_calls cs tx')"
| "lock_calls (CallTryAcquireLock i # cs) tx = lock_calls cs (snd (tryAcquireLock i tx))"

text \<open>Inside a transaction the lock table is the table at its start plus the locks it took.\<close>

definition tx_locks_ok :: "int set \<Rightarrow> fake_tx \<Rightarrow> bool" where
  "tx_locks_ok L tx \<longleftrightarrow> db_locks (tx_db tx) = L \<union> tx_locks tx \<and> L \<inter> tx_locks tx = {}"

section \<open>The prefilter as a filter\<close>

lemma eligible_for_transition_Cons:
  "eligible_for_transition db now (w # ws) =
     (case prefilter_keep db now w of
        Inl e \<Rightarrow> Inl e
      | Inr keep \<Rightarrow> map_sum id (if keep then Cons w else id) (eligible_for_transition db now ws))"
  by (simp add: prefilter_keep_def map_sum.id split: option.split)

text \<open>The query succeeds iff every workspace is decided, and then returns the kept ones in order.\<close>

lemma eligible_for_transition_Inr:
  "eligible_for_transition db now ws = Inr cs \<longleftrightarrow>
     (\<forall>w \<in> set ws. \<exists>k. prefilter_keep db now w = Inr k) \<and>
     cs = filter (\<lambda>w. prefilter_keep db now w = Inr True) ws"
proof (induction ws arbitrary: cs)
  case Nil
  then show ?case by auto
next
  case (Cons w ws)
  show ?case
  proof (cases "prefilter_keep db now w")
    case (Inl e)
    then show ?thesis by (simp del: eligible_for_transition.simps add: eligible_for_transition_Cons)
  next
    case (Inr k)
    then show ?thesis
      using Cons.IH
      by (cases "eligible_for_transition db now ws")
         (auto simp del: eligible_for_transition.simps simp: eligible_for_transition_Cons)
  qed
qed

section \<open>The latest build\<close>

lemma latest_inv_step: "latest_inv wid acc \<Longrightarrow> latest_inv wid (latest_step wid b acc)"
  by (auto simp: latest_inv_def latest_step_def)

lemma latest_inv_fold: "latest_inv wid acc \<Longrightarrow> latest_inv wid (fold (latest_step wid) bs acc)"
  by (induction bs arbitrary: acc) (simp_all add: latest_inv_step)

lemma latest_fold_mono: "snd acc \<le> snd (fold (latest_step wid) bs acc)"
proof (induction bs arbitrary: acc)
  case Nil
  then show ?case by simp
next
  case (Cons b bs)
  have "snd acc \<le> snd (latest_step wid b acc)" by (simp add: latest_step_def)
  with Cons.IH [of "latest_step wid b acc"] show ?case by simp
qed

lemma latest_fold_upper:
  "b \<in> set bs \<Longrightarrow> wb_workspace_id b = wid \<Longrightarrow> wb_build_number b \<le> snd (fold (latest_step wid) bs acc)"
proof (induction bs arbitrary: acc)
  case Nil
  then show ?case by simp
next
  case (Cons c bs)
  show ?case
  proof (cases "b = c")
    case True
    have "wb_build_number b \<le> snd (latest_step wid c acc)"
      using True Cons.prems(2) by (simp add: latest_step_def)
    then show ?thesis using latest_fold_mono [of "latest_step wid c acc" wid bs] by simp
  next
    case False
    then show ?thesis using Cons by simp
  qed
qed

lemma latest_fold_member:
  "fst (fold (latest_step wid) bs acc) = Some r \<Longrightarrow> r \<in> set bs \<or> fst acc = Some r"
proof (induction bs arbitrary: acc)
  case Nil
  then show ?case by simp
next
  case (Cons c bs)
  then have "r \<in> set bs \<or> fst (latest_step wid c acc) = Some r" by simp
  then show ?case by (auto simp: latest_step_def split: if_splits)
qed

text \<open>The scan's counter stays below a bound every build of the workspace is below.\<close>

lemma latest_fold_below:
  "\<forall>b \<in> set bs. wb_workspace_id b = wid \<longrightarrow> wb_build_number b < n \<Longrightarrow> snd acc < n \<Longrightarrow>
     snd (fold (latest_step wid) bs acc) < n"
proof (induction bs arbitrary: acc)
  case Nil
  then show ?case by simp
next
  case (Cons c bs)
  have "snd (latest_step wid c acc) < n" using Cons.prems by (simp add: latest_step_def)
  then show ?case using Cons.IH Cons.prems(1) by simp
qed

section \<open>Row updates\<close>

lemma getWorkspaceByID_id: "getWorkspaceByID db i = Some w \<Longrightarrow> ws_id w = i"
  by (auto simp: getWorkspaceByID_def dest: find_Some_iff [THEN iffD1])

lemma update_row_found:
  assumes "find (\<lambda>w. ws_id w = i) xs = Some w" and "f w = Inr w'" and "ws_id w' = i"
  shows "\<exists>xs'. update_row i f xs = Inr (w', xs') \<and> find (\<lambda>w. ws_id w = i) xs' = Some w'"
  using assms by (induction xs) (auto split: if_splits)

text \<open>Locking at a non-zero time with a template present (and not \<open>uuid.Nil\<close>).\<close>

lemma lock_row_set:
  assumes "\<not> time_is_zero now"
    and "find (\<lambda>t. tmpl_id t = ws_template_id w) (db_templates db) = Some tm" and "tmpl_id tm \<noteq> uuid_nil"
  shows "lock_row db now \<lparr>nt_time = now, nt_valid = True\<rparr> w =
           Inr (w\<lparr>ws_locked_at := \<lparr>nt_time = now, nt_valid = True\<rparr>,
                  ws_deleting_at := (if 0 < tmpl_locked_ttl tm
                                     then \<lparr>nt_time = now + tmpl_locked_ttl tm, nt_valid = True\<rparr>
                                     else ws_deleting_at w)\<rparr>)"
  using assms by (simp add: lock_row_def Let_def)

section \<open>Advisory locks\<close>

lemma tx_locks_ok_acquire:
  "tx_locks_ok L tx \<Longrightarrow> acquireLock i tx = Inr tx' \<Longrightarrow> tx_locks_ok L tx'"
  by (auto simp: tx_locks_ok_def acquireLock_def split: if_splits)

lemma tx_locks_ok_try:
  "tx_locks_ok L tx \<Longrightarrow> tx_locks_ok L (snd (tryAcquireLock i tx))"
  by (auto simp: tx_locks_ok_def tryAcquireLock_def)

lemma tx_locks_ok_calls:
  "tx_locks_ok L tx \<Longrightarrow> tx_locks_ok L (snd (lock_calls cs tx))"
  by (induction cs tx rule: lock_calls.induct)
     (auto simp: tx_locks_ok_try dest: tx_locks_ok_acquire split: sum.splits)

lemma release_tx_locks_ok:
  "tx_locks_ok L tx \<Longrightarrow> db_locks (tx_db (releaseLocks tx)) = L"
  by (auto simp: tx_locks_ok_def releaseLocks_def)

end
