(* ===== verification/Autobuild.thy ===== *)
theory Autobuild
  imports DbFake
begin

text \<open>
  The workspace executor (\<open>src/coderd/deprecated.go\<close>, package
  \<open>autobuild\<close>, lines 59--426): on every tick it truncates the tick to the
  minute, asks the database for candidate workspaces, and for each one, in
  a transaction, re-reads the workspace, its latest build, its template
  schedule and its job, computes \<open>getNextTransition\<close>, starts the build,
  locks a workspace that breached its inactivity TTL, and records the
  transition in the run's \<open>Stats\<close>.

  What is not under \<open>src/\<close> is a parameter: the cron parser
  \<open>schedule.Weekly\<close> followed by \<open>Next\<close> (\<open>weekly\<close>: \<open>None\<close> for a parse
  error), the template schedule store (\<open>env_sched_get\<close>), the workspace builder
  \<open>wsbuilder.Build\<close> (\<open>env_build\<close>: \<open>Inl\<close> for an error), and
  \<open>database.Now()\<close>.  The errgroup runs the transactions concurrently,
  each at repeatable-read isolation, and they touch disjoint workspaces;
  the model runs them in candidate order.
\<close>

section \<open>Options and eligibility\<close>

record template_schedule_options =
  user_autostart_enabled :: bool
  failure_ttl :: duration
  inactivity_ttl :: duration
  locked_ttl :: duration

type_synonym weekly = "string \<Rightarrow> (time \<Rightarrow> time) option"

definition isEligibleForAutostart ::
  "weekly \<Rightarrow> workspace \<Rightarrow> workspace_build \<Rightarrow> provisioner_job \<Rightarrow> template_schedule_options \<Rightarrow> time \<Rightarrow> bool" where
  "isEligibleForAutostart sched_weekly ws build job templateSchedule currentTick =
     (if ProvisionerJobStatus job = ProvisionerJobFailed then False
      else if nt_valid (ws_locked_at ws) then False
      else if wb_transition build \<noteq> WorkspaceTransitionStop then False
      else if \<not> user_autostart_enabled templateSchedule \<or> \<not> ns_valid (ws_autostart_schedule ws) \<or>
              ns_string (ws_autostart_schedule ws) = [] then False
      else (case sched_weekly (ns_string (ws_autostart_schedule ws)) of
              None \<Rightarrow> False
            | Some next_time \<Rightarrow>
                \<not> time_before currentTick (time_truncate (next_time (wb_created_at build)) minute)))"

definition isEligibleForAutostop ::
  "workspace \<Rightarrow> workspace_build \<Rightarrow> provisioner_job \<Rightarrow> time \<Rightarrow> bool" where
  "isEligibleForAutostop ws build job currentTick =
     (if ProvisionerJobStatus job = ProvisionerJobFailed then False
      else if nt_valid (ws_locked_at ws) then False
      else wb_transition build = WorkspaceTransitionStart \<and>
           \<not> time_is_zero (wb_deadline build) \<and>
           \<not> time_before currentTick (wb_deadline build))"

definition isEligibleForLockedStop ::
  "workspace \<Rightarrow> template_schedule_options \<Rightarrow> time \<Rightarrow> bool" where
  "isEligibleForLockedStop ws templateSchedule currentTick =
     (\<not> nt_valid (ws_locked_at ws) \<and>
      0 < inactivity_ttl templateSchedule \<and>
      inactivity_ttl templateSchedule < time_sub currentTick (ws_last_used_at ws))"

definition isEligibleForDelete ::
  "workspace \<Rightarrow> template_schedule_options \<Rightarrow> time \<Rightarrow> bool" where
  "isEligibleForDelete ws templateSchedule currentTick =
     (nt_valid (ws_locked_at ws) \<and> nt_valid (ws_deleting_at ws) \<and>
      0 < locked_ttl templateSchedule \<and>
      time_after currentTick (nt_time (ws_deleting_at ws)))"

definition isEligibleForFailedStop ::
  "workspace_build \<Rightarrow> provisioner_job \<Rightarrow> template_schedule_options \<Rightarrow> time \<Rightarrow> bool" where
  "isEligibleForFailedStop build job templateSchedule currentTick =
     (0 < failure_ttl templateSchedule \<and>
      ProvisionerJobStatus job = ProvisionerJobFailed \<and>
      wb_transition build = WorkspaceTransitionStart \<and>
      nt_valid (pj_completed_at job) \<and>
      failure_ttl templateSchedule < time_sub currentTick (nt_time (pj_completed_at job)))"

text \<open>
  \<open>getNextTransition\<close>: the first eligible case wins.  The empty transition
  \<open>""\<close> is \<^const>\<open>None\<close>; it comes with the reason \<open>autolock\<close> only, for an
  inactive workspace that is not started.
\<close>

definition getNextTransition ::
  "weekly \<Rightarrow> workspace \<Rightarrow> workspace_build \<Rightarrow> provisioner_job \<Rightarrow> template_schedule_options \<Rightarrow> time \<Rightarrow>
   string + (workspace_transition option \<times> build_reason)" where
  "getNextTransition sched_weekly ws latestBuild latestJob templateSchedule currentTick =
     (if isEligibleForAutostop ws latestBuild latestJob currentTick
      then Inr (Some WorkspaceTransitionStop, BuildReasonAutostop)
      else if isEligibleForAutostart sched_weekly ws latestBuild latestJob templateSchedule currentTick
      then Inr (Some WorkspaceTransitionStart, BuildReasonAutostart)
      else if isEligibleForFailedStop latestBuild latestJob templateSchedule currentTick
      then Inr (Some WorkspaceTransitionStop, BuildReasonAutostop)
      else if isEligibleForLockedStop ws templateSchedule currentTick
      then (if wb_transition latestBuild = WorkspaceTransitionStart
            then Inr (Some WorkspaceTransitionStop, BuildReasonAutolock)
            else Inr (None, BuildReasonAutolock))
      else if isEligibleForDelete ws templateSchedule currentTick
      then Inr (Some WorkspaceTransitionDelete, BuildReasonAutodelete)
      else Inl ''last transition not valid for autostart or autostop'')"

section \<open>One run\<close>

record autobuild_env =
  env_weekly :: weekly
  env_sched_get :: "fake_db \<Rightarrow> uuid \<Rightarrow> template_schedule_options option"
  env_build :: "workspace \<Rightarrow> workspace_transition \<Rightarrow> build_reason \<Rightarrow> fake_db \<Rightarrow> string + fake_db"
  env_now :: time

text \<open>
  The body of the transaction for one candidate id (lines 188--281).  Every
  failure is logged and ends the body with \<open>nil\<close>; the result is the
  transition recorded in \<open>Stats.Transitions\<close>, if any, and the database.
  A failed build returns before the lock, so the workspace stays unlocked.
\<close>

definition transition_ws ::
  "autobuild_env \<Rightarrow> time \<Rightarrow> uuid \<Rightarrow> fake_db \<Rightarrow> workspace_transition option \<times> fake_db" where
  "transition_ws env currentTick wsID tx =
     (case getWorkspaceByID tx wsID of None \<Rightarrow> (None, tx) | Some ws \<Rightarrow>
      case getLatestWorkspaceBuildByWorkspaceID tx (ws_id ws) of None \<Rightarrow> (None, tx) | Some latestBuild \<Rightarrow>
      case env_sched_get env tx (ws_template_id ws) of None \<Rightarrow> (None, tx) | Some templateSchedule \<Rightarrow>
      case getProvisionerJobByID tx (wb_job_id latestBuild) of None \<Rightarrow> (None, tx) | Some latestJob \<Rightarrow>
      case getNextTransition (env_weekly env) ws latestBuild latestJob templateSchedule currentTick of
        Inl err \<Rightarrow> (None, tx)
      | Inr (nextTransition, reason) \<Rightarrow>
          (case (case nextTransition of None \<Rightarrow> Inr tx | Some tr \<Rightarrow> env_build env ws tr reason tx) of
             Inl err \<Rightarrow> (None, tx)
           | Inr tx1 \<Rightarrow>
               (case (if reason = BuildReasonAutolock
                      then map_sum id snd (updateWorkspaceLockedDeletingAt (env_now env) (ws_id ws)
                                             \<lparr>nt_time = env_now env, nt_valid = True\<rparr> tx1)
                      else Inr tx1) of
                  Inl err \<Rightarrow> (None, tx1)
                | Inr tx2 \<Rightarrow> (nextTransition, tx2))))"

record stats =
  st_transitions :: "uuid \<rightharpoonup> workspace_transition"
  st_error :: "string option"

fun run_candidates ::
  "autobuild_env \<Rightarrow> time \<Rightarrow> workspace list \<Rightarrow> (uuid \<rightharpoonup> workspace_transition) \<Rightarrow> fake_db \<Rightarrow>
   (uuid \<rightharpoonup> workspace_transition) \<times> fake_db" where
  "run_candidates env currentTick [] m db = (m, db)"
| "run_candidates env currentTick (w # ws) m db =
     (let (r, db') = inTx (\<lambda>t. (\<lambda>(tr, d). (tr, t\<lparr>tx_db := d\<rparr>))
                                (transition_ws env currentTick (ws_id w) (tx_db t))) db
      in run_candidates env currentTick ws (case r of None \<Rightarrow> m | Some tr \<Rightarrow> m(ws_id w \<mapsto> tr)) db')"

text \<open>
  \<open>runOnce(t)\<close>: the candidates are read with the raw tick \<open>t\<close>, the
  eligibility is decided at \<open>t\<close> truncated to the minute.  A failing
  candidate query ends the run with its error and no transition.
\<close>

definition runOnce :: "autobuild_env \<Rightarrow> time \<Rightarrow> fake_db \<Rightarrow> stats \<times> fake_db" where
  "runOnce env t db =
     (let currentTick = time_truncate t minute
      in case getWorkspacesEligibleForTransition db t of
           Inl err \<Rightarrow> (\<lparr>st_transitions = Map.empty, st_error = Some err\<rparr>, db)
         | Inr workspaces \<Rightarrow>
             (let (m, db') = run_candidates env currentTick workspaces Map.empty db
              in (\<lparr>st_transitions = m, st_error = None\<rparr>, db')))"

text \<open>\<open>Run\<close>: one \<open>runOnce\<close> per tick until the tick channel is closed.\<close>

fun run_ticks :: "autobuild_env \<Rightarrow> time list \<Rightarrow> fake_db \<Rightarrow> stats list \<times> fake_db" where
  "run_ticks env [] db = ([], db)"
| "run_ticks env (t # ts) db =
     (let (s, db') = runOnce env t db; (ss, db'') = run_ticks env ts db' in (s # ss, db''))"

declare isEligibleForAutostart_def [model_defs] isEligibleForAutostop_def [model_defs]
  isEligibleForLockedStop_def [model_defs] isEligibleForDelete_def [model_defs]
  isEligibleForFailedStop_def [model_defs] getNextTransition_def [model_defs]
  transition_ws_def [model_defs] runOnce_def [model_defs]

section \<open>What a run records\<close>

lemma run_candidates_dom:
  "dom (fst (run_candidates env tick ws m db)) \<subseteq> dom m \<union> ws_id ` set ws"
proof (induction ws arbitrary: m db)
  case Nil
  then show ?case by simp
next
  case (Cons w ws)
  obtain r db' where tx: "inTx (\<lambda>t. (\<lambda>(tr, d). (tr, t\<lparr>tx_db := d\<rparr>))
                                (transition_ws env tick (ws_id w) (tx_db t))) db = (r, db')"
    by fastforce
  let ?m = "case r of None \<Rightarrow> m | Some tr \<Rightarrow> m(ws_id w \<mapsto> tr)"
  have eq: "run_candidates env tick (w # ws) m db = run_candidates env tick ws ?m db'"
    using tx by simp
  have "dom ?m \<subseteq> dom m \<union> {ws_id w}" by (auto split: option.splits)
  with Cons.IH [of ?m db'] have "dom (fst (run_candidates env tick ws ?m db')) \<subseteq> dom m \<union> ws_id ` set (w # ws)"
    by auto
  then show ?case by (simp only: eq)
qed

end
