(* ===== verification/ExecutorProps.thy ===== *)
theory ExecutorProps
  imports Autobuild
begin

text \<open>
  Properties of the workspace executor (\<open>src/coderd/deprecated.go\<close>) over
  the database fake (\<open>src/unnamed/part_005\<close>): what the prefilter query
  selects against what \<open>getNextTransition\<close> decides, the guards of each
  transition, the time arithmetic at minute granularity and at the bounds
  of \<open>int64\<close>, the latest-build query, the lock update and the transaction
  locks.  Each property is applied to a small concrete database.
\<close>

section \<open>Example data\<close>

text \<open>
  A small database for the autobuild scenarios: workspace 1 on template 2,
  whose latest build (number 1, id 5) ran job 3.  The template store reads
  the schedule options from the template row with autostart enabled.
\<close>

definition ex_template :: "duration \<Rightarrow> duration \<Rightarrow> duration \<Rightarrow> template" where
  "ex_template fail inact lock =
     \<lparr>tmpl_id = 2, tmpl_created_at = 0, tmpl_updated_at = 0, tmpl_organization_id = 8, tmpl_deleted = False,
      tmpl_name = ''docker'', tmpl_provisioner = ''terraform'', tmpl_active_version_id = 9, tmpl_description = [],
      tmpl_default_ttl = 0, tmpl_created_by = 1, tmpl_icon = [], tmpl_user_acl = [], tmpl_group_acl = [],
      tmpl_display_name = [], tmpl_allow_user_cancel_workspace_jobs = True, tmpl_max_ttl = 0,
      tmpl_allow_user_autostart = True, tmpl_allow_user_autostop = True, tmpl_failure_ttl = fail,
      tmpl_inactivity_ttl = inact, tmpl_locked_ttl = lock, tmpl_restart_requirement_days_of_week = 0,
      tmpl_restart_requirement_weeks = 0\<rparr>"

definition ex_options :: "template \<Rightarrow> template_schedule_options" where
  "ex_options tm = \<lparr>user_autostart_enabled = True, failure_ttl = tmpl_failure_ttl tm,
                    inactivity_ttl = tmpl_inactivity_ttl tm, locked_ttl = tmpl_locked_ttl tm\<rparr>"

definition ex_store :: "fake_db \<Rightarrow> uuid \<Rightarrow> template_schedule_options option" where
  "ex_store db tid = map_option ex_options (getTemplateByID db tid)"

definition ex_ws :: "null_string \<Rightarrow> null_time \<Rightarrow> workspace" where
  "ex_ws sched locked =
     \<lparr>ws_id = 1, ws_created_at = 0, ws_updated_at = 0, ws_owner_id = 7, ws_organization_id = 8,
      ws_template_id = 2, ws_deleted = False, ws_name = ''dev'', ws_autostart_schedule = sched,
      ws_ttl = \<lparr>ni_int = 0, ni_valid = False\<rparr>,
      ws_last_used_at = 0, ws_locked_at = locked, ws_deleting_at = null_time_none\<rparr>"

definition ex_build :: "workspace_transition \<Rightarrow> time \<Rightarrow> workspace_build" where
  "ex_build tr dl =
     \<lparr>wb_id = 5, wb_created_at = 0, wb_updated_at = 0, wb_workspace_id = 1, wb_template_version_id = 9,
      wb_build_number = 1, wb_transition = tr, wb_initiator_id = 7, wb_provisioner_state = [],
      wb_job_id = 3, wb_deadline = dl, wb_reason = BuildReasonInitiator, wb_daily_cost = 0,
      wb_max_deadline = 0\<rparr>"

definition ex_job :: "provisioner_job_status \<Rightarrow> provisioner_job" where
  "ex_job st =
     \<lparr>pj_id = 3, pj_created_at = 0, pj_updated_at = 0, pj_started_at = \<lparr>nt_time = 0, nt_valid = True\<rparr>,
      pj_canceled_at = null_time_none, pj_completed_at = \<lparr>nt_time = 0, nt_valid = True\<rparr>,
      pj_error = \<lparr>ns_string = (if st = ProvisionerJobFailed then ''terraform apply failed'' else []),
                  ns_valid = (st = ProvisionerJobFailed)\<rparr>,
      pj_organization_id = 8, pj_initiator_id = 7, pj_provisioner = ''terraform'', pj_file_id = 10,
      pj_type = ProvisionerJobTypeWorkspaceBuild, pj_worker_id = None, pj_tags = []\<rparr>"

definition ex_db :: "workspace \<Rightarrow> workspace_build \<Rightarrow> provisioner_job \<Rightarrow> template \<Rightarrow> fake_db" where
  "ex_db w b j tm = New\<lparr>db_jobs := [j], db_templates := [tm], db_builds := [b], db_workspaces := [w]\<rparr>"

definition ex_env :: autobuild_env where
  "ex_env = \<lparr>env_weekly = (\<lambda>_. None), env_sched_get = ex_store,
             env_build = (\<lambda>ws tr r db. Inr db), env_now = 0\<rparr>"

definition ex_no_schedule :: null_string where
  "ex_no_schedule = \<lparr>ns_string = [], ns_valid = False\<rparr>"

definition ex_hourly :: weekly where
  "ex_hourly s = (if s = ''CRON_TZ=UTC 0 * * * *'' then Some (\<lambda>t. t + 60 * minute) else None)"

lemmas ex_defs = ex_template_def ex_options_def ex_store_def ex_ws_def ex_build_def ex_job_def ex_db_def
  ex_env_def ex_no_schedule_def ex_hourly_def null_time_none_def ProvisionerJobStatus_def New_def

text \<open>
  C6.  The prefilter query misses no workspace the executor would move: if
  the query succeeds at tick \<open>t\<close> and \<open>getNextTransition\<close> at \<open>t\<close>
  truncated to the minute yields a transition for a workspace of the table
  (its build, job and template read from the same database, the schedule
  options agreeing with the template), the workspace is a candidate, unless
  its deadline is exactly \<open>t\<close> and \<open>t\<close> is a whole minute.
\<close>

theorem prefilter_complete:
  assumes q: "getWorkspacesEligibleForTransition db t = Inr cands"
    and w: "w \<in> set (db_workspaces db)"
    and b: "getLatestWorkspaceBuildByWorkspaceID db (ws_id w) = Some b"
    and j: "getProvisionerJobByID db (wb_job_id b) = Some j"
    and tm: "getTemplateByID db (ws_template_id w) = Some tm"
    and ttl: "inactivity_ttl ts = tmpl_inactivity_ttl tm" "locked_ttl ts = tmpl_locked_ttl tm"
    and nt: "getNextTransition wk w b j ts (time_truncate t minute) = Inr (tr, r)"
  shows "w \<in> set cands \<or> (wb_deadline b = t \<and> time_truncate t minute = t)"
proof -
  have cands: "cands = filter (\<lambda>w. prefilter_keep db t w = Inr True) (db_workspaces db)"
    using q by (simp add: getWorkspacesEligibleForTransition_def eligible_for_transition_Inr)
  have le: "time_truncate t minute \<le> t" by (rule time_truncate_le)
  have "prefilter_keep db t w = Inr True \<or> (wb_deadline b = t \<and> time_truncate t minute = t)"
    using nt le b j tm ttl
    by (auto simp: getNextTransition_def isEligibleForAutostop_def isEligibleForAutostart_def
                   isEligibleForFailedStop_def isEligibleForLockedStop_def isEligibleForDelete_def
                   prefilter_keep_def time_before_def split: if_splits option.splits)
  with w show ?thesis by (auto simp: cands)
qed

theorem prefilter_complete_witness:
  "getWorkspacesEligibleForTransition (ex_db (ex_ws ex_no_schedule null_time_none)
      (ex_build WorkspaceTransitionStart 1) (ex_job ProvisionerJobSucceeded) (ex_template 0 0 0)) minute
     = Inr [ex_ws ex_no_schedule null_time_none] \<and>
   ex_ws ex_no_schedule null_time_none \<in> set [ex_ws ex_no_schedule null_time_none]"
proof -
  let ?db = "ex_db (ex_ws ex_no_schedule null_time_none) (ex_build WorkspaceTransitionStart 1)
               (ex_job ProvisionerJobSucceeded) (ex_template 0 0 0)"
  have q: "getWorkspacesEligibleForTransition ?db minute = Inr [ex_ws ex_no_schedule null_time_none]"
    by (simp add: ex_defs getWorkspacesEligibleForTransition_def getLatestWorkspaceBuildByWorkspaceID_def
                  latest_step_def time_is_zero_def time_before_def minute_def second_def)
  have b: "getLatestWorkspaceBuildByWorkspaceID ?db (ws_id (ex_ws ex_no_schedule null_time_none))
             = Some (ex_build WorkspaceTransitionStart 1)"
    by (simp add: ex_defs getLatestWorkspaceBuildByWorkspaceID_def latest_step_def)
  have j: "getProvisionerJobByID ?db (wb_job_id (ex_build WorkspaceTransitionStart 1)) = Some (ex_job ProvisionerJobSucceeded)"
    by (simp add: ex_defs getProvisionerJobByID_def)
  have tm: "getTemplateByID ?db (ws_template_id (ex_ws ex_no_schedule null_time_none)) = Some (ex_template 0 0 0)"
    by (simp add: ex_defs getTemplateByID_def)
  have nt: "getNextTransition (\<lambda>_. None) (ex_ws ex_no_schedule null_time_none) (ex_build WorkspaceTransitionStart 1)
              (ex_job ProvisionerJobSucceeded) (ex_options (ex_template 0 0 0)) (time_truncate minute minute)
            = Inr (Some WorkspaceTransitionStop, BuildReasonAutostop)"
    by (simp add: ex_defs getNextTransition_def isEligibleForAutostop_def time_truncate_def
                  time_is_zero_def time_before_def minute_def second_def)
  have "ex_ws ex_no_schedule null_time_none \<in> set [ex_ws ex_no_schedule null_time_none] \<or>
        (wb_deadline (ex_build WorkspaceTransitionStart 1) = minute \<and> time_truncate minute minute = minute)"
    by (rule prefilter_complete [OF q _ b j tm _ _ nt]) (simp_all add: ex_defs)
  with q show ?thesis by simp
qed

text \<open>
  C7.  The exception to prefilter completeness happens in every store: an
  unlocked workspace whose started build has a whole-minute deadline \<open>t\<close>,
  whose job has not failed and whose template has no inactivity TTL, is
  due for autostop at tick \<open>t\<close>, but the prefilter
  (\<open>Deadline.Before(now)\<close>, strict, on the raw tick) skips it, so the run
  at \<open>t\<close> records no transition for it; at the next instant the prefilter
  keeps it.
\<close>

theorem autostop_deadline_on_tick:
  assumes q: "getWorkspacesEligibleForTransition db t = Inr cands"
    and w: "w \<in> set (db_workspaces db)" and ids: "distinct (map ws_id (db_workspaces db))"
    and b: "getLatestWorkspaceBuildByWorkspaceID db (ws_id w) = Some b"
    and j: "getProvisionerJobByID db (wb_job_id b) = Some j"
    and tm: "getTemplateByID db (ws_template_id w) = Some tm"
    and start: "wb_transition b = WorkspaceTransitionStart"
    and dl: "wb_deadline b = t" "\<not> time_is_zero t" "time_truncate t minute = t"
    and ok: "ProvisionerJobStatus j \<noteq> ProvisionerJobFailed" "\<not> nt_valid (ws_locked_at w)"
      "tmpl_inactivity_ttl tm \<le> 0"
  shows "getNextTransition wk w b j ts (time_truncate t minute) =
           Inr (Some WorkspaceTransitionStop, BuildReasonAutostop) \<and>
         ws_id w \<notin> dom (st_transitions (fst (runOnce env t db))) \<and>
         prefilter_keep db (t + 1) w = Inr True"
proof -
  have nt: "getNextTransition wk w b j ts (time_truncate t minute) =
              Inr (Some WorkspaceTransitionStop, BuildReasonAutostop)"
    using start dl ok by (simp add: getNextTransition_def isEligibleForAutostop_def time_before_def)
  have skip: "prefilter_keep db t w = Inr False"
    using b j tm start dl ok by (simp add: prefilter_keep_def time_before_def)
  have cands: "cands = filter (\<lambda>w. prefilter_keep db t w = Inr True) (db_workspaces db)"
    using q by (simp add: getWorkspacesEligibleForTransition_def eligible_for_transition_Inr)
  have "ws_id w \<notin> ws_id ` set cands"
  proof
    assume "ws_id w \<in> ws_id ` set cands"
    then obtain w' where w': "w' \<in> set (db_workspaces db)" "prefilter_keep db t w' = Inr True"
      "ws_id w' = ws_id w" by (auto simp: cands)
    then have "w' = w" using w ids by (auto simp: distinct_map dest: inj_onD)
    with w' skip show False by simp
  qed
  moreover have "dom (st_transitions (fst (runOnce env t db))) \<subseteq> ws_id ` set cands"
    using q run_candidates_dom [of env "time_truncate t minute" cands Map.empty db]
    by (simp add: runOnce_def case_prod_unfold Let_def)
  moreover have "prefilter_keep db (t + 1) w = Inr True"
    using b start dl ok by (simp add: prefilter_keep_def time_before_def)
  ultimately show ?thesis using nt by blast
qed

theorem autostop_deadline_on_tick_witness:
  "getNextTransition (\<lambda>_. None) (ex_ws ex_no_schedule null_time_none)
      (ex_build WorkspaceTransitionStart minute) (ex_job ProvisionerJobSucceeded)
      (ex_options (ex_template 0 0 0)) (time_truncate minute minute)
     = Inr (Some WorkspaceTransitionStop, BuildReasonAutostop) \<and>
   1 \<notin> dom (st_transitions (fst (runOnce ex_env minute
      (ex_db (ex_ws ex_no_schedule null_time_none) (ex_build WorkspaceTransitionStart minute)
             (ex_job ProvisionerJobSucceeded) (ex_template 0 0 0))))) \<and>
   prefilter_keep (ex_db (ex_ws ex_no_schedule null_time_none) (ex_build WorkspaceTransitionStart minute)
             (ex_job ProvisionerJobSucceeded) (ex_template 0 0 0)) (minute + 1)
      (ex_ws ex_no_schedule null_time_none) = Inr True"
proof -
  let ?db = "ex_db (ex_ws ex_no_schedule null_time_none) (ex_build WorkspaceTransitionStart minute)
               (ex_job ProvisionerJobSucceeded) (ex_template 0 0 0)"
  have q: "getWorkspacesEligibleForTransition ?db minute = Inr []"
    by (simp add: ex_defs getWorkspacesEligibleForTransition_def getLatestWorkspaceBuildByWorkspaceID_def
                  latest_step_def getProvisionerJobByID_def getTemplateByID_def
                  time_is_zero_def time_before_def minute_def second_def)
  have b: "getLatestWorkspaceBuildByWorkspaceID ?db (ws_id (ex_ws ex_no_schedule null_time_none)) =
             Some (ex_build WorkspaceTransitionStart minute)"
    by (simp add: ex_defs getLatestWorkspaceBuildByWorkspaceID_def latest_step_def)
  have j: "getProvisionerJobByID ?db (wb_job_id (ex_build WorkspaceTransitionStart minute)) =
             Some (ex_job ProvisionerJobSucceeded)"
    by (simp add: ex_defs getProvisionerJobByID_def)
  have tm: "getTemplateByID ?db (ws_template_id (ex_ws ex_no_schedule null_time_none)) = Some (ex_template 0 0 0)"
    by (simp add: ex_defs getTemplateByID_def)
  have tr: "time_truncate minute minute = minute"
    by (simp add: time_truncate_def minute_def second_def)
  show ?thesis
    using autostop_deadline_on_tick [OF q _ _ b j tm _ _ _ tr, of "\<lambda>_. None" "ex_options (ex_template 0 0 0)" ex_env]
    by (simp add: ex_defs time_is_zero_def minute_def second_def)
qed

text \<open>
  A locked workspace is never autostarted, autostopped for its
  deadline, or locked again: its only transitions are the deletion once
  its locked TTL has run out, and the stop of a failed start, which
  \<open>isEligibleForFailedStop\<close> decides without looking at the lock.
\<close>

theorem locked_ws_transitions:
  assumes "nt_valid (ws_locked_at ws)"
    and "getNextTransition wk ws b j ts t = Inr (tr, r)"
  shows "(tr = Some WorkspaceTransitionDelete \<and> r = BuildReasonAutodelete) \<or>
         (tr = Some WorkspaceTransitionStop \<and> r = BuildReasonAutostop \<and>
          ProvisionerJobStatus j = ProvisionerJobFailed \<and> wb_transition b = WorkspaceTransitionStart)"
  using assms
  by (simp add: getNextTransition_def isEligibleForAutostop_def isEligibleForAutostart_def
                isEligibleForFailedStop_def isEligibleForLockedStop_def split: if_splits)

theorem locked_ws_transitions_witness:
  "getNextTransition (\<lambda>_. None) (ex_ws ex_no_schedule \<lparr>nt_time = 5, nt_valid = True\<rparr>)
      (ex_build WorkspaceTransitionStart 0) (ex_job ProvisionerJobFailed)
      (ex_options (ex_template 1 0 0)) 10
     = Inr (Some WorkspaceTransitionStop, BuildReasonAutostop) \<and>
   ProvisionerJobStatus (ex_job ProvisionerJobFailed) = ProvisionerJobFailed"
proof -
  have nt: "getNextTransition (\<lambda>_. None) (ex_ws ex_no_schedule \<lparr>nt_time = 5, nt_valid = True\<rparr>)
      (ex_build WorkspaceTransitionStart 0) (ex_job ProvisionerJobFailed)
      (ex_options (ex_template 1 0 0)) 10 = Inr (Some WorkspaceTransitionStop, BuildReasonAutostop)"
    by (simp add: ex_defs getNextTransition_def isEligibleForAutostop_def isEligibleForAutostart_def
                  isEligibleForFailedStop_def time_sub_def duration_min_def duration_max_def)
  have "(Some WorkspaceTransitionStop = Some WorkspaceTransitionDelete \<and> BuildReasonAutostop = BuildReasonAutodelete) \<or>
        (Some WorkspaceTransitionStop = Some WorkspaceTransitionStop \<and> BuildReasonAutostop = BuildReasonAutostop \<and>
         ProvisionerJobStatus (ex_job ProvisionerJobFailed) = ProvisionerJobFailed \<and>
         wb_transition (ex_build WorkspaceTransitionStart 0) = WorkspaceTransitionStart)"
    by (rule locked_ws_transitions [OF _ nt]) (simp add: ex_defs)
  with nt show ?thesis by simp
qed

text \<open>
  An autostart is decided only for a stopped, unlocked workspace whose
  last job did not fail, on a template that allows autostart, whose
  schedule parses, and whose next scheduled start after the last build,
  truncated to the minute, is not after the tick.
\<close>

theorem autostart_guard:
  assumes "getNextTransition wk ws b j ts t = Inr (Some WorkspaceTransitionStart, r)"
  shows "r = BuildReasonAutostart \<and> wb_transition b = WorkspaceTransitionStop \<and>
         \<not> nt_valid (ws_locked_at ws) \<and> ProvisionerJobStatus j \<noteq> ProvisionerJobFailed \<and>
         user_autostart_enabled ts \<and>
         (\<exists>next_time. wk (ns_string (ws_autostart_schedule ws)) = Some next_time \<and>
                      time_truncate (next_time (wb_created_at b)) minute \<le> t)"
proof -
  have "isEligibleForAutostart wk ws b j ts t" and "r = BuildReasonAutostart"
    using assms by (simp_all add: getNextTransition_def split: if_splits)
  then show ?thesis
    by (simp add: isEligibleForAutostart_def time_before_def not_less split: if_splits option.splits)
qed

theorem autostart_guard_witness:
  "getNextTransition ex_hourly (ex_ws \<lparr>ns_string = ''CRON_TZ=UTC 0 * * * *'', ns_valid = True\<rparr> null_time_none)
      (ex_build WorkspaceTransitionStop 0) (ex_job ProvisionerJobSucceeded)
      (ex_options (ex_template 0 0 0)) (60 * minute)
     = Inr (Some WorkspaceTransitionStart, BuildReasonAutostart) \<and>
   user_autostart_enabled (ex_options (ex_template 0 0 0))"
proof -
  have nt: "getNextTransition ex_hourly (ex_ws \<lparr>ns_string = ''CRON_TZ=UTC 0 * * * *'', ns_valid = True\<rparr> null_time_none)
      (ex_build WorkspaceTransitionStop 0) (ex_job ProvisionerJobSucceeded)
      (ex_options (ex_template 0 0 0)) (60 * minute) = Inr (Some WorkspaceTransitionStart, BuildReasonAutostart)"
    by (simp add: ex_defs getNextTransition_def isEligibleForAutostop_def isEligibleForAutostart_def
                  time_truncate_def time_before_def minute_def second_def)
  show ?thesis using autostart_guard [OF nt] nt by simp
qed

text \<open>
  Truncating the tick to the minute does not change the autostart
  decision: the scheduled start is itself truncated to the minute, and a
  whole minute is before the truncated tick iff it is before the tick (the
  source's comment calls the truncation ``probably not necessary'').
\<close>

theorem autostart_truncated_tick:
  "isEligibleForAutostart wk ws b j ts (time_truncate t minute) = isEligibleForAutostart wk ws b j ts t"
  by (simp add: isEligibleForAutostart_def time_before_def not_less time_truncate_multiple
                time_truncate_mod split: option.split)

theorem autostart_truncated_tick_witness:
  "isEligibleForAutostart ex_hourly (ex_ws \<lparr>ns_string = ''CRON_TZ=UTC 0 * * * *'', ns_valid = True\<rparr> null_time_none)
      (ex_build WorkspaceTransitionStop 0) (ex_job ProvisionerJobSucceeded) (ex_options (ex_template 0 0 0))
      (time_truncate (60 * minute + 59 * second) minute)"
proof -
  have "isEligibleForAutostart ex_hourly (ex_ws \<lparr>ns_string = ''CRON_TZ=UTC 0 * * * *'', ns_valid = True\<rparr> null_time_none)
      (ex_build WorkspaceTransitionStop 0) (ex_job ProvisionerJobSucceeded) (ex_options (ex_template 0 0 0))
      (60 * minute + 59 * second)"
    by (simp add: ex_defs isEligibleForAutostart_def time_truncate_def time_before_def minute_def second_def)
  then show ?thesis by (simp only: autostart_truncated_tick)
qed

text \<open>
  \<open>Time.Sub\<close> saturates at the bounds of \<open>int64\<close>, and the inactivity
  test survives it: for every TTL below the largest duration, a workspace is
  eligible for the locked stop iff it is unlocked, the TTL is positive, and
  its last use plus the TTL is before the tick, computed without bounds.
\<close>

theorem locked_stop_saturation:
  assumes "inactivity_ttl ts < duration_max"
  shows "isEligibleForLockedStop ws ts t \<longleftrightarrow>
           \<not> nt_valid (ws_locked_at ws) \<and> 0 < inactivity_ttl ts \<and>
           ws_last_used_at ws + inactivity_ttl ts < t"
  using assms time_sub_gt_iff [of "inactivity_ttl ts" t "ws_last_used_at ws"]
  by (auto simp: isEligibleForLockedStop_def)

theorem locked_stop_saturation_witness:
  "inactivity_ttl (ex_options (ex_template 0 (60 * minute) 0)) < duration_max \<and>
   time_sub (2 ^ 64) (ws_last_used_at (ex_ws ex_no_schedule null_time_none)) = duration_max \<and>
   isEligibleForLockedStop (ex_ws ex_no_schedule null_time_none) (ex_options (ex_template 0 (60 * minute) 0)) (2 ^ 64)"
proof -
  have ttl: "inactivity_ttl (ex_options (ex_template 0 (60 * minute) 0)) < duration_max"
    by (simp add: ex_defs duration_max_def minute_def second_def)
  have sat: "time_sub (2 ^ 64) (ws_last_used_at (ex_ws ex_no_schedule null_time_none)) = duration_max"
    by (simp add: ex_defs time_sub_def duration_min_def duration_max_def)
  have "isEligibleForLockedStop (ex_ws ex_no_schedule null_time_none) (ex_options (ex_template 0 (60 * minute) 0)) (2 ^ 64)"
    by (simp add: locked_stop_saturation [OF ttl]) (simp add: ex_defs minute_def second_def)
  with ttl sat show ?thesis by simp
qed

text \<open>
  \<open>getNextTransition\<close> returns the empty transition only with the reason
  \<open>autolock\<close>, for an unlocked workspace that breached a positive inactivity
  TTL and whose last build is not a start: it is locked without a build.
\<close>

theorem empty_transition_only_lock:
  assumes "getNextTransition wk ws b j ts t = Inr (None, r)"
  shows "r = BuildReasonAutolock \<and> wb_transition b \<noteq> WorkspaceTransitionStart \<and>
         isEligibleForLockedStop ws ts t"
  using assms
  by (simp add: getNextTransition_def split: if_splits)

theorem empty_transition_only_lock_witness:
  "getNextTransition (\<lambda>_. None) (ex_ws ex_no_schedule null_time_none)
      (ex_build WorkspaceTransitionStop 0) (ex_job ProvisionerJobSucceeded)
      (ex_options (ex_template 0 1 0)) 10 = Inr (None, BuildReasonAutolock) \<and>
   isEligibleForLockedStop (ex_ws ex_no_schedule null_time_none) (ex_options (ex_template 0 1 0)) 10"
proof -
  have nt: "getNextTransition (\<lambda>_. None) (ex_ws ex_no_schedule null_time_none)
      (ex_build WorkspaceTransitionStop 0) (ex_job ProvisionerJobSucceeded)
      (ex_options (ex_template 0 1 0)) 10 = Inr (None, BuildReasonAutolock)"
    by (simp add: ex_defs getNextTransition_def isEligibleForAutostop_def isEligibleForAutostart_def
                  isEligibleForFailedStop_def isEligibleForLockedStop_def time_sub_def
                  duration_min_def duration_max_def)
  show ?thesis using empty_transition_only_lock [OF nt] nt by simp
qed

text \<open>
  The latest-build scan of the database fake meets its contract: it
  finds nothing iff every build of the workspace has a negative number, and
  what it finds is a build of the workspace, with a non-negative number, no
  smaller than the number of any other build of that workspace.
\<close>

theorem latest_build_spec:
  "(getLatestWorkspaceBuildByWorkspaceID db wid = None \<longleftrightarrow>
      (\<forall>b \<in> set (db_builds db). wb_workspace_id b = wid \<longrightarrow> wb_build_number b < 0)) \<and>
   (\<forall>r. getLatestWorkspaceBuildByWorkspaceID db wid = Some r \<longrightarrow>
      r \<in> set (db_builds db) \<and> wb_workspace_id r = wid \<and> 0 \<le> wb_build_number r \<and>
      (\<forall>b \<in> set (db_builds db). wb_workspace_id b = wid \<longrightarrow> wb_build_number b \<le> wb_build_number r))"
proof -
  obtain row n where f: "fold (latest_step wid) (db_builds db) (None, -1) = (row, n)" by fastforce
  have "latest_inv wid (None, -1)" by (simp add: latest_inv_def)
  then have inv: "latest_inv wid (row, n)" using latest_inv_fold f by metis
  have up: "\<forall>b \<in> set (db_builds db). wb_workspace_id b = wid \<longrightarrow> wb_build_number b \<le> n"
    using latest_fold_upper [of _ "db_builds db" wid "(None, -1)"] f by auto
  have mem: "\<forall>r. row = Some r \<longrightarrow> r \<in> set (db_builds db)"
    using latest_fold_member [of wid "db_builds db" "(None, -1)"] f by auto
  have res: "getLatestWorkspaceBuildByWorkspaceID db wid = row"
    using f inv by (auto simp: getLatestWorkspaceBuildByWorkspaceID_def latest_inv_def)
  have none: "getLatestWorkspaceBuildByWorkspaceID db wid = None \<longleftrightarrow>
          (\<forall>b \<in> set (db_builds db). wb_workspace_id b = wid \<longrightarrow> wb_build_number b < 0)"
    using inv up mem unfolding res latest_inv_def by fastforce
  have some: "\<forall>r. getLatestWorkspaceBuildByWorkspaceID db wid = Some r \<longrightarrow>
      r \<in> set (db_builds db) \<and> wb_workspace_id r = wid \<and> 0 \<le> wb_build_number r \<and>
      (\<forall>b \<in> set (db_builds db). wb_workspace_id b = wid \<longrightarrow> wb_build_number b \<le> wb_build_number r)"
    using inv up mem unfolding res latest_inv_def by auto
  from none some show ?thesis by blast
qed

theorem latest_build_spec_witness:
  "getLatestWorkspaceBuildByWorkspaceID
      (New\<lparr>db_builds := [ex_build WorkspaceTransitionStart 0,
                           (ex_build WorkspaceTransitionStop 0)\<lparr>wb_id := 6, wb_build_number := 2\<rparr>]\<rparr>) 1
     = Some ((ex_build WorkspaceTransitionStop 0)\<lparr>wb_id := 6, wb_build_number := 2\<rparr>) \<and>
   0 \<le> wb_build_number ((ex_build WorkspaceTransitionStop 0)\<lparr>wb_id := 6, wb_build_number := 2\<rparr>)"
proof -
  have r: "getLatestWorkspaceBuildByWorkspaceID
      (New\<lparr>db_builds := [ex_build WorkspaceTransitionStart 0,
                           (ex_build WorkspaceTransitionStop 0)\<lparr>wb_id := 6, wb_build_number := 2\<rparr>]\<rparr>) 1
     = Some ((ex_build WorkspaceTransitionStop 0)\<lparr>wb_id := 6, wb_build_number := 2\<rparr>)"
    by (simp add: ex_defs getLatestWorkspaceBuildByWorkspaceID_def latest_step_def)
  show ?thesis using latest_build_spec [where wid = 1] r by auto
qed

text \<open>
  \<open>InTx\<close> releases every advisory lock its body took, whether the body
  ends normally or with an \<open>AcquireLock\<close> error: after the transaction the
  lock table is what it was before.
\<close>

theorem inTx_releases_locks:
  "db_locks (snd (inTx (lock_calls cs) db)) = db_locks db"
proof -
  have "tx_locks_ok (db_locks db) \<lparr>tx_db = db, tx_locks = {}\<rparr>" by (simp add: tx_locks_ok_def)
  then have "tx_locks_ok (db_locks db) (snd (lock_calls cs \<lparr>tx_db = db, tx_locks = {}\<rparr>))"
    by (rule tx_locks_ok_calls)
  then show ?thesis by (simp add: inTx_def case_prod_unfold Let_def release_tx_locks_ok)
qed

theorem inTx_releases_locks_witness:
  "db_locks (snd (inTx (lock_calls [CallAcquireLock 7, CallTryAcquireLock 8, CallAcquireLock 7])
                        (ex_db (ex_ws ex_no_schedule null_time_none) (ex_build WorkspaceTransitionStop 0)
                               (ex_job ProvisionerJobSucceeded) (ex_template 0 0 0)))) = {}"
  using inTx_releases_locks [of "[CallAcquireLock 7, CallTryAcquireLock 8, CallAcquireLock 7]"]
  by (simp add: ex_db_def New_def)

text \<open>
  The autolock of a workspace that is not started: when every lookup
  of the transaction succeeds and \<open>getNextTransition\<close> yields the empty
  transition with reason \<open>autolock\<close>, no build is started and no transition is
  recorded, and the workspace row is locked at \<open>database.Now()\<close> with its
  deletion due \<open>LockedTTL\<close> later when the template has one (its previous
  \<open>DeletingAt\<close> kept otherwise).
\<close>

theorem autolock_locks_workspace:
  assumes ws: "getWorkspaceByID db i = Some ws"
    and b: "getLatestWorkspaceBuildByWorkspaceID db (ws_id ws) = Some b"
    and ts: "env_sched_get env db (ws_template_id ws) = Some ts"
    and j: "getProvisionerJobByID db (wb_job_id b) = Some j"
    and nt: "getNextTransition (env_weekly env) ws b j ts tick = Inr (None, BuildReasonAutolock)"
    and tm: "getTemplateByID db (ws_template_id ws) = Some tm" "tmpl_id tm \<noteq> uuid_nil"
    and now: "\<not> time_is_zero (env_now env)"
  shows "fst (transition_ws env tick i db) = None \<and>
         getWorkspaceByID (snd (transition_ws env tick i db)) i =
           Some (ws\<lparr>ws_locked_at := \<lparr>nt_time = env_now env, nt_valid = True\<rparr>,
                    ws_deleting_at := (if 0 < tmpl_locked_ttl tm
                                       then \<lparr>nt_time = env_now env + tmpl_locked_ttl tm, nt_valid = True\<rparr>
                                       else ws_deleting_at ws)\<rparr>)"
proof -
  let ?w' = "ws\<lparr>ws_locked_at := \<lparr>nt_time = env_now env, nt_valid = True\<rparr>,
                 ws_deleting_at := (if 0 < tmpl_locked_ttl tm
                                    then \<lparr>nt_time = env_now env + tmpl_locked_ttl tm, nt_valid = True\<rparr>
                                    else ws_deleting_at ws)\<rparr>"
  have id: "ws_id ws = i" using ws by (rule getWorkspaceByID_id)
  have lr: "lock_row db (env_now env) \<lparr>nt_time = env_now env, nt_valid = True\<rparr> ws = Inr ?w'"
    using tm now by (simp add: lock_row_set getTemplateByID_def)
  obtain xs' where up: "update_row i (lock_row db (env_now env) \<lparr>nt_time = env_now env, nt_valid = True\<rparr>)
                          (db_workspaces db) = Inr (?w', xs')"
             and fd: "find (\<lambda>w. ws_id w = i) xs' = Some ?w'"
    using update_row_found [of i "db_workspaces db" ws "lock_row db (env_now env) \<lparr>nt_time = env_now env, nt_valid = True\<rparr>" ?w'] ws lr id
    by (auto simp: getWorkspaceByID_def)
  have "transition_ws env tick i db = (None, db\<lparr>db_workspaces := xs'\<rparr>)"
    using ws b ts j nt up id by (simp add: transition_ws_def updateWorkspaceLockedDeletingAt_def)
  then show ?thesis using fd by (simp add: getWorkspaceByID_def)
qed


theorem autolock_locks_workspace_witness:
  "getWorkspaceByID (snd (transition_ws (ex_env\<lparr>env_now := 100\<rparr>) 10 1
      (ex_db (ex_ws ex_no_schedule null_time_none) (ex_build WorkspaceTransitionStop 0)
             (ex_job ProvisionerJobSucceeded) (ex_template 0 1 5)))) 1 =
   Some ((ex_ws ex_no_schedule null_time_none)\<lparr>ws_locked_at := \<lparr>nt_time = 100, nt_valid = True\<rparr>,
                                                ws_deleting_at := \<lparr>nt_time = 105, nt_valid = True\<rparr>\<rparr>)"
proof -
  let ?db = "ex_db (ex_ws ex_no_schedule null_time_none) (ex_build WorkspaceTransitionStop 0)
                   (ex_job ProvisionerJobSucceeded) (ex_template 0 1 5)"
  let ?env = "ex_env\<lparr>env_now := 100\<rparr>"
  have ws: "getWorkspaceByID ?db 1 = Some (ex_ws ex_no_schedule null_time_none)"
    by (simp add: ex_defs getWorkspaceByID_def)
  have b: "getLatestWorkspaceBuildByWorkspaceID ?db (ws_id (ex_ws ex_no_schedule null_time_none))
             = Some (ex_build WorkspaceTransitionStop 0)"
    by (simp add: ex_defs getLatestWorkspaceBuildByWorkspaceID_def latest_step_def)
  have ts: "env_sched_get ?env ?db (ws_template_id (ex_ws ex_no_schedule null_time_none))
              = Some (ex_options (ex_template 0 1 5))"
    by (simp add: ex_env_def ex_store_def ex_defs getTemplateByID_def)
  have j: "getProvisionerJobByID ?db (wb_job_id (ex_build WorkspaceTransitionStop 0)) = Some (ex_job ProvisionerJobSucceeded)"
    by (simp add: ex_defs getProvisionerJobByID_def)
  have nt: "getNextTransition (env_weekly ?env) (ex_ws ex_no_schedule null_time_none) (ex_build WorkspaceTransitionStop 0)
              (ex_job ProvisionerJobSucceeded) (ex_options (ex_template 0 1 5)) 10 = Inr (None, BuildReasonAutolock)"
    by (simp add: ex_defs getNextTransition_def isEligibleForAutostop_def isEligibleForAutostart_def
                  isEligibleForFailedStop_def isEligibleForLockedStop_def time_sub_def
                  duration_min_def duration_max_def)
  have tm: "getTemplateByID ?db (ws_template_id (ex_ws ex_no_schedule null_time_none)) = Some (ex_template 0 1 5)"
    by (simp add: ex_defs getTemplateByID_def)
  have nil: "tmpl_id (ex_template 0 1 5) \<noteq> uuid_nil" by (simp add: ex_defs uuid_nil_def)
  have now: "\<not> time_is_zero (env_now ?env)" by (simp add: time_is_zero_def)
  show ?thesis
    using autolock_locks_workspace [OF ws b ts j nt tm nil now] by (simp add: ex_defs)
qed

text \<open>
  A run whose candidate query succeeds reports no error and records
  transitions only for workspaces the query returned.
\<close>

theorem runOnce_only_candidates:
  assumes "getWorkspacesEligibleForTransition db t = Inr cands"
  shows "st_error (fst (runOnce env t db)) = None \<and>
         dom (st_transitions (fst (runOnce env t db))) \<subseteq> ws_id ` set cands"
  using assms run_candidates_dom [of env "time_truncate t minute" cands Map.empty db]
  by (simp add: runOnce_def case_prod_unfold Let_def)

theorem runOnce_only_candidates_witness:
  "getWorkspacesEligibleForTransition
      (ex_db (ex_ws ex_no_schedule null_time_none) (ex_build WorkspaceTransitionStart minute)
             (ex_job ProvisionerJobSucceeded) (ex_template 0 0 0)) (minute + 1)
     = Inr [ex_ws ex_no_schedule null_time_none] \<and>
   dom (st_transitions (fst (runOnce ex_env (minute + 1)
      (ex_db (ex_ws ex_no_schedule null_time_none) (ex_build WorkspaceTransitionStart minute)
             (ex_job ProvisionerJobSucceeded) (ex_template 0 0 0))))) \<subseteq> {1}"
proof -
  have q: "getWorkspacesEligibleForTransition
      (ex_db (ex_ws ex_no_schedule null_time_none) (ex_build WorkspaceTransitionStart minute)
             (ex_job ProvisionerJobSucceeded) (ex_template 0 0 0)) (minute + 1)
     = Inr [ex_ws ex_no_schedule null_time_none]"
    by (simp add: ex_defs getWorkspacesEligibleForTransition_def getLatestWorkspaceBuildByWorkspaceID_def
                  latest_step_def time_is_zero_def time_before_def minute_def second_def)
  show ?thesis using runOnce_only_candidates [OF q, of ex_env] q by (simp add: ex_defs)
qed

end
