(* ===== verification/WorkspaceApps.thy ===== *)
theory WorkspaceApps
  imports Prelude
begin

text \<open>
  The error pages of workspace applications
  (\<open>src/coderd/workspaceapps/errors.go\<close>): \<open>WriteWorkspaceApp404\<close>,
  \<open>WriteWorkspaceApp500\<close> and \<open>WriteWorkspaceAppOffline\<close>.  Each logs the
  request's identifying fields when it is given one and renders a static
  page (\<open>site.RenderStaticErrorPage\<close>, not under \<open>src/\<close>) from an
  \<open>ErrorPageData\<close>.  The effect of a writer is the list of log entries it
  emits and the page data it renders; \<open>slog.Helper\<close> and the context are
  not modelled.
\<close>

record app_request =
  UsernameOrID :: string
  WorkspaceAndAgent :: string
  WorkspaceNameOrID :: string
  AgentNameOrID :: string
  AppSlugOrPort :: string

datatype log_level = LevelDebug | LevelWarn

record log_entry =
  entry_level :: log_level
  entry_message :: string
  entry_fields :: "(string \<times> string) list"

record error_page_data =
  Status :: nat
  Title :: string
  Description :: string
  RetryEnabled :: bool
  DashboardURL :: string

text \<open>The request fields as the 404 and offline writers log them.\<close>

definition request_fields :: "app_request \<Rightarrow> (string \<times> string) list" where
  "request_fields appReq =
     [(''username_or_id'', UsernameOrID appReq),
      (''workspace_and_agent'', WorkspaceAndAgent appReq),
      (''workspace_name_or_id'', WorkspaceNameOrID appReq),
      (''agent_name_or_id'', AgentNameOrID appReq),
      (''app_slug_or_port'', AppSlugOrPort appReq)]"

text \<open>The 500 writer adds them to the context under a different last key.\<close>

definition request_fields_500 :: "app_request \<Rightarrow> (string \<times> string) list" where
  "request_fields_500 appReq =
     [(''username_or_id'', UsernameOrID appReq),
      (''workspace_and_agent'', WorkspaceAndAgent appReq),
      (''workspace_name_or_id'', WorkspaceNameOrID appReq),
      (''agent_name_or_id'', AgentNameOrID appReq),
      (''app_name_or_port'', AppSlugOrPort appReq)]"

definition WriteWorkspaceApp404 ::
  "string \<Rightarrow> app_request option \<Rightarrow> string \<Rightarrow> log_entry list \<times> error_page_data" where
  "WriteWorkspaceApp404 accessURL appReq msg =
     ((case appReq of
         None \<Rightarrow> []
       | Some req \<Rightarrow> [\<lparr>entry_level = LevelDebug, entry_message = ''workspace app 404: '' @ msg,
                         entry_fields = request_fields req\<rparr>]),
      \<lparr>Status = 404, Title = ''Application Not Found'',
       Description = ''The application or workspace you are trying to access does not exist or you do not have permission to access it.'',
       RetryEnabled = False, DashboardURL = accessURL\<rparr>)"

definition WriteWorkspaceApp500 ::
  "string \<Rightarrow> app_request option \<Rightarrow> string \<Rightarrow> string \<Rightarrow> log_entry list \<times> error_page_data" where
  "WriteWorkspaceApp500 accessURL appReq err msg =
     (let ctx_fields = (case appReq of None \<Rightarrow> [] | Some req \<Rightarrow> request_fields_500 req)
      in ([\<lparr>entry_level = LevelWarn, entry_message = ''workspace app auth server error: '' @ msg,
            entry_fields = ctx_fields @ [(''error'', err)]\<rparr>],
          \<lparr>Status = 500, Title = ''Internal Server Error'',
           Description = ''An internal server error occurred.'',
           RetryEnabled = False, DashboardURL = accessURL\<rparr>))"

definition WriteWorkspaceAppOffline ::
  "string \<Rightarrow> app_request option \<Rightarrow> string \<Rightarrow> log_entry list \<times> error_page_data" where
  "WriteWorkspaceAppOffline accessURL appReq msg =
     ((case appReq of
         None \<Rightarrow> []
       | Some req \<Rightarrow> [\<lparr>entry_level = LevelDebug, entry_message = ''workspace app unavailable: '' @ msg,
                         entry_fields = request_fields req\<rparr>]),
      \<lparr>Status = 502, Title = ''Application Unavailable'', Description = msg,
       RetryEnabled = True, DashboardURL = accessURL\<rparr>)"

text \<open>The page a writer renders, with the fields that identify it.\<close>

definition page_kind :: "error_page_data \<Rightarrow> nat \<times> bool \<times> string" where
  "page_kind p = (Status p, RetryEnabled p, DashboardURL p)"

section \<open>Properties\<close>

text \<open>
  The three writers render a 404, a 500 and a 502 page that link back
  to the dashboard; only the 502 page offers a retry and shows the caller's
  message.  The 404 and 500 pages are fixed: they never show the message,
  the error or the request.
\<close>

theorem error_pages:
  "page_kind (snd (WriteWorkspaceApp404 u r m)) = (404, False, u) \<and>
   page_kind (snd (WriteWorkspaceApp500 u r e m)) = (500, False, u) \<and>
   page_kind (snd (WriteWorkspaceAppOffline u r m)) = (502, True, u) \<and>
   Description (snd (WriteWorkspaceAppOffline u r m)) = m \<and>
   snd (WriteWorkspaceApp404 u r m) = snd (WriteWorkspaceApp404 u r' m') \<and>
   snd (WriteWorkspaceApp500 u r e m) = snd (WriteWorkspaceApp500 u r' e' m')"
  by (simp add: page_kind_def WriteWorkspaceApp404_def WriteWorkspaceApp500_def
                WriteWorkspaceAppOffline_def Let_def)

text \<open>
  The 404 and offline writers log one debug line exactly when they are
  given a request; the 500 writer always logs one warning carrying the
  error.  With a request, its fields are those the 404 writer logs with the
  app key renamed from \<open>app_slug_or_port\<close> to \<open>app_name_or_port\<close>, then
  the error.
\<close>

theorem error_page_logs:
  "map entry_level (fst (WriteWorkspaceApp404 u r m)) = (if r = None then [] else [LevelDebug]) \<and>
   map entry_level (fst (WriteWorkspaceAppOffline u r m)) = (if r = None then [] else [LevelDebug]) \<and>
   map entry_level (fst (WriteWorkspaceApp500 u r e m)) = [LevelWarn] \<and>
   entry_fields (hd (fst (WriteWorkspaceApp500 u (Some req) e m))) =
     map (\<lambda>(k, v). (if k = ''app_slug_or_port'' then ''app_name_or_port'' else k, v))
         (entry_fields (hd (fst (WriteWorkspaceApp404 u (Some req) m')))) @ [(''error'', e)]"
  by (cases r) (simp_all add: WriteWorkspaceApp404_def WriteWorkspaceApp500_def
                  WriteWorkspaceAppOffline_def Let_def request_fields_def request_fields_500_def)

end
