(* ===== verification/CliUI.thy ===== *)
theory CliUI
  imports Prelude
begin

text \<open>
  The command-line UI demo (\<open>src/cmd/cliui/main.go\<close>), the logic its
  handlers carry around the \<open>cliui\<close> widgets (not under \<open>src/\<close>): the
  validation of the \<open>prompt\<close> command, the log stream of the fake
  provisioner job of the \<open>job\<close> command, the job's status as written by
  the background goroutine and by \<open>Cancel\<close> without synchronisation, and
  the scripted agent of the \<open>agent\<close> command.  Sleeps are the points where
  the two job threads interleave; wall-clock times are not modelled.
\<close>

section \<open>The prompt's validation\<close>

definition prompt_validate :: "string \<Rightarrow> string option" where
  "prompt_validate s = (if \<not> equal_fold s ''coder'' then Some ''Err... nope!'' else None)"

definition prompt_default :: string where
  "prompt_default = ''acme-corp''"

section \<open>The fake job's log stream\<close>

fun decimal :: "nat \<Rightarrow> string" where
  "decimal n = (if n < 10 then [char_of (48 + n)] else decimal (n div 10) @ [char_of (48 + n mod 10)])"

declare decimal.simps [simp del]

datatype job_log_level = LogLevelInfo | LogLevelWarn

record job_log =
  jl_output :: string
  jl_stage :: string
  jl_level :: job_log_level

text \<open>The log line of tick number \<open>count\<close> (lines 123--141).\<close>

definition fake_job_log :: "nat \<Rightarrow> job_log" where
  "fake_job_log count =
     \<lparr>jl_output = ''Some log '' @ decimal count,
      jl_stage = (if count = 10 then ''Setting Up''
                  else if count = 20 then ''Executing Hook''
                  else if count = 30 then ''Parsing Variables''
                  else if count = 40 then ''Provisioning''
                  else if count = 50 then ''Cleaning Up''
                  else ''''),
      jl_level = (if count mod 5 = 0 then LogLevelWarn else LogLevelInfo)\<rparr>"

text \<open>
  The lines sent over \<open>n\<close> ticks while the job is neither succeeded nor
  canceled: the counter advances on every tick and a line with neither
  output nor stage is skipped (\<open>continue\<close>).
\<close>

fun fake_job_logs :: "nat \<Rightarrow> nat \<Rightarrow> job_log list" where
  "fake_job_logs count 0 = []"
| "fake_job_logs count (Suc n) =
     (let log = fake_job_log count
      in if jl_output log = [] \<and> jl_stage log = [] then fake_job_logs (Suc count) n
         else log # fake_job_logs (Suc count) n)"

section \<open>The fake job's status\<close>

datatype job_status = JobPending | JobRunning | JobSucceeded | JobCanceling | JobCanceled

text \<open>
  Two threads share \<open>job\<close>.  The goroutine (lines 87--102) checks the
  status is pending, sets it running, checks it is still running, sets it
  succeeded; each check and each write is its own step, as the sleeps
  separate them and nothing locks the job.  \<open>Cancel\<close> (lines 153--160),
  called by the job widget when the user interrupts, sets canceling, then
  canceled.  Program counters: the goroutine's \<open>0\<close> to \<open>4\<close> (\<open>4\<close> returned),
  \<open>Cancel\<close>'s \<open>0\<close> (not called) to \<open>2\<close> (returned).
\<close>

record job_state =
  js_status :: job_status
  js_gpc :: nat
  js_cpc :: nat

definition job_init :: job_state where
  "job_init = \<lparr>js_status = JobPending, js_gpc = 0, js_cpc = 0\<rparr>"

definition goroutine_step :: "job_state \<Rightarrow> job_state option" where
  "goroutine_step s =
     (case js_gpc s of
        0 \<Rightarrow> Some (if js_status s \<noteq> JobPending then s\<lparr>js_gpc := 4\<rparr> else s\<lparr>js_gpc := 1\<rparr>)
      | Suc 0 \<Rightarrow> Some (s\<lparr>js_status := JobRunning, js_gpc := 2\<rparr>)
      | Suc (Suc 0) \<Rightarrow> Some (if js_status s \<noteq> JobRunning then s\<lparr>js_gpc := 4\<rparr> else s\<lparr>js_gpc := 3\<rparr>)
      | Suc (Suc (Suc 0)) \<Rightarrow> Some (s\<lparr>js_status := JobSucceeded, js_gpc := 4\<rparr>)
      | _ \<Rightarrow> None)"

definition cancel_step :: "job_state \<Rightarrow> job_state option" where
  "cancel_step s =
     (case js_cpc s of
        0 \<Rightarrow> Some (s\<lparr>js_status := JobCanceling, js_cpc := 1\<rparr>)
      | Suc 0 \<Rightarrow> Some (s\<lparr>js_status := JobCanceled, js_cpc := 2\<rparr>)
      | _ \<Rightarrow> None)"

inductive job_step :: "job_state \<Rightarrow> job_state \<Rightarrow> bool" where
  job_goroutine: "goroutine_step s = Some s' \<Longrightarrow> job_step s s'"
| job_cancel: "cancel_step s = Some s' \<Longrightarrow> job_step s s'"

text \<open>A schedule: which thread moves next (\<open>True\<close> the goroutine).\<close>

fun run_job :: "bool list \<Rightarrow> job_state \<Rightarrow> job_state option" where
  "run_job [] s = Some s"
| "run_job (g # gs) s =
     (case (if g then goroutine_step s else cancel_step s) of
        None \<Rightarrow> None
      | Some s' \<Rightarrow> run_job gs s')"

text \<open>
  The invariant of the two job threads: with \<open>Cancel\<close> not called the status
  follows the goroutine; otherwise it is one of the values \<open>Cancel\<close> or the
  goroutine last wrote, and a returned goroutine did not leave it running.
\<close>

definition job_inv :: "job_state \<Rightarrow> bool" where
  "job_inv s \<longleftrightarrow>
     js_gpc s \<le> 4 \<and> js_cpc s \<le> 2 \<and>
     (js_cpc s = 0 \<longrightarrow> js_status s = (if js_gpc s \<le> 1 then JobPending else if js_gpc s \<le> 3 then JobRunning else JobSucceeded)) \<and>
     (js_cpc s = 1 \<longrightarrow> js_status s \<in> {JobCanceling, JobRunning, JobSucceeded}) \<and>
     (js_cpc s = 2 \<longrightarrow> js_status s \<in> {JobCanceled, JobRunning, JobSucceeded}) \<and>
     (js_gpc s \<le> 1 \<longrightarrow> js_status s \<notin> {JobRunning, JobSucceeded}) \<and>
     (js_gpc s = 4 \<longrightarrow> js_status s \<noteq> JobRunning)"

section \<open>The scripted agent\<close>

datatype agent_status = AgentConnecting | AgentConnected | AgentTimeout
datatype agent_lifecycle = LifecycleCreated | LifecycleStarting | LifecycleReady

record demo_agent =
  da_status :: agent_status
  da_lifecycle :: agent_lifecycle
  da_started :: bool
  da_first_connected :: bool
  da_ready :: bool

definition demo_agent_zero :: demo_agent where
  "demo_agent_zero = \<lparr>da_status = AgentConnecting, da_lifecycle = LifecycleCreated,
                       da_started = False, da_first_connected = False, da_ready = False\<rparr>"

text \<open>The six \<open>fetchSteps\<close> (lines 172--216), each a change of the agent.\<close>

definition fetch_steps :: "(demo_agent \<Rightarrow> demo_agent) list" where
  "fetch_steps =
     [\<lambda>a. demo_agent_zero,
      \<lambda>a. a\<lparr>da_status := AgentTimeout\<rparr>,
      \<lambda>a. a\<lparr>da_lifecycle := LifecycleStarting, da_started := True\<rparr>,
      \<lambda>a. a\<lparr>da_first_connected := True, da_status := AgentConnected\<rparr>,
      \<lambda>a. a,
      \<lambda>a. a\<lparr>da_status := AgentConnected\<rparr>]"

text \<open>\<open>Fetch\<close>: run and drop the first remaining step, return the agent.\<close>

definition demo_fetch :: "(demo_agent \<Rightarrow> demo_agent) list \<times> demo_agent \<Rightarrow> demo_agent \<times> ((demo_agent \<Rightarrow> demo_agent) list \<times> demo_agent)" where
  "demo_fetch st =
     (case fst st of
        [] \<Rightarrow> (snd st, st)
      | step # rest \<Rightarrow> (let a = step (snd st) in (a, (rest, a))))"

fun demo_fetches :: "nat \<Rightarrow> (demo_agent \<Rightarrow> demo_agent) list \<times> demo_agent \<Rightarrow> demo_agent list" where
  "demo_fetches 0 st = []"
| "demo_fetches (Suc n) st = (let (a, st') = demo_fetch st in a # demo_fetches n st')"

text \<open>When the followed log stream ends, the agent becomes ready (lines 238--240).\<close>

definition logs_done :: "demo_agent \<Rightarrow> demo_agent" where
  "logs_done a = a\<lparr>da_lifecycle := LifecycleReady, da_ready := True\<rparr>"

section \<open>Lemmas\<close>

lemma decimal_ne [simp]: "decimal n \<noteq> []"
  by (subst decimal.simps) simp

lemma nat_le4_cases:
  "(k::nat) \<le> 4 \<Longrightarrow> (k = 0 \<Longrightarrow> P) \<Longrightarrow> (k = 1 \<Longrightarrow> P) \<Longrightarrow> (k = 2 \<Longrightarrow> P) \<Longrightarrow> (k = 3 \<Longrightarrow> P) \<Longrightarrow> (k = 4 \<Longrightarrow> P) \<Longrightarrow> P"
  by linarith

lemma goroutine_step_at:
  "js_gpc s = 0 \<Longrightarrow> goroutine_step s = Some (if js_status s \<noteq> JobPending then s\<lparr>js_gpc := 4\<rparr> else s\<lparr>js_gpc := 1\<rparr>)"
  "js_gpc s = 1 \<Longrightarrow> goroutine_step s = Some (s\<lparr>js_status := JobRunning, js_gpc := 2\<rparr>)"
  "js_gpc s = 2 \<Longrightarrow> goroutine_step s = Some (if js_status s \<noteq> JobRunning then s\<lparr>js_gpc := 4\<rparr> else s\<lparr>js_gpc := 3\<rparr>)"
  "js_gpc s = 3 \<Longrightarrow> goroutine_step s = Some (s\<lparr>js_status := JobSucceeded, js_gpc := 4\<rparr>)"
  "js_gpc s = 4 \<Longrightarrow> goroutine_step s = None"
  by (simp_all add: goroutine_step_def eval_nat_numeral)

lemma job_inv_init: "job_inv job_init"
  by (simp add: job_inv_def job_init_def)

lemma job_inv_cpc: "job_inv s \<Longrightarrow> js_cpc s = 0 \<or> js_cpc s = 1 \<or> js_cpc s = 2"
  by (auto simp: job_inv_def)

lemma job_inv_cancel: "job_inv s \<Longrightarrow> cancel_step s = Some s' \<Longrightarrow> job_inv s'"
proof -
  assume inv: "job_inv s" and st: "cancel_step s = Some s'"
  have "js_cpc s = 0 \<or> js_cpc s = 1" using st by (auto simp: cancel_step_def split: nat.splits)
  then show "job_inv s'"
  proof
    assume c: "js_cpc s = 0"
    then have "s' = s\<lparr>js_status := JobCanceling, js_cpc := 1\<rparr>" using st by (simp add: cancel_step_def)
    then show ?thesis using inv c by (simp add: job_inv_def)
  next
    assume c: "js_cpc s = 1"
    then have "s' = s\<lparr>js_status := JobCanceled, js_cpc := 2\<rparr>" using st by (simp add: cancel_step_def)
    then show ?thesis using inv c by (simp add: job_inv_def)
  qed
qed

lemma job_inv_goroutine: "job_inv s \<Longrightarrow> goroutine_step s = Some s' \<Longrightarrow> job_inv s'"
proof -
  assume inv: "job_inv s" and st: "goroutine_step s = Some s'"
  have "js_gpc s \<le> 4" using inv by (simp add: job_inv_def)
  then show "job_inv s'"
  proof (rule nat_le4_cases)
    assume g: "js_gpc s = 0"
    then have "s' = (if js_status s \<noteq> JobPending then s\<lparr>js_gpc := 4\<rparr> else s\<lparr>js_gpc := 1\<rparr>)"
      using st by (simp add: goroutine_step_at)
    then show ?thesis using inv g job_inv_cpc [OF inv] by (auto simp: job_inv_def)
  next
    assume g: "js_gpc s = 1"
    then have "s' = s\<lparr>js_status := JobRunning, js_gpc := 2\<rparr>" using st by (simp add: goroutine_step_at)
    then show ?thesis using inv g by (simp add: job_inv_def)
  next
    assume g: "js_gpc s = 2"
    then have "s' = (if js_status s \<noteq> JobRunning then s\<lparr>js_gpc := 4\<rparr> else s\<lparr>js_gpc := 3\<rparr>)"
      using st by (simp add: goroutine_step_at)
    then show ?thesis using inv g job_inv_cpc [OF inv] by (auto simp: job_inv_def)
  next
    assume g: "js_gpc s = 3"
    then have "s' = s\<lparr>js_status := JobSucceeded, js_gpc := 4\<rparr>" using st by (simp add: goroutine_step_at)
    then show ?thesis using inv g by (simp add: job_inv_def)
  next
    assume g: "js_gpc s = 4"
    then show ?thesis using st by (simp add: goroutine_step_at)
  qed
qed

lemma job_inv_step: "job_step s s' \<Longrightarrow> job_inv s \<Longrightarrow> job_inv s'"
  by (induction rule: job_step.induct) (auto intro: job_inv_goroutine job_inv_cancel)

lemma job_inv_reach: "job_step\<^sup>*\<^sup>* job_init s \<Longrightarrow> job_inv s"
  by (induction rule: rtranclp_induct) (auto intro: job_inv_init job_inv_step)

lemma run_job_steps: "run_job gs s = Some s' \<Longrightarrow> job_step\<^sup>*\<^sup>* s s'"
proof (induction gs s rule: run_job.induct)
  case (1 s)
  then show ?case by simp
next
  case (2 g gs s)
  then obtain s1 where st: "(if g then goroutine_step s else cancel_step s) = Some s1" and r: "run_job gs s1 = Some s'"
    by (auto split: option.splits)
  have "job_step s s1" using st by (auto split: if_splits intro: job_step.intros)
  then show ?case using "2.IH" [OF st r] by (rule converse_rtranclp_into_rtranclp)
qed

text \<open>
  Once \<open>Cancel\<close> has returned while the goroutine is past its pending
  check, only the goroutine moves: it writes running, passes its running
  check and writes succeeded.
\<close>

lemma job_after_cancel_returned:
  assumes "job_step\<^sup>*\<^sup>* \<lparr>js_status = JobCanceled, js_gpc = 1, js_cpc = 2\<rparr> s'"
  shows "s' \<in> {\<lparr>js_status = JobCanceled, js_gpc = 1, js_cpc = 2\<rparr>, \<lparr>js_status = JobRunning, js_gpc = 2, js_cpc = 2\<rparr>,
               \<lparr>js_status = JobRunning, js_gpc = 3, js_cpc = 2\<rparr>, \<lparr>js_status = JobSucceeded, js_gpc = 4, js_cpc = 2\<rparr>}"
  using assms
proof (induction rule: rtranclp_induct)
  case base
  then show ?case by simp
next
  case (step y z)
  from step.hyps(2) show ?case
  proof (cases rule: job_step.cases)
    case job_goroutine
    then show ?thesis using step.IH by (auto simp: goroutine_step_def)
  next
    case job_cancel
    then show ?thesis using step.IH by (auto simp: cancel_step_def)
  qed
qed

lemma demo_fetches_exhausted: "demo_fetches k ([], a) = replicate k a"
  by (induction k) (simp_all add: demo_fetch_def)

section \<open>Properties\<close>

text \<open>
  C9.  Once both job threads have returned, the job is canceled or
  succeeded; it is never left pending, running or canceling.
\<close>

theorem job_final_states:
  assumes "job_step\<^sup>*\<^sup>* job_init s" and "js_gpc s = 4" and "js_cpc s = 2"
  shows "js_status s = JobCanceled \<or> js_status s = JobSucceeded"
  using job_inv_reach [OF assms(1)] assms(2,3) by (auto simp: job_inv_def)

theorem job_final_states_witness:
  "\<exists>s. run_job [True, False, True, False, True] job_init = Some s \<and>
       (js_status s = JobCanceled \<or> js_status s = JobSucceeded)"
proof -
  obtain s where r: "run_job [True, False, True, False, True] job_init = Some s"
    by (simp add: job_init_def goroutine_step_def cancel_step_def)
  have "js_gpc s = 4 \<and> js_cpc s = 2" using r by (auto simp: job_init_def goroutine_step_def cancel_step_def)
  then show ?thesis using job_final_states [OF run_job_steps [OF r]] r by blast
qed

text \<open>
  C10.  The unsynchronised status writes let a canceled job end succeeded:
  in every run where \<open>Cancel\<close> has run to completion and returned while
  the goroutine is past its pending check, the status \<open>Cancel\<close> left is
  canceled, yet the goroutine can still return, and whenever it returns the
  job is succeeded.
\<close>

theorem cancel_overwritten:
  assumes "job_step\<^sup>*\<^sup>* job_init s" and "js_gpc s = 1" and "js_cpc s = 2"
  shows "js_status s = JobCanceled \<and>
         (\<forall>s'. job_step\<^sup>*\<^sup>* s s' \<and> js_gpc s' = 4 \<longrightarrow> js_status s' = JobSucceeded) \<and>
         (\<exists>s'. job_step\<^sup>*\<^sup>* s s' \<and> js_gpc s' = 4)"
proof -
  have "job_inv s" using assms(1) by (rule job_inv_reach)
  then have st: "js_status s = JobCanceled" using assms(2,3) by (auto simp: job_inv_def)
  then have s: "s = \<lparr>js_status = JobCanceled, js_gpc = 1, js_cpc = 2\<rparr>" using assms(2,3) by simp
  have "\<forall>s'. job_step\<^sup>*\<^sup>* s s' \<and> js_gpc s' = 4 \<longrightarrow> js_status s' = JobSucceeded"
    using job_after_cancel_returned s by fastforce
  moreover have "run_job [True, True, True] s = Some \<lparr>js_status = JobSucceeded, js_gpc = 4, js_cpc = 2\<rparr>"
    using s by (simp add: goroutine_step_def)
  then have "\<exists>s'. job_step\<^sup>*\<^sup>* s s' \<and> js_gpc s' = 4" using run_job_steps by fastforce
  ultimately show ?thesis using st by blast
qed

theorem cancel_overwritten_witness:
  "\<exists>s. run_job [True, False, False] job_init = Some s \<and> js_status s = JobCanceled \<and>
       (\<exists>s'. job_step\<^sup>*\<^sup>* s s' \<and> js_gpc s' = 4)"
proof -
  obtain s where r: "run_job [True, False, False] job_init = Some s"
    by (simp add: job_init_def goroutine_step_def cancel_step_def)
  have "js_gpc s = 1 \<and> js_cpc s = 2" using r by (auto simp: job_init_def goroutine_step_def cancel_step_def)
  then show ?thesis using cancel_overwritten [OF run_job_steps [OF r]] r by blast
qed

text \<open>
  The log stream sends a line on every tick: every line has output,
  so the skip for a line with neither output nor stage never fires.
\<close>

theorem fake_job_logs_all:
  "fake_job_logs count n = map fake_job_log [count..<count + n]"
proof (induction n arbitrary: count)
  case 0
  then show ?case by simp
next
  case (Suc n)
  have "[count..<count + Suc n] = count # [Suc count..<Suc count + n]" by (simp add: upt_rec)
  then show ?case using Suc.IH [of "Suc count"] by (simp add: fake_job_log_def Let_def)
qed

theorem fake_job_logs_all_witness:
  "map jl_stage (filter (\<lambda>l. jl_stage l \<noteq> []) (fake_job_logs 0 55)) =
     [''Setting Up'', ''Executing Hook'', ''Parsing Variables'', ''Provisioning'', ''Cleaning Up'']"
  by (simp add: fake_job_logs_all fake_job_log_def upt_rec)

text \<open>
  The prompt accepts exactly the answers equal to \<open>coder\<close> up to ASCII
  case, and rejects its own default answer \<open>acme-corp\<close>.
\<close>

theorem prompt_validation:
  "(prompt_validate s = None \<longleftrightarrow> map ascii_lower s = ''coder'') \<and>
   prompt_validate prompt_default = Some ''Err... nope!''"
  by (simp add: prompt_validate_def equal_fold_def prompt_default_def ascii_lower_def)

theorem prompt_validation_witness:
  "prompt_validate ''CoDeR'' = None"
  using prompt_validation [of "''CoDeR''"] by (simp add: ascii_lower_def char_of_def bit_0)

text \<open>
  The scripted agent's fetches: whatever the agent was, the first
  fetch resets it to connecting, the second times it out, the third starts
  it, the fourth connects it, and from then on every fetch returns the same
  connected, starting agent until the log stream makes it ready.
\<close>

theorem demo_agent_fetch_sequence:
  "demo_fetches (6 + k) (fetch_steps, a) =
     (let a1 = demo_agent_zero;
          a2 = a1\<lparr>da_status := AgentTimeout\<rparr>;
          a3 = a2\<lparr>da_lifecycle := LifecycleStarting, da_started := True\<rparr>;
          a4 = a3\<lparr>da_first_connected := True, da_status := AgentConnected\<rparr>
      in [a1, a2, a3, a4, a4, a4] @ replicate k a4) \<and>
   da_status (last (demo_fetches (6 + k) (fetch_steps, a))) = AgentConnected \<and>
   da_lifecycle (logs_done (last (demo_fetches (6 + k) (fetch_steps, a)))) = LifecycleReady"
proof -
  have d: "demo_fetches (6 + k) (fetch_steps, a) =
     [demo_agent_zero, demo_agent_zero\<lparr>da_status := AgentTimeout\<rparr>,
      demo_agent_zero\<lparr>da_status := AgentTimeout, da_lifecycle := LifecycleStarting, da_started := True\<rparr>] @
     replicate (3 + k) (demo_agent_zero\<lparr>da_status := AgentTimeout, da_lifecycle := LifecycleStarting, da_started := True,
                          da_first_connected := True, da_status := AgentConnected\<rparr>)"
    by (simp add: fetch_steps_def demo_fetch_def demo_fetches_exhausted numeral_eq_Suc Let_def)
  show ?thesis unfolding d by (simp add: Let_def demo_agent_zero_def logs_done_def numeral_eq_Suc)
qed

end
