(* ===== verification/DbJobs.thy ===== *)
theory DbJobs
  imports DbFake
begin

text \<open>
  Provisioner jobs and their logs in the database fake
  (\<open>src/unnamed/part_005\<close>): the insert, the acquisition of the next job by
  a provisioner daemon (\<open>AcquireProvisionerJob\<close>), the updates that
  complete or cancel a job, the lookups (with the queue position a client
  shows), and the log table whose ids the fake assigns itself.  A job's
  status is \<^const>\<open>ProvisionerJobStatus\<close> of its row, so every lemma on the
  lifecycle is a lemma on the timestamps the queries write.
\<close>

section \<open>Jobs\<close>

text \<open>\<open>database.InsertProvisionerJobParams\<close>.\<close>

record insert_job_params =
  ijp_id :: uuid
  ijp_created_at :: time
  ijp_updated_at :: time
  ijp_organization_id :: uuid
  ijp_initiator_id :: uuid
  ijp_provisioner :: string
  ijp_file_id :: uuid
  ijp_type :: provisioner_job_type
  ijp_tags :: "(string \<times> string) list"

text \<open>The insert sets the given columns; the timestamps it does not set are null.\<close>

definition InsertProvisionerJob :: "fake_db \<Rightarrow> insert_job_params \<Rightarrow> provisioner_job \<times> fake_db" where
  "InsertProvisionerJob db arg =
     (let job = \<lparr>pj_id = ijp_id arg, pj_created_at = ijp_created_at arg, pj_updated_at = ijp_updated_at arg,
                 pj_started_at = null_time_none, pj_canceled_at = null_time_none, pj_completed_at = null_time_none,
                 pj_error = \<lparr>ns_string = [], ns_valid = False\<rparr>, pj_organization_id = ijp_organization_id arg,
                 pj_initiator_id = ijp_initiator_id arg, pj_provisioner = ijp_provisioner arg,
                 pj_file_id = ijp_file_id arg, pj_type = ijp_type arg, pj_worker_id = None,
                 pj_tags = ijp_tags arg\<rparr>
      in (job, db\<lparr>db_jobs := db_jobs db @ [job]\<rparr>))"

text \<open>
  The daemon's tags arrive as raw JSON: absent (\<open>nil\<close>), not a JSON object
  of strings (\<open>json.Unmarshal\<close> fails), or an object, whose later
  duplicate keys override earlier ones.
\<close>

datatype raw_tags = TagsNil | TagsInvalid | TagsObject "(string \<times> string) list"

record acquire_job_params =
  ajp_started_at :: null_time
  ajp_worker_id :: "uuid option"
  ajp_types :: "string list"
  ajp_tags :: raw_tags

definition provided_tags :: "raw_tags \<Rightarrow> string \<Rightarrow> string option" where
  "provided_tags t = (case t of TagsObject kvs \<Rightarrow> map_of (rev kvs) | _ \<Rightarrow> Map.empty)"

text \<open>A job's tags are all provided, with the same values.\<close>

definition tags_match :: "raw_tags \<Rightarrow> provisioner_job \<Rightarrow> bool" where
  "tags_match t job \<longleftrightarrow> list_all (\<lambda>(k, v). provided_tags t k = Some v) (pj_tags job)"

definition cons_job :: "provisioner_job \<Rightarrow> string + (provisioner_job \<times> provisioner_job list) \<Rightarrow>
                        string + (provisioner_job \<times> provisioner_job list)" where
  "cons_job j r = map_sum id (\<lambda>(x, js). (x, j # js)) r"

text \<open>The job as the daemon takes it: started, updated at the start time, assigned to the worker.\<close>

definition started_job :: "acquire_job_params \<Rightarrow> provisioner_job \<Rightarrow> provisioner_job" where
  "started_job arg j = j\<lparr>pj_updated_at := nt_time (ajp_started_at arg), pj_started_at := ajp_started_at arg,
                         pj_worker_id := ajp_worker_id arg\<rparr>"

text \<open>
  The scan of \<open>AcquireProvisionerJob\<close>: skip a started job and a job of
  another provisioner type; on the first other job, decode the tags (an
  error ends the query), skip the job if a tag is missing, otherwise start
  it for the worker and write it back.
\<close>

primrec acquire_scan :: "acquire_job_params \<Rightarrow> provisioner_job list \<Rightarrow> string + (provisioner_job \<times> provisioner_job list)" where
  "acquire_scan arg [] = Inl ErrNoRows"
| "acquire_scan arg (j # js) =
     (if nt_valid (pj_started_at j) then cons_job j (acquire_scan arg js)
      else if pj_provisioner j \<notin> set (ajp_types arg) then cons_job j (acquire_scan arg js)
      else if ajp_tags arg = TagsInvalid then Inl ''unmarshal: invalid character''
      else if \<not> tags_match (ajp_tags arg) j then cons_job j (acquire_scan arg js)
      else Inr (started_job arg j, started_job arg j # js))"

definition AcquireProvisionerJob :: "fake_db \<Rightarrow> acquire_job_params \<Rightarrow> string + (provisioner_job \<times> fake_db)" where
  "AcquireProvisionerJob db arg =
     map_sum id (\<lambda>(j, js). (j, db\<lparr>db_jobs := js\<rparr>)) (acquire_scan arg (db_jobs db))"

text \<open>A job a daemon with these types and tags can take.\<close>

definition acquirable :: "acquire_job_params \<Rightarrow> provisioner_job \<Rightarrow> bool" where
  "acquirable arg j \<longleftrightarrow>
     \<not> nt_valid (pj_started_at j) \<and> pj_provisioner j \<in> set (ajp_types arg) \<and> tags_match (ajp_tags arg) j"

text \<open>The three updates by id: the first job with the id is changed, no such job is \<open>ErrNoRows\<close>.\<close>

definition update_job :: "uuid \<Rightarrow> (provisioner_job \<Rightarrow> provisioner_job) \<Rightarrow> fake_db \<Rightarrow> string + fake_db" where
  "update_job i f db =
     (case update_first (\<lambda>j. pj_id j = i) f (db_jobs db) of
        None \<Rightarrow> Inl ErrNoRows
      | Some (_, js) \<Rightarrow> Inr (db\<lparr>db_jobs := js\<rparr>))"

definition UpdateProvisionerJobByID :: "uuid \<Rightarrow> time \<Rightarrow> fake_db \<Rightarrow> string + fake_db" where
  "UpdateProvisionerJobByID i updatedAt = update_job i (\<lambda>j. j\<lparr>pj_updated_at := updatedAt\<rparr>)"

definition UpdateProvisionerJobWithCancelByID :: "uuid \<Rightarrow> null_time \<Rightarrow> null_time \<Rightarrow> fake_db \<Rightarrow> string + fake_db" where
  "UpdateProvisionerJobWithCancelByID i canceledAt completedAt =
     update_job i (\<lambda>j. j\<lparr>pj_canceled_at := canceledAt, pj_completed_at := completedAt\<rparr>)"

text \<open>The error code column is not modelled; it is written with the error.\<close>

definition UpdateProvisionerJobWithCompleteByID :: "uuid \<Rightarrow> time \<Rightarrow> null_time \<Rightarrow> null_string \<Rightarrow> fake_db \<Rightarrow> string + fake_db" where
  "UpdateProvisionerJobWithCompleteByID i updatedAt completedAt err =
     update_job i (\<lambda>j. j\<lparr>pj_updated_at := updatedAt, pj_completed_at := completedAt, pj_error := err\<rparr>)"

section \<open>Job lookups\<close>

text \<open>The jobs whose id is listed, in table order; none found is \<open>ErrNoRows\<close>.\<close>

definition GetProvisionerJobsByIDs :: "fake_db \<Rightarrow> uuid list \<Rightarrow> string + provisioner_job list" where
  "GetProvisionerJobsByIDs db ids =
     (let jobs = filter (\<lambda>j. pj_id j \<in> set ids) (db_jobs db)
      in if jobs = [] then Inl ErrNoRows else Inr jobs)"

definition GetProvisionerJobsCreatedAfter :: "fake_db \<Rightarrow> time \<Rightarrow> provisioner_job list" where
  "GetProvisionerJobsCreatedAfter db after = filter (\<lambda>j. time_after (pj_created_at j) after) (db_jobs db)"

text \<open>\<open>database.GetProvisionerJobsByIDsWithQueuePositionRow\<close>.\<close>

record job_queue_row =
  jq_job :: provisioner_job
  jq_queue_position :: int
  jq_queue_size :: int

text \<open>
  The queue position counts the jobs not yet started, from \<open>1\<close>, over the
  whole table in order; a started job has position \<open>0\<close>.  The final loop
  of the query assigns \<open>QueueSize\<close> to the loop variable, a copy of each
  row, so the rows returned keep the size \<open>0\<close>.
\<close>

fun queue_rows :: "uuid list \<Rightarrow> int \<Rightarrow> provisioner_job list \<Rightarrow> job_queue_row list" where
  "queue_rows ids pos [] = []"
| "queue_rows ids pos (j # js) =
     (if pj_id j \<in> set ids
      then [\<lparr>jq_job = j, jq_queue_position = (if \<not> nt_valid (pj_started_at j) then pos else 0), jq_queue_size = 0\<rparr>]
      else []) @
     queue_rows ids (if \<not> nt_valid (pj_started_at j) then pos + 1 else pos) js"

definition GetProvisionerJobsByIDsWithQueuePosition :: "fake_db \<Rightarrow> uuid list \<Rightarrow> job_queue_row list" where
  "GetProvisionerJobsByIDsWithQueuePosition db ids = queue_rows ids 1 (db_jobs db)"

section \<open>Job logs\<close>

text \<open>
  \<open>database.InsertProvisionerJobLogsParams\<close>: parallel slices, one entry
  per log line; the loop indexes the others by the index into \<open>Output\<close>,
  so a shorter slice is an index-out-of-range panic.
\<close>

record insert_job_logs_params =
  ijl_job_id :: uuid
  ijl_created_at :: "time list"
  ijl_source :: "log_source list"
  ijl_level :: "log_level list"
  ijl_stage :: "string list"
  ijl_output :: "string list"

text \<open>
  The ids continue from the last row's id, or from \<open>1\<close> in an empty
  table, each incremented before use, so the first log of an empty table
  has id \<open>2\<close>.
\<close>

definition last_log_id :: "fake_db \<Rightarrow> int" where
  "last_log_id db = (if db_job_logs db = [] then 1 else pjl_id (last (db_job_logs db)))"

definition InsertProvisionerJobLogs ::
  "fake_db \<Rightarrow> insert_job_logs_params \<Rightarrow> string + (provisioner_job_log list \<times> fake_db)" where
  "InsertProvisionerJobLogs db arg =
     (let n = length (ijl_output arg)
      in if length (ijl_created_at arg) < n \<or> length (ijl_source arg) < n \<or>
            length (ijl_level arg) < n \<or> length (ijl_stage arg) < n
         then Inl ''panic: runtime error: index out of range''
         else let start = last_log_id db;
                  logs = map (\<lambda>k. \<lparr>pjl_id = start + int k + 1, pjl_job_id = ijl_job_id arg,
                                    pjl_created_at = ijl_created_at arg ! k, pjl_source = ijl_source arg ! k,
                                    pjl_level = ijl_level arg ! k, pjl_stage = ijl_stage arg ! k,
                                    pjl_output = ijl_output arg ! k\<rparr>) [0..<n]
              in Inr (logs, db\<lparr>db_job_logs := db_job_logs db @ logs\<rparr>))"

definition GetProvisionerLogsAfterID :: "fake_db \<Rightarrow> uuid \<Rightarrow> int \<Rightarrow> provisioner_job_log list" where
  "GetProvisionerLogsAfterID db jobID createdAfter =
     filter (\<lambda>l. pjl_job_id l = jobID \<and> createdAfter < pjl_id l) (db_job_logs db)"

section \<open>Lemmas\<close>

lemma cons_job_Inl [simp]: "cons_job j r = Inl e \<longleftrightarrow> r = Inl e"
  by (cases r) (auto simp: cons_job_def)

lemma cons_job_Inr [simp]: "cons_job j r = Inr (x, js') \<longleftrightarrow> (\<exists>js1. r = Inr (x, js1) \<and> js' = j # js1)"
  by (cases r) (auto simp: cons_job_def)

text \<open>With decodable tags the scan fails exactly when no job can be taken.\<close>

lemma acquire_scan_Inl:
  "ajp_tags arg \<noteq> TagsInvalid \<Longrightarrow> acquire_scan arg js = Inl e \<longleftrightarrow> e = ErrNoRows \<and> \<not> list_ex (acquirable arg) js"
  by (induction js) (auto simp: acquirable_def)

text \<open>The scan takes the first job that can be taken and writes it back in place.\<close>

lemma acquire_scan_Inr:
  "acquire_scan arg js = Inr (j', js') \<Longrightarrow>
     \<exists>i < length js. acquirable arg (js ! i) \<and> (\<forall>k < i. \<not> acquirable arg (js ! k)) \<and>
       j' = started_job arg (js ! i) \<and> js' = js[i := j']"
proof (induction js arbitrary: js')
  case Nil
  then show ?case by simp
next
  case (Cons j js)
  show ?case
  proof (cases "acquirable arg j")
    case True
    then have "ajp_tags arg \<noteq> TagsInvalid \<and> j' = started_job arg j \<and> js' = j' # js"
      using Cons.prems by (auto simp: acquirable_def split: if_splits)
    then show ?thesis using True by (intro exI [of _ 0]) auto
  next
    case False
    then obtain js1 where r: "acquire_scan arg js = Inr (j', js1)" and js': "js' = j # js1"
      using Cons.prems by (auto simp: acquirable_def split: if_splits)
    obtain i where "i < length js" "acquirable arg (js ! i)" "\<forall>k < i. \<not> acquirable arg (js ! k)"
      "j' = started_job arg (js ! i)" "js1 = js[i := j']"
      using Cons.IH [OF r] by blast
    then show ?thesis using False js' by (intro exI [of _ "Suc i"]) (auto simp: nth_Cons' less_Suc_eq_0_disj)
  qed
qed

lemma queue_rows_append:
  "queue_rows ids pos (xs @ ys) =
     queue_rows ids pos xs @ queue_rows ids (pos + int (length (filter (\<lambda>x. \<not> nt_valid (pj_started_at x)) xs))) ys"
  by (induction xs arbitrary: pos) (simp_all add: algebra_simps)

lemma queue_rows_size: "list_all (\<lambda>r. jq_queue_size r = 0) (queue_rows ids pos js)"
  by (induction js arbitrary: pos) auto

lemma job_logs_ids:
  assumes "InsertProvisionerJobLogs db arg = Inr (logs, db')"
  shows "map pjl_id logs = map (\<lambda>k. last_log_id db + int k + 1) [0..<length (ijl_output arg)]"
    and "db_job_logs db' = db_job_logs db @ logs"
    and "\<forall>l \<in> set logs. pjl_job_id l = ijl_job_id arg"
  using assms by (auto simp: InsertProvisionerJobLogs_def Let_def split: if_splits)

lemma old_ids_le_last:
  "sorted_wrt (<) (map pjl_id (db_job_logs db)) \<Longrightarrow> l \<in> set (db_job_logs db) \<Longrightarrow> pjl_id l \<le> last_log_id db"
  using sorted_less_last [of "map pjl_id (db_job_logs db)" "pjl_id l"]
  by (auto simp: last_log_id_def last_map)

end
