(* ===== verification/DbUsers.thy ===== *)
theory DbUsers
  imports DbFake "HOL-Library.List_Lexorder" "HOL-Library.Char_ord"
begin

text \<open>
  Users, API keys and Git SSH keys in the database fake
  (\<open>src/unnamed/part_005\<close>): the lookups, the paginated and filtered user
  listing \<open>GetUsers\<close>, the inserts with their uniqueness checks, the
  updates of one row by id, and the deletions, among them the cascade that
  \<open>UpdateUserDeletedByID\<close> runs over the API keys in an unbounded \<open>for\<close>
  loop.  Every operation takes the fake's \<^typ>\<open>fake_db\<close> and returns
  its result, or the error as \<^const>\<open>Inl\<close>, with the updated store.
  \<open>validateDatabaseType\<close> checks that enum arguments hold one of their
  constants, which the datatypes guarantee, so it is not modelled.
\<close>

section \<open>Users: lookups and counts\<close>

definition getUserByIDNoLock :: "fake_db \<Rightarrow> uuid \<Rightarrow> user option" where
  "getUserByIDNoLock db i = find (\<lambda>u. usr_id u = i) (db_users db)"

definition GetUserByEmailOrUsername :: "fake_db \<Rightarrow> string \<Rightarrow> string \<Rightarrow> user option" where
  "GetUserByEmailOrUsername db email username =
     find (\<lambda>u. \<not> usr_deleted u \<and> (equal_fold (usr_email u) email \<or> equal_fold (usr_username u) username))
          (db_users db)"

definition GetUserCount :: "fake_db \<Rightarrow> int" where
  "GetUserCount db = int (length (filter (\<lambda>u. \<not> usr_deleted u) (db_users db)))"

definition GetActiveUserCount :: "fake_db \<Rightarrow> int" where
  "GetActiveUserCount db =
     int (length (filter (\<lambda>u. usr_status u = UserStatusActive \<and> \<not> usr_deleted u) (db_users db)))"

text \<open>Every user once per occurrence of its id in \<open>ids\<close>: the inner loop has no \<open>break\<close>.\<close>

definition GetUsersByIDs :: "fake_db \<Rightarrow> uuid list \<Rightarrow> user list" where
  "GetUsersByIDs db ids = concat (map (\<lambda>u. map (\<lambda>_. u) (filter (\<lambda>i. usr_id u = i) ids)) (db_users db))"

section \<open>Users: the listing\<close>

text \<open>\<open>database.GetUsersParams\<close>; the offset and limit are \<open>int32\<close>.\<close>

record get_users_params =
  gup_after_id :: uuid
  gup_search :: string
  gup_status :: "user_status list"
  gup_rbac_role :: "string list"
  gup_last_seen_before :: time
  gup_last_seen_after :: time
  gup_offset :: int
  gup_limit :: int

definition get_users_params_zero :: get_users_params where
  "get_users_params_zero =
     \<lparr>gup_after_id = uuid_nil, gup_search = [], gup_status = [], gup_rbac_role = [],
      gup_last_seen_before = 0, gup_last_seen_after = 0, gup_offset = 0, gup_limit = 0\<rparr>"

text \<open>\<open>database.GetUsersRow\<close>: the user's columns and the count of rows before paging.\<close>

record get_users_row =
  gur_id :: uuid
  gur_email :: string
  gur_username :: string
  gur_hashed_password :: string
  gur_created_at :: time
  gur_updated_at :: time
  gur_status :: user_status
  gur_rbac_roles :: "string list"
  gur_login_type :: login_type
  gur_avatar_url :: null_string
  gur_deleted :: bool
  gur_last_seen_at :: time
  gur_count :: int

definition convertUsers :: "user list \<Rightarrow> int \<Rightarrow> get_users_row list" where
  "convertUsers users cnt =
     map (\<lambda>u. \<lparr>gur_id = usr_id u, gur_email = usr_email u, gur_username = usr_username u,
               gur_hashed_password = usr_hashed_password u, gur_created_at = usr_created_at u,
               gur_updated_at = usr_updated_at u, gur_status = usr_status u, gur_rbac_roles = usr_rbac_roles u,
               gur_login_type = usr_login_type u, gur_avatar_url = usr_avatar_url u,
               gur_deleted = usr_deleted u, gur_last_seen_at = usr_last_seen_at u, gur_count = cnt\<rparr>) users"

text \<open>\<open>rbac.RoleMember()\<close> (not under \<open>src/\<close>).\<close>

definition role_member :: string where
  "role_member = ''member''"

text \<open>
  The users after the one with id \<open>AfterID\<close>, or \<^const>\<open>None\<close> (an empty
  page) when it is not among them.
\<close>

definition users_after :: "uuid \<Rightarrow> user list \<Rightarrow> user list option" where
  "users_after a users =
     (let i = first_index (\<lambda>v. usr_id v = a) users
      in if i < length users then Some (drop (Suc i) users) else None)"

text \<open>The filters of \<open>GetUsers\<close> after the cursor, in the order the code applies them.\<close>

definition users_filtered :: "get_users_params \<Rightarrow> user list \<Rightarrow> user list" where
  "users_filtered params users =
     (let s = gup_search params;
          u1 = (if s \<noteq> [] then filter (\<lambda>u. str_contains (to_lower (usr_email u)) (to_lower s) \<or>
                                           str_contains (to_lower (usr_username u)) (to_lower s)) users
                else users);
          u2 = (if gup_status params \<noteq> [] then filter (\<lambda>u. usr_status u \<in> set (gup_status params)) u1 else u1);
          u3 = (if gup_rbac_role params \<noteq> [] \<and> role_member \<notin> set (gup_rbac_role params)
                then filter (\<lambda>u. list_ex (\<lambda>r. list_ex (equal_fold r) (usr_rbac_roles u)) (gup_rbac_role params)) u2
                else u2);
          u4 = (if \<not> time_is_zero (gup_last_seen_before params)
                then filter (\<lambda>u. time_before (usr_last_seen_at u) (gup_last_seen_before params)) u3 else u3)
      in if \<not> time_is_zero (gup_last_seen_after params)
         then filter (\<lambda>u. time_after (usr_last_seen_at u) (gup_last_seen_after params)) u4 else u4)"

text \<open>The page: \<open>users[OffsetOpt:]\<close> (an empty page past the end), then \<open>users[:LimitOpt]\<close> clamped.\<close>

definition users_page :: "int \<Rightarrow> int \<Rightarrow> user list \<Rightarrow> user list option" where
  "users_page offset limit users =
     (if 0 < offset \<and> int (length users) - 1 < offset then None
      else let u1 = (if 0 < offset then drop (nat offset) users else users)
           in Some (if 0 < limit then take (nat limit) u1 else u1))"

text \<open>
  \<open>GetUsers\<close>: a copy of the table sorted by the lower-cased username (the
  database's order), without deleted users, after the cursor, filtered,
  counted, and paged.  \<open>slices.SortFunc\<close> is not stable; the model takes
  the stable order, one of the orders it may produce, which matters only
  for usernames equal up to case.
\<close>

definition GetUsers :: "fake_db \<Rightarrow> get_users_params \<Rightarrow> get_users_row list" where
  "GetUsers db params =
     (let users = filter (\<lambda>u. \<not> usr_deleted u) (sort_key (\<lambda>u. to_lower (usr_username u)) (db_users db))
      in case (if gup_after_id params \<noteq> uuid_nil then users_after (gup_after_id params) users else Some users) of
           None \<Rightarrow> []
         | Some users1 \<Rightarrow>
             (let users2 = users_filtered params users1
              in case users_page (gup_offset params) (gup_limit params) users2 of
                   None \<Rightarrow> []
                 | Some page \<Rightarrow> convertUsers page (int (length users2))))"

section \<open>Users: insert and updates\<close>

text \<open>\<open>database.InsertUserParams\<close>.\<close>

record insert_user_params =
  iup_id :: uuid
  iup_email :: string
  iup_username :: string
  iup_hashed_password :: string
  iup_created_at :: time
  iup_updated_at :: time
  iup_rbac_roles :: "string list"
  iup_login_type :: login_type

text \<open>
  \<open>InsertUser\<close>: the creation time is moved one millisecond past that of
  the last user \<open>GetUsers\<close> lists (the last in username order) when it is
  not after it; a non-deleted user with the same username (compared
  exactly) is a unique violation; the new user is dormant.
\<close>

definition insert_user_created_at :: "fake_db \<Rightarrow> time \<Rightarrow> time" where
  "insert_user_created_at db createdAt =
     (let allUsers = GetUsers db get_users_params_zero
      in if allUsers \<noteq> [] \<and> (time_before createdAt (gur_created_at (last allUsers)) \<or>
                              createdAt = gur_created_at (last allUsers))
         then gur_created_at (last allUsers) + millisecond else createdAt)"

definition InsertUser :: "fake_db \<Rightarrow> insert_user_params \<Rightarrow> string + (user \<times> fake_db)" where
  "InsertUser db arg =
     (let createdAt = insert_user_created_at db (iup_created_at arg)
      in if list_ex (\<lambda>u. usr_username u = iup_username arg \<and> \<not> usr_deleted u) (db_users db)
         then Inl errDuplicateKey
         else let u = \<lparr>usr_id = iup_id arg, usr_email = iup_email arg, usr_username = iup_username arg,
                      usr_hashed_password = iup_hashed_password arg, usr_created_at = createdAt,
                      usr_updated_at = iup_updated_at arg, usr_status = UserStatusDormant,
                      usr_rbac_roles = iup_rbac_roles arg, usr_login_type = iup_login_type arg,
                      usr_avatar_url = \<lparr>ns_string = [], ns_valid = False\<rparr>, usr_deleted = False,
                      usr_last_seen_at = 0, usr_quiet_hours_schedule = []\<rparr>
              in Inr (u, db\<lparr>db_users := db_users db @ [u]\<rparr>))"

text \<open>
  The shape of every \<open>UpdateUser*\<close> query: the first user with the id is
  changed and written back, and returned; no such user is \<open>ErrNoRows\<close>.
\<close>

definition update_user :: "uuid \<Rightarrow> (user \<Rightarrow> user) \<Rightarrow> fake_db \<Rightarrow> string + (user \<times> fake_db)" where
  "update_user i f db =
     (case update_first (\<lambda>u. usr_id u = i) f (db_users db) of
        None \<Rightarrow> Inl ErrNoRows
      | Some (u, us) \<Rightarrow> Inr (u, db\<lparr>db_users := us\<rparr>))"

definition UpdateUserStatus :: "uuid \<Rightarrow> user_status \<Rightarrow> time \<Rightarrow> fake_db \<Rightarrow> string + (user \<times> fake_db)" where
  "UpdateUserStatus i st updatedAt = update_user i (\<lambda>u. u\<lparr>usr_status := st, usr_updated_at := updatedAt\<rparr>)"

definition UpdateUserLastSeenAt :: "uuid \<Rightarrow> time \<Rightarrow> time \<Rightarrow> fake_db \<Rightarrow> string + (user \<times> fake_db)" where
  "UpdateUserLastSeenAt i lastSeenAt updatedAt =
     update_user i (\<lambda>u. u\<lparr>usr_updated_at := updatedAt, usr_last_seen_at := lastSeenAt\<rparr>)"

text \<open>\<open>UpdateUserProfile\<close> writes the username without any uniqueness check.\<close>

definition UpdateUserProfile :: "uuid \<Rightarrow> string \<Rightarrow> string \<Rightarrow> null_string \<Rightarrow> fake_db \<Rightarrow> string + (user \<times> fake_db)" where
  "UpdateUserProfile i email username avatarURL =
     update_user i (\<lambda>u. u\<lparr>usr_email := email, usr_username := username, usr_avatar_url := avatarURL\<rparr>)"

definition UpdateUserQuietHoursSchedule :: "uuid \<Rightarrow> string \<Rightarrow> fake_db \<Rightarrow> string + (user \<times> fake_db)" where
  "UpdateUserQuietHoursSchedule i sched = update_user i (\<lambda>u. u\<lparr>usr_quiet_hours_schedule := sched\<rparr>)"

text \<open>
  \<open>UpdateUserRoles\<close>: the granted roles without duplicates, sorted
  (\<open>sort.Strings\<close>, byte order); which duplicate is kept does not matter
  once the list is sorted.
\<close>

definition UpdateUserRoles :: "uuid \<Rightarrow> string list \<Rightarrow> fake_db \<Rightarrow> string + (user \<times> fake_db)" where
  "UpdateUserRoles i granted = update_user i (\<lambda>u. u\<lparr>usr_rbac_roles := sort (remdups granted)\<rparr>)"

definition UpdateUserLoginType :: "uuid \<Rightarrow> login_type \<Rightarrow> fake_db \<Rightarrow> string + (user \<times> fake_db)" where
  "UpdateUserLoginType i newLoginType =
     update_user i (\<lambda>u. u\<lparr>usr_hashed_password := (if newLoginType \<noteq> LoginTypePassword then [] else usr_hashed_password u),
                          usr_login_type := newLoginType\<rparr>)"

definition UpdateUserHashedPassword :: "uuid \<Rightarrow> string \<Rightarrow> fake_db \<Rightarrow> string + fake_db" where
  "UpdateUserHashedPassword i pw db =
     map_sum id snd (update_user i (\<lambda>u. u\<lparr>usr_hashed_password := pw\<rparr>) db)"

text \<open>\<open>database.UpdateInactiveUsersToDormantRow\<close>.\<close>

record dormant_row =
  dr_id :: uuid
  dr_email :: string
  dr_last_seen_at :: time

definition dormant_due :: "time \<Rightarrow> user \<Rightarrow> bool" where
  "dormant_due lastSeenAfter u \<longleftrightarrow> usr_status u = UserStatusActive \<and> time_before (usr_last_seen_at u) lastSeenAfter"

text \<open>\<open>UpdateInactiveUsersToDormant\<close>: every active user not seen since the cut-off becomes dormant.\<close>

definition UpdateInactiveUsersToDormant :: "time \<Rightarrow> time \<Rightarrow> fake_db \<Rightarrow> string + (dormant_row list \<times> fake_db)" where
  "UpdateInactiveUsersToDormant lastSeenAfter updatedAt db =
     (let updated = map (\<lambda>u. \<lparr>dr_id = usr_id u, dr_email = usr_email u, dr_last_seen_at = usr_last_seen_at u\<rparr>)
                        (filter (dormant_due lastSeenAfter) (db_users db));
          users = map (\<lambda>u. if dormant_due lastSeenAfter u
                           then u\<lparr>usr_status := UserStatusDormant, usr_updated_at := updatedAt\<rparr> else u) (db_users db)
      in if updated = [] then Inl ErrNoRows else Inr (updated, db\<lparr>db_users := users\<rparr>))"

text \<open>
  The trigger \<open>UpdateUserDeletedByID\<close> emulates: an unbounded loop over
  the API keys that swap-removes each key of the user and then re-examines
  the same index (\<open>i--\<close> followed by \<open>i++\<close>).  It is a
  \<open>partial_function\<close>, so that its returning is a theorem.
\<close>

partial_function (option) delete_user_keys_loop :: "uuid \<Rightarrow> nat \<Rightarrow> api_key list \<Rightarrow> api_key list option" where
  "delete_user_keys_loop uid i keys =
     (if length keys \<le> i then Some keys
      else if ak_user_id (keys ! i) = uid then delete_user_keys_loop uid i (butlast (keys[i := last keys]))
      else delete_user_keys_loop uid (Suc i) keys)"

definition UpdateUserDeletedByID :: "uuid \<Rightarrow> bool \<Rightarrow> fake_db \<Rightarrow> string + fake_db option" where
  "UpdateUserDeletedByID i deleted db =
     (case update_first (\<lambda>u. usr_id u = i) (\<lambda>u. u\<lparr>usr_deleted := deleted\<rparr>) (db_users db) of
        None \<Rightarrow> Inl ErrNoRows
      | Some (u, us) \<Rightarrow>
          Inr (map_option (\<lambda>keys. db\<lparr>db_api_keys := keys, db_users := us\<rparr>)
                          (delete_user_keys_loop (usr_id u) 0 (db_api_keys db))))"

section \<open>API keys\<close>

definition GetAPIKeyByID :: "fake_db \<Rightarrow> string \<Rightarrow> api_key option" where
  "GetAPIKeyByID db i = find (\<lambda>k. ak_id k = i) (db_api_keys db)"

definition GetAPIKeyByName :: "fake_db \<Rightarrow> uuid \<Rightarrow> string \<Rightarrow> api_key option" where
  "GetAPIKeyByName db uid tokenName =
     (if tokenName = [] then None
      else find (\<lambda>k. uid = ak_user_id k \<and> tokenName = ak_token_name k) (db_api_keys db))"

definition GetAPIKeysByLoginType :: "fake_db \<Rightarrow> login_type \<Rightarrow> api_key list" where
  "GetAPIKeysByLoginType db t = filter (\<lambda>k. ak_login_type k = t) (db_api_keys db)"

definition GetAPIKeysByUserID :: "fake_db \<Rightarrow> uuid \<Rightarrow> login_type \<Rightarrow> api_key list" where
  "GetAPIKeysByUserID db uid t = filter (\<lambda>k. ak_user_id k = uid \<and> ak_login_type k = t) (db_api_keys db)"

definition GetAPIKeysLastUsedAfter :: "fake_db \<Rightarrow> time \<Rightarrow> api_key list" where
  "GetAPIKeysLastUsedAfter db after = filter (\<lambda>k. time_after (ak_last_used k) after) (db_api_keys db)"

text \<open>
  \<open>InsertAPIKey\<close>: the parameters carry exactly the key's columns; a zero
  lifetime becomes one day, a key of a deleted user is refused, and the id
  is not checked for uniqueness.
\<close>

definition InsertAPIKey :: "fake_db \<Rightarrow> api_key \<Rightarrow> string + (api_key \<times> fake_db)" where
  "InsertAPIKey db arg =
     (let arg' = (if ak_lifetime_seconds arg = 0 then arg\<lparr>ak_lifetime_seconds := 86400\<rparr> else arg)
      in if list_ex (\<lambda>u. usr_id u = ak_user_id arg' \<and> usr_deleted u) (db_users db)
         then Inl ''refusing to create APIKey for deleted user''
         else Inr (arg', db\<lparr>db_api_keys := db_api_keys db @ [arg']\<rparr>))"

definition UpdateAPIKeyByID :: "string \<Rightarrow> time \<Rightarrow> time \<Rightarrow> string \<Rightarrow> fake_db \<Rightarrow> string + fake_db" where
  "UpdateAPIKeyByID i lastUsed expiresAt ip db =
     (case update_first (\<lambda>k. ak_id k = i)
             (\<lambda>k. k\<lparr>ak_last_used := lastUsed, ak_expires_at := expiresAt, ak_ip_address := ip\<rparr>) (db_api_keys db) of
        None \<Rightarrow> Inl ErrNoRows
      | Some (_, keys) \<Rightarrow> Inr (db\<lparr>db_api_keys := keys\<rparr>))"

definition DeleteAPIKeyByID :: "string \<Rightarrow> fake_db \<Rightarrow> string + fake_db" where
  "DeleteAPIKeyByID i db =
     (case swap_remove (\<lambda>k. ak_id k = i) (db_api_keys db) of
        None \<Rightarrow> Inl ErrNoRows
      | Some keys \<Rightarrow> Inr (db\<lparr>db_api_keys := keys\<rparr>))"

definition DeleteAPIKeysByUserID :: "uuid \<Rightarrow> fake_db \<Rightarrow> fake_db" where
  "DeleteAPIKeysByUserID uid db =
     db\<lparr>db_api_keys := delete_backward (\<lambda>k. ak_user_id k = uid) (length (db_api_keys db)) (db_api_keys db)\<rparr>"

definition DeleteApplicationConnectAPIKeysByUserID :: "uuid \<Rightarrow> fake_db \<Rightarrow> fake_db" where
  "DeleteApplicationConnectAPIKeysByUserID uid db =
     db\<lparr>db_api_keys := delete_backward (\<lambda>k. ak_user_id k = uid \<and> ak_scope k = APIKeyScopeApplicationConnect)
                                      (length (db_api_keys db)) (db_api_keys db)\<rparr>"

section \<open>Git SSH keys\<close>

definition GetGitSSHKey :: "fake_db \<Rightarrow> uuid \<Rightarrow> git_ssh_key option" where
  "GetGitSSHKey db uid = find (\<lambda>k. gsk_user_id k = uid) (db_git_ssh_keys db)"

text \<open>\<open>InsertGitSSHKey\<close> appends without looking for a key of the same user.\<close>

definition InsertGitSSHKey :: "fake_db \<Rightarrow> git_ssh_key \<Rightarrow> git_ssh_key \<times> fake_db" where
  "InsertGitSSHKey db arg = (arg, db\<lparr>db_git_ssh_keys := db_git_ssh_keys db @ [arg]\<rparr>)"

definition UpdateGitSSHKey :: "uuid \<Rightarrow> time \<Rightarrow> string \<Rightarrow> string \<Rightarrow> fake_db \<Rightarrow> string + (git_ssh_key \<times> fake_db)" where
  "UpdateGitSSHKey uid updatedAt priv pub db =
     (case update_first (\<lambda>k. gsk_user_id k = uid)
             (\<lambda>k. k\<lparr>gsk_updated_at := updatedAt, gsk_private_key := priv, gsk_public_key := pub\<rparr>) (db_git_ssh_keys db) of
        None \<Rightarrow> Inl ErrNoRows
      | Some (k, keys) \<Rightarrow> Inr (k, db\<lparr>db_git_ssh_keys := keys\<rparr>))"

definition DeleteGitSSHKey :: "uuid \<Rightarrow> fake_db \<Rightarrow> string + fake_db" where
  "DeleteGitSSHKey uid db =
     (case swap_remove (\<lambda>k. gsk_user_id k = uid) (db_git_ssh_keys db) of
        None \<Rightarrow> Inl ErrNoRows
      | Some keys \<Rightarrow> Inr (db\<lparr>db_git_ssh_keys := keys\<rparr>))"

section \<open>Lemmas\<close>

text \<open>The key-deletion loop returns, with the keys of every other user left, up to order.\<close>

lemma delete_user_keys_loop_result:
  "i \<le> length keys \<Longrightarrow> (\<forall>j < i. ak_user_id (keys ! j) \<noteq> uid) \<Longrightarrow>
     \<exists>ys. delete_user_keys_loop uid i keys = Some ys \<and>
          mset ys = mset (filter (\<lambda>k. ak_user_id k \<noteq> uid) keys)"
proof (induction "2 * length keys - i" arbitrary: i keys rule: less_induct)
  case less
  show ?case
  proof (cases "length keys \<le> i")
    case True
    have "\<forall>k \<in> set keys. ak_user_id k \<noteq> uid"
    proof
      fix k assume "k \<in> set keys"
      then obtain n where "n < length keys" and "keys ! n = k" by (auto simp: in_set_conv_nth)
      moreover have "n < i" using \<open>n < length keys\<close> True by simp
      ultimately show "ak_user_id k \<noteq> uid" using less.prems(2) by blast
    qed
    then show ?thesis using True by (simp add: delete_user_keys_loop.simps)
  next
    case False
    then have i: "i < length keys" by simp
    show ?thesis
    proof (cases "ak_user_id (keys ! i) = uid")
      case True
      define keys' where "keys' = butlast (keys[i := last keys])"
      have len: "i \<le> length keys'" using i by (simp add: keys'_def)
      have pre: "\<forall>j < i. ak_user_id (keys' ! j) \<noteq> uid"
        using less.prems(2) i by (simp add: keys'_def nth_butlast_swap)
      have dec: "2 * length keys' - i < 2 * length keys - i" using i by (simp add: keys'_def)
      have ms: "mset (filter (\<lambda>k. ak_user_id k \<noteq> uid) keys') = mset (filter (\<lambda>k. ak_user_id k \<noteq> uid) keys)"
        using mset_butlast_swap [OF i] True i by (simp add: keys'_def)
      obtain ys where "delete_user_keys_loop uid i keys' = Some ys"
        and "mset ys = mset (filter (\<lambda>k. ak_user_id k \<noteq> uid) keys')"
        using less.hyps [OF dec len pre] by blast
      then show ?thesis using i True ms by (simp add: delete_user_keys_loop.simps [of uid i keys] keys'_def)
    next
      case False
      have pre: "\<forall>j < Suc i. ak_user_id (keys ! j) \<noteq> uid"
        using less.prems(2) False by (auto simp: less_Suc_eq)
      have dec: "2 * length keys - Suc i < 2 * length keys - i" using i by simp
      obtain ys where "delete_user_keys_loop uid (Suc i) keys = Some ys"
        and "mset ys = mset (filter (\<lambda>k. ak_user_id k \<noteq> uid) keys)"
        using less.hyps [OF dec _ pre] i by (metis Suc_leI)
      then show ?thesis using i False by (simp add: delete_user_keys_loop.simps [of uid i keys])
    qed
  qed
qed

text \<open>The creation time \<open>InsertUser\<close> writes is after that of the last user in username order.\<close>

lemma insert_user_created_at_gt:
  assumes "GetUsers db get_users_params_zero \<noteq> []"
  shows "gur_created_at (last (GetUsers db get_users_params_zero)) < insert_user_created_at db t"
  using assms by (auto simp: insert_user_created_at_def Let_def time_before_def millisecond_def)

end
