(* ===== verification/DbMisc.thy ===== *)
theory DbMisc
  imports DbUsers
begin

text \<open>
  Replicas, licenses and groups in the database fake
  (\<open>src/unnamed/part_005\<close>).  Two of the deletions remove rows inside a
  \<open>for i, x := range t\<close> loop (\<^const>\<open>range_delete\<close>), one removes by
  swapping in the last row (\<^const>\<open>swap_remove\<close>).  License ids come from a
  counter kept beside the table, an \<open>int32\<close> that wraps around.
\<close>

section \<open>Replicas\<close>

definition GetReplicaByID :: "fake_db \<Rightarrow> uuid \<Rightarrow> replica option" where
  "GetReplicaByID db i = find (\<lambda>r. rep_id r = i) (db_replicas db)"

definition GetReplicasUpdatedAfter :: "fake_db \<Rightarrow> time \<Rightarrow> replica list" where
  "GetReplicasUpdatedAfter db updatedAt =
     filter (\<lambda>r. time_after (rep_updated_at r) updatedAt \<and> \<not> nt_valid (rep_stopped_at r)) (db_replicas db)"

text \<open>\<open>database.InsertReplicaParams\<close>: the columns but the stop time and the error.\<close>

record insert_replica_params =
  irp_id :: uuid
  irp_created_at :: time
  irp_started_at :: time
  irp_updated_at :: time
  irp_hostname :: string
  irp_region_id :: int
  irp_relay_address :: string
  irp_version :: string
  irp_database_latency :: int
  irp_primary :: bool

definition InsertReplica :: "fake_db \<Rightarrow> insert_replica_params \<Rightarrow> replica \<times> fake_db" where
  "InsertReplica db arg =
     (let r = \<lparr>rep_id = irp_id arg, rep_created_at = irp_created_at arg, rep_started_at = irp_started_at arg,
               rep_stopped_at = null_time_none, rep_updated_at = irp_updated_at arg, rep_hostname = irp_hostname arg,
               rep_region_id = irp_region_id arg, rep_relay_address = irp_relay_address arg,
               rep_database_latency = irp_database_latency arg, rep_version = irp_version arg, rep_error = [],
               rep_primary = irp_primary arg\<rparr>
      in (r, db\<lparr>db_replicas := db_replicas db @ [r]\<rparr>))"

text \<open>\<open>UpdateReplica\<close>: every column but the id and the creation time comes from the arguments.\<close>

definition UpdateReplica :: "replica \<Rightarrow> fake_db \<Rightarrow> string + (replica \<times> fake_db)" where
  "UpdateReplica arg db =
     (case update_first (\<lambda>r. rep_id r = rep_id arg) (\<lambda>r. arg\<lparr>rep_created_at := rep_created_at r\<rparr>) (db_replicas db) of
        None \<Rightarrow> Inl ErrNoRows
      | Some (r, rs) \<Rightarrow> Inr (r, db\<lparr>db_replicas := rs\<rparr>))"

text \<open>
  \<open>DeleteReplicasUpdatedBefore\<close> deletes inside the range loop; a panic of
  the loop is \<^const>\<open>None\<close>.
\<close>

definition DeleteReplicasUpdatedBefore :: "time \<Rightarrow> fake_db \<Rightarrow> fake_db option" where
  "DeleteReplicasUpdatedBefore before db =
     map_option (\<lambda>rs. db\<lparr>db_replicas := rs\<rparr>)
                (range_delete (\<lambda>r. time_before (rep_updated_at r) before) (db_replicas db))"

section \<open>Licenses\<close>

text \<open>
  \<open>InsertLicense\<close>: the id is the last id plus one, in \<open>int32\<close>
  arithmetic, and becomes the last id.
\<close>

definition InsertLicense :: "fake_db \<Rightarrow> time \<Rightarrow> string \<Rightarrow> time \<Rightarrow> license \<times> fake_db" where
  "InsertLicense db uploadedAt jwt expiry =
     (let l = \<lparr>lic_id = db_last_license_id db + 1, lic_uploaded_at = uploadedAt, lic_jwt = jwt, lic_exp = expiry\<rparr>
      in (l, db\<lparr>db_licenses := db_licenses db @ [l], db_last_license_id := lic_id l\<rparr>))"

definition GetLicenseByID :: "fake_db \<Rightarrow> 32 word \<Rightarrow> license option" where
  "GetLicenseByID db i = find (\<lambda>l. lic_id l = i) (db_licenses db)"

text \<open>\<open>sort.Slice\<close> by id, compared as signed \<open>int32\<close> values.\<close>

definition GetLicenses :: "fake_db \<Rightarrow> license list" where
  "GetLicenses db = sort_key (\<lambda>l. sint (lic_id l)) (db_licenses db)"

definition GetUnexpiredLicenses :: "fake_db \<Rightarrow> time \<Rightarrow> license list" where
  "GetUnexpiredLicenses db now =
     sort_key (\<lambda>l. sint (lic_id l)) (filter (\<lambda>l. time_after (lic_exp l) now) (db_licenses db))"

definition DeleteLicense :: "32 word \<Rightarrow> fake_db \<Rightarrow> string + (32 word \<times> fake_db)" where
  "DeleteLicense i db =
     (case swap_remove (\<lambda>l. lic_id l = i) (db_licenses db) of
        None \<Rightarrow> Inl ErrNoRows
      | Some ls \<Rightarrow> Inr (i, db\<lparr>db_licenses := ls\<rparr>))"

section \<open>Groups\<close>

definition getGroupByIDNoLock :: "fake_db \<Rightarrow> uuid \<Rightarrow> group option" where
  "getGroupByIDNoLock db i = find (\<lambda>g. grp_id g = i) (db_groups db)"

definition GetGroupByOrgAndName :: "fake_db \<Rightarrow> uuid \<Rightarrow> string \<Rightarrow> group option" where
  "GetGroupByOrgAndName db org name =
     find (\<lambda>g. grp_organization_id g = org \<and> grp_name g = name) (db_groups db)"

text \<open>The groups of an organization but its all-users group, whose id is the organization's.\<close>

definition GetGroupsByOrganizationID :: "fake_db \<Rightarrow> uuid \<Rightarrow> group list" where
  "GetGroupsByOrganizationID db org =
     filter (\<lambda>g. grp_organization_id g = org \<and> grp_id g \<noteq> org) (db_groups db)"

text \<open>The first active, non-deleted user of each membership row, in membership order.\<close>

definition GetGroupMembers :: "fake_db \<Rightarrow> uuid \<Rightarrow> user list" where
  "GetGroupMembers db gid =
     concat (map (\<lambda>m. case find (\<lambda>u. usr_id u = gm_user_id m \<and> usr_status u = UserStatusActive \<and> \<not> usr_deleted u)
                                (db_users db) of
                        None \<Rightarrow> [] | Some u \<Rightarrow> [u])
                 (filter (\<lambda>m. gm_group_id m = gid) (db_group_members db)))"

text \<open>\<open>InsertGroup\<close>: the name is unique within the organization.\<close>

definition InsertGroup :: "fake_db \<Rightarrow> group \<Rightarrow> string + (group \<times> fake_db)" where
  "InsertGroup db arg =
     (if list_ex (\<lambda>g. grp_organization_id g = grp_organization_id arg \<and> grp_name g = grp_name arg) (db_groups db)
      then Inl errDuplicateKey
      else Inr (arg, db\<lparr>db_groups := db_groups db @ [arg]\<rparr>))"

text \<open>\<open>database.AllUsersGroup\<close> (not under \<open>src/\<close>).\<close>

definition AllUsersGroup :: string where
  "AllUsersGroup = ''Everyone''"

definition InsertAllUsersGroup :: "fake_db \<Rightarrow> uuid \<Rightarrow> string + (group \<times> fake_db)" where
  "InsertAllUsersGroup db orgID =
     InsertGroup db \<lparr>grp_id = orgID, grp_name = AllUsersGroup, grp_display_name = [],
                     grp_organization_id = orgID, grp_avatar_url = [], grp_quota_allowance = 0\<rparr>"

definition UpdateGroupByID :: "uuid \<Rightarrow> string \<Rightarrow> string \<Rightarrow> string \<Rightarrow> int \<Rightarrow> fake_db \<Rightarrow> string + (group \<times> fake_db)" where
  "UpdateGroupByID i name displayName avatarURL quota db =
     (case update_first (\<lambda>g. grp_id g = i)
             (\<lambda>g. g\<lparr>grp_name := name, grp_display_name := displayName, grp_avatar_url := avatarURL,
                    grp_quota_allowance := quota\<rparr>) (db_groups db) of
        None \<Rightarrow> Inl ErrNoRows
      | Some (g, gs) \<Rightarrow> Inr (g, db\<lparr>db_groups := gs\<rparr>))"

text \<open>\<open>DeleteGroupByID\<close> removes the first group with the id (the loop returns at once).\<close>

definition DeleteGroupByID :: "uuid \<Rightarrow> fake_db \<Rightarrow> string + fake_db" where
  "DeleteGroupByID i db =
     (let k = first_index (\<lambda>g. grp_id g = i) (db_groups db)
      in if k < length (db_groups db)
         then Inr (db\<lparr>db_groups := take k (db_groups db) @ drop (Suc k) (db_groups db)\<rparr>)
         else Inl ErrNoRows)"

section \<open>Group members\<close>

text \<open>\<open>InsertGroupMember\<close>: a user is at most once in a group.\<close>

definition InsertGroupMember :: "fake_db \<Rightarrow> uuid \<Rightarrow> uuid \<Rightarrow> string + fake_db" where
  "InsertGroupMember db uid gid =
     (if list_ex (\<lambda>m. gm_group_id m = gid \<and> gm_user_id m = uid) (db_group_members db)
      then Inl errDuplicateKey
      else Inr (db\<lparr>db_group_members := db_group_members db @ [\<lparr>gm_user_id = uid, gm_group_id = gid\<rparr>]\<rparr>))"

text \<open>
  \<open>InsertUserGroupsByName\<close>: a membership row for every group whose name
  is listed (once per listing), of any organization, without the
  duplicate check of \<open>InsertGroupMember\<close>.
\<close>

definition InsertUserGroupsByName :: "fake_db \<Rightarrow> uuid \<Rightarrow> string list \<Rightarrow> fake_db" where
  "InsertUserGroupsByName db uid groupNames =
     (let groupIDs = concat (map (\<lambda>g. map (\<lambda>_. grp_id g) (filter (\<lambda>n. grp_name g = n) groupNames)) (db_groups db))
      in db\<lparr>db_group_members := db_group_members db @ map (\<lambda>gid. \<lparr>gm_user_id = uid, gm_group_id = gid\<rparr>) groupIDs\<rparr>)"

definition DeleteGroupMemberFromGroup :: "uuid \<Rightarrow> uuid \<Rightarrow> fake_db \<Rightarrow> fake_db option" where
  "DeleteGroupMemberFromGroup uid gid db =
     map_option (\<lambda>ms. db\<lparr>db_group_members := ms\<rparr>)
                (range_delete (\<lambda>m. gm_user_id m = uid \<and> gm_group_id m = gid) (db_group_members db))"

text \<open>
  \<open>DeleteGroupMembersByOrgAndUser\<close>: the user's memberships in groups of
  the organization go; a membership whose group is missing goes too, as
  the code keeps a row of the user only when it finds its group in another
  organization.  The filter in place (\<open>newMembers := t[:0]\<close>) writes only
  positions it has read.
\<close>

definition DeleteGroupMembersByOrgAndUser :: "uuid \<Rightarrow> uuid \<Rightarrow> fake_db \<Rightarrow> fake_db" where
  "DeleteGroupMembersByOrgAndUser org uid db =
     db\<lparr>db_group_members :=
          filter (\<lambda>m. gm_user_id m \<noteq> uid \<or>
                      (case find (\<lambda>g. grp_id g = gm_group_id m) (db_groups db) of
                         None \<Rightarrow> False | Some g \<Rightarrow> grp_organization_id g \<noteq> org))
                 (db_group_members db)\<rparr>"

end
