(* ===== verification/DbWorkspaces.thy ===== *)
theory DbWorkspaces
  imports DbFake
begin

text \<open>
  Workspaces and workspace builds in the database fake
  (\<open>src/unnamed/part_005\<close>) beyond the executor's lookups: the inserts,
  the updates of one workspace or build by id, the rename with its
  uniqueness check, the update of the deletion times of locked workspaces
  when a template's locked TTL changes, and the build listings.  A build
  returned by a query carries its initiator's username and avatar, looked
  up in the users table (\<open>workspaceBuildWithUserNoLock\<close>).
\<close>

section \<open>Workspaces\<close>

text \<open>\<open>database.InsertWorkspaceParams\<close>.\<close>

record insert_workspace_params =
  iwp_id :: uuid
  iwp_created_at :: time
  iwp_updated_at :: time
  iwp_owner_id :: uuid
  iwp_organization_id :: uuid
  iwp_template_id :: uuid
  iwp_name :: string
  iwp_autostart_schedule :: null_string
  iwp_ttl :: null_int
  iwp_last_used_at :: time

text \<open>The insert checks nothing: neither the id nor the owner's workspace names.\<close>

definition InsertWorkspace :: "fake_db \<Rightarrow> insert_workspace_params \<Rightarrow> workspace \<times> fake_db" where
  "InsertWorkspace db arg =
     (let w = \<lparr>ws_id = iwp_id arg, ws_created_at = iwp_created_at arg, ws_updated_at = iwp_updated_at arg,
               ws_owner_id = iwp_owner_id arg, ws_organization_id = iwp_organization_id arg,
               ws_template_id = iwp_template_id arg, ws_deleted = False, ws_name = iwp_name arg,
               ws_autostart_schedule = iwp_autostart_schedule arg, ws_ttl = iwp_ttl arg,
               ws_last_used_at = iwp_last_used_at arg, ws_locked_at = null_time_none,
               ws_deleting_at = null_time_none\<rparr>
      in (w, db\<lparr>db_workspaces := db_workspaces db @ [w]\<rparr>))"

text \<open>The updates of one column by id: the first workspace with the id, deleted or not.\<close>

definition update_workspace :: "uuid \<Rightarrow> (workspace \<Rightarrow> workspace) \<Rightarrow> fake_db \<Rightarrow> string + fake_db" where
  "update_workspace i f db =
     (case update_first (\<lambda>w. ws_id w = i) f (db_workspaces db) of
        None \<Rightarrow> Inl ErrNoRows
      | Some (_, ws) \<Rightarrow> Inr (db\<lparr>db_workspaces := ws\<rparr>))"

definition UpdateWorkspaceTTL :: "uuid \<Rightarrow> null_int \<Rightarrow> fake_db \<Rightarrow> string + fake_db" where
  "UpdateWorkspaceTTL i ttl = update_workspace i (\<lambda>w. w\<lparr>ws_ttl := ttl\<rparr>)"

definition UpdateWorkspaceAutostart :: "uuid \<Rightarrow> null_string \<Rightarrow> fake_db \<Rightarrow> string + fake_db" where
  "UpdateWorkspaceAutostart i sched = update_workspace i (\<lambda>w. w\<lparr>ws_autostart_schedule := sched\<rparr>)"

definition UpdateWorkspaceLastUsedAt :: "uuid \<Rightarrow> time \<Rightarrow> fake_db \<Rightarrow> string + fake_db" where
  "UpdateWorkspaceLastUsedAt i t = update_workspace i (\<lambda>w. w\<lparr>ws_last_used_at := t\<rparr>)"

definition UpdateWorkspaceDeletedByID :: "uuid \<Rightarrow> bool \<Rightarrow> fake_db \<Rightarrow> string + fake_db" where
  "UpdateWorkspaceDeletedByID i deleted = update_workspace i (\<lambda>w. w\<lparr>ws_deleted := deleted\<rparr>)"

text \<open>
  \<open>UpdateWorkspace\<close> renames the first live workspace with the id; another
  live workspace of the same owner with exactly the new name is a unique
  violation.
\<close>

definition UpdateWorkspace :: "uuid \<Rightarrow> string \<Rightarrow> fake_db \<Rightarrow> string + (workspace \<times> fake_db)" where
  "UpdateWorkspace i name db =
     (let ws = db_workspaces db; k = first_index (\<lambda>w. \<not> ws_deleted w \<and> ws_id w = i) ws
      in if length ws \<le> k then Inl ErrNoRows
         else let w = ws ! k
              in if list_ex (\<lambda>other. \<not> ws_deleted other \<and> ws_id other \<noteq> ws_id w \<and> ws_owner_id w = ws_owner_id other \<and>
                                  ws_name other = name) ws
                 then Inl errDuplicateKey
                 else Inr (w\<lparr>ws_name := name\<rparr>, db\<lparr>db_workspaces := ws[k := w\<lparr>ws_name := name\<rparr>]\<rparr>))"

text \<open>
  \<open>UpdateWorkspacesDeletingAtByTemplateID\<close>: for every workspace with a
  lock time, the deletion time becomes the lock time plus the TTL (an
  \<open>int64\<close> product of milliseconds), or null for a TTL that is not
  positive.  The template id of the arguments is not compared with the
  workspace's.
\<close>

definition UpdateWorkspacesDeletingAtByTemplateID :: "int \<Rightarrow> uuid \<Rightarrow> fake_db \<Rightarrow> fake_db" where
  "UpdateWorkspacesDeletingAtByTemplateID lockedTtlMs templateID db =
     db\<lparr>db_workspaces :=
          map (\<lambda>w. if time_is_zero (nt_time (ws_locked_at w)) then w
                   else w\<lparr>ws_deleting_at :=
                            \<lparr>nt_time = (if 0 < lockedTtlMs
                                        then nt_time (ws_locked_at w) + wrap_int64 (lockedTtlMs * millisecond)
                                        else 0),
                             nt_valid = (0 < lockedTtlMs)\<rparr>\<rparr>)
              (db_workspaces db)\<rparr>"

text \<open>The most recently created matching workspace; of equal creation times the first.\<close>

definition newer_workspace :: "workspace \<Rightarrow> workspace option \<Rightarrow> workspace option" where
  "newer_workspace w found =
     (case found of None \<Rightarrow> Some w | Some f \<Rightarrow> if time_after (ws_created_at w) (ws_created_at f) then Some w else found)"

definition GetWorkspaceByOwnerIDAndName :: "fake_db \<Rightarrow> uuid \<Rightarrow> string \<Rightarrow> bool \<Rightarrow> workspace option" where
  "GetWorkspaceByOwnerIDAndName db owner name deleted =
     fold newer_workspace
          (filter (\<lambda>w. ws_owner_id w = owner \<and> equal_fold (ws_name w) name \<and> ws_deleted w = deleted)
                  (db_workspaces db))
          None"

section \<open>Builds\<close>

text \<open>\<open>database.WorkspaceBuild\<close>: the row and its initiator's username and avatar.\<close>

record build_with_user =
  bwu_build :: workspace_build
  bwu_initiator_username :: string
  bwu_initiator_avatar_url :: null_string

text \<open>The first user with the initiator's id, or the zero user when there is none.\<close>

definition workspaceBuildWithUserNoLock :: "fake_db \<Rightarrow> workspace_build \<Rightarrow> build_with_user" where
  "workspaceBuildWithUserNoLock db b =
     (case find (\<lambda>u. usr_id u = wb_initiator_id b) (db_users db) of
        None \<Rightarrow> \<lparr>bwu_build = b, bwu_initiator_username = [], bwu_initiator_avatar_url = \<lparr>ns_string = [], ns_valid = False\<rparr>\<rparr>
      | Some u \<Rightarrow> \<lparr>bwu_build = b, bwu_initiator_username = usr_username u, bwu_initiator_avatar_url = usr_avatar_url u\<rparr>)"

text \<open>\<open>database.InsertWorkspaceBuildParams\<close>: the columns but the cost and the max deadline.\<close>

record insert_build_params =
  ibp_id :: uuid
  ibp_created_at :: time
  ibp_updated_at :: time
  ibp_workspace_id :: uuid
  ibp_template_version_id :: uuid
  ibp_build_number :: int
  ibp_transition :: workspace_transition
  ibp_initiator_id :: uuid
  ibp_job_id :: uuid
  ibp_provisioner_state :: string
  ibp_deadline :: time
  ibp_reason :: build_reason

definition InsertWorkspaceBuild :: "fake_db \<Rightarrow> insert_build_params \<Rightarrow> fake_db" where
  "InsertWorkspaceBuild db arg =
     db\<lparr>db_builds := db_builds db @
        [\<lparr>wb_id = ibp_id arg, wb_created_at = ibp_created_at arg, wb_updated_at = ibp_updated_at arg,
          wb_workspace_id = ibp_workspace_id arg, wb_template_version_id = ibp_template_version_id arg,
          wb_build_number = ibp_build_number arg, wb_transition = ibp_transition arg,
          wb_initiator_id = ibp_initiator_id arg, wb_provisioner_state = ibp_provisioner_state arg,
          wb_job_id = ibp_job_id arg, wb_deadline = ibp_deadline arg, wb_reason = ibp_reason arg,
          wb_daily_cost = 0, wb_max_deadline = 0\<rparr>]\<rparr>"

definition update_build :: "uuid \<Rightarrow> (workspace_build \<Rightarrow> workspace_build) \<Rightarrow> fake_db \<Rightarrow> string + fake_db" where
  "update_build i f db =
     (case update_first (\<lambda>b. wb_id b = i) f (db_builds db) of
        None \<Rightarrow> Inl ErrNoRows
      | Some (_, bs) \<Rightarrow> Inr (db\<lparr>db_builds := bs\<rparr>))"

definition UpdateWorkspaceBuildByID :: "uuid \<Rightarrow> time \<Rightarrow> string \<Rightarrow> time \<Rightarrow> time \<Rightarrow> fake_db \<Rightarrow> string + fake_db" where
  "UpdateWorkspaceBuildByID i updatedAt state deadline maxDeadline =
     update_build i (\<lambda>b. b\<lparr>wb_updated_at := updatedAt, wb_provisioner_state := state,
                            wb_deadline := deadline, wb_max_deadline := maxDeadline\<rparr>)"

definition UpdateWorkspaceBuildCostByID :: "uuid \<Rightarrow> int \<Rightarrow> fake_db \<Rightarrow> string + fake_db" where
  "UpdateWorkspaceBuildCostByID i cost = update_build i (\<lambda>b. b\<lparr>wb_daily_cost := cost\<rparr>)"

definition getWorkspaceBuildByIDNoLock :: "fake_db \<Rightarrow> uuid \<Rightarrow> build_with_user option" where
  "getWorkspaceBuildByIDNoLock db i =
     map_option (workspaceBuildWithUserNoLock db) (find (\<lambda>b. wb_id b = i) (db_builds db))"

definition GetWorkspaceBuildByJobID :: "fake_db \<Rightarrow> uuid \<Rightarrow> build_with_user option" where
  "GetWorkspaceBuildByJobID db j =
     map_option (workspaceBuildWithUserNoLock db) (find (\<lambda>b. wb_job_id b = j) (db_builds db))"

definition GetWorkspaceBuildByWorkspaceIDAndBuildNumber :: "fake_db \<Rightarrow> uuid \<Rightarrow> int \<Rightarrow> build_with_user option" where
  "GetWorkspaceBuildByWorkspaceIDAndBuildNumber db wid n =
     map_option (workspaceBuildWithUserNoLock db)
                (find (\<lambda>b. wb_workspace_id b = wid \<and> wb_build_number b = n) (db_builds db))"

definition GetWorkspaceBuildsCreatedAfter :: "fake_db \<Rightarrow> time \<Rightarrow> build_with_user list" where
  "GetWorkspaceBuildsCreatedAfter db after =
     map (workspaceBuildWithUserNoLock db) (filter (\<lambda>b. time_after (wb_created_at b) after) (db_builds db))"

text \<open>
  The latest builds per workspace as the two map-based queries compute
  them: a build replaces the workspace's entry when its number is greater
  than the entry's, which starts at \<open>0\<close>, so a build numbered \<open>0\<close> or
  less is never returned; none at all is \<open>ErrNoRows\<close>.  Go's map iteration
  order is unspecified; the model lists the workspaces in the order of
  their first build.
\<close>

definition latest_builds_step ::
  "(uuid \<Rightarrow> bool) \<Rightarrow> workspace_build \<Rightarrow> (uuid \<rightharpoonup> workspace_build) \<Rightarrow> (uuid \<rightharpoonup> workspace_build)" where
  "latest_builds_step sel b m =
     (if sel (wb_workspace_id b) \<and>
         (case m (wb_workspace_id b) of None \<Rightarrow> 0 | Some c \<Rightarrow> wb_build_number c) < wb_build_number b
      then m(wb_workspace_id b \<mapsto> b) else m)"

definition latest_builds :: "fake_db \<Rightarrow> (uuid \<Rightarrow> bool) \<Rightarrow> string + build_with_user list" where
  "latest_builds db sel =
     (let m = fold (latest_builds_step sel) (db_builds db) Map.empty;
          ids = filter (\<lambda>i. m i \<noteq> None) (remdups (map wb_workspace_id (db_builds db)))
      in if ids = [] then Inl ErrNoRows
         else Inr (map (\<lambda>i. workspaceBuildWithUserNoLock db (the (m i))) ids))"

definition GetLatestWorkspaceBuilds :: "fake_db \<Rightarrow> string + build_with_user list" where
  "GetLatestWorkspaceBuilds db = latest_builds db (\<lambda>_. True)"

definition GetLatestWorkspaceBuildsByWorkspaceIDs :: "fake_db \<Rightarrow> uuid list \<Rightarrow> string + build_with_user list" where
  "GetLatestWorkspaceBuildsByWorkspaceIDs db ids = latest_builds db (\<lambda>i. i \<in> set ids)"

text \<open>\<open>database.GetWorkspaceBuildsByWorkspaceIDParams\<close>.\<close>

record builds_params =
  bp_workspace_id :: uuid
  bp_after_id :: uuid
  bp_offset :: int
  bp_limit :: int
  bp_since :: time

text \<open>
  \<open>GetWorkspaceBuildsByWorkspaceID\<close>: the workspace's builds created since
  \<open>Since\<close>, by descending build number (the stable order of the
  unstable \<open>slices.SortFunc\<close>), after the cursor, paged; an empty page is
  \<open>ErrNoRows\<close>.
\<close>

definition GetWorkspaceBuildsByWorkspaceID :: "fake_db \<Rightarrow> builds_params \<Rightarrow> string + build_with_user list" where
  "GetWorkspaceBuildsByWorkspaceID db params =
     paginate (\<lambda>b. wb_id (bwu_build b)) (bp_after_id params) (bp_offset params) (bp_limit params)
       (rev (sort_key (\<lambda>b. wb_build_number (bwu_build b))
          (rev (map (workspaceBuildWithUserNoLock db)
             (filter (\<lambda>b. \<not> time_before (wb_created_at b) (bp_since params) \<and>
                          wb_workspace_id b = bp_workspace_id params) (db_builds db))))))"

end
