(* ===== verification/DbProps.thy ===== *)
theory DbProps
  imports DbJobs DbMisc DbWorkspaces Autobuild
begin

text \<open>
  Properties of the database fake (\<open>src/unnamed/part_005\<close>) beyond the
  executor's queries: the unbounded key-deletion loop returns, the
  backward deletions are filters, the deletions inside a range loop keep
  every row they should keep but can skip rows and panic, the creation
  time guard of \<open>InsertUser\<close>, license ids at the \<open>int32\<close> bound, the
  acquisition of jobs, the queue position, the log ids, the update of
  deletion times across templates and its effect on the executor, and the
  latest build after an insert.  Each property is applied to a small
  concrete store.
\<close>

section \<open>Example data\<close>

definition ex_user :: "uuid \<Rightarrow> string \<Rightarrow> time \<Rightarrow> user" where
  "ex_user i name created =
     \<lparr>usr_id = i, usr_email = name @ ''@coder.com'', usr_username = name, usr_hashed_password = [],
      usr_created_at = created, usr_updated_at = created, usr_status = UserStatusActive, usr_rbac_roles = [],
      usr_login_type = LoginTypePassword, usr_avatar_url = \<lparr>ns_string = [], ns_valid = False\<rparr>,
      usr_deleted = False, usr_last_seen_at = created, usr_quiet_hours_schedule = []\<rparr>"

text \<open>Two users: \<open>zed\<close>, created first, and \<open>bob\<close>, created later but listed first.\<close>

definition ex_users_db :: fake_db where
  "ex_users_db = New\<lparr>db_users := [ex_user 1 ''zed'' 1000, ex_user 2 ''bob'' 5000000]\<rparr>"

definition ex_insert_user :: insert_user_params where
  "ex_insert_user = \<lparr>iup_id = 3, iup_email = ''amy@coder.com'', iup_username = ''amy'', iup_hashed_password = [],
                     iup_created_at = 0, iup_updated_at = 0, iup_rbac_roles = [], iup_login_type = LoginTypePassword\<rparr>"

definition ex_key :: "uuid \<Rightarrow> string \<Rightarrow> api_key" where
  "ex_key uid i =
     \<lparr>ak_id = i, ak_hashed_secret = [], ak_user_id = uid, ak_last_used = 0, ak_expires_at = 0, ak_created_at = 0,
      ak_updated_at = 0, ak_login_type = LoginTypePassword, ak_lifetime_seconds = 86400, ak_ip_address = [],
      ak_scope = APIKeyScopeAll, ak_token_name = []\<rparr>"

text \<open>User \<open>1\<close> holds keys \<open>a\<close> and \<open>c\<close>, user \<open>2\<close> key \<open>b\<close>.\<close>

definition ex_keys_db :: fake_db where
  "ex_keys_db = New\<lparr>db_api_keys := [ex_key 1 ''a'', ex_key 2 ''b'', ex_key 1 ''c''],
                    db_users := [ex_user 1 ''zed'' 1000]\<rparr>"

definition ex_replica :: "uuid \<Rightarrow> time \<Rightarrow> replica" where
  "ex_replica i updated =
     \<lparr>rep_id = i, rep_created_at = 0, rep_started_at = 0, rep_stopped_at = null_time_none, rep_updated_at = updated,
      rep_hostname = ''coder'', rep_region_id = 0, rep_relay_address = [], rep_database_latency = 0,
      rep_version = [], rep_error = [], rep_primary = True\<rparr>"

definition ex_group :: group where
  "ex_group = \<lparr>grp_id = 4, grp_name = ''devs'', grp_display_name = [], grp_organization_id = 8,
               grp_avatar_url = [], grp_quota_allowance = 0\<rparr>"

definition ex_members_db :: fake_db where
  "ex_members_db = New\<lparr>db_group_members := [\<lparr>gm_user_id = 1, gm_group_id = 4\<rparr>, \<lparr>gm_user_id = 2, gm_group_id = 4\<rparr>],
                       db_groups := [ex_group]\<rparr>"

definition ex_job :: "uuid \<Rightarrow> bool \<Rightarrow> string \<Rightarrow> (string \<times> string) list \<Rightarrow> provisioner_job" where
  "ex_job i started prov tags =
     \<lparr>pj_id = i, pj_created_at = 0, pj_updated_at = 0, pj_started_at = \<lparr>nt_time = 0, nt_valid = started\<rparr>,
      pj_canceled_at = null_time_none, pj_completed_at = null_time_none, pj_error = \<lparr>ns_string = [], ns_valid = False\<rparr>,
      pj_organization_id = 8, pj_initiator_id = 1, pj_provisioner = prov, pj_file_id = 10,
      pj_type = ProvisionerJobTypeWorkspaceBuild, pj_worker_id = None, pj_tags = tags\<rparr>"

text \<open>
  Job \<open>1\<close> is running; job \<open>2\<close> waits for an \<open>echo\<close> daemon; job \<open>3\<close> waits
  for a \<open>terraform\<close> daemon of the organization's scope.
\<close>

definition ex_jobs_db :: fake_db where
  "ex_jobs_db = New\<lparr>db_jobs := [ex_job 1 True ''terraform'' [], ex_job 2 False ''echo'' [],
                                 ex_job 3 False ''terraform'' [(''scope'', ''organization'')]]\<rparr>"

definition ex_acquire :: acquire_job_params where
  "ex_acquire = \<lparr>ajp_started_at = \<lparr>nt_time = 7, nt_valid = True\<rparr>, ajp_worker_id = Some 11,
                 ajp_types = [''terraform''], ajp_tags = TagsObject [(''scope'', ''organization'')]\<rparr>"

definition ex_logs :: insert_job_logs_params where
  "ex_logs = \<lparr>ijl_job_id = 3, ijl_created_at = [0, 1], ijl_source = [LogSourceProvisioner, LogSourceProvisioner],
              ijl_level = [LogLevelInfo, LogLevelInfo], ijl_stage = [''Planning'', ''Planning''],
              ijl_output = [''init'', ''plan'']\<rparr>"

text \<open>A workspace of template \<open>2\<close>, locked at time \<open>5\<close>, with no deletion time yet.\<close>

definition ex_locked_ws :: workspace where
  "ex_locked_ws =
     \<lparr>ws_id = 1, ws_created_at = 0, ws_updated_at = 0, ws_owner_id = 7, ws_organization_id = 8,
      ws_template_id = 2, ws_deleted = False, ws_name = ''dev'', ws_autostart_schedule = \<lparr>ns_string = [], ns_valid = False\<rparr>,
      ws_ttl = \<lparr>ni_int = 0, ni_valid = False\<rparr>, ws_last_used_at = 0, ws_locked_at = \<lparr>nt_time = 5, nt_valid = True\<rparr>,
      ws_deleting_at = null_time_none\<rparr>"

definition ex_locked_options :: template_schedule_options where
  "ex_locked_options = \<lparr>user_autostart_enabled = False, failure_ttl = 0, inactivity_ttl = 0, locked_ttl = 1\<rparr>"

definition ex_build_params :: "int \<Rightarrow> insert_build_params" where
  "ex_build_params n =
     \<lparr>ibp_id = 6, ibp_created_at = 0, ibp_updated_at = 0, ibp_workspace_id = 1, ibp_template_version_id = 9,
      ibp_build_number = n, ibp_transition = WorkspaceTransitionStart, ibp_initiator_id = 1, ibp_job_id = 3,
      ibp_provisioner_state = [], ibp_deadline = 0, ibp_reason = BuildReasonInitiator\<rparr>"

lemmas ex_db_defs = ex_user_def ex_users_db_def ex_insert_user_def ex_key_def ex_keys_db_def ex_replica_def
  ex_group_def ex_members_db_def ex_job_def ex_jobs_db_def ex_acquire_def ex_logs_def ex_locked_ws_def
  ex_locked_options_def ex_build_params_def New_def null_time_none_def

section \<open>Users and API keys\<close>

text \<open>
  C11.  The deletion of a user's API keys that \<open>UpdateUserDeletedByID\<close>
  runs in an unbounded loop returns: for an existing user the query
  completes, sets the user's deleted flag, and leaves exactly the keys of
  the other users, in some order.
\<close>

theorem user_delete_cascade:
  assumes "getUserByIDNoLock db i = Some u"
  shows "\<exists>db'. UpdateUserDeletedByID i d db = Inr (Some db') \<and>
               getUserByIDNoLock db' i = Some (u\<lparr>usr_deleted := d\<rparr>) \<and>
               mset (db_api_keys db') = mset (filter (\<lambda>k. ak_user_id k \<noteq> i) (db_api_keys db))"
proof -
  have f: "find (\<lambda>v. usr_id v = i) (db_users db) = Some u" using assms by (simp add: getUserByIDNoLock_def)
  then have id: "usr_id u = i" by (auto dest: find_Some_iff [THEN iffD1])
  obtain us where up: "update_first (\<lambda>v. usr_id v = i) (\<lambda>v. v\<lparr>usr_deleted := d\<rparr>) (db_users db) = Some (u\<lparr>usr_deleted := d\<rparr>, us)"
    and fu: "find (\<lambda>v. usr_id v = i) us = Some (u\<lparr>usr_deleted := d\<rparr>)"
    using update_first_found [OF f, of "\<lambda>v. v\<lparr>usr_deleted := d\<rparr>"] id by auto
  obtain ys where l: "delete_user_keys_loop i 0 (db_api_keys db) = Some ys"
    and m: "mset ys = mset (filter (\<lambda>k. ak_user_id k \<noteq> i) (db_api_keys db))"
    using delete_user_keys_loop_result [of 0 "db_api_keys db" i] by auto
  show ?thesis using up fu l m id by (simp add: UpdateUserDeletedByID_def getUserByIDNoLock_def)
qed

theorem user_delete_cascade_witness:
  "\<exists>db'. UpdateUserDeletedByID 1 True ex_keys_db = Inr (Some db') \<and>
         mset (db_api_keys db') = {# ex_key 2 ''b'' #}"
proof -
  have "getUserByIDNoLock ex_keys_db 1 = Some (ex_user 1 ''zed'' 1000)"
    by (simp add: getUserByIDNoLock_def ex_db_defs)
  then obtain db' where "UpdateUserDeletedByID 1 True ex_keys_db = Inr (Some db')"
    and "mset (db_api_keys db') = mset (filter (\<lambda>k. ak_user_id k \<noteq> 1) (db_api_keys ex_keys_db))"
    using user_delete_cascade by blast
  then show ?thesis by (simp add: ex_db_defs)
qed

text \<open>
  Deleting a user's keys, or a user's application-connect keys, by the
  backward loop removes exactly the matching keys and keeps the order of
  the others: it is \<^const>\<open>filter\<close>.
\<close>

theorem delete_api_keys_filter:
  "db_api_keys (DeleteAPIKeysByUserID uid db) = filter (\<lambda>k. ak_user_id k \<noteq> uid) (db_api_keys db) \<and>
   db_api_keys (DeleteApplicationConnectAPIKeysByUserID uid db) =
     filter (\<lambda>k. \<not> (ak_user_id k = uid \<and> ak_scope k = APIKeyScopeApplicationConnect)) (db_api_keys db)"
  by (simp add: DeleteAPIKeysByUserID_def DeleteApplicationConnectAPIKeysByUserID_def delete_backward_prefix)

text \<open>
  \<open>InsertUser\<close> moves the new user's creation time past that of the
  last user \<open>GetUsers\<close> lists, which is the last in username order, not the
  most recently created user.
\<close>

theorem insert_user_created_after_last:
  assumes "InsertUser db arg = Inr (u, db')" and "GetUsers db get_users_params_zero \<noteq> []"
  shows "gur_created_at (last (GetUsers db get_users_params_zero)) < usr_created_at u"
  using assms(1) insert_user_created_at_gt [OF assms(2)]
  by (auto simp: InsertUser_def Let_def split: if_splits)

lemma ex_users_listing:
  "GetUsers ex_users_db get_users_params_zero \<noteq> [] \<and>
   gur_created_at (last (GetUsers ex_users_db get_users_params_zero)) = 1000"
  by (simp add: GetUsers_def ex_users_db_def New_def ex_user_def get_users_params_zero_def users_filtered_def
                users_page_def convertUsers_def to_lower_def ascii_lower_def uuid_nil_def time_is_zero_def)

lemma ex_insert_user_created: "insert_user_created_at ex_users_db 0 = 1001000"
  using ex_users_listing by (simp add: insert_user_created_at_def Let_def time_before_def millisecond_def)

text \<open>Inserting \<open>amy\<close> puts her creation time after \<open>zed\<close>'s but before \<open>bob\<close>'s.\<close>

theorem insert_user_created_after_last_witness:
  "\<exists>u db'. InsertUser ex_users_db ex_insert_user = Inr (u, db') \<and>
           1000 < usr_created_at u \<and> usr_created_at u < usr_created_at (ex_user 2 ''bob'' 5000000)"
proof -
  obtain u db' where r: "InsertUser ex_users_db ex_insert_user = Inr (u, db')"
    and c: "usr_created_at u = insert_user_created_at ex_users_db 0"
    by (simp add: InsertUser_def Let_def ex_insert_user_def ex_users_db_def New_def ex_user_def)
  have "gur_created_at (last (GetUsers ex_users_db get_users_params_zero)) < usr_created_at u"
    using insert_user_created_after_last [OF r] ex_users_listing by simp
  then show ?thesis using r c ex_users_listing ex_insert_user_created by (auto simp: ex_user_def)
qed

section \<open>Deletion inside a range loop\<close>

text \<open>
  C14.  \<open>DeleteReplicasUpdatedBefore\<close> deletes inside its range loop.
  When the last replica is stale and so is any earlier one, it panics
  (slice bounds out of range).  A replica right after a deleted one is
  skipped: with no other stale rows around it, it is kept, stale or not.
\<close>

theorem replicas_delete_in_range:
  "(time_before (rep_updated_at y) t \<and> (\<exists>r \<in> set rs. time_before (rep_updated_at r) t) \<longrightarrow>
      DeleteReplicasUpdatedBefore t (db\<lparr>db_replicas := rs @ [y]\<rparr>) = None) \<and>
   ((\<forall>r \<in> set xs \<union> set zs. \<not> time_before (rep_updated_at r) t) \<and> time_before (rep_updated_at x) t \<and> zs \<noteq> [] \<longrightarrow>
      map_option db_replicas (DeleteReplicasUpdatedBefore t (db\<lparr>db_replicas := xs @ x # y # zs\<rparr>)) =
        Some (xs @ y # zs))"
proof (intro conjI impI)
  assume "time_before (rep_updated_at y) t \<and> (\<exists>r \<in> set rs. time_before (rep_updated_at r) t)"
  then show "DeleteReplicasUpdatedBefore t (db\<lparr>db_replicas := rs @ [y]\<rparr>) = None"
    using range_delete_last_panics [of "\<lambda>r. time_before (rep_updated_at r) t" y rs]
    by (simp add: DeleteReplicasUpdatedBefore_def)
next
  assume "(\<forall>r \<in> set xs \<union> set zs. \<not> time_before (rep_updated_at r) t) \<and> time_before (rep_updated_at x) t \<and> zs \<noteq> []"
  then show "map_option db_replicas (DeleteReplicasUpdatedBefore t (db\<lparr>db_replicas := xs @ x # y # zs\<rparr>)) =
        Some (xs @ y # zs)"
    using range_delete_skips_next [of xs "\<lambda>r. time_before (rep_updated_at r) t" zs x y]
    by (simp add: DeleteReplicasUpdatedBefore_def)
qed

theorem replicas_delete_in_range_witness:
  "DeleteReplicasUpdatedBefore 10 (New\<lparr>db_replicas := [ex_replica 4 30, ex_replica 1 0, ex_replica 2 0]\<rparr>) = None \<and>
   map_option db_replicas
     (DeleteReplicasUpdatedBefore 10 (New\<lparr>db_replicas := [ex_replica 4 30, ex_replica 1 0, ex_replica 2 0, ex_replica 3 20]\<rparr>)) =
     Some [ex_replica 4 30, ex_replica 2 0, ex_replica 3 20]"
  using replicas_delete_in_range [where t = 10 and db = New and y = "ex_replica 2 0"
      and rs = "[ex_replica 4 30, ex_replica 1 0]" and xs = "[ex_replica 4 30]" and x = "ex_replica 1 0"
      and zs = "[ex_replica 3 20]"]
  by (simp add: ex_replica_def time_before_def)

text \<open>
  When the deletion of a membership does not panic, it keeps every
  other membership, in order: the table afterwards is a subsequence of the
  table before with the same rows of other users and groups.
\<close>

theorem delete_member_keeps_others:
  assumes "DeleteGroupMemberFromGroup uid gid db = Some db'"
  shows "subseq (db_group_members db') (db_group_members db) \<and>
         filter (\<lambda>m. \<not> (gm_user_id m = uid \<and> gm_group_id m = gid)) (db_group_members db') =
         filter (\<lambda>m. \<not> (gm_user_id m = uid \<and> gm_group_id m = gid)) (db_group_members db)"
  using assms range_delete_keeps by (fastforce simp: DeleteGroupMemberFromGroup_def)

theorem delete_member_keeps_others_witness:
  "\<exists>db'. DeleteGroupMemberFromGroup 1 4 ex_members_db = Some db' \<and>
         filter (\<lambda>m. \<not> (gm_user_id m = 1 \<and> gm_group_id m = 4)) (db_group_members db') =
           [\<lparr>gm_user_id = 2, gm_group_id = 4\<rparr>]"
proof -
  have r: "DeleteGroupMemberFromGroup 1 4 ex_members_db =
             Some (ex_members_db\<lparr>db_group_members := [\<lparr>gm_user_id = 2, gm_group_id = 4\<rparr>]\<rparr>)"
    by (simp add: DeleteGroupMemberFromGroup_def range_delete_def ex_members_db_def)
  show ?thesis
    using delete_member_keeps_others [OF r] r by (simp add: ex_members_db_def)
qed

text \<open>
  \<open>InsertUserGroupsByName\<close> adds a membership row even when the user
  is already in the group (\<open>InsertGroupMember\<close> would refuse it); after
  two such calls, removing the user from the group panics.
\<close>

theorem groups_by_name_then_delete_panics:
  assumes "db_group_members db = []" and "db_groups db = [g]" and "grp_name g = n"
  shows "DeleteGroupMemberFromGroup uid (grp_id g) (InsertUserGroupsByName (InsertUserGroupsByName db uid [n]) uid [n]) = None"
  using assms by (simp add: InsertUserGroupsByName_def DeleteGroupMemberFromGroup_def range_delete_def)

theorem groups_by_name_then_delete_panics_witness:
  "DeleteGroupMemberFromGroup 1 4
     (InsertUserGroupsByName (InsertUserGroupsByName (New\<lparr>db_groups := [ex_group]\<rparr>) 1 [''devs'']) 1 [''devs'']) = None"
  using groups_by_name_then_delete_panics [of "New\<lparr>db_groups := [ex_group]\<rparr>" ex_group "''devs''" 1]
  by (simp add: New_def ex_group_def)

section \<open>Licenses\<close>

text \<open>
  \<open>InsertLicense\<close> gives the new license the last id plus one in
  \<open>int32\<close> arithmetic, so the id after \<open>2147483647\<close> is
  \<open>-2147483648\<close>; when no license has that id, \<open>GetLicenseByID\<close> finds
  the new license under it.
\<close>

theorem insert_license_id:
  assumes "InsertLicense db uploadedAt jwt expiry = (l, db')"
    and "list_all (\<lambda>x. lic_id x \<noteq> db_last_license_id db + 1) (db_licenses db)"
  shows "GetLicenseByID db' (lic_id l) = Some l \<and> db_last_license_id db' = lic_id l \<and>
         sint (lic_id l) = (if sint (db_last_license_id db) = 2 ^ 31 - 1 then - (2 ^ 31)
                            else sint (db_last_license_id db) + 1)"
proof -
  have l: "l = \<lparr>lic_id = db_last_license_id db + 1, lic_uploaded_at = uploadedAt, lic_jwt = jwt, lic_exp = expiry\<rparr>"
    and db': "db' = db\<lparr>db_licenses := db_licenses db @ [l], db_last_license_id := lic_id l\<rparr>"
    using assms(1) by (auto simp: InsertLicense_def Let_def)
  have "find (\<lambda>x. lic_id x = lic_id l) (db_licenses db) = None"
    using assms(2) l by (simp add: find_None_iff list_all_iff)
  then show ?thesis using l db' sint_succ_int32 [of "db_last_license_id db"] by (simp add: GetLicenseByID_def find_append_None)
qed

theorem insert_license_id_witness:
  "sint (lic_id (fst (InsertLicense (New\<lparr>db_last_license_id := 2147483647\<rparr>) 0 ''jwt'' 1))) = -2147483648"
proof -
  obtain l db' where r: "InsertLicense (New\<lparr>db_last_license_id := 2147483647\<rparr>) 0 ''jwt'' 1 = (l, db')"
    by (cases "InsertLicense (New\<lparr>db_last_license_id := 2147483647\<rparr>) 0 ''jwt'' 1")
  have "sint (2147483647 :: 32 word) = 2 ^ 31 - 1" by simp
  then show ?thesis using insert_license_id [OF r] r by (simp add: New_def)
qed

section \<open>Provisioner jobs\<close>

text \<open>
  C12.  With decodable tags, \<open>AcquireProvisionerJob\<close> fails with
  \<open>ErrNoRows\<close> exactly when no job can be taken; otherwise it takes the
  first job in the table that is not started, is of one of the daemon's
  provisioner types, and has all its tags provided, starts it in place for
  the worker, and, started with a valid time, the job cannot be taken again.
\<close>

theorem acquire_first_acquirable:
  assumes "ajp_tags arg \<noteq> TagsInvalid"
  shows "(AcquireProvisionerJob db arg = Inl e \<longleftrightarrow> e = ErrNoRows \<and> \<not> list_ex (acquirable arg) (db_jobs db)) \<and>
         (AcquireProvisionerJob db arg = Inr (j', db') \<longrightarrow>
            (\<exists>i < length (db_jobs db). acquirable arg (db_jobs db ! i) \<and>
                (\<forall>k < i. \<not> acquirable arg (db_jobs db ! k)) \<and>
                j' = started_job arg (db_jobs db ! i) \<and> db_jobs db' = (db_jobs db)[i := j']) \<and>
            (nt_valid (ajp_started_at arg) \<longrightarrow> \<not> acquirable arg' j'))"
proof -
  have l: "AcquireProvisionerJob db arg = Inl e \<longleftrightarrow> acquire_scan arg (db_jobs db) = Inl e"
    by (cases "acquire_scan arg (db_jobs db)") (auto simp: AcquireProvisionerJob_def)
  have r: "AcquireProvisionerJob db arg = Inr (j', db') \<Longrightarrow>
             \<exists>js'. acquire_scan arg (db_jobs db) = Inr (j', js') \<and> db_jobs db' = js'"
    by (cases "acquire_scan arg (db_jobs db)") (auto simp: AcquireProvisionerJob_def)
  have "AcquireProvisionerJob db arg = Inr (j', db') \<Longrightarrow>
          (\<exists>i < length (db_jobs db). acquirable arg (db_jobs db ! i) \<and>
              (\<forall>k < i. \<not> acquirable arg (db_jobs db ! k)) \<and>
              j' = started_job arg (db_jobs db ! i) \<and> db_jobs db' = (db_jobs db)[i := j']) \<and>
          (nt_valid (ajp_started_at arg) \<longrightarrow> \<not> acquirable arg' j')"
  proof -
    assume "AcquireProvisionerJob db arg = Inr (j', db')"
    then obtain js' where s: "acquire_scan arg (db_jobs db) = Inr (j', js')" and d: "db_jobs db' = js'"
      using r by blast
    obtain i where i: "i < length (db_jobs db)" "acquirable arg (db_jobs db ! i)"
      "\<forall>k < i. \<not> acquirable arg (db_jobs db ! k)" and j: "j' = started_job arg (db_jobs db ! i)"
      and js: "js' = (db_jobs db)[i := j']"
      using acquire_scan_Inr [OF s] by blast
    have "nt_valid (ajp_started_at arg) \<longrightarrow> \<not> acquirable arg' j'"
      by (simp add: j acquirable_def started_job_def)
    then show ?thesis using i j js d by blast
  qed
  then show ?thesis using l acquire_scan_Inl [OF assms] by blast
qed

theorem acquire_first_acquirable_witness:
  "\<exists>j' db'. AcquireProvisionerJob ex_jobs_db ex_acquire = Inr (j', db') \<and> pj_id j' = 3 \<and>
            \<not> acquirable ex_acquire j'"
proof -
  define j3 where "j3 = started_job ex_acquire (ex_job 3 False ''terraform'' [(''scope'', ''organization'')])"
  have js: "db_jobs ex_jobs_db = [ex_job 1 True ''terraform'' [], ex_job 2 False ''echo'' [], ex_job 3 False ''terraform'' [(''scope'', ''organization'')]]"
    by (simp add: ex_jobs_db_def New_def)
  have tm: "tags_match (ajp_tags ex_acquire) (ex_job 3 False ''terraform'' [(''scope'', ''organization'')])"
    by (simp add: tags_match_def provided_tags_def ex_job_def ex_acquire_def)
  have "acquire_scan ex_acquire (db_jobs ex_jobs_db) =
          Inr (j3, [ex_job 1 True ''terraform'' [], ex_job 2 False ''echo'' [], j3])"
    unfolding js j3_def using tm by (simp add: ex_acquire_def ex_job_def cons_job_def)
  then obtain D where r': "AcquireProvisionerJob ex_jobs_db ex_acquire = Inr (j3, D)"
    by (simp add: AcquireProvisionerJob_def)
  have t: "ajp_tags ex_acquire \<noteq> TagsInvalid" "nt_valid (ajp_started_at ex_acquire)" by (simp_all add: ex_acquire_def)
  have n: "\<not> acquirable ex_acquire j3"
    using acquire_first_acquirable [OF t(1), where db = ex_jobs_db and j' = j3 and db' = D and arg' = ex_acquire,
                                    THEN conjunct2, THEN mp, OF r', THEN conjunct2, THEN mp, OF t(2)] .
  have "pj_id j3 = 3" by (simp add: j3_def started_job_def ex_job_def)
  then show ?thesis using r' n by blast
qed

text \<open>
  C15.  The queue position of a job not yet started is one more than the
  number of jobs not yet started before it in the table, whatever their
  provisioner; the queue size, which the code's comment says is set to the
  maximum position, is \<open>0\<close> in every row returned.
\<close>

theorem queue_position:
  assumes "db_jobs db = xs @ j # ys" and "pj_id j \<in> set ids" and "\<not> nt_valid (pj_started_at j)"
  shows "\<lparr>jq_job = j, jq_queue_position = 1 + int (length (filter (\<lambda>x. \<not> nt_valid (pj_started_at x)) xs)),
          jq_queue_size = 0\<rparr> \<in> set (GetProvisionerJobsByIDsWithQueuePosition db ids) \<and>
         list_all (\<lambda>r. jq_queue_size r = 0) (GetProvisionerJobsByIDsWithQueuePosition db ids)"
  using assms queue_rows_size [of ids 1 "db_jobs db"]
  by (simp add: GetProvisionerJobsByIDsWithQueuePosition_def queue_rows_append)

theorem queue_position_witness:
  "\<lparr>jq_job = ex_job 3 False ''terraform'' [(''scope'', ''organization'')], jq_queue_position = 2, jq_queue_size = 0\<rparr>
     \<in> set (GetProvisionerJobsByIDsWithQueuePosition ex_jobs_db [3])"
  using queue_position [of ex_jobs_db "[ex_job 1 True ''terraform'' [], ex_job 2 False ''echo'' []]"
                           "ex_job 3 False ''terraform'' [(''scope'', ''organization'')]" "[]" "[3]"]
  by (simp add: ex_jobs_db_def New_def ex_job_def)

section \<open>Job logs\<close>

text \<open>
  C13.  The log table keeps strictly increasing ids: inserting logs into a
  table whose ids increase keeps them increasing, gives the logs the ids
  after the last one, and a reader asking for the job's logs after that id
  gets exactly the logs inserted.
\<close>

theorem job_logs_roundtrip:
  assumes ins: "InsertProvisionerJobLogs db arg = Inr (logs, db')"
    and inv: "sorted_wrt (<) (map pjl_id (db_job_logs db))"
  shows "sorted_wrt (<) (map pjl_id (db_job_logs db')) \<and>
         GetProvisionerLogsAfterID db' (ijl_job_id arg) (last_log_id db) = logs \<and>
         length logs = length (ijl_output arg)"
proof -
  note ids = job_logs_ids [OF ins]
  have new_sorted: "sorted_wrt (<) (map pjl_id logs)"
    unfolding ids(1) by (auto simp: sorted_wrt_map sorted_wrt_iff_nth_less)
  have new_gt: "\<forall>l \<in> set logs. last_log_id db < pjl_id l"
  proof
    fix l assume "l \<in> set logs"
    then have "pjl_id l \<in> set (map pjl_id logs)" by simp
    then show "last_log_id db < pjl_id l" unfolding ids(1) by auto
  qed
  have "sorted_wrt (<) (map pjl_id (db_job_logs db @ logs))"
    using inv new_sorted new_gt old_ids_le_last [OF inv]
    by (fastforce simp: sorted_wrt_append)
  moreover have "filter (\<lambda>l. pjl_job_id l = ijl_job_id arg \<and> last_log_id db < pjl_id l) (db_job_logs db) = []"
    using old_ids_le_last [OF inv] by (auto simp: filter_empty_conv not_less)
  moreover have "filter (\<lambda>l. pjl_job_id l = ijl_job_id arg \<and> last_log_id db < pjl_id l) logs = logs"
    using new_gt ids(3) by (simp add: filter_id_conv)
  moreover have "length logs = length (ijl_output arg)" using arg_cong [OF ids(1), of length] by simp
  ultimately show ?thesis using ids(2) by (simp add: GetProvisionerLogsAfterID_def)
qed

text \<open>In an empty table the first two logs get the ids \<open>2\<close> and \<open>3\<close>.\<close>

theorem job_logs_roundtrip_witness:
  "\<exists>logs db'. InsertProvisionerJobLogs New ex_logs = Inr (logs, db') \<and> map pjl_id logs = [2, 3] \<and>
              GetProvisionerLogsAfterID db' 3 1 = logs"
proof -
  obtain logs db' where r: "InsertProvisionerJobLogs New ex_logs = Inr (logs, db')"
    and ids: "map pjl_id logs = [2, 3]"
    by (simp add: InsertProvisionerJobLogs_def ex_logs_def New_def last_log_id_def Let_def)
  have "last_log_id New = 1" by (simp add: last_log_id_def New_def)
  moreover have "sorted_wrt (<) (map pjl_id (db_job_logs New))" by (simp add: New_def)
  ultimately show ?thesis
    using job_logs_roundtrip [OF r] r ids by (simp add: ex_logs_def)
qed

section \<open>Workspaces and builds\<close>

text \<open>
  C16.  \<open>UpdateWorkspacesDeletingAtByTemplateID\<close> sets the deletion time of
  every locked workspace, whatever its template: a workspace of another
  template gets the lock time plus the new TTL, so the executor deletes it
  on the TTL of a template it does not use.
\<close>

theorem deleting_at_any_template:
  assumes "w \<in> set (db_workspaces db)" and "\<not> time_is_zero (nt_time (ws_locked_at w))" and "0 < ttl"
  shows "w\<lparr>ws_deleting_at := \<lparr>nt_time = nt_time (ws_locked_at w) + wrap_int64 (ttl * millisecond), nt_valid = True\<rparr>\<rparr>
           \<in> set (db_workspaces (UpdateWorkspacesDeletingAtByTemplateID ttl tid db))"
  using assms by (force simp: UpdateWorkspacesDeletingAtByTemplateID_def)

text \<open>
  A TTL change on template \<open>99\<close> gives the locked workspace of template
  \<open>2\<close> a deletion time one millisecond after its lock, and the executor's
  delete check, false before, holds at the next tick.
\<close>

theorem deleting_at_any_template_witness:
  "\<not> isEligibleForDelete ex_locked_ws ex_locked_options 2000000 \<and>
   (\<exists>w' \<in> set (db_workspaces (UpdateWorkspacesDeletingAtByTemplateID 1 99 (New\<lparr>db_workspaces := [ex_locked_ws]\<rparr>))).
      ws_template_id w' = 2 \<and> isEligibleForDelete w' ex_locked_options 2000000)"
proof -
  have m: "ex_locked_ws \<in> set (db_workspaces (New\<lparr>db_workspaces := [ex_locked_ws]\<rparr>))" by simp
  have z: "\<not> time_is_zero (nt_time (ws_locked_at ex_locked_ws))" by (simp add: ex_locked_ws_def time_is_zero_def)
  have w: "wrap_int64 (1 * millisecond) = 1000000"
    by (simp add: wrap_int64_id millisecond_def)
  show ?thesis
    using deleting_at_any_template [OF m z, of 1 99] w
    by (force simp: isEligibleForDelete_def ex_locked_ws_def ex_locked_options_def null_time_none_def
                    time_after_def)
qed

text \<open>
  A build inserted with a build number above every build of its
  workspace (and not negative) is the workspace's latest build for the
  executor's query \<open>GetLatestWorkspaceBuildByWorkspaceID\<close>.
\<close>

theorem insert_build_is_latest:
  assumes "\<forall>b \<in> set (db_builds db). wb_workspace_id b = ibp_workspace_id arg \<longrightarrow> wb_build_number b < ibp_build_number arg"
    and "0 \<le> ibp_build_number arg"
  shows "getLatestWorkspaceBuildByWorkspaceID (InsertWorkspaceBuild db arg) (ibp_workspace_id arg) =
           Some (last (db_builds (InsertWorkspaceBuild db arg)))"
proof -
  define wid where "wid = ibp_workspace_id arg"
  define b where "b = last (db_builds (InsertWorkspaceBuild db arg))"
  have bs: "db_builds (InsertWorkspaceBuild db arg) = db_builds db @ [b]"
    by (simp add: InsertWorkspaceBuild_def b_def)
  have bw: "wb_workspace_id b = wid" "wb_build_number b = ibp_build_number arg"
    by (simp_all add: b_def wid_def InsertWorkspaceBuild_def)
  have lt: "snd (fold (latest_step wid) (db_builds db) (None, -1)) < wb_build_number b"
    using latest_fold_below [of "db_builds db" wid "wb_build_number b" "(None, -1)"] assms bw
    by (simp add: wid_def)
  have f: "fold (latest_step wid) (db_builds db @ [b]) (None, -1) = (Some b, wb_build_number b)"
    using lt bw by (simp add: latest_step_def)
  have "getLatestWorkspaceBuildByWorkspaceID (InsertWorkspaceBuild db arg) wid = Some b"
    unfolding getLatestWorkspaceBuildByWorkspaceID_def bs f using assms(2) bw by simp
  then show ?thesis by (simp add: wid_def b_def)
qed

theorem insert_build_is_latest_witness:
  "wb_build_number (the (getLatestWorkspaceBuildByWorkspaceID
      (InsertWorkspaceBuild (InsertWorkspaceBuild New (ex_build_params 1)) (ex_build_params 2)) 1)) = 2"
proof -
  have h: "\<forall>b \<in> set (db_builds (InsertWorkspaceBuild New (ex_build_params 1))).
             wb_workspace_id b = ibp_workspace_id (ex_build_params 2) \<longrightarrow> wb_build_number b < ibp_build_number (ex_build_params 2)"
    by (simp add: InsertWorkspaceBuild_def New_def ex_build_params_def)
  have "0 \<le> ibp_build_number (ex_build_params 2)" by (simp add: ex_build_params_def)
  then show ?thesis
    using insert_build_is_latest [OF h] by (simp add: InsertWorkspaceBuild_def ex_build_params_def)
qed

end
