(* ===== verification/DbTemplates.thy ===== *)
theory DbTemplates
  imports DbMisc "HOL-Library.Product_Lexorder"
begin

text \<open>
  Templates, template versions and their parameters and variables in the
  database fake (\<open>src/unnamed/part_005\<close>).  A template or version is read
  with its creator's username and avatar (\<open>templateWithUserNoLock\<close>,
  which copies the row through JSON, and \<open>templateVersionWithUserNoLock\<close>).
  Listings sort with \<open>slices.SortFunc\<close> or \<open>sort.Slice\<close> on keys that
  are total once ids are distinct; the model sorts stably on the same key.
  Go compares strings byte by byte, which is the order of
  \<^typ>\<open>string\<close> under \<open>List_Lexorder\<close> and \<open>Char_ord\<close>; a UUID's
  canonical string orders as the number that models it.
\<close>

section \<open>Templates\<close>

record template_with_user =
  twu_template :: template
  twu_created_by_username :: string
  twu_created_by_avatar_url :: null_string

text \<open>The first user with the creator's id, or the zero user when there is none.\<close>

definition templateWithUserNoLock :: "fake_db \<Rightarrow> template \<Rightarrow> template_with_user" where
  "templateWithUserNoLock db t =
     (case find (\<lambda>u. usr_id u = tmpl_created_by t) (db_users db) of
        None \<Rightarrow> \<lparr>twu_template = t, twu_created_by_username = [],
                 twu_created_by_avatar_url = \<lparr>ns_string = [], ns_valid = False\<rparr>\<rparr>
      | Some u \<Rightarrow> \<lparr>twu_template = t, twu_created_by_username = usr_username u,
                   twu_created_by_avatar_url = usr_avatar_url u\<rparr>)"

definition GetTemplateByID :: "fake_db \<Rightarrow> uuid \<Rightarrow> template_with_user option" where
  "GetTemplateByID db i = map_option (templateWithUserNoLock db) (getTemplateByID db i)"

definition GetTemplateByOrganizationAndName :: "fake_db \<Rightarrow> uuid \<Rightarrow> string \<Rightarrow> bool \<Rightarrow> template_with_user option" where
  "GetTemplateByOrganizationAndName db org name deleted =
     map_option (templateWithUserNoLock db)
       (find (\<lambda>t. tmpl_organization_id t = org \<and> equal_fold (tmpl_name t) name \<and> tmpl_deleted t = deleted)
             (db_templates db))"

text \<open>\<open>GetTemplates\<close>: every template, deleted ones included, by name and then id.\<close>

definition GetTemplates :: "fake_db \<Rightarrow> template_with_user list" where
  "GetTemplates db = map (templateWithUserNoLock db) (sort_key (\<lambda>t. (tmpl_name t, tmpl_id t)) (db_templates db))"

text \<open>\<open>database.GetTemplatesWithFilterParams\<close>.\<close>

record templates_filter =
  tf_deleted :: bool
  tf_organization_id :: uuid
  tf_exact_name :: string
  tf_ids :: "uuid list"

text \<open>
  \<open>GetAuthorizedTemplates\<close>: the prepared authorizer is \<^const>\<open>None\<close> for
  \<open>nil\<close>, or the set of objects it authorizes (its SQL compilation is taken
  to succeed); the filters in the code's order; no match is \<open>ErrNoRows\<close>.
\<close>

definition GetAuthorizedTemplates ::
  "fake_db \<Rightarrow> templates_filter \<Rightarrow> (template_with_user \<Rightarrow> bool) option \<Rightarrow> string + template_with_user list" where
  "GetAuthorizedTemplates db arg prepared =
     (let ts = filter (\<lambda>t. (case prepared of None \<Rightarrow> True | Some auth \<Rightarrow> auth t) \<and>
                          tmpl_deleted (twu_template t) = tf_deleted arg \<and>
                          (tf_organization_id arg = uuid_nil \<or>
                           tmpl_organization_id (twu_template t) = tf_organization_id arg) \<and>
                          (tf_exact_name arg = [] \<or> equal_fold (tmpl_name (twu_template t)) (tf_exact_name arg)) \<and>
                          (tf_ids arg = [] \<or> tmpl_id (twu_template t) \<in> set (tf_ids arg)))
                     (map (templateWithUserNoLock db) (db_templates db))
      in if ts = [] then Inl ErrNoRows
         else Inr (sort_key (\<lambda>t. (tmpl_name (twu_template t), tmpl_id (twu_template t))) ts))"

definition GetTemplatesWithFilter :: "fake_db \<Rightarrow> templates_filter \<Rightarrow> string + template_with_user list" where
  "GetTemplatesWithFilter db arg = GetAuthorizedTemplates db arg None"

text \<open>\<open>database.InsertTemplateParams\<close>.\<close>

record insert_template_params =
  itp_id :: uuid
  itp_created_at :: time
  itp_updated_at :: time
  itp_organization_id :: uuid
  itp_name :: string
  itp_provisioner :: string
  itp_active_version_id :: uuid
  itp_description :: string
  itp_created_by :: uuid
  itp_user_acl :: "(uuid \<times> string list) list"
  itp_group_acl :: "(uuid \<times> string list) list"
  itp_display_name :: string
  itp_icon :: string
  itp_allow_user_cancel_workspace_jobs :: bool

text \<open>
  \<open>InsertTemplate\<close>: autostart and autostop allowed, every TTL zero, no
  uniqueness check.
\<close>

definition InsertTemplate :: "fake_db \<Rightarrow> insert_template_params \<Rightarrow> fake_db" where
  "InsertTemplate db arg =
     db\<lparr>db_templates := db_templates db @
          [\<lparr>tmpl_id = itp_id arg, tmpl_created_at = itp_created_at arg, tmpl_updated_at = itp_updated_at arg,
            tmpl_organization_id = itp_organization_id arg, tmpl_deleted = False, tmpl_name = itp_name arg,
            tmpl_provisioner = itp_provisioner arg, tmpl_active_version_id = itp_active_version_id arg,
            tmpl_description = itp_description arg, tmpl_default_ttl = 0, tmpl_created_by = itp_created_by arg,
            tmpl_icon = itp_icon arg, tmpl_user_acl = itp_user_acl arg, tmpl_group_acl = itp_group_acl arg,
            tmpl_display_name = itp_display_name arg,
            tmpl_allow_user_cancel_workspace_jobs = itp_allow_user_cancel_workspace_jobs arg, tmpl_max_ttl = 0,
            tmpl_allow_user_autostart = True, tmpl_allow_user_autostop = True, tmpl_failure_ttl = 0,
            tmpl_inactivity_ttl = 0, tmpl_locked_ttl = 0, tmpl_restart_requirement_days_of_week = 0,
            tmpl_restart_requirement_weeks = 0\<rparr>]\<rparr>"

text \<open>The five updates by id: the first template with the id is changed, no such template is \<open>ErrNoRows\<close>.\<close>

definition update_template :: "uuid \<Rightarrow> (template \<Rightarrow> template) \<Rightarrow> fake_db \<Rightarrow> string + fake_db" where
  "update_template i f db =
     (case update_first (\<lambda>t. tmpl_id t = i) f (db_templates db) of
        None \<Rightarrow> Inl ErrNoRows
      | Some (_, ts) \<Rightarrow> Inr (db\<lparr>db_templates := ts\<rparr>))"

definition UpdateTemplateACLByID ::
  "uuid \<Rightarrow> (uuid \<times> string list) list \<Rightarrow> (uuid \<times> string list) list \<Rightarrow> fake_db \<Rightarrow> string + fake_db" where
  "UpdateTemplateACLByID i groupACL userACL =
     update_template i (\<lambda>t. t\<lparr>tmpl_group_acl := groupACL, tmpl_user_acl := userACL\<rparr>)"

definition UpdateTemplateActiveVersionByID :: "uuid \<Rightarrow> uuid \<Rightarrow> time \<Rightarrow> fake_db \<Rightarrow> string + fake_db" where
  "UpdateTemplateActiveVersionByID i activeVersionID updatedAt =
     update_template i (\<lambda>t. t\<lparr>tmpl_active_version_id := activeVersionID, tmpl_updated_at := updatedAt\<rparr>)"

definition UpdateTemplateDeletedByID :: "uuid \<Rightarrow> bool \<Rightarrow> time \<Rightarrow> fake_db \<Rightarrow> string + fake_db" where
  "UpdateTemplateDeletedByID i deleted updatedAt =
     update_template i (\<lambda>t. t\<lparr>tmpl_deleted := deleted, tmpl_updated_at := updatedAt\<rparr>)"

text \<open>\<open>UpdateTemplateMetaByID\<close> stamps \<open>database.Now()\<close>, here the argument \<open>now\<close>.\<close>

definition UpdateTemplateMetaByID ::
  "uuid \<Rightarrow> string \<Rightarrow> string \<Rightarrow> string \<Rightarrow> string \<Rightarrow> time \<Rightarrow> fake_db \<Rightarrow> string + fake_db" where
  "UpdateTemplateMetaByID i name displayName description icon now =
     update_template i (\<lambda>t. t\<lparr>tmpl_updated_at := now, tmpl_name := name, tmpl_display_name := displayName,
                              tmpl_description := description, tmpl_icon := icon\<rparr>)"

text \<open>\<open>database.UpdateTemplateScheduleByIDParams\<close>.\<close>

record template_schedule_params =
  tsp_id :: uuid
  tsp_allow_user_autostart :: bool
  tsp_allow_user_autostop :: bool
  tsp_default_ttl :: duration
  tsp_max_ttl :: duration
  tsp_restart_requirement_days_of_week :: int
  tsp_restart_requirement_weeks :: int
  tsp_failure_ttl :: duration
  tsp_inactivity_ttl :: duration
  tsp_locked_ttl :: duration

definition UpdateTemplateScheduleByID :: "template_schedule_params \<Rightarrow> time \<Rightarrow> fake_db \<Rightarrow> string + fake_db" where
  "UpdateTemplateScheduleByID arg now =
     update_template (tsp_id arg)
       (\<lambda>t. t\<lparr>tmpl_allow_user_autostart := tsp_allow_user_autostart arg,
              tmpl_allow_user_autostop := tsp_allow_user_autostop arg, tmpl_updated_at := now,
              tmpl_default_ttl := tsp_default_ttl arg, tmpl_max_ttl := tsp_max_ttl arg,
              tmpl_restart_requirement_days_of_week := tsp_restart_requirement_days_of_week arg,
              tmpl_restart_requirement_weeks := tsp_restart_requirement_weeks arg,
              tmpl_failure_ttl := tsp_failure_ttl arg, tmpl_inactivity_ttl := tsp_inactivity_ttl arg,
              tmpl_locked_ttl := tsp_locked_ttl arg\<rparr>)"

section \<open>Template ACLs\<close>

text \<open>
  The template the role queries read: the first with the id, or the zero
  template, whose id \<open>uuid.Nil\<close> makes the query \<open>ErrNoRows\<close>.
\<close>

definition acl_template :: "fake_db \<Rightarrow> uuid \<Rightarrow> template option" where
  "acl_template db i =
     (case find (\<lambda>t. tmpl_id t = i) (db_templates db) of
        None \<Rightarrow> None
      | Some t \<Rightarrow> if tmpl_id t = uuid_nil then None else Some t)"

record template_group =
  tg_group :: group
  tg_actions :: "string list"

text \<open>A group of the ACL that no longer exists is skipped.\<close>

definition GetTemplateGroupRoles :: "fake_db \<Rightarrow> uuid \<Rightarrow> string + template_group list" where
  "GetTemplateGroupRoles db i =
     (case acl_template db i of
        None \<Rightarrow> Inl ErrNoRows
      | Some t \<Rightarrow> Inr (concat (map (\<lambda>(k, v). case getGroupByIDNoLock db k of
                                               None \<Rightarrow> []
                                             | Some g \<Rightarrow> [\<lparr>tg_group = g, tg_actions = v\<rparr>])
                                  (tmpl_group_acl t))))"

record template_user =
  tu_user :: user
  tu_actions :: "string list"

text \<open>
  The user loop of \<open>GetTemplateUserRoles\<close>: a user of the ACL that is not
  in the table ends the query with the wrapped \<open>ErrNoRows\<close> (the test is
  \<open>err != nil && xerrors.Is(err, sql.ErrNoRows)\<close>), so the skip after it
  never runs; deleted and suspended users are skipped.
\<close>

primrec template_user_rows :: "fake_db \<Rightarrow> (uuid \<times> string list) list \<Rightarrow> string + template_user list" where
  "template_user_rows db [] = Inr []"
| "template_user_rows db (kv # kvs) =
     (case getUserByIDNoLock db (fst kv) of
        None \<Rightarrow> Inl (''get user by ID: '' @ ErrNoRows)
      | Some u \<Rightarrow>
          if usr_deleted u \<or> usr_status u = UserStatusSuspended then template_user_rows db kvs
          else map_sum id (Cons \<lparr>tu_user = u, tu_actions = snd kv\<rparr>) (template_user_rows db kvs))"

definition GetTemplateUserRoles :: "fake_db \<Rightarrow> uuid \<Rightarrow> string + template_user list" where
  "GetTemplateUserRoles db i =
     (case acl_template db i of
        None \<Rightarrow> Inl ErrNoRows
      | Some t \<Rightarrow> template_user_rows db (tmpl_user_acl t))"

section \<open>Template versions\<close>

record template_version_with_user =
  tvu_version :: template_version
  tvu_created_by_username :: string
  tvu_created_by_avatar_url :: null_string

definition templateVersionWithUserNoLock :: "fake_db \<Rightarrow> template_version \<Rightarrow> template_version_with_user" where
  "templateVersionWithUserNoLock db v =
     (case find (\<lambda>u. usr_id u = tv_created_by v) (db_users db) of
        None \<Rightarrow> \<lparr>tvu_version = v, tvu_created_by_username = [],
                 tvu_created_by_avatar_url = \<lparr>ns_string = [], ns_valid = False\<rparr>\<rparr>
      | Some u \<Rightarrow> \<lparr>tvu_version = v, tvu_created_by_username = usr_username u,
                   tvu_created_by_avatar_url = usr_avatar_url u\<rparr>)"

definition getTemplateVersionByIDNoLock :: "fake_db \<Rightarrow> uuid \<Rightarrow> template_version_with_user option" where
  "getTemplateVersionByIDNoLock db i =
     map_option (templateVersionWithUserNoLock db) (find (\<lambda>v. tv_id v = i) (db_template_versions db))"

definition GetTemplateVersionByJobID :: "fake_db \<Rightarrow> uuid \<Rightarrow> template_version_with_user option" where
  "GetTemplateVersionByJobID db jobID =
     map_option (templateVersionWithUserNoLock db) (find (\<lambda>v. tv_job_id v = jobID) (db_template_versions db))"

text \<open>The template is compared as a \<open>NullUUID\<close>, the name with \<open>strings.EqualFold\<close>.\<close>

definition GetTemplateVersionByTemplateIDAndName ::
  "fake_db \<Rightarrow> null_uuid \<Rightarrow> string \<Rightarrow> template_version_with_user option" where
  "GetTemplateVersionByTemplateIDAndName db templateID name =
     map_option (templateVersionWithUserNoLock db)
       (find (\<lambda>v. tv_template_id v = templateID \<and> equal_fold (tv_name v) name) (db_template_versions db))"

definition GetTemplateVersionsByIDs :: "fake_db \<Rightarrow> uuid list \<Rightarrow> string + template_version_with_user list" where
  "GetTemplateVersionsByIDs db ids =
     (let vs = map (templateVersionWithUserNoLock db) (filter (\<lambda>v. tv_id v \<in> set ids) (db_template_versions db))
      in if vs = [] then Inl ErrNoRows else Inr vs)"

definition GetTemplateVersionsCreatedAfter :: "fake_db \<Rightarrow> time \<Rightarrow> template_version_with_user list" where
  "GetTemplateVersionsCreatedAfter db after =
     map (templateVersionWithUserNoLock db) (filter (\<lambda>v. time_after (tv_created_at v) after) (db_template_versions db))"

text \<open>
  The versions of a template (by the \<open>UUID\<close> of the \<open>NullUUID\<close>, its
  \<open>Valid\<close> flag ignored), by creation time and then id, as
  \<open>GetTemplateVersionsByTemplateID\<close> sorts them before paging.
\<close>

definition template_versions_of :: "fake_db \<Rightarrow> uuid \<Rightarrow> template_version_with_user list" where
  "template_versions_of db tid =
     sort_key (\<lambda>v. (tv_created_at (tvu_version v), tv_id (tvu_version v)))
       (map (templateVersionWithUserNoLock db) (filter (\<lambda>v. nu_uuid (tv_template_id v) = tid) (db_template_versions db)))"

text \<open>\<open>database.GetTemplateVersionsByTemplateIDParams\<close>.\<close>

record versions_params =
  vp_template_id :: uuid
  vp_after_id :: uuid
  vp_offset :: int
  vp_limit :: int

definition GetTemplateVersionsByTemplateID :: "fake_db \<Rightarrow> versions_params \<Rightarrow> string + template_version_with_user list" where
  "GetTemplateVersionsByTemplateID db arg =
     paginate (\<lambda>v. tv_id (tvu_version v)) (vp_after_id arg) (vp_offset arg) (vp_limit arg)
       (template_versions_of db (vp_template_id arg))"

text \<open>
  \<open>GetPreviousTemplateVersion\<close>: the current version is the first with the
  template, name and organization asked for, or the zero version when there
  is none; the candidates are the other versions of its organization and
  template created strictly before it; the answer is the first of them by
  descending creation time (\<open>sort.Slice\<close>, here stable).
\<close>

definition zero_template_version :: template_version where
  "zero_template_version =
     \<lparr>tv_id = uuid_nil, tv_template_id = \<lparr>nu_uuid = uuid_nil, nu_valid = False\<rparr>, tv_organization_id = uuid_nil,
      tv_created_at = 0, tv_updated_at = 0, tv_name = [], tv_message = [], tv_readme = [], tv_job_id = uuid_nil,
      tv_created_by = uuid_nil, tv_git_auth_providers = []\<rparr>"

definition previous_candidates :: "fake_db \<Rightarrow> uuid \<Rightarrow> template_version \<Rightarrow> template_version list" where
  "previous_candidates db org cur =
     filter (\<lambda>v. tv_id v \<noteq> tv_id cur \<and> tv_organization_id v = org \<and> tv_template_id v = tv_template_id cur \<and>
                 time_before (tv_created_at v) (tv_created_at cur))
            (db_template_versions db)"

definition GetPreviousTemplateVersion ::
  "fake_db \<Rightarrow> uuid \<Rightarrow> string \<Rightarrow> null_uuid \<Rightarrow> string + template_version_with_user" where
  "GetPreviousTemplateVersion db org name templateID =
     (let cur = (case find (\<lambda>v. tv_template_id v = templateID \<and> tv_name v = name \<and> tv_organization_id v = org)
                            (db_template_versions db) of
                   None \<Rightarrow> zero_template_version | Some v \<Rightarrow> v);
          prev = previous_candidates db org cur
      in if prev = [] then Inl ErrNoRows
         else Inr (templateVersionWithUserNoLock db (hd (rev (sort_key tv_created_at (rev prev))))))"

text \<open>\<open>InsertTemplateVersion\<close> refuses a message longer than 1 MiB (Go's \<open>len\<close> counts bytes).\<close>

record insert_version_params =
  ivp_id :: uuid
  ivp_template_id :: null_uuid
  ivp_organization_id :: uuid
  ivp_created_at :: time
  ivp_updated_at :: time
  ivp_name :: string
  ivp_message :: string
  ivp_readme :: string
  ivp_job_id :: uuid
  ivp_created_by :: uuid

definition InsertTemplateVersion :: "fake_db \<Rightarrow> insert_version_params \<Rightarrow> string + fake_db" where
  "InsertTemplateVersion db arg =
     (if 1048576 < length (ivp_message arg) then Inl ''message too long''
      else Inr (db\<lparr>db_template_versions := db_template_versions db @
                   [\<lparr>tv_id = ivp_id arg, tv_template_id = ivp_template_id arg,
                     tv_organization_id = ivp_organization_id arg, tv_created_at = ivp_created_at arg,
                     tv_updated_at = ivp_updated_at arg, tv_name = ivp_name arg, tv_message = ivp_message arg,
                     tv_readme = ivp_readme arg, tv_job_id = ivp_job_id arg, tv_created_by = ivp_created_by arg,
                     tv_git_auth_providers = []\<rparr>]\<rparr>))"

text \<open>The updates of a version, by id or by job id: the first match changes, none is \<open>ErrNoRows\<close>.\<close>

definition update_version :: "(template_version \<Rightarrow> bool) \<Rightarrow> (template_version \<Rightarrow> template_version) \<Rightarrow> fake_db \<Rightarrow> string + fake_db" where
  "update_version P f db =
     (case update_first P f (db_template_versions db) of
        None \<Rightarrow> Inl ErrNoRows
      | Some (_, vs) \<Rightarrow> Inr (db\<lparr>db_template_versions := vs\<rparr>))"

definition UpdateTemplateVersionByID ::
  "uuid \<Rightarrow> null_uuid \<Rightarrow> time \<Rightarrow> string \<Rightarrow> string \<Rightarrow> fake_db \<Rightarrow> string + fake_db" where
  "UpdateTemplateVersionByID i templateID updatedAt name message =
     update_version (\<lambda>v. tv_id v = i)
       (\<lambda>v. v\<lparr>tv_template_id := templateID, tv_updated_at := updatedAt, tv_name := name, tv_message := message\<rparr>)"

definition UpdateTemplateVersionDescriptionByJobID :: "uuid \<Rightarrow> string \<Rightarrow> time \<Rightarrow> fake_db \<Rightarrow> string + fake_db" where
  "UpdateTemplateVersionDescriptionByJobID jobID readme updatedAt =
     update_version (\<lambda>v. tv_job_id v = jobID) (\<lambda>v. v\<lparr>tv_readme := readme, tv_updated_at := updatedAt\<rparr>)"

definition UpdateTemplateVersionGitAuthProvidersByJobID ::
  "uuid \<Rightarrow> string list \<Rightarrow> time \<Rightarrow> fake_db \<Rightarrow> string + fake_db" where
  "UpdateTemplateVersionGitAuthProvidersByJobID jobID providers updatedAt =
     update_version (\<lambda>v. tv_job_id v = jobID) (\<lambda>v. v\<lparr>tv_git_auth_providers := providers, tv_updated_at := updatedAt\<rparr>)"

section \<open>Parameters and variables\<close>

definition InsertTemplateVersionParameter ::
  "fake_db \<Rightarrow> template_version_parameter \<Rightarrow> template_version_parameter \<times> fake_db" where
  "InsertTemplateVersionParameter db arg =
     (arg, db\<lparr>db_template_version_parameters := db_template_version_parameters db @ [arg]\<rparr>)"

text \<open>A version's parameters by display order, then by lower-cased name.\<close>

definition GetTemplateVersionParameters :: "fake_db \<Rightarrow> uuid \<Rightarrow> template_version_parameter list" where
  "GetTemplateVersionParameters db vid =
     sort_key (\<lambda>p. (tvp_display_order p, to_lower (tvp_name p)))
       (filter (\<lambda>p. tvp_template_version_id p = vid) (db_template_version_parameters db))"

definition InsertTemplateVersionVariable ::
  "fake_db \<Rightarrow> template_version_variable \<Rightarrow> template_version_variable \<times> fake_db" where
  "InsertTemplateVersionVariable db arg =
     (arg, db\<lparr>db_template_version_variables := db_template_version_variables db @ [arg]\<rparr>)"

definition GetTemplateVersionVariables :: "fake_db \<Rightarrow> uuid \<Rightarrow> template_version_variable list" where
  "GetTemplateVersionVariables db vid = filter (\<lambda>v. tvv_template_version_id v = vid) (db_template_version_variables db)"

section \<open>Lemmas\<close>

text \<open>The user loop of \<open>GetTemplateUserRoles\<close>: one missing user fails the query, whatever its position.\<close>

lemma template_user_rows_spec:
  "template_user_rows db kvs =
     (if list_ex (\<lambda>kv. getUserByIDNoLock db (fst kv) = None) kvs then Inl (''get user by ID: '' @ ErrNoRows)
      else Inr (concat (map (\<lambda>(k, acts). case getUserByIDNoLock db k of
                                           None \<Rightarrow> []
                                         | Some u \<Rightarrow> if usr_deleted u \<or> usr_status u = UserStatusSuspended then []
                                                     else [\<lparr>tu_user = u, tu_actions = acts\<rparr>]) kvs)))"
  by (induction kvs) (auto split: option.splits sum.splits)

end
