(* ===== verification/TemplateProps.thy ===== *)
theory TemplateProps
  imports DbTemplates DbProps ExecutorProps
begin

text \<open>
  Properties of the template and template-version queries of the database
  fake: paging through a template's versions by cursor, the previous
  version as the latest earlier one, and the user roles of a template's
  ACL, which fail on a user missing from the table.  Each is applied to a
  small concrete store.
\<close>

section \<open>Example data\<close>

definition ex_version :: "uuid \<Rightarrow> time \<Rightarrow> string \<Rightarrow> template_version" where
  "ex_version i created name =
     \<lparr>tv_id = i, tv_template_id = \<lparr>nu_uuid = 2, nu_valid = True\<rparr>, tv_organization_id = 8, tv_created_at = created,
      tv_updated_at = created, tv_name = name, tv_message = [], tv_readme = [], tv_job_id = i + 100,
      tv_created_by = 1, tv_git_auth_providers = []\<rparr>"

text \<open>Three versions of template \<open>2\<close>, stored out of creation order.\<close>

definition ex_versions_db :: fake_db where
  "ex_versions_db = New\<lparr>db_users := [ex_user 1 ''zed'' 1000],
                        db_template_versions := [ex_version 12 300 ''v3'', ex_version 10 100 ''v1'',
                                                 ex_version 11 200 ''v2'']\<rparr>"

text \<open>
  Template \<open>2\<close> grants \<open>read\<close> to user \<open>1\<close> and to user \<open>5\<close>, who is not in
  the table, and to group \<open>4\<close> and group \<open>6\<close>, which does not exist.
\<close>

definition ex_acl_db :: fake_db where
  "ex_acl_db = New\<lparr>db_users := [ex_user 1 ''zed'' 1000], db_groups := [ex_group],
                   db_templates := [(ex_template 0 0 0)\<lparr>tmpl_user_acl := [(1, [''read'']), (5, [''read''])],
                                                         tmpl_group_acl := [(4, [''read'']), (6, [''read''])]\<rparr>]\<rparr>"

section \<open>Template versions\<close>

text \<open>
  C17.  Paging through a template's versions by cursor: with distinct
  version ids, the page after a version is the versions that follow it in
  creation order, up to the limit, and \<open>ErrNoRows\<close> after the last one;
  the first page is the first versions.
\<close>

theorem template_versions_cursor:
  assumes "template_versions_of db tid = ys @ v # zs"
    and "distinct (map (\<lambda>x. tv_id (tvu_version x)) (template_versions_of db tid))"
    and "tv_id (tvu_version v) \<noteq> uuid_nil" and "0 < n"
  shows "GetTemplateVersionsByTemplateID db
           \<lparr>vp_template_id = tid, vp_after_id = tv_id (tvu_version v), vp_offset = 0, vp_limit = n\<rparr> =
           (if zs = [] then Inl ErrNoRows else Inr (take (nat n) zs)) \<and>
         GetTemplateVersionsByTemplateID db \<lparr>vp_template_id = tid, vp_after_id = uuid_nil, vp_offset = 0, vp_limit = n\<rparr> =
           Inr (take (nat n) (ys @ v # zs))"
proof -
  have p1: "paginate (\<lambda>x. tv_id (tvu_version x)) (tv_id (tvu_version v)) 0 n (ys @ v # zs) =
              (if zs = [] then Inl ErrNoRows else Inr (take (nat n) zs))"
    using assms paginate_cursor [of "\<lambda>x. tv_id (tvu_version x)" ys v zs n] by simp
  have p2: "paginate (\<lambda>x. tv_id (tvu_version x)) uuid_nil 0 n (ys @ v # zs) = Inr (take (nat n) (ys @ v # zs))"
    using paginate_first [OF assms(4), of "\<lambda>x. tv_id (tvu_version x)" "ys @ v # zs"] by (simp del: take_append)
  show ?thesis
    unfolding GetTemplateVersionsByTemplateID_def using p1 p2 assms(1) by (simp del: take_append)
qed

lemma ex_versions_sorted:
  "template_versions_of ex_versions_db 2 =
     map (templateVersionWithUserNoLock ex_versions_db)
         [ex_version 10 100 ''v1'', ex_version 11 200 ''v2'', ex_version 12 300 ''v3'']"
  by (simp add: template_versions_of_def ex_versions_db_def ex_version_def templateVersionWithUserNoLock_def New_def)

theorem template_versions_cursor_witness:
  "GetTemplateVersionsByTemplateID ex_versions_db \<lparr>vp_template_id = 2, vp_after_id = 10, vp_offset = 0, vp_limit = 1\<rparr> =
     Inr [templateVersionWithUserNoLock ex_versions_db (ex_version 11 200 ''v2'')]"
proof -
  define w where "w = (\<lambda>i c n. templateVersionWithUserNoLock ex_versions_db (ex_version i c n))"
  have s: "template_versions_of ex_versions_db 2 = [] @ w 10 100 ''v1'' # [w 11 200 ''v2'', w 12 300 ''v3'']"
    using ex_versions_sorted by (simp add: w_def)
  have d: "distinct (map (\<lambda>x. tv_id (tvu_version x)) (template_versions_of ex_versions_db 2))"
    by (simp add: ex_versions_sorted ex_version_def templateVersionWithUserNoLock_def split: option.splits)
  have i: "tv_id (tvu_version (w 10 100 ''v1'')) = 10"
    by (simp add: w_def ex_version_def templateVersionWithUserNoLock_def split: option.splits)
  have "(1::int) > 0" by simp
  from template_versions_cursor [OF s d _ this] i show ?thesis
    by (simp add: uuid_nil_def w_def)
qed

text \<open>
  C18.  When the current version exists, \<open>GetPreviousTemplateVersion\<close> is
  \<open>ErrNoRows\<close> exactly when no other version of its organization and
  template was created before it, and otherwise returns such a version with
  the latest creation time.
\<close>

theorem previous_version_latest:
  assumes "find (\<lambda>v. tv_template_id v = tid \<and> tv_name v = name \<and> tv_organization_id v = org)
                (db_template_versions db) = Some cur"
  shows "(previous_candidates db org cur = [] \<longrightarrow> GetPreviousTemplateVersion db org name tid = Inl ErrNoRows) \<and>
         (previous_candidates db org cur \<noteq> [] \<longrightarrow>
            (\<exists>v \<in> set (previous_candidates db org cur).
                GetPreviousTemplateVersion db org name tid = Inr (templateVersionWithUserNoLock db v) \<and>
                (\<forall>w \<in> set (previous_candidates db org cur). tv_created_at w \<le> tv_created_at v)))"
proof -
  define ps where "ps = previous_candidates db org cur"
  have r: "GetPreviousTemplateVersion db org name tid =
             (if ps = [] then Inl ErrNoRows
              else Inr (templateVersionWithUserNoLock db (last (sort_key tv_created_at (rev ps)))))"
    using assms by (simp add: GetPreviousTemplateVersion_def ps_def hd_rev)
  have "ps \<noteq> [] \<Longrightarrow> last (sort_key tv_created_at (rev ps)) \<in> set ps \<and>
          (\<forall>w \<in> set ps. tv_created_at w \<le> tv_created_at (last (sort_key tv_created_at (rev ps))))"
    using last_sort_key_max [of "rev ps" tv_created_at] by simp
  then show ?thesis using r unfolding ps_def [symmetric] by auto
qed

theorem previous_version_latest_witness:
  "\<exists>v. GetPreviousTemplateVersion ex_versions_db 8 ''v3'' \<lparr>nu_uuid = 2, nu_valid = True\<rparr> =
         Inr (templateVersionWithUserNoLock ex_versions_db v) \<and> tv_created_at v = 200"
proof -
  have f: "find (\<lambda>v. tv_template_id v = \<lparr>nu_uuid = 2, nu_valid = True\<rparr> \<and> tv_name v = ''v3'' \<and> tv_organization_id v = 8)
              (db_template_versions ex_versions_db) = Some (ex_version 12 300 ''v3'')"
    by (simp add: ex_versions_db_def ex_version_def New_def)
  have c: "previous_candidates ex_versions_db 8 (ex_version 12 300 ''v3'') =
             [ex_version 10 100 ''v1'', ex_version 11 200 ''v2'']"
    by (simp add: previous_candidates_def ex_versions_db_def ex_version_def New_def time_before_def)
  show ?thesis
    using previous_version_latest [OF f] c by (auto simp: ex_version_def)
qed

section \<open>Template ACLs\<close>

text \<open>
  C19.  \<open>GetTemplateUserRoles\<close> fails with the wrapped \<open>ErrNoRows\<close> as soon
  as the template's ACL names a user missing from the table, although the
  code's comment says such users are skipped; otherwise it lists every
  user of the ACL that is neither deleted nor suspended, with its actions.
\<close>

theorem template_user_roles:
  assumes "acl_template db i = Some t"
  shows "GetTemplateUserRoles db i =
           (if list_ex (\<lambda>kv. getUserByIDNoLock db (fst kv) = None) (tmpl_user_acl t)
            then Inl (''get user by ID: '' @ ErrNoRows)
            else Inr (concat (map (\<lambda>(k, acts). case getUserByIDNoLock db k of
                                                None \<Rightarrow> []
                                              | Some u \<Rightarrow> if usr_deleted u \<or> usr_status u = UserStatusSuspended then []
                                                          else [\<lparr>tu_user = u, tu_actions = acts\<rparr>])
                                  (tmpl_user_acl t))))"
  using assms by (simp add: GetTemplateUserRoles_def template_user_rows_spec)

text \<open>
  User \<open>5\<close> is missing, so the user roles fail, while the group roles skip
  the missing group \<open>6\<close>.
\<close>

theorem template_user_roles_witness:
  "GetTemplateUserRoles ex_acl_db 2 = Inl (''get user by ID: '' @ ErrNoRows) \<and>
   GetTemplateGroupRoles ex_acl_db 2 = Inr [\<lparr>tg_group = ex_group, tg_actions = [''read'']\<rparr>]"
proof -
  have a: "acl_template ex_acl_db 2 =
             Some ((ex_template 0 0 0)\<lparr>tmpl_user_acl := [(1, [''read'']), (5, [''read''])],
                                       tmpl_group_acl := [(4, [''read'']), (6, [''read''])]\<rparr>)"
    by (simp add: acl_template_def ex_acl_db_def ex_template_def New_def uuid_nil_def)
  have "GetTemplateUserRoles ex_acl_db 2 = Inl (''get user by ID: '' @ ErrNoRows)"
    using template_user_roles [OF a]
    by (simp add: getUserByIDNoLock_def ex_acl_db_def ex_user_def New_def)
  moreover have "GetTemplateGroupRoles ex_acl_db 2 = Inr [\<lparr>tg_group = ex_group, tg_actions = [''read'']\<rparr>]"
    using a by (simp add: GetTemplateGroupRoles_def getGroupByIDNoLock_def ex_acl_db_def ex_group_def New_def)
  ultimately show ?thesis ..
qed

end
