(* ===== verification/DbOrgs.thy ===== *)
theory DbOrgs
  imports DbTemplates
begin

text \<open>
  Organizations and their members, the quota sums, workspace proxies,
  files, and git-auth and user links in the database fake
  (\<open>src/unnamed/part_005\<close>).  The quota sums add \<open>int32\<close> columns into an
  \<open>int64\<close>, written with \<^const>\<open>wrap_int64\<close>; proxy region ids are
  \<open>int32\<close> words.  The hostname lookup of a proxy uses two regular
  expressions, written out below as the string tests they decide.
\<close>

section \<open>Organizations\<close>

definition GetOrganizationByID :: "fake_db \<Rightarrow> uuid \<Rightarrow> organization option" where
  "GetOrganizationByID db i = find (\<lambda>o'. org_id o' = i) (db_organizations db)"

definition GetOrganizationByName :: "fake_db \<Rightarrow> string \<Rightarrow> organization option" where
  "GetOrganizationByName db name = find (\<lambda>o'. org_name o' = name) (db_organizations db)"

record org_ids_row =
  oir_user_id :: uuid
  oir_organization_ids :: "uuid list"

text \<open>One row per id asked for, even for a user in no organization; only an empty list is \<open>ErrNoRows\<close>.\<close>

definition GetOrganizationIDsByMemberIDs :: "fake_db \<Rightarrow> uuid list \<Rightarrow> string + org_ids_row list" where
  "GetOrganizationIDsByMemberIDs db ids =
     (let rows = map (\<lambda>u. \<lparr>oir_user_id = u,
                            oir_organization_ids = map om_organization_id
                               (filter (\<lambda>m. om_user_id m = u) (db_organization_members db))\<rparr>) ids
      in if rows = [] then Inl ErrNoRows else Inr rows)"

definition GetOrganizationMemberByUserID :: "fake_db \<Rightarrow> uuid \<Rightarrow> uuid \<Rightarrow> organization_member option" where
  "GetOrganizationMemberByUserID db org uid =
     find (\<lambda>m. om_organization_id m = org \<and> om_user_id m = uid) (db_organization_members db)"

definition GetOrganizationMembershipsByUserID :: "fake_db \<Rightarrow> uuid \<Rightarrow> organization_member list" where
  "GetOrganizationMembershipsByUserID db uid = filter (\<lambda>m. om_user_id m = uid) (db_organization_members db)"

definition GetOrganizations :: "fake_db \<Rightarrow> string + organization list" where
  "GetOrganizations db = (if db_organizations db = [] then Inl ErrNoRows else Inr (db_organizations db))"

text \<open>Every organization of every membership of the user, in membership order.\<close>

definition GetOrganizationsByUserID :: "fake_db \<Rightarrow> uuid \<Rightarrow> string + organization list" where
  "GetOrganizationsByUserID db uid =
     (let os = concat (map (\<lambda>m. filter (\<lambda>o'. org_id o' = om_organization_id m) (db_organizations db))
                           (filter (\<lambda>m. om_user_id m = uid) (db_organization_members db)))
      in if os = [] then Inl ErrNoRows else Inr os)"

definition InsertOrganization :: "fake_db \<Rightarrow> uuid \<Rightarrow> string \<Rightarrow> time \<Rightarrow> time \<Rightarrow> organization \<times> fake_db" where
  "InsertOrganization db i name createdAt updatedAt =
     (let o' = \<lparr>org_id = i, org_name = name, org_created_at = createdAt, org_updated_at = updatedAt\<rparr>
      in (o', db\<lparr>db_organizations := db_organizations db @ [o']\<rparr>))"

text \<open>\<open>InsertOrganizationMember\<close>: the row is the parameters, appended without a check.\<close>

definition InsertOrganizationMember :: "fake_db \<Rightarrow> organization_member \<Rightarrow> organization_member \<times> fake_db" where
  "InsertOrganizationMember db arg = (arg, db\<lparr>db_organization_members := db_organization_members db @ [arg]\<rparr>)"

text \<open>\<open>UpdateMemberRoles\<close>: the granted roles without duplicates, sorted as \<open>sort.Strings\<close> does.\<close>

definition UpdateMemberRoles :: "fake_db \<Rightarrow> uuid \<Rightarrow> uuid \<Rightarrow> string list \<Rightarrow> string + (organization_member \<times> fake_db)" where
  "UpdateMemberRoles db uid org grantedRoles =
     (case update_first (\<lambda>m. om_user_id m = uid \<and> om_organization_id m = org)
             (\<lambda>m. m\<lparr>om_roles := sort (remdups grantedRoles)\<rparr>) (db_organization_members db) of
        None \<Rightarrow> Inl ErrNoRows
      | Some (m, ms) \<Rightarrow> Inr (m, db\<lparr>db_organization_members := ms\<rparr>))"

section \<open>Quota\<close>

text \<open>The \<open>int64\<close> sum of \<open>int32\<close> terms, each addition wrapped.\<close>

definition sum_int64 :: "int list \<Rightarrow> int" where
  "sum_int64 xs = foldl (\<lambda>s x. wrap_int64 (s + x)) 0 xs"

text \<open>The quota allowance of every group of every membership of the user.\<close>

definition quota_allowances :: "fake_db \<Rightarrow> uuid \<Rightarrow> int list" where
  "quota_allowances db uid =
     concat (map (\<lambda>m. map grp_quota_allowance (filter (\<lambda>g. grp_id g = gm_group_id m) (db_groups db)))
                 (filter (\<lambda>m. gm_user_id m = uid) (db_group_members db)))"

definition GetQuotaAllowanceForUser :: "fake_db \<Rightarrow> uuid \<Rightarrow> int" where
  "GetQuotaAllowanceForUser db uid = sum_int64 (quota_allowances db uid)"

text \<open>
  The daily cost of a workspace's last build: the first build with the
  latest creation time strictly after the zero time, or the zero build's
  cost \<open>0\<close>.
\<close>

definition last_build_cost :: "fake_db \<Rightarrow> workspace \<Rightarrow> int" where
  "last_build_cost db w =
     snd (foldl (\<lambda>(t, c) b. if wb_workspace_id b = ws_id w \<and> time_after (wb_created_at b) t
                            then (wb_created_at b, wb_daily_cost b) else (t, c))
                (0, 0) (db_builds db))"

definition GetQuotaConsumedForUser :: "fake_db \<Rightarrow> uuid \<Rightarrow> int" where
  "GetQuotaConsumedForUser db uid =
     sum_int64 (map (last_build_cost db) (filter (\<lambda>w. ws_owner_id w = uid \<and> \<not> ws_deleted w) (db_workspaces db)))"

section \<open>Workspace proxies\<close>

definition GetWorkspaceProxies :: "fake_db \<Rightarrow> workspace_proxy list" where
  "GetWorkspaceProxies db = filter (\<lambda>p. \<not> wp_deleted p) (db_workspace_proxies db)"

text \<open>\<open>validProxyByHostnameRegex\<close>, \<open>^[a-zA-Z0-9._-]+$\<close>: a non-empty string of these bytes.\<close>

definition hostname_char :: "char \<Rightarrow> bool" where
  "hostname_char c \<longleftrightarrow>
     (CHR ''a'' \<le> c \<and> c \<le> CHR ''z'') \<or> (CHR ''A'' \<le> c \<and> c \<le> CHR ''Z'') \<or> (CHR ''0'' \<le> c \<and> c \<le> CHR ''9'') \<or>
     c \<in> set ''._-''"

definition valid_proxy_hostname :: "string \<Rightarrow> bool" where
  "valid_proxy_hostname h \<longleftrightarrow> h \<noteq> [] \<and> list_all hostname_char h"

text \<open>
  The access-URL regex \<open>[^:]*://\<close> \<open>QuoteMeta(hostname)\<close> \<open>([:/]?.)*\<close>,
  searched unanchored by \<open>MatchString\<close>: both repetitions may match the
  empty string, so it matches exactly when \<open>://\<close> followed by the
  hostname occurs in the URL.
\<close>

definition access_url_match :: "string \<Rightarrow> string \<Rightarrow> bool" where
  "access_url_match hostname url \<longleftrightarrow> sublist (''://'' @ hostname) url"

text \<open>
  The scan of \<open>GetWorkspaceProxyByHostname\<close>.  The wildcard pattern is
  compiled and executed by \<open>httpapi\<close> (not under \<open>src/\<close>), the parameter
  \<open>wildcard_match\<close>: \<open>Inl\<close> a compile error, which ends the query, or
  whether the hostname matches.  The error message's quoting of the
  pattern, name and id is abbreviated.
\<close>

primrec proxy_by_hostname_scan ::
  "(string \<Rightarrow> string \<Rightarrow> string + bool) \<Rightarrow> string \<Rightarrow> bool \<Rightarrow> bool \<Rightarrow> workspace_proxy list \<Rightarrow> string + workspace_proxy" where
  "proxy_by_hostname_scan wildcard_match hostname allowAccessUrl allowWildcard [] = Inl ErrNoRows"
| "proxy_by_hostname_scan wildcard_match hostname allowAccessUrl allowWildcard (p # ps) =
     (if wp_deleted p then proxy_by_hostname_scan wildcard_match hostname allowAccessUrl allowWildcard ps
      else if allowAccessUrl \<and> access_url_match hostname (wp_url p) then Inr p
      else if allowWildcard then
        (case wildcard_match (wp_wildcard_hostname p) hostname of
           Inl err \<Rightarrow> Inl (''compile hostname pattern '' @ wp_wildcard_hostname p @ '' for proxy '' @ wp_name p @ '': '' @ err)
         | Inr True \<Rightarrow> Inr p
         | Inr False \<Rightarrow> proxy_by_hostname_scan wildcard_match hostname allowAccessUrl allowWildcard ps)
      else proxy_by_hostname_scan wildcard_match hostname allowAccessUrl allowWildcard ps)"

definition GetWorkspaceProxyByHostname ::
  "(string \<Rightarrow> string \<Rightarrow> string + bool) \<Rightarrow> fake_db \<Rightarrow> string \<Rightarrow> bool \<Rightarrow> bool \<Rightarrow> string + workspace_proxy" where
  "GetWorkspaceProxyByHostname wildcard_match db hostname allowAccessUrl allowWildcard =
     (if \<not> valid_proxy_hostname hostname then Inl ErrNoRows
      else proxy_by_hostname_scan wildcard_match hostname allowAccessUrl allowWildcard (db_workspace_proxies db))"

text \<open>By id the deleted proxies are found too; by name they are not.\<close>

definition GetWorkspaceProxyByID :: "fake_db \<Rightarrow> uuid \<Rightarrow> workspace_proxy option" where
  "GetWorkspaceProxyByID db i = find (\<lambda>p. wp_id p = i) (db_workspace_proxies db)"

definition GetWorkspaceProxyByName :: "fake_db \<Rightarrow> string \<Rightarrow> workspace_proxy option" where
  "GetWorkspaceProxyByName db name = find (\<lambda>p. \<not> wp_deleted p \<and> wp_name p = name) (db_workspace_proxies db)"

text \<open>\<open>database.InsertWorkspaceProxyParams\<close>.\<close>

record insert_proxy_params =
  ipp_id :: uuid
  ipp_name :: string
  ipp_display_name :: string
  ipp_icon :: string
  ipp_derp_enabled :: bool
  ipp_derp_only :: bool
  ipp_token_hashed_secret :: string
  ipp_created_at :: time
  ipp_updated_at :: time

text \<open>The greatest region id, deleted proxies included, compared as signed \<open>int32\<close> values from \<open>0\<close>.\<close>

definition region_max :: "32 word \<Rightarrow> workspace_proxy \<Rightarrow> 32 word" where
  "region_max r p = (if sint r < sint (wp_region_id p) then wp_region_id p else r)"

definition last_region_id :: "workspace_proxy list \<Rightarrow> 32 word" where
  "last_region_id ps = foldl region_max 0 ps"

text \<open>
  \<open>InsertWorkspaceProxy\<close>: a live proxy with the name is \<open>errDuplicateKey\<close>;
  the new region id is the greatest plus one, in \<open>int32\<close> arithmetic.
\<close>

definition InsertWorkspaceProxy :: "fake_db \<Rightarrow> insert_proxy_params \<Rightarrow> string + (workspace_proxy \<times> fake_db)" where
  "InsertWorkspaceProxy db arg =
     (if list_ex (\<lambda>p. \<not> wp_deleted p \<and> wp_name p = ipp_name arg) (db_workspace_proxies db) then Inl errDuplicateKey
      else let p = \<lparr>wp_id = ipp_id arg, wp_name = ipp_name arg, wp_display_name = ipp_display_name arg,
                    wp_icon = ipp_icon arg, wp_url = [], wp_wildcard_hostname = [], wp_created_at = ipp_created_at arg,
                    wp_updated_at = ipp_updated_at arg, wp_deleted = False,
                    wp_token_hashed_secret = ipp_token_hashed_secret arg,
                    wp_region_id = last_region_id (db_workspace_proxies db) + 1,
                    wp_derp_enabled = ipp_derp_enabled arg, wp_derp_only = ipp_derp_only arg\<rparr>
           in Inr (p, db\<lparr>db_workspace_proxies := db_workspace_proxies db @ [p]\<rparr>))"

definition update_proxy ::
  "uuid \<Rightarrow> (workspace_proxy \<Rightarrow> workspace_proxy) \<Rightarrow> fake_db \<Rightarrow> string + (workspace_proxy \<times> fake_db)" where
  "update_proxy i f db =
     (case update_first (\<lambda>p. wp_id p = i) f (db_workspace_proxies db) of
        None \<Rightarrow> Inl ErrNoRows
      | Some (p, ps) \<Rightarrow> Inr (p, db\<lparr>db_workspace_proxies := ps\<rparr>))"

text \<open>\<open>RegisterWorkspaceProxy\<close> stamps \<open>database.Now()\<close>, the argument \<open>now\<close>.\<close>

definition RegisterWorkspaceProxy ::
  "fake_db \<Rightarrow> uuid \<Rightarrow> string \<Rightarrow> string \<Rightarrow> bool \<Rightarrow> bool \<Rightarrow> time \<Rightarrow> string + (workspace_proxy \<times> fake_db)" where
  "RegisterWorkspaceProxy db i url wildcardHostname derpEnabled derpOnly now =
     update_proxy i (\<lambda>p. p\<lparr>wp_url := url, wp_wildcard_hostname := wildcardHostname, wp_derp_enabled := derpEnabled,
                            wp_derp_only := derpOnly, wp_updated_at := now\<rparr>) db"

text \<open>
  \<open>UpdateWorkspaceProxy\<close>: any other proxy with the name, deleted or not,
  is \<open>errDuplicateKey\<close>; the secret is replaced only when one is set.
\<close>

definition UpdateWorkspaceProxy ::
  "fake_db \<Rightarrow> uuid \<Rightarrow> string \<Rightarrow> string \<Rightarrow> string \<Rightarrow> string \<Rightarrow> string + (workspace_proxy \<times> fake_db)" where
  "UpdateWorkspaceProxy db i name displayName icon secret =
     (if list_ex (\<lambda>p. wp_name p = name \<and> wp_id p \<noteq> i) (db_workspace_proxies db) then Inl errDuplicateKey
      else update_proxy i (\<lambda>p. p\<lparr>wp_name := name, wp_display_name := displayName, wp_icon := icon,
                                  wp_token_hashed_secret := (if wp_token_hashed_secret p \<noteq> [] then secret
                                                             else wp_token_hashed_secret p)\<rparr>) db)"

definition UpdateWorkspaceProxyDeleted :: "fake_db \<Rightarrow> uuid \<Rightarrow> bool \<Rightarrow> time \<Rightarrow> string + fake_db" where
  "UpdateWorkspaceProxyDeleted db i deleted now =
     map_sum id snd (update_proxy i (\<lambda>p. p\<lparr>wp_deleted := deleted, wp_updated_at := now\<rparr>) db)"

definition UpsertDefaultProxy :: "fake_db \<Rightarrow> string \<Rightarrow> string \<Rightarrow> fake_db" where
  "UpsertDefaultProxy db displayName iconUrl =
     db\<lparr>db_default_proxy_display_name := displayName, db_default_proxy_icon_url := iconUrl\<rparr>"

definition GetDefaultProxyConfig :: "fake_db \<Rightarrow> string \<times> string" where
  "GetDefaultProxyConfig db = (db_default_proxy_display_name db, db_default_proxy_icon_url db)"

section \<open>Files\<close>

definition InsertFile :: "fake_db \<Rightarrow> file_row \<Rightarrow> file_row \<times> fake_db" where
  "InsertFile db arg = (arg, db\<lparr>db_files := db_files db @ [arg]\<rparr>)"

definition GetFileByID :: "fake_db \<Rightarrow> uuid \<Rightarrow> file_row option" where
  "GetFileByID db i = find (\<lambda>f. file_id f = i) (db_files db)"

definition GetFileByHashAndCreator :: "fake_db \<Rightarrow> string \<Rightarrow> uuid \<Rightarrow> file_row option" where
  "GetFileByHashAndCreator db hash createdBy = find (\<lambda>f. file_hash f = hash \<and> file_created_by f = createdBy) (db_files db)"

record file_template_row =
  ftr_file_id :: uuid
  ftr_file_created_by :: uuid
  ftr_template_id :: uuid
  ftr_template_organization_id :: uuid
  ftr_template_created_by :: uuid
  ftr_user_acl :: "(uuid \<times> string list) list"
  ftr_group_acl :: "(uuid \<times> string list) list"

text \<open>
  \<open>GetFileTemplates\<close>: nothing for a missing file or one with an empty
  hash (the zero file's id is \<open>uuid.Nil\<close>); otherwise a row for every
  template of every version of every job of the file.
\<close>

definition GetFileTemplates :: "fake_db \<Rightarrow> uuid \<Rightarrow> file_template_row list" where
  "GetFileTemplates db i =
     (case find (\<lambda>f. file_id f = i) (db_files db) of
        None \<Rightarrow> []
      | Some f \<Rightarrow>
          if file_hash f = [] then []
          else concat (map (\<lambda>j. concat (map (\<lambda>v.
                 map (\<lambda>t. \<lparr>ftr_file_id = file_id f, ftr_file_created_by = file_created_by f, ftr_template_id = tmpl_id t,
                            ftr_template_organization_id = tmpl_organization_id t, ftr_template_created_by = tmpl_created_by t,
                            ftr_user_acl = tmpl_user_acl t, ftr_group_acl = tmpl_group_acl t\<rparr>)
                     (filter (\<lambda>t. tmpl_id t = nu_uuid (tv_template_id v)) (db_templates db)))
                 (filter (\<lambda>v. tv_job_id v = pj_id j) (db_template_versions db))))
               (filter (\<lambda>j. pj_file_id j = i) (db_jobs db))))"

section \<open>Git-auth links and user links\<close>

definition GetGitAuthLink :: "fake_db \<Rightarrow> string \<Rightarrow> uuid \<Rightarrow> git_auth_link option" where
  "GetGitAuthLink db providerID uid =
     find (\<lambda>l. gal_user_id l = uid \<and> gal_provider_id l = providerID) (db_git_auth_links db)"

definition InsertGitAuthLink :: "fake_db \<Rightarrow> git_auth_link \<Rightarrow> git_auth_link \<times> fake_db" where
  "InsertGitAuthLink db arg = (arg, db\<lparr>db_git_auth_links := db_git_auth_links db @ [arg]\<rparr>)"

definition UpdateGitAuthLink ::
  "fake_db \<Rightarrow> string \<Rightarrow> uuid \<Rightarrow> time \<Rightarrow> string \<Rightarrow> string \<Rightarrow> time \<Rightarrow> string + (git_auth_link \<times> fake_db)" where
  "UpdateGitAuthLink db providerID uid updatedAt accessToken refreshToken expiry =
     (case update_first (\<lambda>l. gal_provider_id l = providerID \<and> gal_user_id l = uid)
             (\<lambda>l. l\<lparr>gal_updated_at := updatedAt, gal_oauth_access_token := accessToken,
                    gal_oauth_refresh_token := refreshToken, gal_oauth_expiry := expiry\<rparr>) (db_git_auth_links db) of
        None \<Rightarrow> Inl ErrNoRows
      | Some (l, ls) \<Rightarrow> Inr (l, db\<lparr>db_git_auth_links := ls\<rparr>))"

definition GetUserLinkByLinkedID :: "fake_db \<Rightarrow> string \<Rightarrow> user_link option" where
  "GetUserLinkByLinkedID db i = find (\<lambda>l. ul_linked_id l = i) (db_user_links db)"

definition GetUserLinkByUserIDLoginType :: "fake_db \<Rightarrow> uuid \<Rightarrow> login_type \<Rightarrow> user_link option" where
  "GetUserLinkByUserIDLoginType db uid lt = find (\<lambda>l. ul_user_id l = uid \<and> ul_login_type l = lt) (db_user_links db)"

definition InsertUserLink :: "fake_db \<Rightarrow> user_link \<Rightarrow> user_link \<times> fake_db" where
  "InsertUserLink db arg = (arg, db\<lparr>db_user_links := db_user_links db @ [arg]\<rparr>)"

text \<open>The two updates of a user's link of a login type; none is \<open>ErrNoRows\<close>.\<close>

definition update_user_link ::
  "uuid \<Rightarrow> login_type \<Rightarrow> (user_link \<Rightarrow> user_link) \<Rightarrow> fake_db \<Rightarrow> string + (user_link \<times> fake_db)" where
  "update_user_link uid lt f db =
     (case update_first (\<lambda>l. ul_user_id l = uid \<and> ul_login_type l = lt) f (db_user_links db) of
        None \<Rightarrow> Inl ErrNoRows
      | Some (l, ls) \<Rightarrow> Inr (l, db\<lparr>db_user_links := ls\<rparr>))"

definition UpdateUserLink ::
  "fake_db \<Rightarrow> uuid \<Rightarrow> login_type \<Rightarrow> string \<Rightarrow> string \<Rightarrow> time \<Rightarrow> string + (user_link \<times> fake_db)" where
  "UpdateUserLink db uid lt accessToken refreshToken expiry =
     update_user_link uid lt (\<lambda>l. l\<lparr>ul_oauth_access_token := accessToken, ul_oauth_refresh_token := refreshToken,
                                     ul_oauth_expiry := expiry\<rparr>) db"

definition UpdateUserLinkedID :: "fake_db \<Rightarrow> uuid \<Rightarrow> login_type \<Rightarrow> string \<Rightarrow> string + (user_link \<times> fake_db)" where
  "UpdateUserLinkedID db uid lt linkedID = update_user_link uid lt (\<lambda>l. l\<lparr>ul_linked_id := linkedID\<rparr>) db"


section \<open>Lemmas\<close>

lemma region_max_fold:
  "sint r \<le> sint (foldl region_max r ps) \<and> (\<forall>q \<in> set ps. sint (wp_region_id q) \<le> sint (foldl region_max r ps))"
proof (induction ps arbitrary: r)
  case Nil
  then show ?case by simp
next
  case (Cons p ps)
  have "sint r \<le> sint (region_max r p) \<and> sint (wp_region_id p) \<le> sint (region_max r p)"
    by (simp add: region_max_def)
  then show ?case using Cons.IH [of "region_max r p"] by fastforce
qed

text \<open>The greatest region id is at least every region id, and not negative.\<close>

lemma last_region_id_max:
  "0 \<le> sint (last_region_id ps) \<and> (\<forall>q \<in> set ps. sint (wp_region_id q) \<le> sint (last_region_id ps))"
  using region_max_fold [of 0 ps] by (simp add: last_region_id_def)

end
