(* ===== verification/OrgProps.thy ===== *)
theory OrgProps
  imports DbOrgs
begin

text \<open>
  Properties of the workspace-proxy queries of the database fake: the
  region id a new proxy gets, at and below the \<open>int32\<close> bound, and the
  hostname lookup's access-URL test, which matches a URL that only starts
  with the hostname.  Each is applied to a small concrete store.
\<close>

section \<open>Example data\<close>

definition ex_proxy :: "uuid \<Rightarrow> string \<Rightarrow> 32 word \<Rightarrow> string \<Rightarrow> workspace_proxy" where
  "ex_proxy i name region url =
     \<lparr>wp_id = i, wp_name = name, wp_display_name = name, wp_icon = [], wp_url = url, wp_wildcard_hostname = [],
      wp_created_at = 0, wp_updated_at = 0, wp_deleted = False, wp_token_hashed_secret = ''secret'',
      wp_region_id = region, wp_derp_enabled = True, wp_derp_only = False\<rparr>"

definition ex_insert_proxy :: insert_proxy_params where
  "ex_insert_proxy = \<lparr>ipp_id = 9, ipp_name = ''sydney'', ipp_display_name = ''Sydney'', ipp_icon = [],
                      ipp_derp_enabled = True, ipp_derp_only = False, ipp_token_hashed_secret = ''s'',
                      ipp_created_at = 0, ipp_updated_at = 0\<rparr>"

text \<open>A wildcard matcher that never matches (the lookups below use the access URL only).\<close>

definition ex_no_wildcard :: "string \<Rightarrow> string \<Rightarrow> string + bool" where
  "ex_no_wildcard pattern hostname = Inr False"

section \<open>Region ids\<close>

text \<open>
  C20.  \<open>InsertWorkspaceProxy\<close> gives the new proxy the greatest region id
  plus one in \<open>int32\<close> arithmetic: below the bound it exceeds every region
  id in the table, deleted proxies included; after \<open>2147483647\<close> it wraps
  to \<open>-2147483648\<close>.
\<close>

theorem proxy_region_fresh:
  assumes "InsertWorkspaceProxy db arg = Inr (p, db')"
  shows "sint (wp_region_id p) = (if sint (last_region_id (db_workspace_proxies db)) = 2 ^ 31 - 1 then - (2 ^ 31)
                                  else sint (last_region_id (db_workspace_proxies db)) + 1) \<and>
         (sint (last_region_id (db_workspace_proxies db)) < 2 ^ 31 - 1 \<longrightarrow>
            (\<forall>q \<in> set (db_workspace_proxies db). sint (wp_region_id q) < sint (wp_region_id p)))"
proof -
  have r: "wp_region_id p = last_region_id (db_workspace_proxies db) + 1"
    using assms by (auto simp: InsertWorkspaceProxy_def Let_def split: if_splits)
  note s = sint_succ_int32 [of "last_region_id (db_workspace_proxies db)"]
  show ?thesis using r s last_region_id_max [of "db_workspace_proxies db"] by fastforce
qed

theorem proxy_region_fresh_witness:
  "\<exists>p db'. InsertWorkspaceProxy (New\<lparr>db_workspace_proxies := [ex_proxy 1 ''a'' 3 [], ex_proxy 2 ''b'' 1 []]\<rparr>)
             ex_insert_proxy = Inr (p, db') \<and> sint (wp_region_id p) = 4 \<and>
           (\<forall>q \<in> set [ex_proxy 1 ''a'' 3 [], ex_proxy 2 ''b'' 1 []]. sint (wp_region_id q) < sint (wp_region_id p))"
proof -
  define db where "db = New\<lparr>db_workspace_proxies := [ex_proxy 1 ''a'' 3 [], ex_proxy 2 ''b'' 1 []]\<rparr>"
  have l: "last_region_id (db_workspace_proxies db) = 3"
    by (simp add: db_def last_region_id_def region_max_def ex_proxy_def)
  obtain p db' where r: "InsertWorkspaceProxy db ex_insert_proxy = Inr (p, db')"
    by (simp add: InsertWorkspaceProxy_def db_def ex_proxy_def ex_insert_proxy_def Let_def)
  have f: "sint (wp_region_id p) = 4"
    using conjunct1 [OF proxy_region_fresh [OF r]] l by simp
  have g: "\<forall>q \<in> set (db_workspace_proxies db). sint (wp_region_id q) < sint (wp_region_id p)"
    using conjunct2 [OF proxy_region_fresh [OF r]] l by simp
  show ?thesis using r f g unfolding db_def by auto
qed

section \<open>Hostname lookup\<close>

text \<open>
  C21.  With \<open>AllowAccessUrl\<close>, \<open>GetWorkspaceProxyByHostname\<close> returns the
  first live proxy whose URL merely contains \<open>://\<close> and the hostname, so a
  proxy at \<open>https://coder.com.evil.example\<close> answers for \<open>coder.com\<close>.
\<close>

theorem proxy_hostname_prefix_match:
  assumes "valid_proxy_hostname h" and "db_workspace_proxies db = p # ps" and "\<not> wp_deleted p"
    and "wp_url p = scheme @ ''://'' @ h @ rest"
  shows "GetWorkspaceProxyByHostname wm db h True allowWildcard = Inr p"
proof -
  have "access_url_match h (wp_url p)"
    unfolding access_url_match_def assms(4) using sublist_appendI [of "''://'' @ h" scheme rest] by simp
  then show ?thesis using assms by (simp add: GetWorkspaceProxyByHostname_def)
qed

theorem proxy_hostname_prefix_match_witness:
  "GetWorkspaceProxyByHostname ex_no_wildcard
     (New\<lparr>db_workspace_proxies := [ex_proxy 1 ''evil'' 1 ''https://coder.com.evil.example'']\<rparr>) ''coder.com'' True False =
   Inr (ex_proxy 1 ''evil'' 1 ''https://coder.com.evil.example'')"
proof -
  have "valid_proxy_hostname ''coder.com''"
    by (simp add: valid_proxy_hostname_def hostname_char_def)
  moreover have "wp_url (ex_proxy 1 ''evil'' 1 ''https://coder.com.evil.example'') =
                   ''https'' @ ''://'' @ ''coder.com'' @ ''.evil.example''"
    by (simp add: ex_proxy_def)
  ultimately show ?thesis
    by (intro proxy_hostname_prefix_match [where scheme = "''https''" and rest = "''.evil.example''"])
       (simp_all add: ex_proxy_def)
qed

end
