(* ===== verification/DbAgents.thy ===== *)
theory DbAgents
  imports DbWorkspaces "HOL-Library.Monad_Syntax"
begin

text \<open>
  Workspace agents, their logs and metadata, workspace apps and workspace
  resources in the database fake (\<open>src/unnamed/part_005\<close>).  A resource
  belongs to a provisioner job, an agent to a resource, an app to an
  agent; \<open>getWorkspaceByAgentIDNoLock\<close> walks the chain back through the
  build of the job to the workspace.  The lookups by agent id, token and
  instance id scan the table backwards (newest first), the updates scan it
  forwards.  The total length of an agent's logs is an \<open>int32\<close>, and the
  length of a batch is summed in an \<open>int32\<close>, so both are
  \<^typ>\<open>32 word\<close>s here and the 1 MiB check is made on the wrapped sum.
\<close>

section \<open>Agents\<close>

definition getWorkspaceAgentByIDNoLock :: "fake_db \<Rightarrow> uuid \<Rightarrow> workspace_agent option" where
  "getWorkspaceAgentByIDNoLock db i = find (\<lambda>a. wa_id a = i) (rev (db_workspace_agents db))"

definition GetWorkspaceAgentByID :: "fake_db \<Rightarrow> uuid \<Rightarrow> workspace_agent option" where
  "GetWorkspaceAgentByID db i = getWorkspaceAgentByIDNoLock db i"

definition GetWorkspaceAgentByAuthToken :: "fake_db \<Rightarrow> uuid \<Rightarrow> workspace_agent option" where
  "GetWorkspaceAgentByAuthToken db token = find (\<lambda>a. wa_auth_token a = token) (rev (db_workspace_agents db))"

definition GetWorkspaceAgentByInstanceID :: "fake_db \<Rightarrow> string \<Rightarrow> workspace_agent option" where
  "GetWorkspaceAgentByInstanceID db instanceID =
     find (\<lambda>a. ns_valid (wa_auth_instance_id a) \<and> ns_string (wa_auth_instance_id a) = instanceID)
          (rev (db_workspace_agents db))"

record agent_lifecycle_row =
  alr_lifecycle_state :: agent_lifecycle_state
  alr_started_at :: null_time
  alr_ready_at :: null_time

definition GetWorkspaceAgentLifecycleStateByID :: "fake_db \<Rightarrow> uuid \<Rightarrow> agent_lifecycle_row option" where
  "GetWorkspaceAgentLifecycleStateByID db i =
     map_option (\<lambda>a. \<lparr>alr_lifecycle_state = wa_lifecycle_state a, alr_started_at = wa_started_at a,
                      alr_ready_at = wa_ready_at a\<rparr>) (getWorkspaceAgentByIDNoLock db i)"

text \<open>Every agent once per matching resource id asked for, in table order.\<close>

definition getWorkspaceAgentsByResourceIDsNoLock :: "fake_db \<Rightarrow> uuid list \<Rightarrow> workspace_agent list" where
  "getWorkspaceAgentsByResourceIDsNoLock db resourceIDs =
     concat (map (\<lambda>a. map (\<lambda>_. a) (filter (\<lambda>r. wa_resource_id a = r) resourceIDs)) (db_workspace_agents db))"

definition GetWorkspaceAgentsByResourceIDs :: "fake_db \<Rightarrow> uuid list \<Rightarrow> workspace_agent list" where
  "GetWorkspaceAgentsByResourceIDs db resourceIDs = getWorkspaceAgentsByResourceIDsNoLock db resourceIDs"

definition GetWorkspaceAgentsCreatedAfter :: "fake_db \<Rightarrow> time \<Rightarrow> workspace_agent list" where
  "GetWorkspaceAgentsCreatedAfter db after = filter (\<lambda>a. time_after (wa_created_at a) after) (db_workspace_agents db)"

definition getWorkspaceResourcesByJobIDNoLock :: "fake_db \<Rightarrow> uuid \<Rightarrow> workspace_resource list" where
  "getWorkspaceResourcesByJobIDNoLock db jobID = filter (\<lambda>r. res_job_id r = jobID) (db_workspace_resources db)"

definition GetWorkspaceResourcesByJobID :: "fake_db \<Rightarrow> uuid \<Rightarrow> workspace_resource list" where
  "GetWorkspaceResourcesByJobID db jobID = getWorkspaceResourcesByJobIDNoLock db jobID"

text \<open>
  The agents of the resources of the workspace's latest build; no build
  is the wrapped \<open>ErrNoRows\<close>, no resource the empty list.
\<close>

definition GetWorkspaceAgentsInLatestBuildByWorkspaceID :: "fake_db \<Rightarrow> uuid \<Rightarrow> string + workspace_agent list" where
  "GetWorkspaceAgentsInLatestBuildByWorkspaceID db workspaceID =
     (case getLatestWorkspaceBuildByWorkspaceID db workspaceID of
        None \<Rightarrow> Inl (''get latest workspace build: '' @ ErrNoRows)
      | Some b \<Rightarrow>
          (let resources = getWorkspaceResourcesByJobIDNoLock db (wb_job_id b)
           in if resources = [] then Inr []
              else Inr (getWorkspaceAgentsByResourceIDsNoLock db (map res_id resources))))"

text \<open>
  From an agent to its workspace: the first agent with the id, the first
  resource with its resource id, the first build of the resource's job,
  the first workspace of the build; a zero agent, resource or build (id
  \<open>uuid.Nil\<close>) or a missing workspace is \<open>ErrNoRows\<close> (\<^const>\<open>None\<close>).
\<close>

definition nonzero :: "('a \<Rightarrow> uuid) \<Rightarrow> 'a option \<Rightarrow> 'a option" where
  "nonzero idf x = (case x of Some v \<Rightarrow> if idf v = uuid_nil then None else Some v | None \<Rightarrow> None)"

definition getWorkspaceByAgentIDNoLock :: "fake_db \<Rightarrow> uuid \<Rightarrow> workspace option" where
  "getWorkspaceByAgentIDNoLock db agentID =
     do {
       agent \<leftarrow> nonzero wa_id (find (\<lambda>a. wa_id a = agentID) (db_workspace_agents db));
       resource \<leftarrow> nonzero res_id (find (\<lambda>r. res_id r = wa_resource_id agent) (db_workspace_resources db));
       build \<leftarrow> nonzero (\<lambda>b. wb_id (bwu_build b))
                  (map_option (workspaceBuildWithUserNoLock db)
                     (find (\<lambda>b. wb_job_id b = res_job_id resource) (db_builds db)));
       find (\<lambda>w. ws_id w = wb_workspace_id (bwu_build build)) (db_workspaces db)
     }"

definition GetWorkspaceByAgentID :: "fake_db \<Rightarrow> uuid \<Rightarrow> workspace option" where
  "GetWorkspaceByAgentID db agentID = getWorkspaceByAgentIDNoLock db agentID"

definition GetWorkspaceByWorkspaceAppID :: "fake_db \<Rightarrow> uuid \<Rightarrow> workspace option" where
  "GetWorkspaceByWorkspaceAppID db appID =
     do {
       app \<leftarrow> find (\<lambda>a. app_id a = appID) (db_workspace_apps db);
       getWorkspaceByAgentIDNoLock db (app_agent_id app)
     }"

text \<open>\<open>database.InsertWorkspaceAgentParams\<close>.\<close>

record insert_agent_params =
  iap_id :: uuid
  iap_created_at :: time
  iap_updated_at :: time
  iap_name :: string
  iap_resource_id :: uuid
  iap_auth_token :: uuid
  iap_auth_instance_id :: null_string
  iap_architecture :: string
  iap_environment_variables :: string
  iap_operating_system :: string
  iap_startup_script :: null_string
  iap_directory :: string
  iap_instance_metadata :: string
  iap_resource_metadata :: string
  iap_connection_timeout_seconds :: int
  iap_troubleshooting_url :: string
  iap_motd_file :: string
  iap_startup_script_behavior :: string
  iap_shutdown_script :: null_string

text \<open>\<open>InsertWorkspaceAgent\<close>: the lifecycle starts at \<open>created\<close>, every other column is zero.\<close>

definition InsertWorkspaceAgent :: "fake_db \<Rightarrow> insert_agent_params \<Rightarrow> workspace_agent \<times> fake_db" where
  "InsertWorkspaceAgent db arg =
     (let a = \<lparr>wa_id = iap_id arg, wa_created_at = iap_created_at arg, wa_updated_at = iap_updated_at arg,
               wa_name = iap_name arg, wa_first_connected_at = null_time_none, wa_last_connected_at = null_time_none,
               wa_disconnected_at = null_time_none, wa_resource_id = iap_resource_id arg,
               wa_auth_token = iap_auth_token arg, wa_auth_instance_id = iap_auth_instance_id arg,
               wa_architecture = iap_architecture arg, wa_environment_variables = iap_environment_variables arg,
               wa_operating_system = iap_operating_system arg, wa_startup_script = iap_startup_script arg,
               wa_instance_metadata = iap_instance_metadata arg, wa_resource_metadata = iap_resource_metadata arg,
               wa_directory = iap_directory arg, wa_version = [],
               wa_connection_timeout_seconds = iap_connection_timeout_seconds arg,
               wa_troubleshooting_url = iap_troubleshooting_url arg, wa_motd_file = iap_motd_file arg,
               wa_lifecycle_state = AgentLifecycleCreated, wa_startup_script_behavior = iap_startup_script_behavior arg,
               wa_expanded_directory = [], wa_shutdown_script = iap_shutdown_script arg, wa_subsystem = [],
               wa_started_at = null_time_none, wa_ready_at = null_time_none, wa_logs_length = 0,
               wa_logs_overflowed = False\<rparr>
      in (a, db\<lparr>db_workspace_agents := db_workspace_agents db @ [a]\<rparr>))"

text \<open>The updates of an agent by id: the first agent with the id (scanning forwards); none is \<open>ErrNoRows\<close>.\<close>

definition update_agent :: "uuid \<Rightarrow> (workspace_agent \<Rightarrow> workspace_agent) \<Rightarrow> fake_db \<Rightarrow> string + fake_db" where
  "update_agent i f db =
     (case update_first (\<lambda>a. wa_id a = i) f (db_workspace_agents db) of
        None \<Rightarrow> Inl ErrNoRows
      | Some (_, as) \<Rightarrow> Inr (db\<lparr>db_workspace_agents := as\<rparr>))"

definition UpdateWorkspaceAgentConnectionByID ::
  "uuid \<Rightarrow> null_time \<Rightarrow> null_time \<Rightarrow> null_time \<Rightarrow> time \<Rightarrow> fake_db \<Rightarrow> string + fake_db" where
  "UpdateWorkspaceAgentConnectionByID i firstConnectedAt lastConnectedAt disconnectedAt updatedAt =
     update_agent i (\<lambda>a. a\<lparr>wa_first_connected_at := firstConnectedAt, wa_last_connected_at := lastConnectedAt,
                            wa_disconnected_at := disconnectedAt, wa_updated_at := updatedAt\<rparr>)"

definition UpdateWorkspaceAgentLifecycleStateByID ::
  "uuid \<Rightarrow> agent_lifecycle_state \<Rightarrow> null_time \<Rightarrow> null_time \<Rightarrow> fake_db \<Rightarrow> string + fake_db" where
  "UpdateWorkspaceAgentLifecycleStateByID i state startedAt readyAt =
     update_agent i (\<lambda>a. a\<lparr>wa_lifecycle_state := state, wa_started_at := startedAt, wa_ready_at := readyAt\<rparr>)"

definition UpdateWorkspaceAgentLogOverflowByID :: "uuid \<Rightarrow> bool \<Rightarrow> fake_db \<Rightarrow> string + fake_db" where
  "UpdateWorkspaceAgentLogOverflowByID i overflowed = update_agent i (\<lambda>a. a\<lparr>wa_logs_overflowed := overflowed\<rparr>)"

definition UpdateWorkspaceAgentStartupByID :: "uuid \<Rightarrow> string \<Rightarrow> string \<Rightarrow> string \<Rightarrow> fake_db \<Rightarrow> string + fake_db" where
  "UpdateWorkspaceAgentStartupByID i version expandedDirectory subsystem =
     update_agent i (\<lambda>a. a\<lparr>wa_version := version, wa_expanded_directory := expandedDirectory,
                            wa_subsystem := subsystem\<rparr>)"

section \<open>Agent logs\<close>

text \<open>\<open>database.InsertWorkspaceAgentLogsParams\<close>: parallel arrays indexed by the outputs.\<close>

record insert_agent_logs_params =
  ial_agent_id :: uuid
  ial_created_at :: "time list"
  ial_output :: "string list"
  ial_level :: "log_level list"
  ial_source :: "string list"

text \<open>\<open>outputLength += int32(len(output))\<close>: each length truncated to \<open>int32\<close>, the sum wrapping.\<close>

definition batch_length :: "string list \<Rightarrow> 32 word" where
  "batch_length outs = foldl (\<lambda>n out. n + word_of_nat (length out)) 0 outs"

definition last_agent_log_id :: "fake_db \<Rightarrow> int" where
  "last_agent_log_id db = (if db_workspace_agent_logs db = [] then 0 else wal_id (last (db_workspace_agent_logs db)))"

text \<open>
  The agent loop: the first agent with the id gets the batch's length
  added, unless the \<open>int32\<close> sum exceeds \<open>1 << 20\<close>, which is the
  \<open>pq.Error\<close> of the \<open>max_logs_length\<close> constraint (named by its
  constraint here); no such agent leaves the table as it is.
\<close>

primrec add_logs_length :: "uuid \<Rightarrow> 32 word \<Rightarrow> workspace_agent list \<Rightarrow> string + workspace_agent list" where
  "add_logs_length i n [] = Inr []"
| "add_logs_length i n (a # as) =
     (if wa_id a \<noteq> i then map_sum id (Cons a) (add_logs_length i n as)
      else if 2 ^ 20 < sint (wa_logs_length a + n) then Inl ''max_logs_length''
      else Inr (a\<lparr>wa_logs_length := wa_logs_length a + n\<rparr> # as))"

definition InsertWorkspaceAgentLogs ::
  "fake_db \<Rightarrow> insert_agent_logs_params \<Rightarrow> string + (workspace_agent_log list \<times> fake_db)" where
  "InsertWorkspaceAgentLogs db arg =
     (let n = length (ial_output arg)
      in if length (ial_created_at arg) < n \<or> length (ial_level arg) < n \<or> length (ial_source arg) < n
         then Inl ''panic: runtime error: index out of range''
         else let start = last_agent_log_id db;
                  logs = map (\<lambda>k. \<lparr>wal_id = start + int k + 1, wal_agent_id = ial_agent_id arg,
                                    wal_created_at = ial_created_at arg ! k, wal_level = ial_level arg ! k,
                                    wal_source = ial_source arg ! k, wal_output = ial_output arg ! k\<rparr>) [0..<n]
              in case add_logs_length (ial_agent_id arg) (batch_length (ial_output arg)) (db_workspace_agents db) of
                   Inl e \<Rightarrow> Inl e
                 | Inr as \<Rightarrow> Inr (logs, db\<lparr>db_workspace_agents := as,
                                          db_workspace_agent_logs := db_workspace_agent_logs db @ logs\<rparr>))"

text \<open>A zero \<open>CreatedAfter\<close> returns every log of the agent.\<close>

definition GetWorkspaceAgentLogsAfter :: "fake_db \<Rightarrow> uuid \<Rightarrow> int \<Rightarrow> workspace_agent_log list" where
  "GetWorkspaceAgentLogsAfter db agentID createdAfter =
     filter (\<lambda>l. wal_agent_id l = agentID \<and> (createdAfter = 0 \<or> createdAfter < wal_id l)) (db_workspace_agent_logs db)"

section \<open>Agent metadata\<close>

definition GetWorkspaceAgentMetadata :: "fake_db \<Rightarrow> uuid \<Rightarrow> workspace_agent_metadatum list" where
  "GetWorkspaceAgentMetadata db agentID =
     filter (\<lambda>m. wam_workspace_agent_id m = agentID) (db_workspace_agent_metadata db)"

text \<open>\<open>InsertWorkspaceAgentMetadata\<close>: the description of a metadatum, with no value collected yet.\<close>

definition InsertWorkspaceAgentMetadata ::
  "fake_db \<Rightarrow> uuid \<Rightarrow> string \<Rightarrow> string \<Rightarrow> string \<Rightarrow> int \<Rightarrow> int \<Rightarrow> fake_db" where
  "InsertWorkspaceAgentMetadata db agentID script displayName key timeout interval =
     db\<lparr>db_workspace_agent_metadata := db_workspace_agent_metadata db @
          [\<lparr>wam_workspace_agent_id = agentID, wam_display_name = displayName, wam_key = key, wam_script = script,
            wam_value = [], wam_error = [], wam_timeout = timeout, wam_interval = interval, wam_collected_at = 0\<rparr>]\<rparr>"

text \<open>
  \<open>UpdateWorkspaceAgentMetadata\<close> replaces the first metadatum of the agent
  with the key by a row built from the arguments only, and returns no
  error when there is none.
\<close>

definition UpdateWorkspaceAgentMetadata ::
  "fake_db \<Rightarrow> uuid \<Rightarrow> string \<Rightarrow> string \<Rightarrow> string \<Rightarrow> time \<Rightarrow> fake_db" where
  "UpdateWorkspaceAgentMetadata db agentID key value err collectedAt =
     (let updated = \<lparr>wam_workspace_agent_id = agentID, wam_display_name = [], wam_key = key, wam_script = [],
                     wam_value = value, wam_error = err, wam_timeout = 0, wam_interval = 0,
                     wam_collected_at = collectedAt\<rparr>
      in case update_first (\<lambda>m. wam_workspace_agent_id m = agentID \<and> wam_key m = key) (\<lambda>_. updated)
                (db_workspace_agent_metadata db) of
           None \<Rightarrow> db
         | Some (_, ms) \<Rightarrow> db\<lparr>db_workspace_agent_metadata := ms\<rparr>)"

section \<open>Apps\<close>

definition GetWorkspaceAppByAgentIDAndSlug :: "fake_db \<Rightarrow> uuid \<Rightarrow> string \<Rightarrow> workspace_app option" where
  "GetWorkspaceAppByAgentIDAndSlug db agentID slug =
     find (\<lambda>a. app_agent_id a = agentID \<and> app_slug a = slug) (db_workspace_apps db)"

definition GetWorkspaceAppsByAgentID :: "fake_db \<Rightarrow> uuid \<Rightarrow> string + workspace_app list" where
  "GetWorkspaceAppsByAgentID db agentID =
     (let apps = filter (\<lambda>a. app_agent_id a = agentID) (db_workspace_apps db)
      in if apps = [] then Inl ErrNoRows else Inr apps)"

text \<open>Each app once, however often its agent is asked for (the inner loop breaks).\<close>

definition GetWorkspaceAppsByAgentIDs :: "fake_db \<Rightarrow> uuid list \<Rightarrow> workspace_app list" where
  "GetWorkspaceAppsByAgentIDs db ids = filter (\<lambda>a. app_agent_id a \<in> set ids) (db_workspace_apps db)"

definition GetWorkspaceAppsCreatedAfter :: "fake_db \<Rightarrow> time \<Rightarrow> workspace_app list" where
  "GetWorkspaceAppsCreatedAfter db after = filter (\<lambda>a. time_after (app_created_at a) after) (db_workspace_apps db)"

text \<open>\<open>InsertWorkspaceApp\<close>: an empty sharing level becomes \<open>owner\<close>.\<close>

definition InsertWorkspaceApp :: "fake_db \<Rightarrow> workspace_app \<Rightarrow> workspace_app \<times> fake_db" where
  "InsertWorkspaceApp db arg =
     (let app = (if app_sharing_level arg = [] then arg\<lparr>app_sharing_level := ''owner''\<rparr> else arg)
      in (app, db\<lparr>db_workspace_apps := db_workspace_apps db @ [app]\<rparr>))"

definition UpdateWorkspaceAppHealthByID :: "uuid \<Rightarrow> app_health \<Rightarrow> fake_db \<Rightarrow> string + fake_db" where
  "UpdateWorkspaceAppHealthByID i health db =
     (case update_first (\<lambda>a. app_id a = i) (\<lambda>a. a\<lparr>app_health := health\<rparr>) (db_workspace_apps db) of
        None \<Rightarrow> Inl ErrNoRows
      | Some (_, as) \<Rightarrow> Inr (db\<lparr>db_workspace_apps := as\<rparr>))"

section \<open>Resources\<close>

definition GetWorkspaceResourceByID :: "fake_db \<Rightarrow> uuid \<Rightarrow> workspace_resource option" where
  "GetWorkspaceResourceByID db i = find (\<lambda>r. res_id r = i) (db_workspace_resources db)"

text \<open>Every resource once per matching job id asked for.\<close>

definition GetWorkspaceResourcesByJobIDs :: "fake_db \<Rightarrow> uuid list \<Rightarrow> workspace_resource list" where
  "GetWorkspaceResourcesByJobIDs db jobIDs =
     concat (map (\<lambda>r. map (\<lambda>_. r) (filter (\<lambda>j. res_job_id r = j) jobIDs)) (db_workspace_resources db))"

definition GetWorkspaceResourcesCreatedAfter :: "fake_db \<Rightarrow> time \<Rightarrow> workspace_resource list" where
  "GetWorkspaceResourcesCreatedAfter db after =
     filter (\<lambda>r. time_after (res_created_at r) after) (db_workspace_resources db)"

definition InsertWorkspaceResource :: "fake_db \<Rightarrow> workspace_resource \<Rightarrow> workspace_resource \<times> fake_db" where
  "InsertWorkspaceResource db arg = (arg, db\<lparr>db_workspace_resources := db_workspace_resources db @ [arg]\<rparr>)"

definition GetWorkspaceResourceMetadataByResourceIDs :: "fake_db \<Rightarrow> uuid list \<Rightarrow> workspace_resource_metadatum list" where
  "GetWorkspaceResourceMetadataByResourceIDs db ids =
     concat (map (\<lambda>m. map (\<lambda>_. m) (filter (\<lambda>i. wrm_workspace_resource_id m = i) ids))
                 (db_workspace_resource_metadata db))"

definition GetWorkspaceResourceMetadataCreatedAfter :: "fake_db \<Rightarrow> time \<Rightarrow> workspace_resource_metadatum list" where
  "GetWorkspaceResourceMetadataCreatedAfter db after =
     (let ids = map res_id (GetWorkspaceResourcesCreatedAfter db after)
      in filter (\<lambda>m. wrm_workspace_resource_id m \<in> set ids) (db_workspace_resource_metadata db))"

record insert_resource_metadata_params =
  irm_workspace_resource_id :: uuid
  irm_key :: "string list"
  irm_value :: "string list"
  irm_sensitive :: "bool list"

text \<open>
  \<open>InsertWorkspaceResourceMetadata\<close>: ids continue from the last row's, or
  from \<open>1\<close>, incremented before use; an empty value is stored as \<open>NULL\<close>.
\<close>

definition InsertWorkspaceResourceMetadata ::
  "fake_db \<Rightarrow> insert_resource_metadata_params \<Rightarrow> string + (workspace_resource_metadatum list \<times> fake_db)" where
  "InsertWorkspaceResourceMetadata db arg =
     (let n = length (irm_key arg)
      in if length (irm_value arg) < n \<or> length (irm_sensitive arg) < n
         then Inl ''panic: runtime error: index out of range''
         else let start = (if db_workspace_resource_metadata db = [] then 1
                           else wrm_id (last (db_workspace_resource_metadata db)));
                  ms = map (\<lambda>k. \<lparr>wrm_workspace_resource_id = irm_workspace_resource_id arg, wrm_key = irm_key arg ! k,
                                  wrm_value = \<lparr>ns_string = irm_value arg ! k, ns_valid = (irm_value arg ! k \<noteq> [])\<rparr>,
                                  wrm_sensitive = irm_sensitive arg ! k, wrm_id = start + int k + 1\<rparr>) [0..<n]
              in Inr (ms, db\<lparr>db_workspace_resource_metadata := db_workspace_resource_metadata db @ ms\<rparr>))"

section \<open>Lemmas\<close>

lemma batch_length_foldl:
  "foldl (\<lambda>n out. n + word_of_nat (length out)) acc outs = acc + (word_of_nat (sum_list (map length outs)) :: 32 word)"
  by (induction outs arbitrary: acc) (simp_all add: algebra_simps)

text \<open>Without wrap-around, the batch length is the number of bytes of the batch.\<close>

lemma batch_length_sum: "batch_length outs = word_of_nat (sum_list (map length outs))"
  by (simp add: batch_length_def batch_length_foldl)

lemma add_logs_length_absent:
  "find (\<lambda>a. wa_id a = i) as = None \<Longrightarrow> add_logs_length i n as = Inr as"
  by (induction as) auto

lemma add_logs_length_over:
  "find (\<lambda>a. wa_id a = i) as = Some a \<Longrightarrow> 2 ^ 20 < sint (wa_logs_length a + n) \<Longrightarrow>
   add_logs_length i n as = Inl ''max_logs_length''"
  by (induction as) (auto split: if_splits)

lemma add_logs_length_within:
  "find (\<lambda>a. wa_id a = i) as = Some a \<Longrightarrow> \<not> 2 ^ 20 < sint (wa_logs_length a + n) \<Longrightarrow>
   \<exists>as'. add_logs_length i n as = Inr as' \<and>
         find (\<lambda>a. wa_id a = i) as' = Some (a\<lparr>wa_logs_length := wa_logs_length a + n\<rparr>)"
  by (induction as) (auto split: if_splits)

lemma workspace_build_with_user_build [simp]: "bwu_build (workspaceBuildWithUserNoLock db b) = b"
  by (simp add: workspaceBuildWithUserNoLock_def split: option.split)

text \<open>The lookup by agent id finds nothing for an id absent from the table.\<close>

lemma find_fresh_id:
  "x \<notin> f ` set xs \<Longrightarrow> find (\<lambda>y. f y = x) xs = None"
  by (auto simp: find_None_iff image_iff)

end
