(* ===== verification/AgentProps.thy ===== *)
theory AgentProps
  imports DbAgents DbProps
begin

text \<open>
  Properties of the workspace agent, log and metadata queries of the
  database fake (theory \<open>DbAgents\<close>): the 1 MiB limit on an agent's logs
  and its \<open>int32\<close> wrap-around, the metadata update that replaces the
  whole row, and the walk from a new agent back to its workspace.
\<close>

section \<open>Example data\<close>

definition ex_resource :: workspace_resource where
  "ex_resource =
     \<lparr>res_id = 10, res_created_at = 0, res_job_id = 3, res_transition = WorkspaceTransitionStart,
      res_type = ''docker_container'', res_name = ''main'', res_hide = False, res_icon = [], res_daily_cost = 0\<rparr>"

definition ex_agent_params :: insert_agent_params where
  "ex_agent_params =
     \<lparr>iap_id = 11, iap_created_at = 0, iap_updated_at = 0, iap_name = ''main'', iap_resource_id = 10,
      iap_auth_token = 12, iap_auth_instance_id = \<lparr>ns_string = [], ns_valid = False\<rparr>,
      iap_architecture = ''amd64'', iap_environment_variables = [], iap_operating_system = ''linux'',
      iap_startup_script = \<lparr>ns_string = [], ns_valid = False\<rparr>, iap_directory = [], iap_instance_metadata = [],
      iap_resource_metadata = [], iap_connection_timeout_seconds = 120, iap_troubleshooting_url = [],
      iap_motd_file = [], iap_startup_script_behavior = ''non-blocking'',
      iap_shutdown_script = \<lparr>ns_string = [], ns_valid = False\<rparr>\<rparr>"

definition ex_agent_db :: fake_db where
  "ex_agent_db = snd (InsertWorkspaceAgent New ex_agent_params)"

definition ex_logs_arg :: "string list \<Rightarrow> insert_agent_logs_params" where
  "ex_logs_arg outs =
     \<lparr>ial_agent_id = 11, ial_created_at = map (\<lambda>_. 0) outs, ial_output = outs,
      ial_level = map (\<lambda>_. LogLevelInfo) outs, ial_source = map (\<lambda>_. ''agent'') outs\<rparr>"

definition ex_chain_db :: fake_db where
  "ex_chain_db = (InsertWorkspaceBuild New (ex_build_params 1))\<lparr>db_workspaces := [ex_locked_ws]\<rparr>"

lemma ex_agent_found:
  "find (\<lambda>a. wa_id a = 11) (db_workspace_agents ex_agent_db) = Some (fst (InsertWorkspaceAgent New ex_agent_params))
   \<and> wa_logs_length (fst (InsertWorkspaceAgent New ex_agent_params)) = 0"
  by (simp add: ex_agent_db_def InsertWorkspaceAgent_def Let_def New_def ex_agent_params_def)

section \<open>Agent logs, metadata and the walk to the workspace\<close>

text \<open>
  C22.  The 1 MiB limit on an agent's logs: when the stored length and the
  batch fit in an int32, the batch is refused exactly when the total
  exceeds 1 MiB, and otherwise the agent's length becomes the total.
\<close>

lemma agent_logs_limit:
  assumes a: "find (\<lambda>a. wa_id a = ial_agent_id arg) (db_workspace_agents db) = Some a"
    and lc: "length (ial_created_at arg) = length (ial_output arg)"
    and ll: "length (ial_level arg) = length (ial_output arg)"
    and ls: "length (ial_source arg) = length (ial_output arg)"
    and nn: "0 \<le> sint (wa_logs_length a)"
    and nw: "sint (wa_logs_length a) + int (sum_list (map length (ial_output arg))) < 2 ^ 31"
  shows "(case InsertWorkspaceAgentLogs db arg of
            Inl e \<Rightarrow> e = ''max_logs_length'' \<and>
                     2 ^ 20 < sint (wa_logs_length a) + int (sum_list (map length (ial_output arg)))
          | Inr (logs, db') \<Rightarrow>
              sint (wa_logs_length a) + int (sum_list (map length (ial_output arg))) \<le> 2 ^ 20 \<and>
              length logs = length (ial_output arg) \<and>
              map_option (\<lambda>a. sint (wa_logs_length a)) (find (\<lambda>a. wa_id a = ial_agent_id arg) (db_workspace_agents db'))
                = Some (sint (wa_logs_length a) + int (sum_list (map length (ial_output arg)))))"
proof -
  define T where "T = sint (wa_logs_length a) + int (sum_list (map length (ial_output arg)))"
  have s: "sint (wa_logs_length a + batch_length (ial_output arg)) = T"
    unfolding T_def batch_length_sum using nn nw by (rule sint_add_nat_nowrap)
  show ?thesis
  proof (cases "2 ^ 20 < T")
    case True
    then show ?thesis
      using add_logs_length_over [OF a, of "batch_length (ial_output arg)"] s lc ll ls
      by (simp add: InsertWorkspaceAgentLogs_def Let_def T_def)
  next
    case False
    then obtain as' where
      add: "add_logs_length (ial_agent_id arg) (batch_length (ial_output arg)) (db_workspace_agents db) = Inr as'"
      and f: "find (\<lambda>a. wa_id a = ial_agent_id arg) as' =
                Some (a\<lparr>wa_logs_length := wa_logs_length a + batch_length (ial_output arg)\<rparr>)"
      using add_logs_length_within [OF a] s by auto
    show ?thesis
      using False add f s lc ll ls by (simp add: InsertWorkspaceAgentLogs_def Let_def T_def)
  qed
qed

text \<open>
  C23.  The int32 sum wraps: a batch of 2^31 bytes for an agent with no logs
  yet passes the 1 MiB check and leaves the agent with a negative logs
  length.
\<close>

lemma agent_logs_wrap:
  assumes a: "find (\<lambda>a. wa_id a = ial_agent_id arg) (db_workspace_agents db) = Some a"
    and z: "wa_logs_length a = 0"
    and lc: "length (ial_created_at arg) = length (ial_output arg)"
    and ll: "length (ial_level arg) = length (ial_output arg)"
    and ls: "length (ial_source arg) = length (ial_output arg)"
    and big: "sum_list (map length (ial_output arg)) = 2 ^ 31"
  shows "\<exists>logs db'. InsertWorkspaceAgentLogs db arg = Inr (logs, db') \<and>
           map_option (\<lambda>a. sint (wa_logs_length a)) (find (\<lambda>a. wa_id a = ial_agent_id arg) (db_workspace_agents db'))
             = Some (- (2 ^ 31))"
proof -
  have s: "sint (wa_logs_length a + batch_length (ial_output arg)) = - (2 ^ 31)"
    by (simp add: z big batch_length_sum)
  obtain as' where
    add: "add_logs_length (ial_agent_id arg) (batch_length (ial_output arg)) (db_workspace_agents db) = Inr as'"
    and f: "find (\<lambda>a. wa_id a = ial_agent_id arg) as' =
              Some (a\<lparr>wa_logs_length := wa_logs_length a + batch_length (ial_output arg)\<rparr>)"
    using add_logs_length_within [OF a, of "batch_length (ial_output arg)"] s by auto
  show ?thesis
    using add f s lc ll ls by (simp add: InsertWorkspaceAgentLogs_def Let_def)
qed

text \<open>
  C24.  Updating an agent's metadatum replaces the row: the value, error and
  collection time are the new ones, and the script, display name, timeout
  and interval set at insertion are lost.
\<close>

lemma agent_metadata_update_resets:
  assumes m: "find (\<lambda>m. wam_workspace_agent_id m = aid \<and> wam_key m = key) (db_workspace_agent_metadata db) = Some m"
  shows "find (\<lambda>m. wam_workspace_agent_id m = aid \<and> wam_key m = key)
              (db_workspace_agent_metadata (UpdateWorkspaceAgentMetadata db aid key v e t))
         = Some (m\<lparr>wam_value := v, wam_error := e, wam_collected_at := t,
                   wam_display_name := [], wam_script := [], wam_timeout := 0, wam_interval := 0\<rparr>)"
proof -
  have id: "wam_workspace_agent_id m = aid" "wam_key m = key"
    using m by (auto dest: find_Some_iff [THEN iffD1])
  let ?u = "\<lparr>wam_workspace_agent_id = aid, wam_display_name = [], wam_key = key, wam_script = [],
             wam_value = v, wam_error = e, wam_timeout = 0, wam_interval = 0, wam_collected_at = t\<rparr>"
  obtain ys where "update_first (\<lambda>m. wam_workspace_agent_id m = aid \<and> wam_key m = key) (\<lambda>_. ?u)
                     (db_workspace_agent_metadata db) = Some (?u, ys)"
    and "find (\<lambda>m. wam_workspace_agent_id m = aid \<and> wam_key m = key) ys = Some ?u"
    using update_first_found [OF m, of "\<lambda>_. ?u"] by auto
  then show ?thesis
    using id by (simp add: UpdateWorkspaceAgentMetadata_def Let_def)
qed

text \<open>
  C25.  From an agent back to its workspace: a resource inserted for a
  build's job and an agent inserted for that resource, both with fresh
  non-zero ids, lead back to the build's workspace.
\<close>

lemma workspace_by_new_agent:
  assumes b: "find (\<lambda>b. wb_job_id b = res_job_id r) (db_builds db) = Some b"
    and bid: "wb_id b \<noteq> uuid_nil"
    and w: "find (\<lambda>w. ws_id w = wb_workspace_id b) (db_workspaces db) = Some w"
    and rid: "res_id r \<noteq> uuid_nil" "res_id r \<notin> res_id ` set (db_workspace_resources db)"
    and aid: "iap_id p \<noteq> uuid_nil" "iap_id p \<notin> wa_id ` set (db_workspace_agents db)"
    and pr: "iap_resource_id p = res_id r"
  shows "GetWorkspaceByAgentID (snd (InsertWorkspaceAgent (snd (InsertWorkspaceResource db r)) p)) (iap_id p) = Some w"
proof -
  have fa: "find (\<lambda>a. wa_id a = iap_id p) (db_workspace_agents db) = None"
    using aid(2) by (rule find_fresh_id)
  have fr: "find (\<lambda>x. res_id x = res_id r) (db_workspace_resources db) = None"
    using rid(2) by (rule find_fresh_id)
  show ?thesis
    using b bid w rid aid pr
    by (simp add: GetWorkspaceByAgentID_def getWorkspaceByAgentIDNoLock_def InsertWorkspaceAgent_def
                  InsertWorkspaceResource_def Let_def nonzero_def find_append_None fa fr)
qed

theorem agent_logs_limit_witness:
  "case InsertWorkspaceAgentLogs ex_agent_db (ex_logs_arg [''hello'']) of
     Inl e \<Rightarrow> False
   | Inr (logs, db') \<Rightarrow> length logs = 1 \<and>
       map_option (\<lambda>a. sint (wa_logs_length a)) (find (\<lambda>a. wa_id a = 11) (db_workspace_agents db')) = Some 5"
  using agent_logs_limit [of "ex_logs_arg [''hello'']" ex_agent_db "fst (InsertWorkspaceAgent New ex_agent_params)"]
    ex_agent_found
  by (simp add: ex_logs_arg_def split: sum.split_asm prod.split_asm)

theorem agent_logs_wrap_witness:
  "\<exists>logs db'. InsertWorkspaceAgentLogs ex_agent_db (ex_logs_arg [replicate (2 ^ 31) CHR ''x'']) = Inr (logs, db') \<and>
     map_option (\<lambda>a. sint (wa_logs_length a)) (find (\<lambda>a. wa_id a = 11) (db_workspace_agents db')) = Some (- (2 ^ 31))"
  using agent_logs_wrap [of "ex_logs_arg [replicate (2 ^ 31) CHR ''x'']" ex_agent_db
                            "fst (InsertWorkspaceAgent New ex_agent_params)"] ex_agent_found
  by (simp add: ex_logs_arg_def)

theorem agent_metadata_update_resets_witness:
  "find (\<lambda>m. wam_workspace_agent_id m = 11 \<and> wam_key m = ''uptime'')
     (db_workspace_agent_metadata
        (UpdateWorkspaceAgentMetadata (InsertWorkspaceAgentMetadata New 11 ''cat /proc/uptime'' ''Uptime'' ''uptime'' 5 60)
           11 ''uptime'' ''42'' [] 7))
   = Some \<lparr>wam_workspace_agent_id = 11, wam_display_name = [], wam_key = ''uptime'', wam_script = [],
           wam_value = ''42'', wam_error = [], wam_timeout = 0, wam_interval = 0, wam_collected_at = 7\<rparr>"
  using agent_metadata_update_resets
          [of 11 "''uptime''" "InsertWorkspaceAgentMetadata New 11 ''cat /proc/uptime'' ''Uptime'' ''uptime'' 5 60"]
  by (simp add: InsertWorkspaceAgentMetadata_def New_def)

theorem workspace_by_new_agent_witness:
  "GetWorkspaceByAgentID (snd (InsertWorkspaceAgent (snd (InsertWorkspaceResource ex_chain_db ex_resource)) ex_agent_params)) 11
   = Some ex_locked_ws"
  using workspace_by_new_agent [of ex_resource ex_chain_db _ ex_locked_ws ex_agent_params]
  by (simp add: ex_chain_db_def InsertWorkspaceBuild_def ex_build_params_def ex_resource_def ex_agent_params_def
                ex_locked_ws_def New_def uuid_nil_def)

end
