(* ===== verification/DbAudit.thy ===== *)
theory DbAudit
  imports DbUsers DbWorkspaces
begin

text \<open>
  The deployment settings, the audit log, workspace build parameters,
  parameter schemas, provisioner daemons and hung jobs of the database
  fake (\<open>src/unnamed/part_005\<close>).  \<open>InsertAuditLog\<close> keeps the log sorted by
  time, oldest first; \<open>GetAuditLogsOffset\<close> walks it once, spending the
  offset on the first rows before it applies any filter, and stops after
  appending the row that reaches the limit.
\<close>

section \<open>Deployment settings\<close>

text \<open>
  The settings kept as strings read back whatever was stored; the two kept
  as byte slices are \<open>nil\<close> (\<^const>\<open>None\<close>) until the first upsert,
  which is \<open>ErrNoRows\<close>; the logo URL is \<open>ErrNoRows\<close> while empty.
\<close>

definition GetAppSecurityKey :: "fake_db \<Rightarrow> string" where
  "GetAppSecurityKey db = db_app_security_key db"

definition GetDERPMeshKey :: "fake_db \<Rightarrow> string" where
  "GetDERPMeshKey db = db_derp_mesh_key db"

definition GetDeploymentID :: "fake_db \<Rightarrow> string" where
  "GetDeploymentID db = db_deployment_id db"

definition GetLastUpdateCheck :: "fake_db \<Rightarrow> string + string" where
  "GetLastUpdateCheck db = (case db_last_update_check db of None \<Rightarrow> Inl ErrNoRows | Some d \<Rightarrow> Inr d)"

definition GetLogoURL :: "fake_db \<Rightarrow> string + string" where
  "GetLogoURL db = (if db_logo_url db = [] then Inl ErrNoRows else Inr (db_logo_url db))"

definition GetOAuthSigningKey :: "fake_db \<Rightarrow> string" where
  "GetOAuthSigningKey db = db_oauth_signing_key db"

definition GetServiceBanner :: "fake_db \<Rightarrow> string + string" where
  "GetServiceBanner db = (case db_service_banner db of None \<Rightarrow> Inl ErrNoRows | Some d \<Rightarrow> Inr d)"

definition InsertDERPMeshKey :: "fake_db \<Rightarrow> string \<Rightarrow> fake_db" where
  "InsertDERPMeshKey db i = db\<lparr>db_derp_mesh_key := i\<rparr>"

definition InsertDeploymentID :: "fake_db \<Rightarrow> string \<Rightarrow> fake_db" where
  "InsertDeploymentID db i = db\<lparr>db_deployment_id := i\<rparr>"

definition UpsertAppSecurityKey :: "fake_db \<Rightarrow> string \<Rightarrow> fake_db" where
  "UpsertAppSecurityKey db d = db\<lparr>db_app_security_key := d\<rparr>"

text \<open>\<open>[]byte(data)\<close> is never \<open>nil\<close>, also for the empty string.\<close>

definition UpsertLastUpdateCheck :: "fake_db \<Rightarrow> string \<Rightarrow> fake_db" where
  "UpsertLastUpdateCheck db d = db\<lparr>db_last_update_check := Some d\<rparr>"

definition UpsertLogoURL :: "fake_db \<Rightarrow> string \<Rightarrow> fake_db" where
  "UpsertLogoURL db d = db\<lparr>db_logo_url := d\<rparr>"

definition UpsertOAuthSigningKey :: "fake_db \<Rightarrow> string \<Rightarrow> fake_db" where
  "UpsertOAuthSigningKey db v = db\<lparr>db_oauth_signing_key := v\<rparr>"

definition UpsertServiceBanner :: "fake_db \<Rightarrow> string \<Rightarrow> fake_db" where
  "UpsertServiceBanner db d = db\<lparr>db_service_banner := Some d\<rparr>"

section \<open>Audit logs\<close>

text \<open>\<open>InsertAuditLog\<close>: append, then sort by time ascending (\<open>slices.SortFunc\<close> with \<open>Before\<close>).\<close>

definition InsertAuditLog :: "fake_db \<Rightarrow> audit_log \<Rightarrow> audit_log \<times> fake_db" where
  "InsertAuditLog db arg = (arg, db\<lparr>db_audit_logs := sort_key al_time (db_audit_logs db @ [arg])\<rparr>)"

text \<open>\<open>database.GetAuditLogsOffsetParams\<close>; \<open>Offset\<close> and \<open>Limit\<close> are \<open>int32\<close>s that are never incremented.\<close>

record audit_logs_params =
  alp_resource_type :: string
  alp_resource_id :: uuid
  alp_action :: string
  alp_username :: string
  alp_email :: string
  alp_date_from :: time
  alp_date_to :: time
  alp_build_reason :: string
  alp_offset :: int
  alp_limit :: int

text \<open>
  The filters of the loop: an empty string, \<open>uuid.Nil\<close> or a zero time
  disables one; a user or build that cannot be found lets the row pass.
\<close>

definition audit_match :: "audit_logs_params \<Rightarrow> fake_db \<Rightarrow> audit_log \<Rightarrow> bool" where
  "audit_match arg db l \<longleftrightarrow>
     (alp_action arg = [] \<or> str_contains (al_action l) (alp_action arg)) \<and>
     (alp_resource_type arg = [] \<or> str_contains (al_resource_type l) (alp_resource_type arg)) \<and>
     (alp_resource_id arg = uuid_nil \<or> al_resource_id l = alp_resource_id arg) \<and>
     (alp_username arg = [] \<or>
        (case getUserByIDNoLock db (al_user_id l) of None \<Rightarrow> True
         | Some u \<Rightarrow> equal_fold (alp_username arg) (usr_username u))) \<and>
     (alp_email arg = [] \<or>
        (case getUserByIDNoLock db (al_user_id l) of None \<Rightarrow> True
         | Some u \<Rightarrow> equal_fold (alp_email arg) (usr_email u))) \<and>
     (time_is_zero (alp_date_from arg) \<or> alp_date_from arg \<le> al_time l) \<and>
     (time_is_zero (alp_date_to arg) \<or> al_time l \<le> alp_date_to arg) \<and>
     (alp_build_reason arg = [] \<or>
        (case getWorkspaceBuildByIDNoLock db (al_resource_id l) of None \<Rightarrow> True
         | Some b \<Rightarrow> equal_fold (alp_build_reason arg) (build_reason_string (wb_reason (bwu_build b)))))"

text \<open>\<open>database.GetAuditLogsOffsetRow\<close>: the log with its user's columns, \<open>NULL\<close> when the user is missing.\<close>

record audit_log_row =
  arow_log :: audit_log
  arow_user_username :: null_string
  arow_user_email :: null_string
  arow_user_created_at :: null_time
  arow_user_status :: "user_status option"
  arow_user_roles :: "string list"
  arow_count :: int

definition audit_row :: "fake_db \<Rightarrow> audit_log \<Rightarrow> audit_log_row" where
  "audit_row db l =
     (case getUserByIDNoLock db (al_user_id l) of
        None \<Rightarrow> \<lparr>arow_log = l, arow_user_username = \<lparr>ns_string = [], ns_valid = False\<rparr>,
                 arow_user_email = \<lparr>ns_string = [], ns_valid = False\<rparr>, arow_user_created_at = null_time_none,
                 arow_user_status = None, arow_user_roles = [], arow_count = 0\<rparr>
      | Some u \<Rightarrow> \<lparr>arow_log = l, arow_user_username = \<lparr>ns_string = usr_username u, ns_valid = True\<rparr>,
                   arow_user_email = \<lparr>ns_string = usr_email u, ns_valid = True\<rparr>,
                   arow_user_created_at = \<lparr>nt_time = usr_created_at u, nt_valid = True\<rparr>,
                   arow_user_status = Some (usr_status u), arow_user_roles = usr_rbac_roles u, arow_count = 0\<rparr>)"

text \<open>
  The loop over the log: \<open>off\<close> is what is left of the offset, \<open>n\<close> the
  number of rows taken; the row that makes \<open>len(logs) >= Limit\<close> is
  appended before the loop breaks.
\<close>

primrec audit_scan :: "audit_logs_params \<Rightarrow> fake_db \<Rightarrow> int \<Rightarrow> nat \<Rightarrow> audit_log list \<Rightarrow> audit_log_row list" where
  "audit_scan arg db off n [] = []"
| "audit_scan arg db off n (l # ls) =
     (if 0 < off then audit_scan arg db (off - 1) n ls
      else if \<not> audit_match arg db l then audit_scan arg db off n ls
      else if alp_limit arg \<le> int (Suc n) then [audit_row db l]
      else audit_row db l # audit_scan arg db off (Suc n) ls)"

text \<open>
  A negative limit is a negative capacity for \<open>make\<close>, which panics; the
  count of every row is the number of rows returned.
\<close>

definition GetAuditLogsOffset :: "fake_db \<Rightarrow> audit_logs_params \<Rightarrow> string + audit_log_row list" where
  "GetAuditLogsOffset db arg =
     (if alp_limit arg < 0 then Inl ''panic: runtime error: makeslice: cap out of range''
      else let rows = audit_scan arg db (alp_offset arg) 0 (db_audit_logs db)
           in Inr (map (\<lambda>r. r\<lparr>arow_count := int (length rows)\<rparr>) rows))"

section \<open>Build parameters, parameter schemas and provisioner daemons\<close>

text \<open>\<open>InsertWorkspaceBuildParameters\<close>: one row per name; fewer values than names panic.\<close>

definition InsertWorkspaceBuildParameters ::
  "fake_db \<Rightarrow> uuid \<Rightarrow> string list \<Rightarrow> string list \<Rightarrow> string + fake_db" where
  "InsertWorkspaceBuildParameters db buildID names values =
     (if length values < length names then Inl ''panic: runtime error: index out of range''
      else Inr (db\<lparr>db_workspace_build_parameters := db_workspace_build_parameters db @
                   map (\<lambda>(n, v). \<lparr>wbp_workspace_build_id = buildID, wbp_name = n, wbp_value = v\<rparr>)
                       (zip names values)\<rparr>))"

definition GetWorkspaceBuildParameters :: "fake_db \<Rightarrow> uuid \<Rightarrow> workspace_build_parameter list" where
  "GetWorkspaceBuildParameters db buildID =
     filter (\<lambda>p. wbp_workspace_build_id p = buildID) (db_workspace_build_parameters db)"

definition GetParameterSchemasByJobID :: "fake_db \<Rightarrow> uuid \<Rightarrow> string + parameter_schema list" where
  "GetParameterSchemasByJobID db jobID =
     (let ps = filter (\<lambda>p. ps_job_id p = jobID) (db_parameter_schemas db)
      in if ps = [] then Inl ErrNoRows else Inr (sort_key ps_index ps))"

definition GetProvisionerDaemons :: "fake_db \<Rightarrow> string + provisioner_daemon list" where
  "GetProvisionerDaemons db =
     (if db_provisioner_daemons db = [] then Inl ErrNoRows else Inr (db_provisioner_daemons db))"

definition InsertProvisionerDaemon :: "fake_db \<Rightarrow> provisioner_daemon \<Rightarrow> provisioner_daemon \<times> fake_db" where
  "InsertProvisionerDaemon db d = (d, db\<lparr>db_provisioner_daemons := db_provisioner_daemons db @ [d]\<rparr>)"

text \<open>A job is hung when it has started, not completed, and was last updated before the given time.\<close>

definition GetHungProvisionerJobs :: "fake_db \<Rightarrow> time \<Rightarrow> provisioner_job list" where
  "GetHungProvisionerJobs db hungSince =
     filter (\<lambda>j. nt_valid (pj_started_at j) \<and> \<not> nt_valid (pj_completed_at j) \<and> time_before (pj_updated_at j) hungSince)
            (db_jobs db)"

section \<open>Lemmas\<close>

lemma arow_log_audit_row [simp]: "arow_log (audit_row db l) = l"
  by (simp add: audit_row_def split: option.split)

text \<open>
  The loop is a page of the filtered rows after the offset: the offset is
  spent on the table's rows, and at least one matching row is taken.
\<close>

lemma audit_scan_page:
  assumes "0 \<le> off" and "0 \<le> alp_limit arg"
  shows "audit_scan arg db off n ls =
           map (audit_row db) (take (max 1 (nat (alp_limit arg) - n)) (filter (audit_match arg db) (drop (nat off) ls)))"
  using assms
proof (induction ls arbitrary: off n)
  case Nil
  then show ?case by simp
next
  case (Cons l ls)
  show ?case
  proof (cases "0 < off")
    case True
    then have "drop (nat off) (l # ls) = drop (nat (off - 1)) ls"
      by (simp add: nat_diff_distrib' drop_Cons')
    with True Cons show ?thesis by simp
  next
    case False
    then have z: "off = 0" using Cons.prems by simp
    consider (skip) "\<not> audit_match arg db l"
      | (last) "audit_match arg db l" "alp_limit arg \<le> int (Suc n)"
      | (more) "audit_match arg db l" "\<not> alp_limit arg \<le> int (Suc n)"
      by blast
    then show ?thesis
    proof cases
      case skip
      then show ?thesis using Cons.IH [of 0 n] Cons.prems z by simp
    next
      case last
      then have "max 1 (nat (alp_limit arg) - n) = 1" by simp
      with last z show ?thesis by simp
    next
      case more
      then have "max 1 (nat (alp_limit arg) - n) = Suc (max 1 (nat (alp_limit arg) - Suc n))" by simp
      with more z Cons.IH [of 0 "Suc n"] Cons.prems show ?thesis by simp
    qed
  qed
qed

lemma sorted_insert_audit_log: "sorted (map al_time (db_audit_logs (snd (InsertAuditLog db a))))"
  by (simp add: InsertAuditLog_def)

end
