(* ===== verification/AuditProps.thy ===== *)
theory AuditProps
  imports DbAudit DbProps
begin

text \<open>
  Properties of the audit log of the database fake (theory \<open>DbAudit\<close>):
  the page \<open>GetAuditLogsOffset\<close> returns, and the order \<open>InsertAuditLog\<close>
  keeps, which puts the oldest entry first.
\<close>

section \<open>Example data\<close>

definition ex_audit_log :: "time \<Rightarrow> uuid \<Rightarrow> audit_log" where
  "ex_audit_log t rid =
     \<lparr>al_id = nat t, al_time = t, al_user_id = 1, al_organization_id = 8, al_ip = ''127.0.0.1'',
      al_user_agent = \<lparr>ns_string = [], ns_valid = False\<rparr>, al_resource_type = ''workspace'',
      al_resource_id = rid, al_resource_target = ''dev'', al_action = ''create'', al_diff = ''{}'',
      al_status_code = 200, al_additional_fields = ''{}'', al_request_id = 0, al_resource_icon = []\<rparr>"

definition ex_audit_params :: "uuid \<Rightarrow> int \<Rightarrow> int \<Rightarrow> audit_logs_params" where
  "ex_audit_params rid off lmt =
     \<lparr>alp_resource_type = [], alp_resource_id = rid, alp_action = [], alp_username = [], alp_email = [],
      alp_date_from = 0, alp_date_to = 0, alp_build_reason = [], alp_offset = off, alp_limit = lmt\<rparr>"

definition ex_audit_db :: fake_db where
  "ex_audit_db = New\<lparr>db_audit_logs := [ex_audit_log 1 5, ex_audit_log 2 6, ex_audit_log 3 5]\<rparr>"

lemmas ex_audit_defs = ex_audit_log_def ex_audit_params_def ex_audit_db_def New_def

section \<open>The page and the order of the audit log\<close>

text \<open>
  C26.  With a non-negative offset and limit, \<open>GetAuditLogsOffset\<close> returns
  the first \<open>max 1 Limit\<close> rows that pass the filters among the rows
  after the first \<open>Offset\<close> rows of the table, each with the number of
  rows returned as its count: the offset is spent before the filters, a
  zero limit returns one row, and the count is the page's size.
\<close>

theorem audit_logs_page:
  assumes "0 \<le> alp_offset arg" and "0 \<le> alp_limit arg"
  shows "GetAuditLogsOffset db arg =
           Inr (let P = take (max 1 (nat (alp_limit arg)))
                          (filter (audit_match arg db) (drop (nat (alp_offset arg)) (db_audit_logs db)))
                in map (\<lambda>l. (audit_row db l)\<lparr>arow_count := int (length P)\<rparr>) P)"
  using audit_scan_page [OF assms, of db 0 "db_audit_logs db"] assms
  by (simp add: GetAuditLogsOffset_def Let_def comp_def)

theorem audit_logs_page_witness:
  "GetAuditLogsOffset ex_audit_db (ex_audit_params 5 1 0) =
     Inr [(audit_row ex_audit_db (ex_audit_log 3 5))\<lparr>arow_count := 1\<rparr>]"
  using audit_logs_page [of "ex_audit_params 5 1 0" ex_audit_db]
  by (simp add: ex_audit_defs audit_match_def uuid_nil_def time_is_zero_def Let_def)

text \<open>
  C27.  \<open>InsertAuditLog\<close> keeps the log sorted by time, oldest first,
  although \<open>GetAuditLogsOffset\<close> reads it as sorted newest first: after an
  insertion, a page from offset zero whose filters pass every row starts
  with the oldest entry.
\<close>

theorem audit_logs_oldest_first:
  assumes off: "alp_offset arg = 0" and lim: "0 \<le> alp_limit arg"
    and all: "\<forall>l \<in> insert a (set (db_audit_logs db)). audit_match arg (snd (InsertAuditLog db a)) l"
  shows "\<exists>r rs. GetAuditLogsOffset (snd (InsertAuditLog db a)) arg = Inr (r # rs) \<and>
           (\<forall>l \<in> set (db_audit_logs (snd (InsertAuditLog db a))). al_time (arow_log r) \<le> al_time l)"
proof -
  define db' where "db' = snd (InsertAuditLog db a)"
  have "length (db_audit_logs db') = Suc (length (db_audit_logs db))"
    by (simp add: db'_def InsertAuditLog_def)
  then obtain x xs where xs: "db_audit_logs db' = x # xs"
    by (cases "db_audit_logs db'") auto
  have s: "sorted (map al_time (x # xs))"
    using sorted_insert_audit_log [of db a] xs by (simp add: db'_def)
  have st: "set (x # xs) = insert a (set (db_audit_logs db))"
    using xs [symmetric] by (simp add: db'_def InsertAuditLog_def)
  have "\<forall>l \<in> set (x # xs). audit_match arg db' l"
    unfolding st using all by (simp add: db'_def)
  then have f: "filter (audit_match arg db') (x # xs) = x # xs"
    by (rule filter_True)
  have p: "take (max 1 (nat (alp_limit arg))) (x # xs) = x # take (max 1 (nat (alp_limit arg)) - 1) xs"
    by (cases "max 1 (nat (alp_limit arg))") simp_all
  show ?thesis
    using audit_scan_page [OF _ lim, of 0 db' 0 "db_audit_logs db'"] s xs f p off lim
    unfolding db'_def [symmetric]
    by (auto simp: GetAuditLogsOffset_def Let_def)
qed

theorem audit_logs_oldest_first_witness:
  "\<exists>r rs. GetAuditLogsOffset (snd (InsertAuditLog (New\<lparr>db_audit_logs := [ex_audit_log 5 5]\<rparr>) (ex_audit_log 3 5)))
             (ex_audit_params 0 0 1) = Inr (r # rs) \<and>
     (\<forall>l \<in> set (db_audit_logs (snd (InsertAuditLog (New\<lparr>db_audit_logs := [ex_audit_log 5 5]\<rparr>) (ex_audit_log 3 5)))).
        al_time (arow_log r) \<le> al_time l)"
  by (rule audit_logs_oldest_first)
     (simp_all add: ex_audit_defs audit_match_def uuid_nil_def time_is_zero_def InsertAuditLog_def)

end
