(* ===== verification/DbWorkspaceList.thy ===== *)
theory DbWorkspaceList
  imports DbAgents DbUsers "HOL-Library.Product_Lexorder"
begin

text \<open>
  The workspace listing of the database fake (\<open>GetAuthorizedWorkspaces\<close>
  and \<open>GetWorkspaces\<close> in \<open>src/unnamed/part_005\<close>): the filter loop, which
  fails the whole query when a status or agent filter meets a workspace
  without a build or job, the ordering (running workspaces first, then by
  owner's username), the offset and limit, and the conversion into rows.
  The wall clock (\<open>time.Since\<close>, \<open>database.Now\<close>) is the argument
  \<open>now\<close>; the two clock reads of the code are taken at the same instant.
\<close>

section \<open>Agent status\<close>

text \<open>
  \<open>mapAgentStatus\<close>: the status of an agent for the \<open>has-agent\<close> filter;
  the \<open>panic\<close> of the last case is \<^const>\<open>None\<close>.  The inactivity timeout
  is an \<open>int64\<close> number of seconds, multiplied in \<open>int64\<close>.
\<close>

definition mapAgentStatus :: "time \<Rightarrow> workspace_agent \<Rightarrow> int \<Rightarrow> string option" where
  "mapAgentStatus now a inactiveTimeout =
     (let connectionTimeout = wa_connection_timeout_seconds a * second
      in if \<not> nt_valid (wa_first_connected_at a) then
           (if 0 < connectionTimeout \<and> connectionTimeout < time_sub now (wa_created_at a)
            then Some ''timeout'' else Some ''connecting'')
         else if time_after (nt_time (wa_disconnected_at a)) (nt_time (wa_last_connected_at a)) then Some ''disconnected''
         else if wrap_int64 (inactiveTimeout * second) < time_sub now (nt_time (wa_last_connected_at a))
         then Some ''disconnected''
         else if nt_valid (wa_last_connected_at a) then Some ''connected''
         else None)"

section \<open>Filters\<close>

text \<open>\<open>database.GetWorkspacesParams\<close>; \<open>Offset\<close> and \<open>Limit\<close> are \<open>int32\<close>s.\<close>

record workspaces_filter =
  wf_deleted :: bool
  wf_status :: string
  wf_owner_id :: uuid
  wf_owner_username :: string
  wf_template_name :: string
  wf_template_ids :: "uuid list"
  wf_name :: string
  wf_has_agent :: string
  wf_agent_inactive_disconnect_timeout_seconds :: int
  wf_locked_at :: time
  wf_offset :: int
  wf_limit :: int

text \<open>The filters before the status filter: a missing owner or template lets the workspace pass.\<close>

definition ws_basic_match :: "fake_db \<Rightarrow> workspaces_filter \<Rightarrow> workspace \<Rightarrow> bool" where
  "ws_basic_match db arg w \<longleftrightarrow>
     (wf_owner_id arg = uuid_nil \<or> ws_owner_id w = wf_owner_id arg) \<and>
     (wf_owner_username arg = [] \<or>
        (case getUserByIDNoLock db (ws_owner_id w) of None \<Rightarrow> True
         | Some u \<Rightarrow> equal_fold (wf_owner_username arg) (usr_username u))) \<and>
     (wf_template_name arg = [] \<or>
        (case getTemplateByID db (ws_template_id w) of None \<Rightarrow> True
         | Some t \<Rightarrow> equal_fold (wf_template_name arg) (tmpl_name t))) \<and>
     (wf_deleted arg \<or> \<not> ws_deleted w) \<and>
     (wf_name arg = [] \<or> str_contains (to_lower (ws_name w)) (to_lower (wf_name arg)))"

text \<open>
  The status switch (\<open>database.WorkspaceStatus\<close> values as their
  strings); an unknown status is \<^const>\<open>None\<close>.  A job counts as recent
  when it was updated less than 30 seconds ago.
\<close>

definition workspace_status_match :: "time \<Rightarrow> string \<Rightarrow> workspace_build \<Rightarrow> provisioner_job \<Rightarrow> bool option" where
  "workspace_status_match now st b j =
     (let started = nt_valid (pj_started_at j); canceled = nt_valid (pj_canceled_at j);
          completed = nt_valid (pj_completed_at j); failed = ns_valid (pj_error j);
          recent = time_sub now (pj_updated_at j) < 30 * second; tr = wb_transition b
      in if st = ''pending'' then Some (\<not> started)
         else if st = ''starting'' then
           Some (started \<and> \<not> canceled \<and> \<not> completed \<and> recent \<and> tr = WorkspaceTransitionStart)
         else if st = ''running'' then Some (completed \<and> \<not> canceled \<and> \<not> failed \<and> tr = WorkspaceTransitionStart)
         else if st = ''stopping'' then
           Some (started \<and> \<not> canceled \<and> \<not> completed \<and> recent \<and> tr = WorkspaceTransitionStop)
         else if st = ''stopped'' then Some (completed \<and> \<not> canceled \<and> \<not> failed \<and> tr = WorkspaceTransitionStop)
         else if st = ''failed'' then Some ((canceled \<and> failed) \<or> (completed \<and> failed))
         else if st = ''canceling'' then Some (canceled \<and> \<not> completed)
         else if st = ''canceled'' then Some (canceled \<and> completed)
         else if st = ''deleted'' then
           Some (started \<and> \<not> canceled \<and> completed \<and> recent \<and> tr = WorkspaceTransitionDelete \<and> \<not> failed)
         else if st = ''deleting'' then Some (\<not> completed \<and> \<not> canceled \<and> \<not> failed \<and> tr = WorkspaceTransitionDelete)
         else None)"

text \<open>The latest build and its job, which the status and agent filters need; either missing fails the query.\<close>

definition latest_build_job :: "fake_db \<Rightarrow> workspace \<Rightarrow> string + (workspace_build \<times> provisioner_job)" where
  "latest_build_job db w =
     (case getLatestWorkspaceBuildByWorkspaceID db (ws_id w) of
        None \<Rightarrow> Inl (''get latest build: '' @ ErrNoRows)
      | Some b \<Rightarrow> (case getProvisionerJobByID db (wb_job_id b) of
                    None \<Rightarrow> Inl (''get provisioner job: '' @ ErrNoRows)
                  | Some j \<Rightarrow> Inr (b, j)))"

definition ws_status_filter :: "fake_db \<Rightarrow> time \<Rightarrow> workspaces_filter \<Rightarrow> workspace \<Rightarrow> string + bool" where
  "ws_status_filter db now arg w =
     (case latest_build_job db w of
        Inl e \<Rightarrow> Inl e
      | Inr (b, j) \<Rightarrow> (case workspace_status_match now (wf_status arg) b j of
                        None \<Rightarrow> Inl (''unknown workspace status in filter: \"'' @ wf_status arg @ ''\"'')
                      | Some m \<Rightarrow> Inr m))"

text \<open>Every agent of the job's resources is mapped, so one agent in the panicking case panics the query.\<close>

definition ws_agent_filter :: "fake_db \<Rightarrow> time \<Rightarrow> workspaces_filter \<Rightarrow> workspace \<Rightarrow> string + bool" where
  "ws_agent_filter db now arg w =
     (case latest_build_job db w of
        Inl e \<Rightarrow> Inl e
      | Inr (b, j) \<Rightarrow>
          (let agents = getWorkspaceAgentsByResourceIDsNoLock db (map res_id (getWorkspaceResourcesByJobIDNoLock db (pj_id j)));
               t = wf_agent_inactive_disconnect_timeout_seconds arg
           in if list_ex (\<lambda>a. mapAgentStatus now a t = None) agents then Inl ''panic: unknown agent status: ''
              else Inr (list_ex (\<lambda>a. mapAgentStatus now a t = Some (wf_has_agent arg)) agents)))"

text \<open>The filters after the agent filter: locked workspaces, template ids, authorization.\<close>

definition ws_late_match :: "workspaces_filter \<Rightarrow> (workspace \<Rightarrow> bool) option \<Rightarrow> workspace \<Rightarrow> bool" where
  "ws_late_match arg prepared w \<longleftrightarrow>
     (if time_is_zero (wf_locked_at arg) then \<not> nt_valid (ws_locked_at w)
      else \<not> time_before (nt_time (ws_locked_at w)) (wf_locked_at arg)) \<and>
     (wf_template_ids arg = [] \<or> ws_template_id w \<in> set (wf_template_ids arg)) \<and>
     (case prepared of None \<Rightarrow> True | Some auth \<Rightarrow> auth w)"

definition ws_filter ::
  "fake_db \<Rightarrow> time \<Rightarrow> workspaces_filter \<Rightarrow> (workspace \<Rightarrow> bool) option \<Rightarrow> workspace \<Rightarrow> string + bool" where
  "ws_filter db now arg prepared w =
     (if \<not> ws_basic_match db arg w then Inr False
      else case (if wf_status arg = [] then Inr True else ws_status_filter db now arg w) of
             Inl e \<Rightarrow> Inl e
           | Inr False \<Rightarrow> Inr False
           | Inr True \<Rightarrow>
               (case (if wf_has_agent arg = [] then Inr True else ws_agent_filter db now arg w) of
                  Inl e \<Rightarrow> Inl e
                | Inr m \<Rightarrow> Inr (m \<and> ws_late_match arg prepared w)))"

text \<open>The filter loop, which returns the first error it meets.\<close>

primrec ws_scan ::
  "fake_db \<Rightarrow> time \<Rightarrow> workspaces_filter \<Rightarrow> (workspace \<Rightarrow> bool) option \<Rightarrow> workspace list \<Rightarrow> string + workspace list" where
  "ws_scan db now arg prepared [] = Inr []"
| "ws_scan db now arg prepared (w # ws) =
     (case ws_filter db now arg prepared w of
        Inl e \<Rightarrow> Inl e
      | Inr keep \<Rightarrow> map_sum id (\<lambda>r. if keep then w # r else r) (ws_scan db now arg prepared ws))"

section \<open>Order, page and rows\<close>

text \<open>\<open>isRunning\<close> on the preloaded build and job (zero values when missing).\<close>

definition ws_running :: "fake_db \<Rightarrow> workspace \<Rightarrow> bool" where
  "ws_running db w =
     (case getLatestWorkspaceBuildByWorkspaceID db (ws_id w) of
        None \<Rightarrow> False
      | Some b \<Rightarrow> (case getProvisionerJobByID db (wb_job_id b) of
                    None \<Rightarrow> False
                  | Some j \<Rightarrow> nt_valid (pj_completed_at j) \<and> \<not> nt_valid (pj_canceled_at j) \<and>
                              \<not> ns_valid (pj_error j) \<and> wb_transition b = WorkspaceTransitionStart))"

definition ws_owner_name :: "fake_db \<Rightarrow> workspace \<Rightarrow> string" where
  "ws_owner_name db w = (case getUserByIDNoLock db (ws_owner_id w) of None \<Rightarrow> [] | Some u \<Rightarrow> usr_username u)"

text \<open>
  The comparator given to \<open>sort.Slice\<close>: \<open>sort.StringsAreSorted\<close> of two
  strings is \<open>\<le>\<close>, and the names are compared only for one id.
\<close>

definition workspace_less :: "fake_db \<Rightarrow> workspace \<Rightarrow> workspace \<Rightarrow> bool" where
  "workspace_less db w1 w2 =
     (let r1 = ws_running db w1; r2 = ws_running db w2
      in if r1 \<and> \<not> r2 then True
         else if \<not> r1 \<and> r2 then False
         else if ws_id w1 \<noteq> ws_id w2 then ws_owner_name db w1 \<le> ws_owner_name db w2
         else ws_name w1 \<le> ws_name w2)"

text \<open>
  The order the comparator sorts by for distinct workspaces: running
  first, then by owner's username; the unstable \<open>sort.Slice\<close> is the
  stable \<open>sort_key\<close>, and no claim depends on the order of equal keys.
\<close>

definition ws_sort_key :: "fake_db \<Rightarrow> workspace \<Rightarrow> bool \<times> string" where
  "ws_sort_key db w = (\<not> ws_running db w, ws_owner_name db w)"

text \<open>\<open>database.GetWorkspacesRow\<close>.\<close>

record workspace_row =
  wrow_workspace :: workspace
  wrow_template_name :: string
  wrow_template_version_id :: uuid
  wrow_template_version_name :: null_string
  wrow_count :: int

definition convertToWorkspaceRowsNoLock :: "fake_db \<Rightarrow> workspace list \<Rightarrow> int \<Rightarrow> workspace_row list" where
  "convertToWorkspaceRowsNoLock db ws cnt =
     map (\<lambda>w. let tv = (case getLatestWorkspaceBuildByWorkspaceID db (ws_id w) of
                          None \<Rightarrow> None
                        | Some b \<Rightarrow> find (\<lambda>v. tv_id v = wb_template_version_id b) (db_template_versions db))
               in \<lparr>wrow_workspace = w,
                   wrow_template_name = (case find (\<lambda>t. tmpl_id t = ws_template_id w) (db_templates db) of
                                           None \<Rightarrow> [] | Some t \<Rightarrow> tmpl_name t),
                   wrow_template_version_id = (case tv of None \<Rightarrow> uuid_nil | Some v \<Rightarrow> tv_id v),
                   wrow_template_version_name = (case tv of None \<Rightarrow> \<lparr>ns_string = [], ns_valid = False\<rparr>
                                                 | Some v \<Rightarrow> \<lparr>ns_string = tv_name v, ns_valid = True\<rparr>),
                   wrow_count = cnt\<rparr>) ws"

text \<open>
  The offset past the end gives no rows; the limit cuts the page (a limit
  beyond the end keeps every row); the count is the number of matches
  before paging.  The prepared authorizer is as in \<open>GetAuthorizedTemplates\<close>.
\<close>

definition GetAuthorizedWorkspaces ::
  "fake_db \<Rightarrow> time \<Rightarrow> workspaces_filter \<Rightarrow> (workspace \<Rightarrow> bool) option \<Rightarrow> string + workspace_row list" where
  "GetAuthorizedWorkspaces db now arg prepared =
     (case ws_scan db now arg prepared (db_workspaces db) of
        Inl e \<Rightarrow> Inl e
      | Inr ws \<Rightarrow>
          (let ordered = sort_key (ws_sort_key db) ws; n = length ordered
           in if 0 < wf_offset arg \<and> int n < wf_offset arg then Inr []
              else let ws1 = (if 0 < wf_offset arg then drop (nat (wf_offset arg)) ordered else ordered);
                       ws2 = (if 0 < wf_limit arg then take (nat (wf_limit arg)) ws1 else ws1)
                   in Inr (convertToWorkspaceRowsNoLock db ws2 (int n))))"

definition GetWorkspaces :: "fake_db \<Rightarrow> time \<Rightarrow> workspaces_filter \<Rightarrow> string + workspace_row list" where
  "GetWorkspaces db now arg = GetAuthorizedWorkspaces db now arg None"

section \<open>Lemmas\<close>

text \<open>For distinct workspaces the comparator is the non-strict order of \<^const>\<open>ws_sort_key\<close>.\<close>

lemma workspace_less_key:
  "ws_id a \<noteq> ws_id b \<Longrightarrow> workspace_less db a b \<longleftrightarrow> ws_sort_key db a \<le> ws_sort_key db b"
  by (auto simp: workspace_less_def ws_sort_key_def Let_def)

lemma ws_scan_append:
  "ws_scan db now arg prepared (xs @ ys) =
     (case ws_scan db now arg prepared xs of
        Inl e \<Rightarrow> Inl e
      | Inr zs \<Rightarrow> map_sum id (\<lambda>r. zs @ r) (ws_scan db now arg prepared ys))"
  by (cases "ws_scan db now arg prepared ys"; induction xs) (auto split: sum.split)

lemma ws_scan_subset: "ws_scan db now arg prepared xs = Inr ys \<Longrightarrow> set ys \<subseteq> set xs"
proof (induction xs arbitrary: ys)
  case (Cons a xs)
  then show ?case
    by (cases "ws_scan db now arg prepared xs") (auto split: sum.splits if_splits)
qed simp

lemma convert_rows_workspaces [simp]:
  "map wrow_workspace (convertToWorkspaceRowsNoLock db ws c) = ws"
  by (induction ws) (simp_all add: convertToWorkspaceRowsNoLock_def Let_def)

lemma convert_rows_count: "r \<in> set (convertToWorkspaceRowsNoLock db ws c) \<Longrightarrow> wrow_count r = c"
  by (auto simp: convertToWorkspaceRowsNoLock_def Let_def)

end
