(* ===== verification/WorkspaceListProps.thy ===== *)
theory WorkspaceListProps
  imports DbWorkspaceList DbProps
begin

text \<open>
  Properties of the workspace listing of the database fake (theory
  \<open>DbWorkspaceList\<close>): the comparator that is not a strict order, the
  status filter that fails the query on a workspace without a build, and
  the order and count of the rows returned.
\<close>

section \<open>Example data\<close>

definition ex_ws :: "uuid \<Rightarrow> uuid \<Rightarrow> string \<Rightarrow> workspace" where
  "ex_ws i owner name =
     \<lparr>ws_id = i, ws_created_at = 0, ws_updated_at = 0, ws_owner_id = owner, ws_organization_id = 8,
      ws_template_id = 2, ws_deleted = False, ws_name = name, ws_autostart_schedule = \<lparr>ns_string = [], ns_valid = False\<rparr>,
      ws_ttl = \<lparr>ni_int = 0, ni_valid = False\<rparr>, ws_last_used_at = 0, ws_locked_at = null_time_none,
      ws_deleting_at = null_time_none\<rparr>"

text \<open>Workspace \<open>a\<close> of \<open>zed\<close> runs (its start build's job completed); \<open>b\<close> and \<open>c\<close> of \<open>amy\<close> have no build.\<close>

definition ex_list_db :: fake_db where
  "ex_list_db =
     (InsertWorkspaceBuild New (ex_build_params 1))
       \<lparr>db_users := [ex_user 7 ''zed'' 0, ex_user 8 ''amy'' 0],
        db_workspaces := [ex_ws 1 7 ''a'', ex_ws 2 8 ''b'', ex_ws 3 8 ''c''],
        db_jobs := [(ex_job 3 True ''terraform'' [])\<lparr>pj_completed_at := \<lparr>nt_time = 0, nt_valid = True\<rparr>\<rparr>]\<rparr>"

definition ex_filter :: "string \<Rightarrow> workspaces_filter" where
  "ex_filter st =
     \<lparr>wf_deleted = False, wf_status = st, wf_owner_id = 0, wf_owner_username = [], wf_template_name = [],
      wf_template_ids = [], wf_name = [], wf_has_agent = [], wf_agent_inactive_disconnect_timeout_seconds = 0,
      wf_locked_at = 0, wf_offset = 0, wf_limit = 0\<rparr>"

lemmas ex_list_defs = ex_ws_def ex_list_db_def ex_filter_def ex_user_def ex_job_def ex_build_params_def
  InsertWorkspaceBuild_def New_def null_time_none_def uuid_nil_def

section \<open>Order and filters of the listing\<close>

text \<open>
  C29.  The comparator of \<open>GetAuthorizedWorkspaces\<close> is not a strict
  order: two distinct workspaces in the same running state whose owners
  have the same username are each ordered before the other, and their
  names are never compared.
\<close>

theorem workspace_order_not_strict:
  assumes "ws_id a \<noteq> ws_id b" and "ws_running db a = ws_running db b"
    and "ws_owner_name db a = ws_owner_name db b"
  shows "workspace_less db a b \<and> workspace_less db b a"
  using assms by (simp add: workspace_less_def Let_def)

theorem workspace_order_not_strict_witness:
  "workspace_less ex_list_db (ex_ws 2 8 ''b'') (ex_ws 3 8 ''c'') \<and>
   workspace_less ex_list_db (ex_ws 3 8 ''c'') (ex_ws 2 8 ''b'')"
proof -
  have r: "ws_running ex_list_db (ex_ws 2 8 ''b'') = ws_running ex_list_db (ex_ws 3 8 ''c'')"
    by (simp add: ws_running_def getLatestWorkspaceBuildByWorkspaceID_def latest_step_def ex_list_defs)
  have o: "ws_owner_name ex_list_db (ex_ws 2 8 ''b'') = ws_owner_name ex_list_db (ex_ws 3 8 ''c'')"
    by (simp add: ws_owner_name_def getUserByIDNoLock_def ex_list_defs)
  show ?thesis
    using workspace_order_not_strict [OF _ r o] by (simp add: ex_ws_def)
qed

text \<open>
  C28.  A status filter fails the whole listing when it meets a workspace
  without a build: if the workspaces before it pass through the filter
  loop without error and it passes the owner, template, deletion and name
  filters, \<open>GetAuthorizedWorkspaces\<close> returns the wrapped \<open>ErrNoRows\<close>,
  whatever the other workspaces are.
\<close>

theorem workspaces_status_needs_build:
  assumes d: "db_workspaces db = pre @ w # ws"
    and p: "ws_scan db now arg prepared pre = Inr ys"
    and m: "ws_basic_match db arg w" and st: "wf_status arg \<noteq> []"
    and nb: "getLatestWorkspaceBuildByWorkspaceID db (ws_id w) = None"
  shows "GetAuthorizedWorkspaces db now arg prepared = Inl (''get latest build: '' @ ErrNoRows)"
proof -
  have "ws_filter db now arg prepared w = Inl (''get latest build: '' @ ErrNoRows)"
    using m st nb by (simp add: ws_filter_def ws_status_filter_def latest_build_job_def)
  then show ?thesis
    using d p by (simp add: GetAuthorizedWorkspaces_def ws_scan_append)
qed

theorem workspaces_status_needs_build_witness:
  "GetAuthorizedWorkspaces ex_list_db 0 (ex_filter ''running'') None = Inl (''get latest build: '' @ ErrNoRows)"
proof -
  have d: "db_workspaces ex_list_db = [ex_ws 1 7 ''a''] @ ex_ws 2 8 ''b'' # [ex_ws 3 8 ''c'']"
    by (simp add: ex_list_db_def)
  have p: "ws_scan ex_list_db 0 (ex_filter ''running'') None [ex_ws 1 7 ''a''] = Inr [ex_ws 1 7 ''a'']"
    by (simp add: ws_filter_def ws_basic_match_def ws_status_filter_def latest_build_job_def
                  workspace_status_match_def ws_late_match_def getLatestWorkspaceBuildByWorkspaceID_def
                  latest_step_def getProvisionerJobByID_def time_is_zero_def ex_list_defs)
  have m: "ws_basic_match ex_list_db (ex_filter ''running'') (ex_ws 2 8 ''b'')"
    by (simp add: ws_basic_match_def ex_filter_def ex_ws_def uuid_nil_def)
  have nb: "getLatestWorkspaceBuildByWorkspaceID ex_list_db (ws_id (ex_ws 2 8 ''b'')) = None"
    by (simp add: getLatestWorkspaceBuildByWorkspaceID_def latest_step_def ex_list_defs)
  show ?thesis
    using workspaces_status_needs_build [OF d p m _ nb] by (simp add: ex_filter_def)
qed

text \<open>
  The rows of a successful listing are workspaces the filter loop
  kept, ordered running first and then by their owner's username, and
  each carries as its count the number of workspaces kept before paging.
\<close>

theorem workspaces_sorted_counted:
  assumes r: "GetAuthorizedWorkspaces db now arg prepared = Inr rows"
  shows "sorted (map (\<lambda>r. ws_sort_key db (wrow_workspace r)) rows) \<and>
         (\<exists>ws. ws_scan db now arg prepared (db_workspaces db) = Inr ws \<and>
               (\<forall>r \<in> set rows. wrow_count r = int (length ws) \<and> wrow_workspace r \<in> set ws))"
proof -
  obtain ws where sc: "ws_scan db now arg prepared (db_workspaces db) = Inr ws"
    using r by (cases "ws_scan db now arg prepared (db_workspaces db)") (simp_all add: GetAuthorizedWorkspaces_def)
  define srt where "srt = sort_key (ws_sort_key db) ws"
  define ws1 where "ws1 = (if 0 < wf_offset arg then drop (nat (wf_offset arg)) srt else srt)"
  define ws2 where "ws2 = (if 0 < wf_limit arg then take (nat (wf_limit arg)) ws1 else ws1)"
  have rows: "rows = [] \<or> rows = convertToWorkspaceRowsNoLock db ws2 (int (length ws))"
    using r sc by (auto simp: GetAuthorizedWorkspaces_def Let_def srt_def ws1_def ws2_def split: if_splits)
  have "sorted (map (ws_sort_key db) srt)" by (simp add: srt_def)
  then have so: "sorted (map (ws_sort_key db) ws2)"
    by (simp add: ws1_def ws2_def drop_map [symmetric] take_map [symmetric] sorted_wrt_drop sorted_wrt_take)
  have sub: "set ws2 \<subseteq> set ws"
    by (auto simp: ws2_def ws1_def srt_def dest!: in_set_takeD in_set_dropD)
  have m: "map (\<lambda>r. ws_sort_key db (wrow_workspace r)) (convertToWorkspaceRowsNoLock db ws2 c) = map (ws_sort_key db) ws2"
    for c by (simp add: convertToWorkspaceRowsNoLock_def Let_def)
  show ?thesis
    using rows
  proof
    assume "rows = []"
    then show ?thesis using sc by simp
  next
    assume rw: "rows = convertToWorkspaceRowsNoLock db ws2 (int (length ws))"
    have "\<forall>r \<in> set rows. wrow_count r = int (length ws) \<and> wrow_workspace r \<in> set ws"
    proof
      fix x assume x: "x \<in> set rows"
      then have "wrow_workspace x \<in> set (map wrow_workspace rows)" by simp
      then have "wrow_workspace x \<in> set ws2" using rw by simp
      then show "wrow_count x = int (length ws) \<and> wrow_workspace x \<in> set ws"
        using x rw sub convert_rows_count by blast
    qed
    then show ?thesis using rw m so sc by auto
  qed
qed

theorem workspaces_sorted_counted_witness:
  "\<exists>rows. GetAuthorizedWorkspaces ex_list_db 0 (ex_filter []) None = Inr rows \<and>
     sorted (map (\<lambda>r. ws_sort_key ex_list_db (wrow_workspace r)) rows) \<and>
     (\<exists>ws. ws_scan ex_list_db 0 (ex_filter []) None (db_workspaces ex_list_db) = Inr ws \<and>
           (\<forall>r \<in> set rows. wrow_count r = int (length ws) \<and> wrow_workspace r \<in> set ws))"
proof -
  have "ws_scan ex_list_db 0 (ex_filter []) None (db_workspaces ex_list_db) =
          Inr [ex_ws 1 7 ''a'', ex_ws 2 8 ''b'', ex_ws 3 8 ''c'']"
    by (simp add: ws_filter_def ws_basic_match_def ws_late_match_def time_is_zero_def ex_list_defs)
  then obtain rows where "GetAuthorizedWorkspaces ex_list_db 0 (ex_filter []) None = Inr rows"
    by (simp add: GetAuthorizedWorkspaces_def Let_def ex_filter_def)
  then show ?thesis using workspaces_sorted_counted by blast
qed

end
