(* ===== verification/DbAgentStats.thy ===== *)
theory DbAgentStats
  imports DbAgents DbOrgs
begin

text \<open>
  The agent statistics of the database fake (\<open>src/unnamed/part_005\<close>): the
  two inserts, the per-agent and deployment-wide aggregates, and the
  deployment's workspace counters.  Go's maps keyed by agent id are
  iterated in the order of first appearance; the last statistic of an
  agent in table order is its latest (the map is overwritten in a loop);
  sums of \<open>int64\<close> columns wrap (\<^const>\<open>sum_int64\<close>).
\<close>

section \<open>Inserts\<close>

definition InsertWorkspaceAgentStat :: "fake_db \<Rightarrow> workspace_agent_stat \<Rightarrow> workspace_agent_stat \<times> fake_db" where
  "InsertWorkspaceAgentStat db p = (p, db\<lparr>db_workspace_agent_stats := db_workspace_agent_stats db @ [p]\<rparr>)"

text \<open>
  \<open>database.InsertWorkspaceAgentStatsParams\<close>: parallel arrays.  The
  connections by protocol arrive as one JSON array; here it is the list of
  its elements' encodings, or \<^const>\<open>None\<close> when \<open>json.Unmarshal\<close> fails.
\<close>

record insert_agent_stats_params =
  ias_id :: "uuid list"
  ias_created_at :: "time list"
  ias_workspace_id :: "uuid list"
  ias_agent_id :: "uuid list"
  ias_user_id :: "uuid list"
  ias_connections_by_proto :: "string list option"
  ias_connection_count :: "int list"
  ias_rx_packets :: "int list"
  ias_rx_bytes :: "int list"
  ias_tx_packets :: "int list"
  ias_tx_bytes :: "int list"
  ias_template_id :: "uuid list"
  ias_session_count_vscode :: "int list"
  ias_session_count_jetbrains :: "int list"
  ias_session_count_reconnecting_pty :: "int list"
  ias_session_count_ssh :: "int list"
  ias_connection_median_latency_ms :: "real list"

text \<open>One statistic per id; an array shorter than the ids is an index panic.\<close>

definition InsertWorkspaceAgentStats :: "fake_db \<Rightarrow> insert_agent_stats_params \<Rightarrow> string + fake_db" where
  "InsertWorkspaceAgentStats db arg =
     (case ias_connections_by_proto arg of
        None \<Rightarrow> Inl ''json: cannot unmarshal connections_by_proto''
      | Some cbp \<Rightarrow>
          (let n = length (ias_id arg)
           in if list_ex (\<lambda>l. l < n)
                   [length cbp, length (ias_created_at arg), length (ias_workspace_id arg), length (ias_agent_id arg),
                    length (ias_user_id arg), length (ias_connection_count arg), length (ias_rx_packets arg),
                    length (ias_rx_bytes arg), length (ias_tx_packets arg), length (ias_tx_bytes arg),
                    length (ias_template_id arg), length (ias_session_count_vscode arg),
                    length (ias_session_count_jetbrains arg), length (ias_session_count_reconnecting_pty arg),
                    length (ias_session_count_ssh arg), length (ias_connection_median_latency_ms arg)]
              then Inl ''panic: runtime error: index out of range''
              else Inr (db\<lparr>db_workspace_agent_stats := db_workspace_agent_stats db @
                     map (\<lambda>i. \<lparr>was_id = ias_id arg ! i, was_created_at = ias_created_at arg ! i,
                               was_workspace_id = ias_workspace_id arg ! i, was_agent_id = ias_agent_id arg ! i,
                               was_user_id = ias_user_id arg ! i, was_connections_by_proto = cbp ! i,
                               was_connection_count = ias_connection_count arg ! i,
                               was_rx_packets = ias_rx_packets arg ! i, was_rx_bytes = ias_rx_bytes arg ! i,
                               was_tx_packets = ias_tx_packets arg ! i, was_tx_bytes = ias_tx_bytes arg ! i,
                               was_template_id = ias_template_id arg ! i,
                               was_session_count_vscode = ias_session_count_vscode arg ! i,
                               was_session_count_jetbrains = ias_session_count_jetbrains arg ! i,
                               was_session_count_reconnecting_pty = ias_session_count_reconnecting_pty arg ! i,
                               was_session_count_ssh = ias_session_count_ssh arg ! i,
                               was_connection_median_latency_ms = ias_connection_median_latency_ms arg ! i\<rparr>)
                         [0..<n]\<rparr>)))"

section \<open>Aggregates\<close>

definition stats_after :: "fake_db \<Rightarrow> time \<Rightarrow> workspace_agent_stat list" where
  "stats_after db t = filter (\<lambda>s. time_after (was_created_at s) t) (db_workspace_agent_stats db)"

text \<open>The keys of the maps by agent id, in order of first appearance.\<close>

definition stat_agents :: "workspace_agent_stat list \<Rightarrow> uuid list" where
  "stat_agents ss = remdups (map was_agent_id ss)"

definition latest_stat :: "workspace_agent_stat list \<Rightarrow> uuid \<Rightarrow> workspace_agent_stat" where
  "latest_stat ss aid = last (filter (\<lambda>s. was_agent_id s = aid) ss)"

text \<open>
  \<open>tryPercentile\<close>: the element at index \<open>int(len * p / 100)\<close> of the
  sorted list, \<open>-1\<close> for no element.  For the constant percentiles \<open>50\<close>
  and \<open>95\<close> the \<open>float64\<close> product and quotient of an integer length are
  exact up to \<open>2^53 / 95\<close> elements, so the index is the integer quotient.
\<close>

definition tryPercentile :: "real list \<Rightarrow> nat \<Rightarrow> real" where
  "tryPercentile fs p = (if fs = [] then -1 else sort fs ! (length fs * p div 100))"

text \<open>The statistics with a positive median latency, which the byte counts and latencies use.\<close>

definition latency_stats :: "workspace_agent_stat list \<Rightarrow> workspace_agent_stat list" where
  "latency_stats ss = filter (\<lambda>s. 0 < was_connection_median_latency_ms s) ss"

text \<open>The earliest creation time, the zero time standing for none yet.\<close>

definition min_created :: "workspace_agent_stat list \<Rightarrow> time" where
  "min_created ss =
     foldl (\<lambda>m s. if time_before (was_created_at s) m \<or> time_is_zero m then was_created_at s else m) 0 ss"

text \<open>\<open>database.GetWorkspaceAgentStatsRow\<close>.\<close>

record agent_stats_row =
  asr_aggregated_from :: time
  asr_user_id :: uuid
  asr_agent_id :: uuid
  asr_workspace_id :: uuid
  asr_template_id :: uuid
  asr_workspace_rx_bytes :: int
  asr_workspace_tx_bytes :: int
  asr_latency50 :: real
  asr_latency95 :: real
  asr_session_count_vscode :: int
  asr_session_count_ssh :: int
  asr_session_count_jetbrains :: int
  asr_session_count_reconnecting_pty :: int

text \<open>
  The row of one agent: identity and session counts from its latest
  statistic, bytes, earliest time and latencies from its statistics with
  a positive latency; with none of those the latencies stay \<open>0\<close>.
\<close>

definition agent_stats_row_of :: "workspace_agent_stat list \<Rightarrow> uuid \<Rightarrow> agent_stats_row" where
  "agent_stats_row_of ss aid =
     (let l = latest_stat ss aid; lat = filter (\<lambda>s. was_agent_id s = aid) (latency_stats ss);
          ms = map was_connection_median_latency_ms lat
      in \<lparr>asr_aggregated_from = min_created lat, asr_user_id = was_user_id l, asr_agent_id = was_agent_id l,
          asr_workspace_id = was_workspace_id l, asr_template_id = was_template_id l,
          asr_workspace_rx_bytes = sum_int64 (map was_rx_bytes lat),
          asr_workspace_tx_bytes = sum_int64 (map was_tx_bytes lat),
          asr_latency50 = (if lat = [] then 0 else tryPercentile ms 50),
          asr_latency95 = (if lat = [] then 0 else tryPercentile ms 95),
          asr_session_count_vscode = was_session_count_vscode l, asr_session_count_ssh = was_session_count_ssh l,
          asr_session_count_jetbrains = was_session_count_jetbrains l,
          asr_session_count_reconnecting_pty = was_session_count_reconnecting_pty l\<rparr>)"

definition GetWorkspaceAgentStats :: "fake_db \<Rightarrow> time \<Rightarrow> agent_stats_row list" where
  "GetWorkspaceAgentStats db createdAfter =
     (let ss = stats_after db createdAfter in map (agent_stats_row_of ss) (stat_agents ss))"

text \<open>\<open>database.GetWorkspaceAgentStatsAndLabelsRow\<close>.\<close>

record agent_stats_labels_row =
  aslr_username :: string
  aslr_agent_name :: string
  aslr_workspace_name :: string
  aslr_rx_bytes :: int
  aslr_tx_bytes :: int
  aslr_session_count_vscode :: int
  aslr_session_count_ssh :: int
  aslr_session_count_jetbrains :: int
  aslr_session_count_reconnecting_pty :: int
  aslr_connection_count :: int
  aslr_connection_median_latency_ms :: real

text \<open>
  Session counts, connection count and a non-negative latency from the
  latest statistic; bytes over every statistic after the time; the labels
  from the last statistic's user, workspace and agent.  A statistic whose
  user, workspace or agent is missing fails the query with \<open>ErrNoRows\<close>.
\<close>

definition stat_labels_ok :: "fake_db \<Rightarrow> workspace_agent_stat \<Rightarrow> bool" where
  "stat_labels_ok db s \<longleftrightarrow>
     getUserByIDNoLock db (was_user_id s) \<noteq> None \<and> getWorkspaceByID db (was_workspace_id s) \<noteq> None \<and>
     getWorkspaceAgentByIDNoLock db (was_agent_id s) \<noteq> None"

definition agent_labels_row_of :: "fake_db \<Rightarrow> workspace_agent_stat list \<Rightarrow> uuid \<Rightarrow> agent_stats_labels_row" where
  "agent_labels_row_of db ss aid =
     (let l = latest_stat ss aid; all = filter (\<lambda>s. was_agent_id s = aid) ss
      in \<lparr>aslr_username = (case getUserByIDNoLock db (was_user_id l) of None \<Rightarrow> [] | Some u \<Rightarrow> usr_username u),
          aslr_agent_name = (case getWorkspaceAgentByIDNoLock db (was_agent_id l) of None \<Rightarrow> [] | Some a \<Rightarrow> wa_name a),
          aslr_workspace_name = (case getWorkspaceByID db (was_workspace_id l) of None \<Rightarrow> [] | Some w \<Rightarrow> ws_name w),
          aslr_rx_bytes = sum_int64 (map was_rx_bytes all), aslr_tx_bytes = sum_int64 (map was_tx_bytes all),
          aslr_session_count_vscode = was_session_count_vscode l, aslr_session_count_ssh = was_session_count_ssh l,
          aslr_session_count_jetbrains = was_session_count_jetbrains l,
          aslr_session_count_reconnecting_pty = was_session_count_reconnecting_pty l,
          aslr_connection_count = was_connection_count l,
          aslr_connection_median_latency_ms =
            (if 0 < was_connection_median_latency_ms l then was_connection_median_latency_ms l else 0)\<rparr>)"

definition GetWorkspaceAgentStatsAndLabels :: "fake_db \<Rightarrow> time \<Rightarrow> string + agent_stats_labels_row list" where
  "GetWorkspaceAgentStatsAndLabels db createdAfter =
     (let ss = stats_after db createdAfter
      in if \<not> list_all (stat_labels_ok db) ss then Inl ErrNoRows
         else Inr (map (agent_labels_row_of db ss) (stat_agents ss)))"

text \<open>\<open>database.GetDeploymentWorkspaceAgentStatsRow\<close>.\<close>

record deployment_agent_stats_row =
  dasr_workspace_rx_bytes :: int
  dasr_workspace_tx_bytes :: int
  dasr_latency50 :: real
  dasr_latency95 :: real
  dasr_session_count_vscode :: int
  dasr_session_count_ssh :: int
  dasr_session_count_jetbrains :: int
  dasr_session_count_reconnecting_pty :: int

text \<open>Session counts summed over the agents' latest statistics; with no latency the percentiles are \<open>-1\<close>.\<close>

definition GetDeploymentWorkspaceAgentStats :: "fake_db \<Rightarrow> time \<Rightarrow> deployment_agent_stats_row" where
  "GetDeploymentWorkspaceAgentStats db createdAfter =
     (let ss = stats_after db createdAfter; ls = map (latest_stat ss) (stat_agents ss); lat = latency_stats ss;
          ms = map was_connection_median_latency_ms lat
      in \<lparr>dasr_workspace_rx_bytes = sum_int64 (map was_rx_bytes lat),
          dasr_workspace_tx_bytes = sum_int64 (map was_tx_bytes lat),
          dasr_latency50 = tryPercentile ms 50, dasr_latency95 = tryPercentile ms 95,
          dasr_session_count_vscode = sum_int64 (map was_session_count_vscode ls),
          dasr_session_count_ssh = sum_int64 (map was_session_count_ssh ls),
          dasr_session_count_jetbrains = sum_int64 (map was_session_count_jetbrains ls),
          dasr_session_count_reconnecting_pty = sum_int64 (map was_session_count_reconnecting_pty ls)\<rparr>)"

section \<open>Deployment workspace counters\<close>

datatype workspace_class = ClassPending | ClassBuilding | ClassRunning | ClassStopped | ClassFailed | ClassNone

text \<open>
  The branch of the counter loop a workspace's latest build and job take;
  a completed delete build and a stale unfinished job are counted nowhere.
\<close>

definition workspace_class_of :: "time \<Rightarrow> workspace_build \<Rightarrow> provisioner_job \<Rightarrow> workspace_class" where
  "workspace_class_of now b j =
     (if \<not> nt_valid (pj_started_at j) then ClassPending
      else if \<not> nt_valid (pj_canceled_at j) \<and> time_sub now (pj_updated_at j) \<le> 30 * second \<and>
              \<not> nt_valid (pj_completed_at j) then ClassBuilding
      else if nt_valid (pj_completed_at j) \<and> \<not> nt_valid (pj_canceled_at j) \<and> \<not> ns_valid (pj_error j) then
        (if wb_transition b = WorkspaceTransitionStart then ClassRunning
         else if wb_transition b = WorkspaceTransitionStop then ClassStopped else ClassNone)
      else if nt_valid (pj_canceled_at j) \<or> ns_valid (pj_error j) then ClassFailed
      else ClassNone)"

text \<open>Every workspace, deleted ones included; a missing build or job ends the loop with \<open>ErrNoRows\<close>.\<close>

primrec workspace_classes :: "fake_db \<Rightarrow> time \<Rightarrow> workspace list \<Rightarrow> string + workspace_class list" where
  "workspace_classes db now [] = Inr []"
| "workspace_classes db now (w # ws) =
     (case getLatestWorkspaceBuildByWorkspaceID db (ws_id w) of
        None \<Rightarrow> Inl ErrNoRows
      | Some b \<Rightarrow> (case getProvisionerJobByID db (wb_job_id b) of
                    None \<Rightarrow> Inl ErrNoRows
                  | Some j \<Rightarrow> map_sum id (Cons (workspace_class_of now b j)) (workspace_classes db now ws)))"

record deployment_workspace_stats_row =
  dws_pending_workspaces :: int
  dws_building_workspaces :: int
  dws_running_workspaces :: int
  dws_failed_workspaces :: int
  dws_stopped_workspaces :: int

definition GetDeploymentWorkspaceStats :: "fake_db \<Rightarrow> time \<Rightarrow> string + deployment_workspace_stats_row" where
  "GetDeploymentWorkspaceStats db now =
     map_sum id (\<lambda>cs. \<lparr>dws_pending_workspaces = int (count_list cs ClassPending),
                       dws_building_workspaces = int (count_list cs ClassBuilding),
                       dws_running_workspaces = int (count_list cs ClassRunning),
                       dws_failed_workspaces = int (count_list cs ClassFailed),
                       dws_stopped_workspaces = int (count_list cs ClassStopped)\<rparr>)
       (workspace_classes db now (db_workspaces db))"

section \<open>Lemmas\<close>

lemma length_filter_sort: "length (filter P (sort xs)) = length (filter P xs)"
  by (metis mset_filter mset_sort size_mset)

text \<open>A prefix whose elements all pass a filter bounds the filter's length from below.\<close>

lemma length_filter_take_le:
  assumes "\<forall>x \<in> set (take m xs). P x" and "m \<le> length xs"
  shows "m \<le> length (filter P xs)"
proof -
  have "length (filter P (take m xs)) = m"
    using assms by (simp add: filter_True [OF assms(1)])
  moreover have "length (filter P (take m xs)) \<le> length (filter P xs)"
    by (metis append_take_drop_id filter_append length_append le_add1)
  ultimately show ?thesis by simp
qed

text \<open>A suffix whose elements all pass a filter bounds the filter's length from below.\<close>

lemma length_filter_drop_le:
  assumes "\<forall>x \<in> set (drop m xs). P x"
  shows "length xs - m \<le> length (filter P xs)"
proof -
  have "length (filter P (drop m xs)) = length xs - m"
    by (simp add: filter_True [OF assms])
  moreover have "length (filter P (drop m xs)) \<le> length (filter P xs)"
    by (metis append_take_drop_id filter_append length_append le_add2)
  ultimately show ?thesis by simp
qed

lemma sorted_take_le_nth:
  "sorted s \<Longrightarrow> k < length s \<Longrightarrow> \<forall>x \<in> set (take (Suc k) s). x \<le> s ! k"
  by (auto simp: in_set_conv_nth sorted_nth_mono)

lemma sorted_drop_ge_nth:
  "sorted s \<Longrightarrow> k < length s \<Longrightarrow> \<forall>x \<in> set (drop k s). s ! k \<le> x"
  by (auto simp: in_set_conv_nth sorted_nth_mono)

lemma percentile_index_less: "xs \<noteq> [] \<Longrightarrow> p < 100 \<Longrightarrow> length xs * p div 100 < length xs"
  by (simp add: div_less_iff_less_mult)

lemma workspace_classes_length:
  "workspace_classes db now ws = Inr cs \<Longrightarrow> length cs = length ws"
proof (induction ws arbitrary: cs)
  case (Cons w ws)
  then show ?case
    by (cases "workspace_classes db now ws")
       (auto split: option.splits)
qed simp

lemma count_list_classes:
  "count_list cs ClassPending + count_list cs ClassBuilding + count_list cs ClassRunning +
   count_list cs ClassFailed + count_list cs ClassStopped + count_list cs ClassNone = length cs"
proof (induction cs)
  case (Cons c cs)
  then show ?case by (cases c) simp_all
qed simp

end
