(* ===== verification/StatsProps.thy ===== *)
theory StatsProps
  imports DbAgentStats DbProps
begin

text \<open>
  Properties of the agent statistics of the database fake (theory
  \<open>DbAgentStats\<close>): the percentile the aggregates report and the
  deployment's workspace counters.
\<close>

section \<open>Example data\<close>

definition ex_stats_db :: fake_db where
  "ex_stats_db =
     (InsertWorkspaceBuild (InsertWorkspaceBuild New (ex_build_params 1))
        ((ex_build_params 1)\<lparr>ibp_id := 7, ibp_workspace_id := 2, ibp_job_id := 4,
                              ibp_transition := WorkspaceTransitionDelete\<rparr>))
       \<lparr>db_workspaces := [ex_locked_ws\<lparr>ws_locked_at := null_time_none\<rparr>,
                         ex_locked_ws\<lparr>ws_id := 2, ws_locked_at := null_time_none\<rparr>],
        db_jobs := [(ex_job 3 True ''terraform'' [])\<lparr>pj_completed_at := \<lparr>nt_time = 0, nt_valid = True\<rparr>\<rparr>,
                    (ex_job 4 True ''terraform'' [])\<lparr>pj_completed_at := \<lparr>nt_time = 0, nt_valid = True\<rparr>\<rparr>]\<rparr>"

section \<open>Percentiles and counters\<close>

text \<open>
  C30.  \<open>tryPercentile\<close> is a nearest-rank percentile: for a non-empty list
  and a percentile below 100 it returns an element of the list such that
  more than \<open>p\<close> percent of the elements are at most it and at least
  \<open>100 - p\<close> percent are at least it; its index is always in range.
\<close>

theorem tryPercentile_rank:
  assumes ne: "fs \<noteq> []" and p: "p < 100"
  shows "tryPercentile fs p \<in> set fs \<and>
         length fs * p < 100 * length (filter (\<lambda>x. x \<le> tryPercentile fs p) fs) \<and>
         length fs * (100 - p) \<le> 100 * length (filter (\<lambda>x. tryPercentile fs p \<le> x) fs)"
proof -
  define s where "s = sort fs"
  define k where "k = length fs * p div 100"
  have ls: "length s = length fs" by (simp add: s_def)
  have k: "k < length s" using percentile_index_less [OF ne p] by (simp add: k_def ls)
  have r: "tryPercentile fs p = s ! k" using ne by (simp add: tryPercentile_def s_def k_def)
  have so: "sorted s" by (simp add: s_def)
  have mem: "s ! k \<in> set fs" using k by (metis nth_mem s_def set_sort)
  have le: "Suc k \<le> length (filter (\<lambda>x. x \<le> s ! k) s)"
    using length_filter_take_le [OF sorted_take_le_nth [OF so k]] k by simp
  have ge: "length s - k \<le> length (filter (\<lambda>x. s ! k \<le> x) s)"
    using length_filter_drop_le [OF sorted_drop_ge_nth [OF so k]] .
  have dm: "length fs * p = 100 * k + length fs * p mod 100" by (simp add: k_def)
  have a1: "length fs * p < 100 * Suc k" using dm by simp
  have a2: "length fs * (100 - p) \<le> 100 * (length s - k)"
    using dm p k ls by (simp add: diff_mult_distrib2 algebra_simps)
  show ?thesis
    using r mem le ge a1 a2 length_filter_sort [of "\<lambda>x. x \<le> s ! k" fs]
          length_filter_sort [of "\<lambda>x. s ! k \<le> x" fs]
    by (simp add: s_def ls)
qed

theorem tryPercentile_rank_witness:
  "tryPercentile [3, 1, 2] 50 \<in> set [3, 1, 2 :: real] \<and>
   3 * 50 < 100 * length (filter (\<lambda>x. x \<le> tryPercentile [3, 1, 2] 50) [3, 1, 2 :: real]) \<and>
   3 * (100 - 50) \<le> 100 * length (filter (\<lambda>x. tryPercentile [3, 1, 2] 50 \<le> x) [3, 1, 2 :: real])"
  using tryPercentile_rank [of "[3, 1, 2 :: real]" 50] by simp

text \<open>
  When every workspace has a latest build and job, the five counters
  of \<open>GetDeploymentWorkspaceStats\<close> add up to the number of workspaces,
  deleted ones included, less those whose build and job fall in no
  branch (a completed delete build, a stale unfinished job).
\<close>

theorem deployment_counters_partition:
  assumes c: "workspace_classes db now (db_workspaces db) = Inr cs"
  shows "\<exists>st. GetDeploymentWorkspaceStats db now = Inr st \<and>
           dws_pending_workspaces st + dws_building_workspaces st + dws_running_workspaces st +
           dws_failed_workspaces st + dws_stopped_workspaces st =
           int (length (db_workspaces db)) - int (count_list cs ClassNone)"
proof -
  have "count_list cs ClassPending + count_list cs ClassBuilding + count_list cs ClassRunning +
        count_list cs ClassFailed + count_list cs ClassStopped + count_list cs ClassNone = length (db_workspaces db)"
    using count_list_classes [of cs] workspace_classes_length [OF c] by simp
  then show ?thesis
    using c by (simp add: GetDeploymentWorkspaceStats_def)
qed

theorem deployment_counters_partition_witness:
  "\<exists>st. GetDeploymentWorkspaceStats ex_stats_db 0 = Inr st \<and>
     dws_pending_workspaces st + dws_building_workspaces st + dws_running_workspaces st +
     dws_failed_workspaces st + dws_stopped_workspaces st = 2 - 1"
proof -
  have "workspace_classes ex_stats_db 0 (db_workspaces ex_stats_db) = Inr [ClassRunning, ClassNone]"
    by (simp add: ex_stats_db_def getLatestWorkspaceBuildByWorkspaceID_def latest_step_def getProvisionerJobByID_def
                  workspace_class_of_def InsertWorkspaceBuild_def ex_build_params_def ex_locked_ws_def ex_job_def
                  New_def null_time_none_def)
  from deployment_counters_partition [OF this] show ?thesis by (simp add: ex_stats_db_def)
qed

end
