(* ===== verification/DbAuthz.thy ===== *)
theory DbAuthz
  imports DbOrgs
begin

text \<open>
  The authorization queries of the database fake
  (\<open>src/unnamed/part_005\<close>): the roles and groups of a user, as the RBAC
  layer reads them (\<open>GetAuthorizationUserRoles\<close>), and the authorized
  variant of the user listing (\<open>GetAuthorizedUsers\<close>).  Identifiers enter
  role and group names through \<open>uuid.UUID.String\<close>, the canonical
  36-character form of the 128-bit value.
\<close>

section \<open>The text of a UUID\<close>

definition hex_digit :: "nat \<Rightarrow> char" where
  "hex_digit d = (if d < 10 then char_of (48 + d) else char_of (87 + d))"

text \<open>The \<open>k\<close> lowest hexadecimal digits of \<open>n\<close>, most significant first.\<close>

primrec hex_fixed :: "nat \<Rightarrow> nat \<Rightarrow> string" where
  "hex_fixed 0 n = []"
| "hex_fixed (Suc k) n = hex_fixed k (n div 16) @ [hex_digit (n mod 16)]"

text \<open>\<open>uuid.UUID.String\<close>: 32 lowercase hexadecimal digits in groups of 8, 4, 4, 4 and 12.\<close>

definition uuid_string :: "uuid \<Rightarrow> string" where
  "uuid_string u =
     (let h = hex_fixed 32 (u mod 2 ^ 128)
      in take 8 h @ ''-'' @ take 4 (drop 8 h) @ ''-'' @ take 4 (drop 12 h) @ ''-'' @
         take 4 (drop 16 h) @ ''-'' @ drop 20 h)"

section \<open>Roles and users\<close>

text \<open>\<open>database.GetAuthorizationUserRolesRow\<close>.\<close>

record authorization_user_roles_row =
  aur_id :: uuid
  aur_username :: string
  aur_status :: user_status
  aur_roles :: "string list"
  aur_groups :: "string list"

text \<open>
  The user's site roles and \<open>member\<close>, then for each membership its roles
  and \<open>organization-member:\<close> with the organization's id; the groups by
  id.  A missing user is \<open>ErrNoRows\<close>, whatever its memberships.
\<close>

definition GetAuthorizationUserRoles :: "fake_db \<Rightarrow> uuid \<Rightarrow> string + authorization_user_roles_row" where
  "GetAuthorizationUserRoles db uid =
     (case find (\<lambda>u. usr_id u = uid) (db_users db) of
        None \<Rightarrow> Inl ErrNoRows
      | Some u \<Rightarrow>
          Inr \<lparr>aur_id = uid, aur_username = usr_username u, aur_status = usr_status u,
               aur_roles = usr_rbac_roles u @ [''member''] @
                 concat (map (\<lambda>m. om_roles m @ [''organization-member:'' @ uuid_string (om_organization_id m)])
                             (filter (\<lambda>m. om_user_id m = uid) (db_organization_members db))),
               aur_groups = map (\<lambda>m. uuid_string (gm_group_id m))
                              (filter (\<lambda>m. gm_user_id m = uid) (db_group_members db))\<rparr>)"

text \<open>
  \<open>GetAuthorizedUsers\<close>: the page \<open>GetUsers\<close> returns, less the users the
  prepared authorizer (when there is one) refuses; its SQL compilation is
  taken to succeed, as for \<open>GetAuthorizedTemplates\<close>.
\<close>

definition GetAuthorizedUsers ::
  "fake_db \<Rightarrow> get_users_params \<Rightarrow> (get_users_row \<Rightarrow> bool) option \<Rightarrow> get_users_row list" where
  "GetAuthorizedUsers db arg prepared =
     filter (\<lambda>u. case prepared of None \<Rightarrow> True | Some auth \<Rightarrow> auth u) (GetUsers db arg)"

section \<open>Lemmas\<close>

lemma length_hex_fixed [simp]: "length (hex_fixed k n) = k"
  by (induction k arbitrary: n) simp_all

lemma length_uuid_string: "length (uuid_string u) = 36"
  by (simp add: uuid_string_def Let_def)


lemma append_less_same_length:
  "length xs = length ys \<Longrightarrow> (xs @ zs < ys @ ws) \<longleftrightarrow> xs < ys \<or> xs = ys \<and> zs < (ws :: 'a :: linorder list)"
  by (induction xs ys rule: list_induct2) auto

text \<open>Digits, and fixed-width digit strings, order as the numbers they spell.\<close>

lemma hex_digit_less:
  assumes "d < 16" "e < 16"
  shows "hex_digit d < hex_digit e \<longleftrightarrow> d < e"
  using assms by (auto simp: hex_digit_def less_char_def)

lemma less_div_mod_16:
  "(n::nat) < m \<longleftrightarrow> n div 16 < m div 16 \<or> n div 16 = m div 16 \<and> n mod 16 < m mod 16"
proof -
  have "n = 16 * (n div 16) + n mod 16" "m = 16 * (m div 16) + m mod 16" "n mod 16 < 16" "m mod 16 < 16"
    by simp_all
  then show ?thesis by linarith
qed

lemma hex_fixed_less:
  "n < 16 ^ k \<Longrightarrow> m < 16 ^ k \<Longrightarrow> hex_fixed k n < hex_fixed k m \<longleftrightarrow> n < m"
proof (induction k arbitrary: n m)
  case 0
  then show ?case by simp
next
  case (Suc k)
  then have "n div 16 < 16 ^ k" "m div 16 < 16 ^ k" by (simp_all add: less_mult_imp_div_less mult.commute)
  with Suc.IH have "hex_fixed k (n div 16) < hex_fixed k (m div 16) \<longleftrightarrow> n div 16 < m div 16" by blast
  moreover have "hex_fixed k (n div 16) = hex_fixed k (m div 16) \<longleftrightarrow> n div 16 = m div 16"
    using Suc.IH [of "n div 16" "m div 16"] Suc.IH [of "m div 16" "n div 16"] \<open>n div 16 < 16 ^ k\<close> \<open>m div 16 < 16 ^ k\<close>
    by (metis less_irrefl linorder_neqE)
  ultimately show ?case
    by (simp add: append_less_same_length hex_digit_less less_div_mod_16 [of n m])
qed

lemma hex_fixed_inj:
  "n < 16 ^ k \<Longrightarrow> m < 16 ^ k \<Longrightarrow> hex_fixed k n = hex_fixed k m \<longleftrightarrow> n = m"
  using hex_fixed_less [of n k m] hex_fixed_less [of m k n] by (metis less_irrefl linorder_neqE)

lemma uuid_groups_join:
  "take 8 xs @ take 4 (drop 8 xs) @ take 4 (drop 12 xs) @ take 4 (drop 16 xs) @ drop 20 xs = xs"
proof -
  have e: "drop 20 xs = drop 4 (drop 16 xs)" "drop 16 xs = drop 4 (drop 12 xs)"
    "drop 12 xs = drop 4 (drop 8 xs)" by simp_all
  show ?thesis
    unfolding e(1) append_take_drop_id unfolding e(2) append_take_drop_id
    unfolding e(3) append_take_drop_id by simp
qed

text \<open>Dashes at the same places do not change the order of two strings of 32 digits.\<close>

lemma uuid_groups_less:
  assumes "length xs = 32" "length ys = 32"
  shows "take 8 xs @ ''-'' @ take 4 (drop 8 xs) @ ''-'' @ take 4 (drop 12 xs) @ ''-'' @ take 4 (drop 16 xs) @ ''-'' @ drop 20 xs
       < take 8 ys @ ''-'' @ take 4 (drop 8 ys) @ ''-'' @ take 4 (drop 12 ys) @ ''-'' @ take 4 (drop 16 ys) @ ''-'' @ drop 20 ys
       \<longleftrightarrow> xs < ys"
proof -
  have "xs < ys \<longleftrightarrow>
        take 8 xs @ take 4 (drop 8 xs) @ take 4 (drop 12 xs) @ take 4 (drop 16 xs) @ drop 20 xs
      < take 8 ys @ take 4 (drop 8 ys) @ take 4 (drop 12 ys) @ take 4 (drop 16 ys) @ drop 20 ys"
    by (simp only: uuid_groups_join)
  with assms show ?thesis by (simp add: append_less_same_length)
qed

lemma uuid_string_less:
  assumes "u < 2 ^ 128" "v < 2 ^ 128"
  shows "uuid_string u < uuid_string v \<longleftrightarrow> u < v"
proof -
  have "uuid_string u < uuid_string v \<longleftrightarrow> hex_fixed 32 (u mod 2 ^ 128) < hex_fixed 32 (v mod 2 ^ 128)"
    unfolding uuid_string_def Let_def by (rule uuid_groups_less) simp_all
  moreover have "u < 16 ^ 32" "v < 16 ^ 32" using assms by simp_all
  ultimately show ?thesis using assms by (simp add: hex_fixed_less)
qed

lemma uuid_string_le:
  "u < 2 ^ 128 \<Longrightarrow> v < 2 ^ 128 \<Longrightarrow> uuid_string u \<le> uuid_string v \<longleftrightarrow> u \<le> v"
  using uuid_string_less [of v u] by (simp add: not_less [symmetric])

text \<open>
  Sorting 128-bit identifiers by \<open>uuid.UUID.String\<close>, as the fake's
  comparators \<open>a.String() < b.String()\<close> do, is sorting them numerically.
\<close>

lemma sort_key_uuid_string:
  assumes "\<forall>u \<in> set ids. u < 2 ^ 128"
  shows "sort_key uuid_string ids = sort ids"
proof -
  have "sorted (map uuid_string (sort_key uuid_string ids))" by (rule sorted_sort_key)
  then have "sorted_wrt (\<lambda>x y. uuid_string x \<le> uuid_string y) (sort_key uuid_string ids)"
    by (simp add: sorted_wrt_map)
  then have "sorted (sort_key uuid_string ids)"
    by (rule sorted_wrt_mono_rel [rotated]) (use assms uuid_string_le in auto)
  then show ?thesis by (intro properties_for_sort [symmetric]) simp_all
qed

end
