(* ===== verification/CliDemo.thy ===== *)
theory CliDemo
  imports CliUI
begin

text \<open>
  Two more commands of the CLI demo program (\<open>src/cmd/cliui/main.go\<close>):
  the \<open>prompt\<close> handler, which chains three prompts and treats a
  cancellation differently on the last one, and the \<open>git-auth\<close> handler,
  whose goroutine marks GitHub and then GitLab authenticated while the
  widget polls \<open>Fetch\<close>, which reads the two flags one after the other.
  \<open>cliui.Prompt\<close> and \<open>cliui.GitAuth\<close> are library code: a prompt is its
  outcome, and the widget is any sequence of \<open>Fetch\<close> calls.
\<close>

section \<open>The prompt command\<close>

text \<open>The outcome of a \<open>cliui.Prompt\<close> call: an answer, \<open>cliui.Canceled\<close>, or another error.\<close>

datatype prompt_outcome = Answered string | PromptCanceled | PromptFailed string

text \<open>The message of \<open>cliui.Canceled\<close>.\<close>

definition canceled_message :: string where
  "canceled_message = ''canceled''"

text \<open>
  The handler's result (\<^const>\<open>None\<close> for \<open>nil\<close>) from the outcomes of the
  company-name prompt, the confirmation and the password prompt; a
  cancellation of one of the first two ends the command without error,
  the password prompt's error is returned as it is.
\<close>

definition prompt_handler :: "prompt_outcome \<Rightarrow> prompt_outcome \<Rightarrow> prompt_outcome \<Rightarrow> string option" where
  "prompt_handler o1 o2 o3 =
     (case o1 of
        PromptCanceled \<Rightarrow> None
      | PromptFailed e \<Rightarrow> Some e
      | Answered _ \<Rightarrow>
          (case o2 of
             PromptCanceled \<Rightarrow> None
           | PromptFailed e \<Rightarrow> Some e
           | Answered _ \<Rightarrow>
               (case o3 of
                  PromptCanceled \<Rightarrow> Some canceled_message
                | PromptFailed e \<Rightarrow> Some e
                | Answered _ \<Rightarrow> None)))"

section \<open>The git-auth command\<close>

text \<open>
  The shared state: the two atomic flags, the atomic fetch counter (an
  \<open>int32\<close>), the goroutine's position (\<open>0\<close> before the GitHub store,
  \<open>1\<close> between the stores, \<open>2\<close> done), the position of the fetch in
  progress (the GitHub flag it has read), and the results fetched so far
  as pairs (GitHub authenticated, GitLab authenticated).
\<close>

record git_auth_state =
  ga_github :: bool
  ga_gitlab :: bool
  ga_count :: "32 word"
  ga_routine :: nat
  ga_fetch :: "bool option"
  ga_results :: "(bool \<times> bool) list"

definition git_auth_init :: git_auth_state where
  "git_auth_init = \<lparr>ga_github = False, ga_gitlab = False, ga_count = 0, ga_routine = 0, ga_fetch = None,
                    ga_results = []\<rparr>"

text \<open>
  The steps: the goroutine's two stores (the sleeps before them only
  delay them), and a \<open>Fetch\<close> as its two atomic loads, with any steps of
  the goroutine between them; the increment of the counter goes with the
  first load, since nothing reads the counter.
\<close>

inductive git_auth_step :: "git_auth_state \<Rightarrow> git_auth_state \<Rightarrow> bool" where
  store_github: "ga_routine s = 0 \<Longrightarrow> git_auth_step s (s\<lparr>ga_github := True, ga_routine := 1\<rparr>)"
| store_gitlab: "ga_routine s = 1 \<Longrightarrow> git_auth_step s (s\<lparr>ga_gitlab := True, ga_routine := 2\<rparr>)"
| fetch_github: "ga_fetch s = None \<Longrightarrow>
                   git_auth_step s (s\<lparr>ga_count := ga_count s + 1, ga_fetch := Some (ga_github s)\<rparr>)"
| fetch_gitlab: "ga_fetch s = Some g \<Longrightarrow>
                   git_auth_step s (s\<lparr>ga_fetch := None, ga_results := ga_results s @ [(g, ga_gitlab s)]\<rparr>)"

inductive git_auth_reach :: "git_auth_state \<Rightarrow> bool" where
  init: "git_auth_reach git_auth_init"
| step: "git_auth_reach s \<Longrightarrow> git_auth_step s s' \<Longrightarrow> git_auth_reach s'"

inductive_cases git_auth_stepE: "git_auth_step s s'"

text \<open>The goroutine stores GitHub before GitLab, so the flags themselves are ordered.\<close>

definition git_auth_inv :: "git_auth_state \<Rightarrow> bool" where
  "git_auth_inv s \<longleftrightarrow>
     ga_routine s \<le> 2 \<and> (ga_github s \<longleftrightarrow> 1 \<le> ga_routine s) \<and> (ga_gitlab s \<longleftrightarrow> ga_routine s = 2) \<and>
     (\<forall>g. ga_fetch s = Some g \<longrightarrow> (g \<longrightarrow> ga_github s))"

section \<open>Lemmas\<close>

lemma git_auth_inv_init: "git_auth_inv git_auth_init"
  by (simp add: git_auth_inv_def git_auth_init_def)

lemma git_auth_inv_step: "git_auth_inv s \<Longrightarrow> git_auth_step s s' \<Longrightarrow> git_auth_inv s'"
  by (erule git_auth_stepE) (auto simp: git_auth_inv_def)

lemma git_auth_reach_inv: "git_auth_reach s \<Longrightarrow> git_auth_inv s"
  by (induction rule: git_auth_reach.induct) (auto intro: git_auth_inv_init git_auth_inv_step)

text \<open>A cancellation ends the command without error except on the password prompt.\<close>

lemma prompt_cancel_results:
  "prompt_handler PromptCanceled o2 o3 = None \<and> prompt_handler (Answered a) PromptCanceled o3 = None \<and>
   prompt_handler (Answered a) (Answered b) PromptCanceled = Some canceled_message"
  by (simp add: prompt_handler_def)

text \<open>The goroutine can always be run to its end.\<close>

lemma git_auth_finish_routine:
  assumes "git_auth_inv s"
  shows "git_auth_step\<^sup>*\<^sup>* s (s\<lparr>ga_github := True, ga_gitlab := True, ga_routine := 2\<rparr>)"
proof -
  consider "ga_routine s = 0" | "ga_routine s = 1" | "ga_routine s = 2"
    using assms by (auto simp: git_auth_inv_def)
  then show ?thesis
  proof cases
    case 1
    then have "git_auth_step s (s\<lparr>ga_github := True, ga_routine := 1\<rparr>)" by (rule store_github)
    moreover have "git_auth_step (s\<lparr>ga_github := True, ga_routine := 1\<rparr>)
                     (s\<lparr>ga_github := True, ga_gitlab := True, ga_routine := 2\<rparr>)"
      using store_gitlab [of "s\<lparr>ga_github := True, ga_routine := 1\<rparr>"] by simp
    ultimately show ?thesis by (rule converse_rtranclp_into_rtranclp [OF _ r_into_rtranclp])
  next
    case 2
    then have "ga_github s" using assms by (simp add: git_auth_inv_def)
    then have "s\<lparr>ga_github := True, ga_gitlab := True, ga_routine := 2\<rparr> = s\<lparr>ga_gitlab := True, ga_routine := 2\<rparr>"
      by simp
    with 2 show ?thesis using store_gitlab [of s] by simp
  next
    case 3
    then have "s\<lparr>ga_github := True, ga_gitlab := True, ga_routine := 2\<rparr> = s"
      using assms by (simp add: git_auth_inv_def)
    then show ?thesis by simp
  qed
qed

text \<open>A fetch in progress can always be completed.\<close>

lemma git_auth_finish_fetch:
  "\<exists>s'. git_auth_step\<^sup>*\<^sup>* s s' \<and> ga_fetch s' = None \<and> ga_github s' = ga_github s \<and>
        ga_gitlab s' = ga_gitlab s \<and> ga_routine s' = ga_routine s"
proof (cases "ga_fetch s")
  case (Some g)
  then have "git_auth_step s (s\<lparr>ga_fetch := None, ga_results := ga_results s @ [(g, ga_gitlab s)]\<rparr>)"
    by (rule fetch_gitlab)
  then show ?thesis by (intro exI [of _ "s\<lparr>ga_fetch := None, ga_results := ga_results s @ [(g, ga_gitlab s)]\<rparr>"]) auto
qed auto

section \<open>Properties of the git-auth command\<close>

text \<open>
  C37.  Although the goroutine stores GitHub's flag before GitLab's, so
  that no reachable state has GitLab authenticated without GitHub, a
  \<open>Fetch\<close> can return GitLab authenticated and GitHub not: its load of
  GitHub's flag can come before both stores and its load of GitLab's after.
\<close>

theorem git_auth_fetch_race:
  "(\<forall>s. git_auth_reach s \<longrightarrow> (ga_gitlab s \<longrightarrow> ga_github s)) \<and>
   (\<exists>s. git_auth_reach s \<and> (False, True) \<in> set (ga_results s))"
proof
  show "\<forall>s. git_auth_reach s \<longrightarrow> (ga_gitlab s \<longrightarrow> ga_github s)"
    using git_auth_reach_inv by (auto simp: git_auth_inv_def)
next
  define s1 where "s1 = git_auth_init\<lparr>ga_count := 1, ga_fetch := Some False\<rparr>"
  define s2 where "s2 = s1\<lparr>ga_github := True, ga_routine := 1\<rparr>"
  define s3 where "s3 = s2\<lparr>ga_gitlab := True, ga_routine := 2\<rparr>"
  define s4 where "s4 = s3\<lparr>ga_fetch := None, ga_results := [(False, True)]\<rparr>"
  have "git_auth_step git_auth_init s1"
    using fetch_github [of git_auth_init] by (simp add: s1_def git_auth_init_def)
  then have r1: "git_auth_reach s1" by (rule git_auth_reach.step [OF git_auth_reach.init])
  have "git_auth_step s1 s2" using store_github [of s1] by (simp add: s1_def s2_def git_auth_init_def)
  with r1 have r2: "git_auth_reach s2" by (rule git_auth_reach.step)
  have "git_auth_step s2 s3" using store_gitlab [of s2] by (simp add: s1_def s2_def s3_def git_auth_init_def)
  with r2 have r3: "git_auth_reach s3" by (rule git_auth_reach.step)
  have "git_auth_step s3 s4"
    using fetch_gitlab [of s3 False] by (simp add: s1_def s2_def s3_def s4_def git_auth_init_def)
  with r3 have "git_auth_reach s4" by (rule git_auth_reach.step)
  then show "\<exists>s. git_auth_reach s \<and> (False, True) \<in> set (ga_results s)"
    by (intro exI [of _ s4]) (simp add: s4_def)
qed

theorem git_auth_fetch_race_witness:
  "git_auth_reach (git_auth_init\<lparr>ga_github := True, ga_routine := 1, ga_gitlab := True, ga_routine := 2\<rparr>) \<and>
   ga_github (git_auth_init\<lparr>ga_github := True, ga_routine := 1, ga_gitlab := True, ga_routine := 2\<rparr>)"
proof -
  let ?s1 = "git_auth_init\<lparr>ga_github := True, ga_routine := 1\<rparr>"
  let ?s2 = "?s1\<lparr>ga_gitlab := True, ga_routine := 2\<rparr>"
  have "git_auth_reach ?s1"
    using git_auth_reach.step [OF git_auth_reach.init store_github [of git_auth_init]]
    by (simp add: git_auth_init_def)
  then have r: "git_auth_reach ?s2"
    using git_auth_reach.step [OF _ store_gitlab [of ?s1]] by simp
  moreover have "ga_gitlab ?s2" by simp
  ultimately have "ga_github ?s2" using git_auth_fetch_race by blast
  with r show ?thesis by simp
qed

text \<open>
  C38.  Whatever has happened so far, the goroutine can finish and a
  \<open>Fetch\<close> then returns both providers authenticated, so the widget's
  polling can end.
\<close>

theorem git_auth_can_finish:
  assumes r: "git_auth_reach s"
  shows "\<exists>s'. git_auth_step\<^sup>*\<^sup>* s s' \<and> ga_results s' \<noteq> [] \<and> last (ga_results s') = (True, True)"
proof -
  obtain s1 where p1: "git_auth_step\<^sup>*\<^sup>* s s1" and f1: "ga_fetch s1 = None"
    and e1: "ga_github s1 = ga_github s" "ga_gitlab s1 = ga_gitlab s" "ga_routine s1 = ga_routine s"
    using git_auth_finish_fetch by blast
  have "git_auth_inv s1"
    using git_auth_reach_inv [OF r] f1 e1 by (simp add: git_auth_inv_def)
  then have p2: "git_auth_step\<^sup>*\<^sup>* s1 (s1\<lparr>ga_github := True, ga_gitlab := True, ga_routine := 2\<rparr>)"
    by (rule git_auth_finish_routine)
  define s2 where "s2 = s1\<lparr>ga_github := True, ga_gitlab := True, ga_routine := 2\<rparr>"
  define s3 where "s3 = s2\<lparr>ga_count := ga_count s2 + 1, ga_fetch := Some True\<rparr>"
  define s4 where "s4 = s3\<lparr>ga_fetch := None, ga_results := ga_results s3 @ [(True, True)]\<rparr>"
  have "git_auth_step s2 s3" using fetch_github [of s2] f1 by (simp add: s2_def s3_def)
  moreover have "git_auth_step s3 s4" using fetch_gitlab [of s3 True] by (simp add: s2_def s3_def s4_def)
  ultimately have "git_auth_step\<^sup>*\<^sup>* s2 s4" by simp
  with p1 p2 have "git_auth_step\<^sup>*\<^sup>* s s4" unfolding s2_def by simp
  then show ?thesis by (intro exI [of _ s4]) (simp add: s4_def)
qed

theorem git_auth_can_finish_witness:
  "\<exists>s'. git_auth_step\<^sup>*\<^sup>* git_auth_init s' \<and> ga_results s' \<noteq> [] \<and> last (ga_results s') = (True, True)"
  using git_auth_can_finish [OF git_auth_reach.init] .

end
