(* ===== verification/RemovedEndpoints.thy ===== *)
theory RemovedEndpoints
  imports Legacy
begin

text \<open>
  The removed HTTP endpoints at the top of \<open>src/coderd/deprecated.go\<close>
  (package \<open>coderd\<close>): the parameter and schema endpoints of a template
  version answer \<open>200\<close> with an empty JSON list (\<open>[]struct{}{}\<close>, a list of
  units here) whatever the request; the two agent-log endpoints delegate
  to handlers that are not under \<open>src/\<close> and are not modelled.
\<close>

definition templateVersionParametersDeprecated :: "unit list http_reply" where
  "templateVersionParametersDeprecated = HttpJson 200 []"

definition templateVersionSchemaDeprecated :: "unit list http_reply" where
  "templateVersionSchemaDeprecated = HttpJson 200 []"

end
