(* ===== verification/DbInsights.thy ===== *)
theory DbInsights
  imports DbAgentStats DbAuthz "HOL-Library.AList"
begin

text \<open>
  The insight queries of the database fake (\<open>src/unnamed/part_005\<close>):
  daily active users, the template's build-time percentiles, the daily and
  summary template insights, the parameter insights and the users'
  latency insights.  Go maps are association lists in first-insertion
  order; a map used as a set is a list without duplicates.  Where the
  code sorts by \<open>uuid.UUID.String\<close>, the model does too
  (\<^const>\<open>uuid_string\<close>); \<open>sort_key_uuid_string\<close> shows this is the
  numeric order on 128-bit values.  Calendar days are 24 hours, as
  \<open>AddDate(0, 0, 1)\<close> gives in UTC.
\<close>

section \<open>Daily active users\<close>

definition day :: duration where
  "day = 24 * hour"

text \<open>
  The date of a statistic: \<open>CreatedAt.UTC().Add(time.Duration(tzOffset) * -1 * time.Hour).Truncate(24h)\<close>;
  the product is an \<open>int64\<close> one.  Truncation counts from Go's zero time,
  the origin of \<^typ>\<open>time\<close>.
\<close>

definition dau_date :: "int \<Rightarrow> time \<Rightarrow> time" where
  "dau_date tzOffset t = time_truncate (t + wrap_int64 (tzOffset * -1 * hour)) day"

text \<open>\<open>seens[date][userID] = struct{}{}\<close>, the inner map created on first use.\<close>

definition dau_add :: "(time \<times> uuid list) list \<Rightarrow> time \<Rightarrow> uuid \<Rightarrow> (time \<times> uuid list) list" where
  "dau_add seens date u =
     AList.update date (List.insert u (case map_of seens date of None \<Rightarrow> [] | Some us \<Rightarrow> us)) seens"

definition dau_seens :: "int \<Rightarrow> workspace_agent_stat list \<Rightarrow> (time \<times> uuid list) list" where
  "dau_seens tzOffset stats =
     foldl (\<lambda>seens s. dau_add seens (dau_date tzOffset (was_created_at s)) (was_user_id s)) [] stats"

text \<open>The dates in order (\<open>sort.Slice\<close> with \<open>Before\<close>; the keys are distinct), each with its users.\<close>

definition dau_rows :: "(time \<times> uuid list) list \<Rightarrow> (time \<times> uuid) list" where
  "dau_rows seens = concat (map (\<lambda>(d, ids). map (Pair d) ids) (sort_key fst seens))"

text \<open>\<open>GetDeploymentDAUs\<close>: the statistics with a connection; rows are \<open>(Date, UserID)\<close>.\<close>

definition GetDeploymentDAUs :: "fake_db \<Rightarrow> int \<Rightarrow> (time \<times> uuid) list" where
  "GetDeploymentDAUs db tzOffset =
     dau_rows (dau_seens tzOffset (filter (\<lambda>s. was_connection_count s \<noteq> 0) (db_workspace_agent_stats db)))"

definition GetTemplateDAUs :: "fake_db \<Rightarrow> uuid \<Rightarrow> int \<Rightarrow> (time \<times> uuid) list" where
  "GetTemplateDAUs db templateID tzOffset =
     dau_rows (dau_seens tzOffset
       (filter (\<lambda>s. was_template_id s = templateID \<and> was_connection_count s \<noteq> 0) (db_workspace_agent_stats db)))"

section \<open>Average build time\<close>

text \<open>\<open>database.GetTemplateAverageBuildTimeRow\<close>, in seconds.\<close>

record template_average_build_time_row =
  abt_start50 :: real
  abt_start95 :: real
  abt_stop50 :: real
  abt_stop95 :: real
  abt_delete50 :: real
  abt_delete95 :: real

text \<open>\<open>job.CompletedAt.Time.Sub(job.StartedAt.Time).Seconds()\<close>: the saturating difference, in seconds.\<close>

definition job_seconds :: "provisioner_job \<Rightarrow> real" where
  "job_seconds j = real_of_int (time_sub (nt_time (pj_completed_at j)) (nt_time (pj_started_at j))) / real_of_int second"

text \<open>The \<open>switch wb.Transition\<close>: the duration joins the start, stop or delete times.\<close>

definition add_build_time ::
  "workspace_transition \<Rightarrow> real \<Rightarrow> real list \<times> real list \<times> real list \<Rightarrow> real list \<times> real list \<times> real list" where
  "add_build_time tr took acc =
     (case acc of (starts, stops, deletes) \<Rightarrow>
        (case tr of
           WorkspaceTransitionStart \<Rightarrow> (starts @ [took], stops, deletes)
         | WorkspaceTransitionStop \<Rightarrow> (starts, stops @ [took], deletes)
         | WorkspaceTransitionDelete \<Rightarrow> (starts, stops, deletes @ [took])))"

text \<open>
  The loop over all builds: a build whose version is missing fails the
  query whatever its template; a missing job fails it only for a build of
  the template; an unfinished job is skipped.
\<close>

primrec build_time_scan ::
  "fake_db \<Rightarrow> null_uuid \<Rightarrow> workspace_build list \<Rightarrow> real list \<times> real list \<times> real list
   \<Rightarrow> string + real list \<times> real list \<times> real list" where
  "build_time_scan db templateID [] acc = Inr acc"
| "build_time_scan db templateID (wb # wbs) acc =
     (case getTemplateVersionByIDNoLock db (wb_template_version_id wb) of
        None \<Rightarrow> Inl ErrNoRows
      | Some v \<Rightarrow>
          if tv_template_id (tvu_version v) \<noteq> templateID then build_time_scan db templateID wbs acc
          else (case getProvisionerJobByID db (wb_job_id wb) of
                  None \<Rightarrow> Inl ErrNoRows
                | Some j \<Rightarrow>
                    build_time_scan db templateID wbs
                      (if nt_valid (pj_completed_at j) then add_build_time (wb_transition wb) (job_seconds j) acc
                       else acc)))"

definition GetTemplateAverageBuildTime :: "fake_db \<Rightarrow> null_uuid \<Rightarrow> string + template_average_build_time_row" where
  "GetTemplateAverageBuildTime db templateID =
     (case build_time_scan db templateID (db_builds db) ([], [], []) of
        Inl e \<Rightarrow> Inl e
      | Inr (starts, stops, deletes) \<Rightarrow>
          Inr \<lparr>abt_start50 = tryPercentile starts 50, abt_start95 = tryPercentile starts 95,
               abt_stop50 = tryPercentile stops 50, abt_stop95 = tryPercentile stops 95,
               abt_delete50 = tryPercentile deletes 50, abt_delete95 = tryPercentile deletes 95\<rparr>)"

section \<open>Windows and parameters\<close>

text \<open>
  The parameters the four range insights share
  (\<open>GetTemplateInsightsParams\<close>, \<open>GetTemplateDailyInsightsParams\<close>,
  \<open>GetTemplateParameterInsightsParams\<close>, \<open>GetUserLatencyInsightsParams\<close>):
  an empty template list means every template.
\<close>

record insights_params =
  ip_start_time :: time
  ip_end_time :: time
  ip_template_ids :: "uuid list"

text \<open>\<open>t.Before(start) || t.Equal(end) || t.After(end)\<close>: outside the half-open window \<open>[start, end)\<close>.\<close>

definition outside_window :: "time \<Rightarrow> time \<Rightarrow> time \<Rightarrow> bool" where
  "outside_window startTime endTime t \<longleftrightarrow> time_before t startTime \<or> t = endTime \<or> time_after t endTime"

definition template_selected :: "uuid list \<Rightarrow> uuid \<Rightarrow> bool" where
  "template_selected templateIDs t \<longleftrightarrow> templateIDs = [] \<or> t \<in> set templateIDs"

text \<open>The statistics the daily and summary template insights count.\<close>

definition insight_stat :: "insights_params \<Rightarrow> workspace_agent_stat \<Rightarrow> bool" where
  "insight_stat arg s \<longleftrightarrow>
     \<not> outside_window (ip_start_time arg) (ip_end_time arg) (was_created_at s) \<and>
     template_selected (ip_template_ids arg) (was_template_id s) \<and> was_connection_count s \<noteq> 0"

section \<open>Daily insights\<close>

text \<open>
  The day windows: \<open>[start, start + 1 day)\<close>, then while the last one
  ends before \<open>EndTime\<close> the next day; the loop ends because each step
  moves the end a day closer.
\<close>

function daily_windows :: "time \<Rightarrow> time \<Rightarrow> (time \<times> time) list" where
  "daily_windows s e = (if time_before (s + day) e then (s, s + day) # daily_windows (s + day) e else [(s, s + day)])"
  by pat_completeness auto
termination
  by (relation "measure (\<lambda>(s, e). nat (e - s))") (auto simp: time_before_def day_def hour_def minute_def second_def)

text \<open>The last window is cut at \<open>EndTime\<close> when it ends after it.\<close>

definition daily_windows_clipped :: "time \<Rightarrow> time \<Rightarrow> (time \<times> time) list" where
  "daily_windows_clipped s e =
     (let ws = daily_windows s e
      in if time_after (snd (last ws)) e then butlast ws @ [(fst (last ws), e)] else ws)"

text \<open>A \<open>dailyStat\<close>: its window and the sets of users and templates seen in it.\<close>

record daily_stat =
  ds_start :: time
  ds_end :: time
  ds_users :: "uuid list"
  ds_templates :: "uuid list"

text \<open>\<open>ds.userSet[s.UserID]\<close> and \<open>ds.templateIDSet[s.TemplateID]\<close> set.\<close>

definition daily_put :: "workspace_agent_stat \<Rightarrow> daily_stat \<Rightarrow> daily_stat" where
  "daily_put s ds =
     ds\<lparr>ds_users := List.insert (was_user_id s) (ds_users ds),
        ds_templates := List.insert (was_template_id s) (ds_templates ds)\<rparr>"

text \<open>The inner loop: the first window holding the statistic takes its user and template, then \<open>break\<close>.\<close>

primrec add_daily :: "workspace_agent_stat \<Rightarrow> daily_stat list \<Rightarrow> daily_stat list" where
  "add_daily s [] = []"
| "add_daily s (ds # dss) =
     (if outside_window (ds_start ds) (ds_end ds) (was_created_at s) then ds # add_daily s dss
      else daily_put s ds # dss)"

text \<open>\<open>database.GetTemplateDailyInsightsRow\<close>.\<close>

record daily_insights_row =
  dir_start_time :: time
  dir_end_time :: time
  dir_template_ids :: "uuid list"
  dir_active_users :: int

definition daily_row :: "daily_stat \<Rightarrow> daily_insights_row" where
  "daily_row ds =
     \<lparr>dir_start_time = ds_start ds, dir_end_time = ds_end ds,
      dir_template_ids = sort_key uuid_string (ds_templates ds), dir_active_users = int (length (ds_users ds))\<rparr>"

definition GetTemplateDailyInsights :: "fake_db \<Rightarrow> insights_params \<Rightarrow> daily_insights_row list" where
  "GetTemplateDailyInsights db arg =
     map daily_row
       (foldl (\<lambda>dss s. if insight_stat arg s then add_daily s dss else dss)
          (map (\<lambda>(a, b). \<lparr>ds_start = a, ds_end = b, ds_users = [], ds_templates = []\<rparr>)
             (daily_windows_clipped (ip_start_time arg) (ip_end_time arg)))
          (db_workspace_agent_stats db))"

section \<open>Template insights\<close>

text \<open>\<open>database.GetTemplateInsightsRow\<close>; the same struct holds one five-minute interval of a user.\<close>

record template_insights_row =
  ti_template_ids :: "uuid list"
  ti_active_users :: int
  ti_usage_vscode_seconds :: int
  ti_usage_jetbrains_seconds :: int
  ti_usage_reconnecting_pty_seconds :: int
  ti_usage_ssh_seconds :: int

definition empty_insights_row :: template_insights_row where
  "empty_insights_row =
     \<lparr>ti_template_ids = [], ti_active_users = 0, ti_usage_vscode_seconds = 0, ti_usage_jetbrains_seconds = 0,
      ti_usage_reconnecting_pty_seconds = 0, ti_usage_ssh_seconds = 0\<rparr>"

text \<open>A session of a kind in the interval sets its usage to 300 seconds.\<close>

definition mark_usage :: "workspace_agent_stat \<Rightarrow> template_insights_row \<Rightarrow> template_insights_row" where
  "mark_usage s iv =
     iv\<lparr>ti_usage_jetbrains_seconds := (if 0 < was_session_count_jetbrains s then 300 else ti_usage_jetbrains_seconds iv),
        ti_usage_vscode_seconds := (if 0 < was_session_count_vscode s then 300 else ti_usage_vscode_seconds iv),
        ti_usage_reconnecting_pty_seconds :=
          (if 0 < was_session_count_reconnecting_pty s then 300 else ti_usage_reconnecting_pty_seconds iv),
        ti_usage_ssh_seconds := (if 0 < was_session_count_ssh s then 300 else ti_usage_ssh_seconds iv)\<rparr>"

text \<open>\<open>appUsageIntervalsByUser[userID][CreatedAt.Truncate(5 * time.Minute)]\<close>, created on first use.\<close>

definition app_usage_add ::
  "(uuid \<times> (time \<times> template_insights_row) list) list \<Rightarrow> workspace_agent_stat
   \<Rightarrow> (uuid \<times> (time \<times> template_insights_row) list) list" where
  "app_usage_add m s =
     (let ivs = (case map_of m (was_user_id s) of None \<Rightarrow> [] | Some ivs \<Rightarrow> ivs);
          t = time_truncate (was_created_at s) (5 * minute);
          iv = (case map_of ivs t of None \<Rightarrow> empty_insights_row | Some iv \<Rightarrow> iv)
      in AList.update (was_user_id s) (AList.update t (mark_usage s iv) ivs) m)"

definition GetTemplateInsights :: "fake_db \<Rightarrow> insights_params \<Rightarrow> template_insights_row" where
  "GetTemplateInsights db arg =
     (let stats = filter (insight_stat arg) (db_workspace_agent_stats db);
          templateIDs = foldl (\<lambda>ts s. List.insert (was_template_id s) ts) [] stats;
          m = foldl app_usage_add [] stats;
          ivs = concat (map (map snd \<circ> snd) m)
      in \<lparr>ti_template_ids = sort_key uuid_string templateIDs, ti_active_users = int (length m),
          ti_usage_vscode_seconds = sum_int64 (map ti_usage_vscode_seconds ivs),
          ti_usage_jetbrains_seconds = sum_int64 (map ti_usage_jetbrains_seconds ivs),
          ti_usage_reconnecting_pty_seconds = sum_int64 (map ti_usage_reconnecting_pty_seconds ivs),
          ti_usage_ssh_seconds = sum_int64 (map ti_usage_ssh_seconds ivs)\<rparr>)"


section \<open>Parameter insights\<close>

text \<open>
  \<open>latestWorkspaceBuilds\<close>: per workspace, the build of the window with
  the greatest number (the first of equal numbers); an absent workspace
  reads as the zero build, numbered \<open>0\<close>.
\<close>

definition latest_builds_add :: "(uuid \<times> workspace_build) list \<Rightarrow> workspace_build \<Rightarrow> (uuid \<times> workspace_build) list" where
  "latest_builds_add m wb =
     (if (case map_of m (wb_workspace_id wb) of None \<Rightarrow> 0 | Some b \<Rightarrow> wb_build_number b) < wb_build_number wb
      then AList.update (wb_workspace_id wb) wb m else m)"

text \<open>
  With a template list: for each workspace of the map, a missing workspace
  fails the query, and a workspace whose template \<^emph>\<open>is\<close> in the list
  is deleted from the map.
\<close>

primrec drop_template_builds ::
  "fake_db \<Rightarrow> uuid list \<Rightarrow> uuid list \<Rightarrow> (uuid \<times> workspace_build) list \<Rightarrow> string + (uuid \<times> workspace_build) list" where
  "drop_template_builds db templateIDs [] m = Inr m"
| "drop_template_builds db templateIDs (wsID # wsIDs) m =
     (case getWorkspaceByID db wsID of
        None \<Rightarrow> Inl ErrNoRows
      | Some ws \<Rightarrow>
          drop_template_builds db templateIDs wsIDs
            (if ws_template_id ws \<in> set templateIDs then AList.delete wsID m else m))"

text \<open>\<open>database.GetTemplateParameterInsightsRow\<close>; the same struct collects a unique parameter.\<close>

record template_parameter_insights_row =
  tpi_num :: int
  tpi_template_ids :: "uuid list"
  tpi_name :: string
  tpi_display_name :: string
  tpi_description :: string
  tpi_options :: string
  tpi_value :: string
  tpi_count :: int

text \<open>\<open>fmt.Sprintf("%s:%s:%s:%s", Name, DisplayName, Description, Options)\<close>.\<close>

definition param_key :: "template_version_parameter \<Rightarrow> string" where
  "param_key p = tvp_name p @ '':'' @ tvp_display_name p @ '':'' @ tvp_description p @ '':'' @ tvp_options p"

type_synonym unique_params =
  "int \<times> (string \<times> template_parameter_insights_row) list \<times> (string \<times> uuid list) list"

text \<open>
  One parameter of a build's version: a new key takes the next number;
  the version's template and the build's id are appended under the key.
\<close>

definition add_unique_param :: "uuid \<Rightarrow> uuid \<Rightarrow> unique_params \<Rightarrow> template_version_parameter \<Rightarrow> unique_params" where
  "add_unique_param templateID buildID acc tvp =
     (case acc of (num, utps, bids) \<Rightarrow>
        let key = param_key tvp;
            num' = (if map_of utps key = None then num + 1 else num);
            utp = (case map_of utps key of
                     None \<Rightarrow> \<lparr>tpi_num = num', tpi_template_ids = [], tpi_name = tvp_name tvp,
                              tpi_display_name = tvp_display_name tvp, tpi_description = tvp_description tvp,
                              tpi_options = tvp_options tvp, tpi_value = [], tpi_count = 0\<rparr>
                   | Some u \<Rightarrow> u)
        in (num', AList.update key (utp\<lparr>tpi_template_ids := tpi_template_ids utp @ [templateID]\<rparr>) utps,
            AList.update key ((case map_of bids key of None \<Rightarrow> [] | Some b \<Rightarrow> b) @ [buildID]) bids))"

primrec unique_template_params :: "fake_db \<Rightarrow> workspace_build list \<Rightarrow> unique_params \<Rightarrow> string + unique_params" where
  "unique_template_params db [] acc = Inr acc"
| "unique_template_params db (wb # wbs) acc =
     (case getTemplateVersionByIDNoLock db (wb_template_version_id wb) of
        None \<Rightarrow> Inl ErrNoRows
      | Some tv \<Rightarrow>
          unique_template_params db wbs
            (foldl (add_unique_param (nu_uuid (tv_template_id (tvu_version tv))) (wb_id wb)) acc
               (filter (\<lambda>p. tvp_template_version_id p = tv_id (tvu_version tv)) (db_template_version_parameters db))))"

text \<open>\<open>counts[key][value]++\<close> over the build parameters of the key's builds with the parameter's name.\<close>

definition param_value_counts :: "fake_db \<Rightarrow> uuid list \<Rightarrow> string \<Rightarrow> (string \<times> int) list" where
  "param_value_counts db buildIDs name =
     foldl (\<lambda>c wbp. if wbp_workspace_build_id wbp \<in> set buildIDs \<and> wbp_name wbp = name
                    then AList.update (wbp_value wbp) ((case map_of c (wbp_value wbp) of None \<Rightarrow> 0 | Some n \<Rightarrow> n) + 1) c
                    else c)
       [] (db_workspace_build_parameters db)"

text \<open>\<open>uniqueSortedUUIDs\<close>.\<close>

definition uniqueSortedUUIDs :: "uuid list \<Rightarrow> uuid list" where
  "uniqueSortedUUIDs ids = sort_key uuid_string (remdups ids)"

definition param_insight_rows ::
  "fake_db \<Rightarrow> (string \<times> template_parameter_insights_row) list \<Rightarrow> (string \<times> uuid list) list
   \<Rightarrow> template_parameter_insights_row list" where
  "param_insight_rows db utps bids =
     concat (map (\<lambda>(key, utp).
                    map (\<lambda>(v, n). utp\<lparr>tpi_template_ids := uniqueSortedUUIDs (tpi_template_ids utp),
                                       tpi_value := v, tpi_count := n\<rparr>)
                      (param_value_counts db (case map_of bids key of None \<Rightarrow> [] | Some b \<Rightarrow> b) (tpi_name utp)))
                 utps)"

definition GetTemplateParameterInsights ::
  "fake_db \<Rightarrow> insights_params \<Rightarrow> string + template_parameter_insights_row list" where
  "GetTemplateParameterInsights db arg =
     (let latest = foldl latest_builds_add []
                     (filter (\<lambda>wb. \<not> outside_window (ip_start_time arg) (ip_end_time arg) (wb_created_at wb))
                        (db_builds db))
      in case (if ip_template_ids arg = [] then Inr latest
               else drop_template_builds db (ip_template_ids arg) (map fst latest) latest) of
           Inl e \<Rightarrow> Inl e
         | Inr latest' \<Rightarrow>
             (case unique_template_params db (map snd latest') (0, [], []) of
                Inl e \<Rightarrow> Inl e
              | Inr (num, utps, bids) \<Rightarrow> Inr (param_insight_rows db utps bids)))"

section \<open>User latency insights\<close>

text \<open>
  The statistics the latency insights count: those of the window
  \<^emph>\<open>closed\<close> at both ends (\<open>!StartTime.Equal(t) && (t.Before(StartTime) || t.After(EndTime))\<close>
  skips), with a connection and a positive median latency.
\<close>

definition latency_stat :: "insights_params \<Rightarrow> workspace_agent_stat \<Rightarrow> bool" where
  "latency_stat arg s \<longleftrightarrow>
     template_selected (ip_template_ids arg) (was_template_id s) \<and>
     \<not> (ip_start_time arg \<noteq> was_created_at s \<and>
        (time_before (was_created_at s) (ip_start_time arg) \<or> time_after (was_created_at s) (ip_end_time arg))) \<and>
     was_connection_count s \<noteq> 0 \<and> 0 < was_connection_median_latency_ms s"

text \<open>\<open>database.GetUserLatencyInsightsRow\<close>.\<close>

record user_latency_row =
  ulr_user_id :: uuid
  ulr_username :: string
  ulr_avatar_url :: null_string
  ulr_template_ids :: "uuid list"
  ulr_latency50 :: real
  ulr_latency95 :: real

definition latency_add ::
  "(uuid \<times> real list) list \<times> (uuid \<times> uuid list) list \<Rightarrow> workspace_agent_stat
   \<Rightarrow> (uuid \<times> real list) list \<times> (uuid \<times> uuid list) list" where
  "latency_add acc s =
     (case acc of (lat, seen) \<Rightarrow>
        (AList.update (was_user_id s)
           ((case map_of lat (was_user_id s) of None \<Rightarrow> [] | Some l \<Rightarrow> l) @ [was_connection_median_latency_ms s]) lat,
         AList.update (was_user_id s)
           (List.insert (was_template_id s) (case map_of seen (was_user_id s) of None \<Rightarrow> [] | Some t \<Rightarrow> t)) seen))"

text \<open>One row per user in map order; a user missing from the table fails the query.\<close>

primrec latency_rows ::
  "fake_db \<Rightarrow> (uuid \<times> uuid list) list \<Rightarrow> (uuid \<times> real list) list \<Rightarrow> string + user_latency_row list" where
  "latency_rows db seen [] = Inr []"
| "latency_rows db seen (ul # uls) =
     (case getUserByIDNoLock db (fst ul) of
        None \<Rightarrow> Inl ErrNoRows
      | Some u \<Rightarrow>
          (case latency_rows db seen uls of
             Inl e \<Rightarrow> Inl e
           | Inr rows \<Rightarrow>
               Inr (\<lparr>ulr_user_id = fst ul, ulr_username = usr_username u, ulr_avatar_url = usr_avatar_url u,
                     ulr_template_ids =
                       sort_key uuid_string (case map_of seen (fst ul) of None \<Rightarrow> [] | Some t \<Rightarrow> t),
                     ulr_latency50 = tryPercentile (sort (snd ul)) 50,
                     ulr_latency95 = tryPercentile (sort (snd ul)) 95\<rparr> # rows)))"

definition GetUserLatencyInsights :: "fake_db \<Rightarrow> insights_params \<Rightarrow> string + user_latency_row list" where
  "GetUserLatencyInsights db arg =
     (case foldl latency_add ([], []) (filter (latency_stat arg) (db_workspace_agent_stats db)) of
        (lat, seen) \<Rightarrow>
          (case latency_rows db seen lat of
             Inl e \<Rightarrow> Inl e
           | Inr rows \<Rightarrow> Inr (sort_key (\<lambda>r. uuid_string (ulr_user_id r)) rows)))"


section \<open>Lemmas\<close>

subsection \<open>Daily active users\<close>

lemma dau_seens_snoc:
  "dau_seens tz (stats @ [s]) = dau_add (dau_seens tz stats) (dau_date tz (was_created_at s)) (was_user_id s)"
  by (simp add: dau_seens_def)

lemma map_of_dau_add:
  "map_of (dau_add seens d u) = (map_of seens)(d \<mapsto> List.insert u (case map_of seens d of None \<Rightarrow> [] | Some us \<Rightarrow> us))"
  by (simp add: dau_add_def update_conv')

lemma dau_seens_inv:
  "distinct (map fst (dau_seens tz stats)) \<and>
   (\<forall>d us. map_of (dau_seens tz stats) d = Some us \<longrightarrow> distinct us) \<and>
   (\<forall>d u. (\<exists>us. map_of (dau_seens tz stats) d = Some us \<and> u \<in> set us) \<longleftrightarrow>
          (\<exists>s \<in> set stats. d = dau_date tz (was_created_at s) \<and> u = was_user_id s))"
proof (induction stats rule: rev_induct)
  case Nil
  then show ?case by (simp add: dau_seens_def)
next
  case (snoc s stats)
  define M where "M = map_of (dau_seens tz stats)"
  define k where "k = dau_date tz (was_created_at s)"
  define v where "v = List.insert (was_user_id s) (case M k of None \<Rightarrow> [] | Some us \<Rightarrow> us)"
  have m: "map_of (dau_seens tz (stats @ [s])) = M(k \<mapsto> v)"
    by (simp add: dau_seens_snoc map_of_dau_add M_def k_def v_def)
  have dist: "\<forall>d us. M d = Some us \<longrightarrow> distinct us"
    and iff: "\<And>d u. (\<exists>us. M d = Some us \<and> u \<in> set us) \<longleftrightarrow>
                     (\<exists>s \<in> set stats. d = dau_date tz (was_created_at s) \<and> u = was_user_id s)"
    using snoc.IH unfolding M_def by blast+
  have sv: "u \<in> set v \<longleftrightarrow> u = was_user_id s \<or> (\<exists>us. M k = Some us \<and> u \<in> set us)" for u
    by (auto simp: v_def split: option.split)
  have "distinct v" using dist by (simp add: v_def split: option.split)
  then have "\<forall>d us. map_of (dau_seens tz (stats @ [s])) d = Some us \<longrightarrow> distinct us"
    using dist by (simp add: m)
  moreover have "(\<exists>us. map_of (dau_seens tz (stats @ [s])) d = Some us \<and> u \<in> set us) \<longleftrightarrow>
          (\<exists>s' \<in> set (stats @ [s]). d = dau_date tz (was_created_at s') \<and> u = was_user_id s')" for d u
  proof (cases "d = k")
    case True
    then show ?thesis using sv [of u] iff [of k u] by (auto simp: m k_def)
  next
    case False
    then show ?thesis using iff [of d u] by (auto simp: m k_def)
  qed
  moreover have "distinct (map fst (dau_seens tz (stats @ [s])))"
    using snoc.IH by (simp add: dau_seens_snoc dau_add_def distinct_update)
  ultimately show ?case by blast
qed

text \<open>The rows of a map of dates to users: one per date and user.\<close>

lemma date_blocks_mem:
  "(a, b) \<in> set (concat (map (\<lambda>(d, ids). map (Pair d) ids) xs)) \<longleftrightarrow> (\<exists>ids. (a, ids) \<in> set xs \<and> b \<in> set ids)"
  by auto

lemma date_blocks_distinct:
  "distinct (map fst xs) \<Longrightarrow> \<forall>(d, ids) \<in> set xs. distinct ids \<Longrightarrow>
   distinct (concat (map (\<lambda>(d, ids). map (Pair d) ids) xs))"
proof (induction xs)
  case Nil
  then show ?case by simp
next
  case (Cons x xs)
  obtain d ids where x: "x = (d, ids)" by fastforce
  have nd: "(d, ids') \<notin> set xs" for ids'
    using Cons.prems(1) by (force simp: x)
  then have "(d, b) \<notin> set (concat (map (\<lambda>(d, ids). map (Pair d) ids) xs))" for b
    unfolding date_blocks_mem by blast
  with Cons nd show ?case by (auto simp: x distinct_map inj_on_def)
qed

lemma date_blocks_sorted:
  "sorted (map fst xs) \<Longrightarrow> sorted (map fst (concat (map (\<lambda>(d, ids). map (Pair d) ids) xs)))"
  by (induction xs) (auto simp: sorted_append o_def map_replicate_const)

lemma dau_rows_exact:
  "distinct (dau_rows (dau_seens tz stats)) \<and> sorted (map fst (dau_rows (dau_seens tz stats))) \<and>
   set (dau_rows (dau_seens tz stats)) = {(dau_date tz (was_created_at s), was_user_id s) | s. s \<in> set stats}"
proof -
  let ?S = "dau_seens tz stats"
  have keys: "distinct (map fst ?S)"
    and dist: "\<forall>d us. map_of ?S d = Some us \<longrightarrow> distinct us"
    and iff: "\<And>d u. (\<exists>us. map_of ?S d = Some us \<and> u \<in> set us) \<longleftrightarrow>
                (\<exists>s \<in> set stats. d = dau_date tz (was_created_at s) \<and> u = was_user_id s)"
    using dau_seens_inv [of tz stats] by blast+
  have some: "(d, us) \<in> set ?S \<longleftrightarrow> map_of ?S d = Some us" for d us
    using keys by simp
  have "distinct (map fst (sort_key fst ?S))" using keys by (simp add: distinct_map)
  moreover have "\<forall>(d, ids) \<in> set (sort_key fst ?S). distinct ids" using dist some by auto
  ultimately have "distinct (dau_rows ?S)" unfolding dau_rows_def by (rule date_blocks_distinct)
  moreover have "sorted (map fst (dau_rows ?S))"
    unfolding dau_rows_def by (rule date_blocks_sorted) (rule sorted_sort_key)
  moreover have pw: "(d, u) \<in> set (dau_rows ?S) \<longleftrightarrow> (\<exists>s \<in> set stats. d = dau_date tz (was_created_at s) \<and> u = was_user_id s)"
    for d u unfolding dau_rows_def date_blocks_mem set_sort using some iff by blast
  then have "set (dau_rows ?S) = {(dau_date tz (was_created_at s), was_user_id s) | s. s \<in> set stats}"
    by auto
  ultimately show ?thesis by blast
qed

subsection \<open>Average build time\<close>

text \<open>A build whose version is missing fails the scan, whatever the builds before it.\<close>

lemma build_time_scan_missing_version:
  "wb \<in> set wbs \<Longrightarrow> getTemplateVersionByIDNoLock db (wb_template_version_id wb) = None \<Longrightarrow>
   build_time_scan db tid wbs acc = Inl ErrNoRows"
proof (induction wbs arbitrary: acc)
  case Nil
  then show ?case by simp
next
  case (Cons a wbs)
  show ?case
  proof (cases "a = wb")
    case True
    with Cons.prems show ?thesis by simp
  next
    case False
    with Cons.prems have "\<And>acc. build_time_scan db tid wbs acc = Inl ErrNoRows" by (intro Cons.IH) auto
    then show ?thesis by (simp split: option.split)
  qed
qed

subsection \<open>Parameter insights\<close>

lemma latest_builds_keys:
  "set (map fst (foldl latest_builds_add m wbs)) \<subseteq> set (map fst m) \<union> wb_workspace_id ` set wbs"
proof (induction wbs arbitrary: m)
  case Nil
  then show ?case by simp
next
  case (Cons wb wbs)
  have "set (map fst (latest_builds_add m wb)) \<subseteq> insert (wb_workspace_id wb) (set (map fst m))"
    using dom_update [of "wb_workspace_id wb" wb m] by (auto simp: latest_builds_add_def)
  with Cons.IH [of "latest_builds_add m wb"] show ?case by auto
qed

text \<open>When every workspace of the map is of a listed template, the template filter empties the map.\<close>

lemma drop_template_builds_selected:
  "\<forall>w \<in> set ks. \<exists>ws. getWorkspaceByID db w = Some ws \<and> ws_template_id ws \<in> set tids \<Longrightarrow>
   \<exists>m'. drop_template_builds db tids ks m = Inr m' \<and> set (map fst m') = set (map fst m) - set ks"
proof (induction ks arbitrary: m)
  case Nil
  then show ?case by simp
next
  case (Cons w ks)
  then obtain ws where ws: "getWorkspaceByID db w = Some ws" "ws_template_id ws \<in> set tids" by auto
  from Cons obtain m' where "drop_template_builds db tids ks (AList.delete w m) = Inr m'"
    "set (map fst m') = set (map fst (AList.delete w m)) - set ks" by fastforce
  with ws show ?case by (auto simp: delete_keys)
qed


subsection \<open>Daily insights\<close>

declare daily_windows.simps [simp del]

lemma day_pos: "0 < day"
  by (simp add: day_def hour_def minute_def second_def)

lemma daily_windows_step:
  "s + day < e \<Longrightarrow> daily_windows s e = (s, s + day) # daily_windows (s + day) e"
  by (simp add: daily_windows.simps [of s e] time_before_def)

lemma daily_windows_end:
  "\<not> s + day < e \<Longrightarrow> daily_windows s e = [(s, s + day)]"
  by (simp add: daily_windows.simps [of s e] time_before_def)

lemma daily_windows_hd: "daily_windows s e \<noteq> [] \<and> fst (hd (daily_windows s e)) = s"
  by (cases "s + day < e") (simp_all add: daily_windows_step daily_windows_end)

lemma daily_windows_mem: "w \<in> set (daily_windows s e) \<Longrightarrow> s \<le> fst w \<and> snd w = fst w + day"
proof (induction s e rule: daily_windows.induct)
  case (1 s e)
  show ?case
  proof (cases "s + day < e")
    case True
    show ?thesis
    proof (cases "w = (s, s + day)")
      case True
      then show ?thesis by simp
    next
      case False
      with "1.prems" \<open>s + day < e\<close> have "w \<in> set (daily_windows (s + day) e)" by (simp add: daily_windows_step)
      with "1.IH" \<open>s + day < e\<close> have "s + day \<le> fst w \<and> snd w = fst w + day" by (simp add: time_before_def)
      with day_pos show ?thesis by linarith
    qed
  next
    case False
    with "1.prems" show ?thesis by (simp add: daily_windows_end)
  qed
qed

lemma daily_windows_sorted: "sorted_wrt (\<lambda>a b. snd a \<le> fst b) (daily_windows s e)"
proof (induction s e rule: daily_windows.induct)
  case (1 s e)
  show ?case
  proof (cases "s + day < e")
    case True
    then have "sorted_wrt (\<lambda>a b. snd a \<le> fst b) (daily_windows (s + day) e)"
      using "1.IH" by (simp add: time_before_def)
    moreover have "\<forall>w \<in> set (daily_windows (s + day) e). s + day \<le> fst w"
      using daily_windows_mem by blast
    ultimately show ?thesis using True by (simp add: daily_windows_step)
  next
    case False
    then show ?thesis by (simp add: daily_windows_end)
  qed
qed

lemma daily_windows_last:
  "e \<le> snd (last (daily_windows s e)) \<and> (s < e \<longrightarrow> fst (last (daily_windows s e)) < e)"
proof (induction s e rule: daily_windows.induct)
  case (1 s e)
  show ?case
  proof (cases "s + day < e")
    case True
    with "1.IH" have "e \<le> snd (last (daily_windows (s + day) e)) \<and> fst (last (daily_windows (s + day) e)) < e"
      by (simp add: time_before_def)
    moreover have "daily_windows (s + day) e \<noteq> []" using daily_windows_hd by blast
    ultimately show ?thesis using True by (simp add: daily_windows_step)
  next
    case False
    then show ?thesis by (simp add: daily_windows_end)
  qed
qed

lemma daily_windows_cover:
  "s \<le> t \<and> t < snd (last (daily_windows s e)) \<longleftrightarrow> (\<exists>w \<in> set (daily_windows s e). fst w \<le> t \<and> t < snd w)"
proof (induction s e rule: daily_windows.induct)
  case (1 s e)
  show ?case
  proof (cases "s + day < e")
    case True
    let ?ws = "daily_windows (s + day) e"
    have ne: "?ws \<noteq> []" using daily_windows_hd by blast
    have ge: "s + day \<le> snd (last ?ws)"
      using daily_windows_mem [of "last ?ws" "s + day" e] ne day_pos by simp
    from "1.IH" True have IH: "s + day \<le> t \<and> t < snd (last ?ws) \<longleftrightarrow> (\<exists>w \<in> set ?ws. fst w \<le> t \<and> t < snd w)"
      by (simp add: time_before_def)
    have "s \<le> t \<and> t < snd (last ?ws) \<longleftrightarrow> (s \<le> t \<and> t < s + day) \<or> (s + day \<le> t \<and> t < snd (last ?ws))"
      using ge day_pos by (cases "t < s + day") auto
    with IH ne True show ?thesis by (simp add: daily_windows_step)
  next
    case False
    then show ?thesis by (simp add: daily_windows_end)
  qed
qed

text \<open>For \<open>s < e\<close> the clipped windows are ordered, at most a day long, and tile \<open>[s, e)\<close>.\<close>

lemma daily_windows_clipped_tile:
  assumes se: "s < e"
  shows "daily_windows_clipped s e \<noteq> [] \<and>
    (\<forall>w \<in> set (daily_windows_clipped s e). s \<le> fst w \<and> fst w < snd w \<and> snd w \<le> fst w + day) \<and>
    sorted_wrt (\<lambda>a b. snd a \<le> fst b) (daily_windows_clipped s e) \<and>
    (\<forall>t. s \<le> t \<and> t < e \<longleftrightarrow> (\<exists>w \<in> set (daily_windows_clipped s e). fst w \<le> t \<and> t < snd w))"
proof -
  let ?ws = "daily_windows s e"
  have "?ws \<noteq> []" using daily_windows_hd by blast
  then obtain xs x where ws: "?ws = xs @ [x]" by (metis rev_exhaust)
  have mem: "\<And>w. w \<in> set (xs @ [x]) \<Longrightarrow> s \<le> fst w \<and> snd w = fst w + day"
    using daily_windows_mem ws by metis
  have sx: "sorted_wrt (\<lambda>a b. snd a \<le> fst b) xs" and before: "\<forall>a \<in> set xs. snd a \<le> fst x"
    using daily_windows_sorted [of s e] by (simp_all add: ws sorted_wrt_append)
  have lx: "e \<le> snd x" "fst x < e" using daily_windows_last [where s = s and e = e] se by (simp_all add: ws)
  have cov: "\<And>t. s \<le> t \<and> t < snd x \<longleftrightarrow> (\<exists>w \<in> set (xs @ [x]). fst w \<le> t \<and> t < snd w)"
    using daily_windows_cover [of s _ e] by (simp add: ws)
  show ?thesis
  proof (cases "e < snd x")
    case True
    then have c: "daily_windows_clipped s e = xs @ [(fst x, e)]"
      by (simp add: daily_windows_clipped_def ws time_after_def)
    have "s \<le> fst w \<and> fst w < snd w \<and> snd w \<le> fst w + day" if w: "w \<in> set (xs @ [(fst x, e)])" for w
    proof (cases "w \<in> set xs")
      case True
      with mem [of w] day_pos show ?thesis by simp
    next
      case False
      with w have "w = (fst x, e)" by simp
      with mem [of x] lx True show ?thesis by simp
    qed
    then have "\<forall>w \<in> set (xs @ [(fst x, e)]). s \<le> fst w \<and> fst w < snd w \<and> snd w \<le> fst w + day" by blast
    moreover have "sorted_wrt (\<lambda>a b. snd a \<le> fst b) (xs @ [(fst x, e)])"
      using sx before by (simp add: sorted_wrt_append)
    moreover have "s \<le> t \<and> t < e \<longleftrightarrow> (\<exists>w \<in> set (xs @ [(fst x, e)]). fst w \<le> t \<and> t < snd w)" for t
    proof
      assume t: "s \<le> t \<and> t < e"
      with True have "\<exists>w \<in> set (xs @ [x]). fst w \<le> t \<and> t < snd w" using cov [of t] by simp
      then obtain w where w: "w \<in> set (xs @ [x])" "fst w \<le> t" "t < snd w" by blast
      then show "\<exists>w \<in> set (xs @ [(fst x, e)]). fst w \<le> t \<and> t < snd w"
        using t by (cases "w = x") auto
    next
      assume "\<exists>w \<in> set (xs @ [(fst x, e)]). fst w \<le> t \<and> t < snd w"
      then obtain w where w: "w \<in> set (xs @ [(fst x, e)])" "fst w \<le> t" "t < snd w" by blast
      show "s \<le> t \<and> t < e"
      proof (cases "w \<in> set xs")
        case True
        with mem [of w] before lx w show ?thesis by fastforce
      next
        case False
        with w mem [of x] show ?thesis by auto
      qed
    qed
    ultimately show ?thesis by (simp add: c)
  next
    case False
    with lx have ex: "snd x = e" by simp
    then have c: "daily_windows_clipped s e = xs @ [x]"
      by (simp add: daily_windows_clipped_def ws time_after_def)
    have "\<forall>w \<in> set (xs @ [x]). s \<le> fst w \<and> fst w < snd w \<and> snd w \<le> fst w + day"
      using mem day_pos by (metis add.commute less_add_same_cancel2 order_refl)
    then show ?thesis using cov daily_windows_sorted [of s e] by (simp add: c ws ex)
  qed
qed

lemma inside_window:
  "\<not> outside_window a b t \<longleftrightarrow> a \<le> t \<and> t < b"
  by (auto simp: outside_window_def time_before_def time_after_def)

text \<open>On ordered, disjoint windows the inner loop updates exactly the window holding the statistic.\<close>

lemma add_daily_disjoint:
  "sorted_wrt (\<lambda>a b. ds_end a \<le> ds_start b) dss \<Longrightarrow>
   add_daily s dss =
     map (\<lambda>ds. if outside_window (ds_start ds) (ds_end ds) (was_created_at s) then ds else daily_put s ds) dss"
proof (induction dss)
  case Nil
  then show ?case by simp
next
  case (Cons ds dss)
  show ?case
  proof (cases "outside_window (ds_start ds) (ds_end ds) (was_created_at s)")
    case True
    with Cons show ?thesis by simp
  next
    case False
    then have "was_created_at s < ds_end ds" by (simp add: inside_window)
    with Cons.prems have "\<forall>d \<in> set dss. outside_window (ds_start d) (ds_end d) (was_created_at s)"
      by (auto simp: outside_window_def time_before_def)
    with False show ?thesis by (simp add: map_idI)
  qed
qed

lemma daily_put_window [simp]:
  "ds_start (daily_put s ds) = ds_start ds" "ds_end (daily_put s ds) = ds_end ds"
  by (simp_all add: daily_put_def)

lemma daily_fold:
  "sorted_wrt (\<lambda>a b. ds_end a \<le> ds_start b) dss \<Longrightarrow>
   foldl (\<lambda>dss s. if P s then add_daily s dss else dss) dss stats =
   map (\<lambda>ds. foldl (\<lambda>ds s. daily_put s ds) ds
                (filter (\<lambda>s. P s \<and> \<not> outside_window (ds_start ds) (ds_end ds) (was_created_at s)) stats)) dss"
proof (induction stats arbitrary: dss)
  case Nil
  then show ?case by (simp add: map_idI)
next
  case (Cons s stats)
  show ?case
  proof (cases "P s")
    case True
    let ?g = "\<lambda>ds. if outside_window (ds_start ds) (ds_end ds) (was_created_at s) then ds else daily_put s ds"
    have gw: "ds_end (?g ds) = ds_end ds" "ds_start (?g ds) = ds_start ds" for ds by simp_all
    have "sorted_wrt (\<lambda>a b. ds_end a \<le> ds_start b) (map ?g dss)"
      using Cons.prems by (simp only: sorted_wrt_map gw)
    with Cons.IH [of "map ?g dss"] True add_daily_disjoint [OF Cons.prems, of s] show ?thesis
      by (simp add: comp_def)
  next
    case False
    with Cons show ?thesis by simp
  qed
qed

lemma daily_put_fold:
  "ds_start (foldl (\<lambda>ds s. daily_put s ds) ds xs) = ds_start ds \<and>
   ds_end (foldl (\<lambda>ds s. daily_put s ds) ds xs) = ds_end ds \<and>
   set (ds_users (foldl (\<lambda>ds s. daily_put s ds) ds xs)) = set (ds_users ds) \<union> was_user_id ` set xs \<and>
   set (ds_templates (foldl (\<lambda>ds s. daily_put s ds) ds xs)) = set (ds_templates ds) \<union> was_template_id ` set xs \<and>
   (distinct (ds_users ds) \<longrightarrow> distinct (ds_users (foldl (\<lambda>ds s. daily_put s ds) ds xs)))"
  by (induction xs arbitrary: ds) (auto simp: daily_put_def)

lemma daily_put_users_card:
  "ds_users ds = [] \<Longrightarrow> length (ds_users (foldl (\<lambda>ds s. daily_put s ds) ds xs)) = card (was_user_id ` set xs)"
proof -
  assume e: "ds_users ds = []"
  have "set (ds_users (foldl (\<lambda>ds s. daily_put s ds) ds xs)) = was_user_id ` set xs"
    "distinct (ds_users (foldl (\<lambda>ds s. daily_put s ds) ds xs))"
    using daily_put_fold [of ds xs] e by simp_all
  then show ?thesis by (metis distinct_card)
qed

text \<open>For \<open>StartTime < EndTime\<close> each row is the fold over the statistics of its window.\<close>

lemma daily_insights_rows:
  assumes "ip_start_time arg < ip_end_time arg"
  shows "GetTemplateDailyInsights db arg =
    map (\<lambda>w. daily_row (foldl (\<lambda>ds s. daily_put s ds) \<lparr>ds_start = fst w, ds_end = snd w, ds_users = [], ds_templates = []\<rparr>
                          (filter (\<lambda>s. insight_stat arg s \<and> fst w \<le> was_created_at s \<and> was_created_at s < snd w)
                             (db_workspace_agent_stats db))))
        (daily_windows_clipped (ip_start_time arg) (ip_end_time arg))"
proof -
  let ?W = "daily_windows_clipped (ip_start_time arg) (ip_end_time arg)"
  let ?mk = "\<lambda>(a, b). \<lparr>ds_start = a, ds_end = b, ds_users = [], ds_templates = []\<rparr>"
  have "sorted_wrt (\<lambda>a b. snd a \<le> fst b) ?W" using daily_windows_clipped_tile [OF assms] by blast
  then have "sorted_wrt (\<lambda>a b. ds_end a \<le> ds_start b) (map ?mk ?W)"
    by (simp add: sorted_wrt_map split_def)
  from daily_fold [OF this, of "insight_stat arg" "db_workspace_agent_stats db"] show ?thesis
    by (simp add: GetTemplateDailyInsights_def inside_window split_def comp_def)
qed

end
