(* ===== verification/InsightProps.thy ===== *)
theory InsightProps
  imports DbInsights TemplateProps
begin

text \<open>
  Properties of the insight queries of the database fake (theory
  \<open>DbInsights\<close>): the daily active users, the parameter insights'
  template filter, the error of the build-time query and the identifier
  sort.
\<close>

section \<open>Example data\<close>

text \<open>
  Workspace 1 of template 2 with one build (id 5, version 9) at time 0 that
  set the parameter \<open>region\<close> of version 9 to \<open>eu\<close>.
\<close>

definition ex_param :: template_version_parameter where
  "ex_param =
     \<lparr>tvp_template_version_id = 9, tvp_name = ''region'', tvp_display_name = ''Region'', tvp_description = [],
      tvp_type = ''string'', tvp_mutable = False, tvp_default_value = ''eu'', tvp_options = [],
      tvp_required = True, tvp_display_order = 0, tvp_ephemeral = False\<rparr>"

definition ex_insights_db :: fake_db where
  "ex_insights_db =
     New\<lparr>db_workspaces := [ex_ws \<lparr>ns_string = [], ns_valid = False\<rparr> null_time_none],
         db_builds := [ex_build WorkspaceTransitionStart 0],
         db_template_versions := [ex_version 9 0 ''v1''],
         db_template_version_parameters := [ex_param],
         db_workspace_build_parameters := [\<lparr>wbp_workspace_build_id = 5, wbp_name = ''region'', wbp_value = ''eu''\<rparr>]\<rparr>"

definition ex_window :: "uuid list \<Rightarrow> insights_params" where
  "ex_window tids = \<lparr>ip_start_time = 0, ip_end_time = day, ip_template_ids = tids\<rparr>"

lemmas ex_insights_defs = ex_insights_db_def ex_window_def ex_param_def ex_ws_def ex_build_def ex_version_def

text \<open>Without a template list the example's parameter is counted once.\<close>

lemma parameter_insights_unfiltered:
  "GetTemplateParameterInsights ex_insights_db (ex_window []) =
     Inr [\<lparr>tpi_num = 1, tpi_template_ids = [2], tpi_name = ''region'', tpi_display_name = ''Region'',
           tpi_description = [], tpi_options = [], tpi_value = ''eu'', tpi_count = 1\<rparr>]"
  by (simp add: GetTemplateParameterInsights_def ex_insights_defs New_def outside_window_def time_before_def
                time_after_def day_def hour_def minute_def second_def latest_builds_add_def
                getTemplateVersionByIDNoLock_def templateVersionWithUserNoLock_def add_unique_param_def
                param_key_def param_insight_rows_def param_value_counts_def uniqueSortedUUIDs_def Let_def)


section \<open>Daily active users\<close>

text \<open>
  C31.  \<open>GetDeploymentDAUs\<close> returns each pair of a local date and a user
  with a connection that day exactly once, ordered by date: its rows are
  the dates (shifted by the time-zone offset and truncated to the day) and
  users of the statistics with a non-zero connection count.
\<close>

theorem deployment_daus_exact:
  "distinct (GetDeploymentDAUs db tz) \<and> sorted (map fst (GetDeploymentDAUs db tz)) \<and>
   set (GetDeploymentDAUs db tz) =
     {(dau_date tz (was_created_at s), was_user_id s) | s.
        s \<in> set (db_workspace_agent_stats db) \<and> was_connection_count s \<noteq> 0}"
  using dau_rows_exact [of tz "filter (\<lambda>s. was_connection_count s \<noteq> 0) (db_workspace_agent_stats db)"]
  unfolding GetDeploymentDAUs_def by simp

section \<open>Parameter insights\<close>

text \<open>
  C32.  The template filter of \<open>GetTemplateParameterInsights\<close> is
  inverted: it deletes the latest builds of the workspaces whose template
  is in the list.  So when every build's workspace belongs to a listed
  template, the insights for those templates are empty, while without the
  list the same store yields rows (\<open>parameter_insights_unfiltered\<close>).
\<close>

theorem parameter_insights_drop_selected:
  assumes ne: "ip_template_ids arg \<noteq> []"
    and sel: "\<forall>wb \<in> set (db_builds db). \<exists>ws. getWorkspaceByID db (wb_workspace_id wb) = Some ws \<and>
                                             ws_template_id ws \<in> set (ip_template_ids arg)"
  shows "GetTemplateParameterInsights db arg = Inr []"
proof -
  define latest where "latest = foldl latest_builds_add []
                         (filter (\<lambda>wb. \<not> outside_window (ip_start_time arg) (ip_end_time arg) (wb_created_at wb))
                            (db_builds db))"
  have "set (map fst latest) \<subseteq> wb_workspace_id ` set (db_builds db)"
    using latest_builds_keys [of "[]"] unfolding latest_def by fastforce
  with sel have "\<forall>w \<in> set (map fst latest). \<exists>ws. getWorkspaceByID db w = Some ws \<and>
                                               ws_template_id ws \<in> set (ip_template_ids arg)" by blast
  from drop_template_builds_selected [OF this, of latest] obtain m' where
    d: "drop_template_builds db (ip_template_ids arg) (map fst latest) latest = Inr m'" and "set (map fst m') = {}"
    by auto
  then have "m' = []" by simp
  with d ne show ?thesis
    unfolding GetTemplateParameterInsights_def Let_def latest_def [symmetric] by (simp add: param_insight_rows_def)
qed

theorem parameter_insights_drop_selected_witness:
  "GetTemplateParameterInsights ex_insights_db (ex_window [2]) = Inr []"
proof -
  have "ip_template_ids (ex_window [2]) \<noteq> []" by (simp add: ex_window_def)
  moreover have "\<forall>wb \<in> set (db_builds ex_insights_db).
                   \<exists>ws. getWorkspaceByID ex_insights_db (wb_workspace_id wb) = Some ws \<and>
                        ws_template_id ws \<in> set (ip_template_ids (ex_window [2]))"
    by (simp add: ex_insights_defs New_def getWorkspaceByID_def)
  ultimately show ?thesis by (rule parameter_insights_drop_selected)
qed

section \<open>Average build time\<close>

text \<open>
  C33.  \<open>GetTemplateAverageBuildTime\<close> fails with \<open>ErrNoRows\<close> as soon as
  any build's template version is missing, whatever template is asked for:
  the version is looked up before the build's template is compared.
\<close>

theorem average_build_time_missing_version:
  "wb \<in> set (db_builds db) \<Longrightarrow> getTemplateVersionByIDNoLock db (wb_template_version_id wb) = None \<Longrightarrow>
   GetTemplateAverageBuildTime db templateID = Inl ErrNoRows"
  by (simp add: GetTemplateAverageBuildTime_def build_time_scan_missing_version)

theorem average_build_time_missing_version_witness:
  "GetTemplateAverageBuildTime
     (ex_insights_db\<lparr>db_builds := [ex_build WorkspaceTransitionStart 0,
                                   (ex_build WorkspaceTransitionStop 0)\<lparr>wb_template_version_id := 77\<rparr>]\<rparr>)
     \<lparr>nu_uuid = 2, nu_valid = True\<rparr> = Inl ErrNoRows"
  by (rule average_build_time_missing_version [of "(ex_build WorkspaceTransitionStop 0)\<lparr>wb_template_version_id := 77\<rparr>"])
     (simp_all add: ex_insights_defs New_def getTemplateVersionByIDNoLock_def)

section \<open>Daily insights\<close>

text \<open>
  C34.  For a window with \<open>StartTime < EndTime\<close>, the rows of
  \<open>GetTemplateDailyInsights\<close> are non-empty, ordered and disjoint, each
  at most a day long, and together they cover exactly
  \<open>[StartTime, EndTime)\<close>; each row's active users are the number of
  distinct users of the counted statistics created in its window.
\<close>

theorem daily_insights_tile:
  assumes se: "ip_start_time arg < ip_end_time arg"
  shows "GetTemplateDailyInsights db arg \<noteq> [] \<and>
    sorted_wrt (\<lambda>a b. dir_end_time a \<le> dir_start_time b) (GetTemplateDailyInsights db arg) \<and>
    (\<forall>r \<in> set (GetTemplateDailyInsights db arg). dir_start_time r < dir_end_time r \<and> dir_end_time r \<le> dir_start_time r + day) \<and>
    (\<forall>t. ip_start_time arg \<le> t \<and> t < ip_end_time arg \<longleftrightarrow>
         (\<exists>r \<in> set (GetTemplateDailyInsights db arg). dir_start_time r \<le> t \<and> t < dir_end_time r)) \<and>
    (\<forall>r \<in> set (GetTemplateDailyInsights db arg).
       dir_active_users r = int (card (was_user_id ` {s \<in> set (db_workspace_agent_stats db).
         insight_stat arg s \<and> dir_start_time r \<le> was_created_at s \<and> was_created_at s < dir_end_time r})))"
proof -
  let ?W = "daily_windows_clipped (ip_start_time arg) (ip_end_time arg)"
  define F where "F w = daily_row (foldl (\<lambda>ds s. daily_put s ds) \<lparr>ds_start = fst w, ds_end = snd w, ds_users = [], ds_templates = []\<rparr>
                          (filter (\<lambda>s. insight_stat arg s \<and> fst w \<le> was_created_at s \<and> was_created_at s < snd w)
                             (db_workspace_agent_stats db)))" for w
  have rows: "GetTemplateDailyInsights db arg = map F ?W"
    unfolding F_def by (rule daily_insights_rows [OF se])
  have se_F: "dir_start_time (F w) = fst w \<and> dir_end_time (F w) = snd w" for w
  proof -
    let ?d0 = "\<lparr>ds_start = fst w, ds_end = snd w, ds_users = [], ds_templates = []\<rparr>"
    let ?xs = "filter (\<lambda>s. insight_stat arg s \<and> fst w \<le> was_created_at s \<and> was_created_at s < snd w)
                 (db_workspace_agent_stats db)"
    have "ds_start (foldl (\<lambda>ds s. daily_put s ds) ?d0 ?xs) = fst w \<and> ds_end (foldl (\<lambda>ds s. daily_put s ds) ?d0 ?xs) = snd w"
      using daily_put_fold [of ?d0 ?xs] by simp
    then show ?thesis unfolding F_def daily_row_def by simp
  qed
  have users_F: "dir_active_users (F w) = int (card (was_user_id ` {s \<in> set (db_workspace_agent_stats db).
         insight_stat arg s \<and> fst w \<le> was_created_at s \<and> was_created_at s < snd w}))" for w
    using daily_put_users_card [of "\<lparr>ds_start = fst w, ds_end = snd w, ds_users = [], ds_templates = []\<rparr>"
             "filter (\<lambda>s. insight_stat arg s \<and> fst w \<le> was_created_at s \<and> was_created_at s < snd w)
                 (db_workspace_agent_stats db)"]
    by (simp add: F_def daily_row_def)
  have tile: "?W \<noteq> []" "\<forall>w \<in> set ?W. fst w < snd w \<and> snd w \<le> fst w + day"
    "sorted_wrt (\<lambda>a b. snd a \<le> fst b) ?W"
    "\<forall>t. ip_start_time arg \<le> t \<and> t < ip_end_time arg \<longleftrightarrow> (\<exists>w \<in> set ?W. fst w \<le> t \<and> t < snd w)"
    using daily_windows_clipped_tile [OF se] by blast+
  have "sorted_wrt (\<lambda>a b. dir_end_time a \<le> dir_start_time b) (map F ?W)"
    using tile(3) by (simp add: sorted_wrt_map se_F)
  moreover have "\<forall>r \<in> set (map F ?W). dir_start_time r < dir_end_time r \<and> dir_end_time r \<le> dir_start_time r + day"
    using tile(2) by (simp add: se_F)
  moreover have "\<forall>t. ip_start_time arg \<le> t \<and> t < ip_end_time arg \<longleftrightarrow>
         (\<exists>r \<in> set (map F ?W). dir_start_time r \<le> t \<and> t < dir_end_time r)"
    using tile(4) by (simp add: se_F)
  moreover have "\<forall>r \<in> set (map F ?W).
       dir_active_users r = int (card (was_user_id ` {s \<in> set (db_workspace_agent_stats db).
         insight_stat arg s \<and> dir_start_time r \<le> was_created_at s \<and> was_created_at s < dir_end_time r}))"
    by (simp add: se_F users_F)
  ultimately show ?thesis using tile(1) by (simp only: rows) simp
qed

theorem daily_insights_tile_witness:
  "GetTemplateDailyInsights ex_insights_db (ex_window []) \<noteq> [] \<and>
   (\<forall>t. 0 \<le> t \<and> t < day \<longleftrightarrow>
      (\<exists>r \<in> set (GetTemplateDailyInsights ex_insights_db (ex_window [])). dir_start_time r \<le> t \<and> t < dir_end_time r))"
  using daily_insights_tile [of "ex_window []" ex_insights_db] day_pos by (simp add: ex_window_def)

section \<open>Sorted identifiers\<close>

text \<open>
  C35.  \<open>uniqueSortedUUIDs\<close>, which sorts by the identifiers' text, returns
  the identifiers without duplicates in increasing numeric order, for any
  list of 128-bit identifiers.
\<close>

theorem uniqueSortedUUIDs_sorted:
  "\<forall>u \<in> set ids. u < 2 ^ 128 \<Longrightarrow> uniqueSortedUUIDs ids = sorted_list_of_set (set ids)"
  by (simp add: uniqueSortedUUIDs_def sort_key_uuid_string sorted_list_of_set_sort_remdups)

theorem uniqueSortedUUIDs_sorted_witness:
  "uniqueSortedUUIDs [3, 1, 3] = [1, 3]"
proof -
  have "uniqueSortedUUIDs [3, 1, 3] = sorted_list_of_set (set [3, 1, 3])"
    by (rule uniqueSortedUUIDs_sorted) simp
  also have "\<dots> = [1, 3]" by (simp only: sorted_list_of_set_sort_remdups) simp
  finally show ?thesis .
qed

end
