(* ===== verification/WorkspaceActionsUI.thy ===== *)
theory WorkspaceActionsUI
  imports Prelude
begin

text \<open>
  The web UI's workspace actions (\<open>src/unnamed/part_003\<close>,
  \<open>WorkspaceActions\<close>): the buttons it renders for a workspace and its
  options menu.  The status table \<open>actionsByWorkspaceStatus\<close> and the
  button components live in \<open>./constants\<close> and \<open>./Buttons\<close>, outside
  \<open>src/\<close>: the component is modelled for every result of the table
  (the record \<open>status_actions\<close>), and a button is the component it renders with
  its \<open>loading\<close> flag or label.  The menu's open flag (\<open>useState\<close>), the
  props and status of the current render and the handlers called are the
  state of the step relation \<open>menu_step\<close>; a re-render replaces the
  props and the status and keeps the open flag.
\<close>

section \<open>Buttons\<close>

text \<open>\<open>ButtonTypesEnum\<close>, the keys of the button mapping.\<close>

datatype button_type =
    ButtonUpdate | ButtonUpdating | ButtonStart | ButtonStarting | ButtonStop | ButtonStopping
  | ButtonRestart | ButtonRestarting | ButtonDeleting | ButtonCanceling | ButtonDeleted | ButtonPending
  | ButtonUnlock | ButtonUnlocking

text \<open>The rendered buttons: the component, with its \<open>loading\<close> flag or its label.\<close>

datatype action_button =
    UpdateButton bool | StartButton bool | StopButton bool | RestartButton bool
  | ActionLoadingButton string | DisabledButton string | UnlockButton bool | CancelButton

text \<open>\<open>buttonMapping\<close>.\<close>

fun buttonMapping :: "button_type \<Rightarrow> action_button" where
  "buttonMapping ButtonUpdate = UpdateButton False"
| "buttonMapping ButtonUpdating = UpdateButton True"
| "buttonMapping ButtonStart = StartButton False"
| "buttonMapping ButtonStarting = StartButton True"
| "buttonMapping ButtonStop = StopButton False"
| "buttonMapping ButtonStopping = StopButton True"
| "buttonMapping ButtonRestart = RestartButton False"
| "buttonMapping ButtonRestarting = RestartButton True"
| "buttonMapping ButtonDeleting = ActionLoadingButton ''Deleting''"
| "buttonMapping ButtonCanceling = DisabledButton ''Canceling...''"
| "buttonMapping ButtonDeleted = DisabledButton ''Deleted''"
| "buttonMapping ButtonPending = ActionLoadingButton ''Pending...''"
| "buttonMapping ButtonUnlock = UnlockButton False"
| "buttonMapping ButtonUnlocking = UnlockButton True"

section \<open>The component\<close>

text \<open>What \<open>actionsByWorkspaceStatus(workspace, status)\<close> returns.\<close>

record status_actions =
  sa_can_cancel :: bool
  sa_can_accept_jobs :: bool
  sa_actions :: "button_type list"

text \<open>The props the rendering reads (\<open>WorkspaceActionsProps\<close>, with \<open>workspace.outdated\<close>).\<close>

record workspace_actions_props =
  wap_outdated :: bool
  wap_is_updating :: bool
  wap_is_restarting :: bool
  wap_can_change_versions :: bool

datatype menu_item = MenuSettings | MenuChangeVersion | MenuDelete

record workspace_actions_view =
  wav_buttons :: "action_button list"
  wav_options_disabled :: bool
  wav_menu_items :: "menu_item list"
  wav_menu_open :: bool

text \<open>
  The rendered actions: the update button when the workspace is outdated
  and can accept jobs, the restarting button or else the status's
  buttons, the cancel button, then the options button (disabled when no
  job can be accepted) and its menu.
\<close>

definition WorkspaceActions :: "workspace_actions_props \<Rightarrow> status_actions \<Rightarrow> bool \<Rightarrow> workspace_actions_view" where
  "WorkspaceActions p sa isMenuOpen =
     (let canBeUpdated = wap_outdated p \<and> sa_can_accept_jobs sa
      in \<lparr>wav_buttons =
            (if canBeUpdated then [if wap_is_updating p then buttonMapping ButtonUpdating else buttonMapping ButtonUpdate]
             else []) @
            (if wap_is_restarting p then [buttonMapping ButtonRestarting] else []) @
            (if \<not> wap_is_restarting p then map buttonMapping (sa_actions sa) else []) @
            (if sa_can_cancel sa then [CancelButton] else []),
          wav_options_disabled = \<not> sa_can_accept_jobs sa,
          wav_menu_items = [MenuSettings] @ (if wap_can_change_versions p then [MenuChangeVersion] else []) @ [MenuDelete],
          wav_menu_open = isMenuOpen\<rparr>)"

section \<open>The options menu\<close>

text \<open>
  The menu's state: the props and the status of the current render, the
  flag \<open>isMenuOpen\<close> (component state, kept across renders) and the
  handlers called so far.
\<close>

record menu_state =
  ms_props :: workspace_actions_props
  ms_status :: status_actions
  ms_open :: bool
  ms_handlers :: "menu_item list"

definition menu_view :: "menu_state \<Rightarrow> workspace_actions_view" where
  "menu_view s = WorkspaceActions (ms_props s) (ms_status s) (ms_open s)"

text \<open>
  The events, with \<open>S\<close> the statuses \<open>actionsByWorkspaceStatus\<close> may
  return: a re-render with new props and status (the workspace was
  refetched); a click on the options button, which opens the menu unless
  the button is disabled; \<open>onClose\<close>; and \<open>onMenuItemClick\<close> on an item
  of the open menu, which closes it and then calls the item's handler.
\<close>

inductive menu_step :: "status_actions set \<Rightarrow> menu_state \<Rightarrow> menu_state \<Rightarrow> bool" where
  rerender: "sa \<in> S \<Longrightarrow> menu_step S s (s\<lparr>ms_props := p, ms_status := sa\<rparr>)"
| open_menu: "\<not> wav_options_disabled (menu_view s) \<Longrightarrow> menu_step S s (s\<lparr>ms_open := True\<rparr>)"
| close_menu: "menu_step S s (s\<lparr>ms_open := False\<rparr>)"
| click_item: "wav_menu_open (menu_view s) \<Longrightarrow> it \<in> set (wav_menu_items (menu_view s)) \<Longrightarrow>
                 menu_step S s (s\<lparr>ms_open := False, ms_handlers := ms_handlers s @ [it]\<rparr>)"

text \<open>The states reachable from a first render, where \<open>useState(false)\<close> leaves the menu closed.\<close>

inductive menu_reach :: "status_actions set \<Rightarrow> menu_state \<Rightarrow> bool" where
  init: "sa \<in> S \<Longrightarrow> menu_reach S \<lparr>ms_props = p, ms_status = sa, ms_open = False, ms_handlers = []\<rparr>"
| step: "menu_reach S s \<Longrightarrow> menu_step S s s' \<Longrightarrow> menu_reach S s'"

inductive_cases menu_stepE: "menu_step S s s'"

text \<open>A running workspace (stop, accepts jobs) that the refetch finds deleting (no jobs).\<close>

definition ex_running :: status_actions where
  "ex_running = \<lparr>sa_can_cancel = False, sa_can_accept_jobs = True, sa_actions = [ButtonStop]\<rparr>"

definition ex_deleting :: status_actions where
  "ex_deleting = \<lparr>sa_can_cancel = False, sa_can_accept_jobs = False, sa_actions = [ButtonDeleting]\<rparr>"

section \<open>Lemmas\<close>

lemma options_disabled [simp]: "wav_options_disabled (WorkspaceActions p sa o') \<longleftrightarrow> \<not> sa_can_accept_jobs sa"
  by (simp add: WorkspaceActions_def Let_def)

lemma menu_view_simps [simp]:
  "wav_options_disabled (menu_view s) \<longleftrightarrow> \<not> sa_can_accept_jobs (ms_status s)"
  "wav_menu_open (menu_view s) = ms_open s"
  "set (wav_menu_items (menu_view s)) =
     {MenuSettings, MenuDelete} \<union> (if wap_can_change_versions (ms_props s) then {MenuChangeVersion} else {})"
  by (auto simp: menu_view_def WorkspaceActions_def Let_def)

text \<open>Every state reached renders one of the statuses of \<open>S\<close>.\<close>

lemma menu_reach_status: "menu_reach S s \<Longrightarrow> ms_status s \<in> S"
  by (induction rule: menu_reach.induct) (auto elim: menu_stepE)

text \<open>When no status of \<open>S\<close> accepts jobs, the menu never opens and no handler runs.\<close>

lemma menu_reach_disabled:
  "menu_reach S s \<Longrightarrow> \<forall>sa \<in> S. \<not> sa_can_accept_jobs sa \<Longrightarrow> \<not> ms_open s \<and> ms_handlers s = []"
proof (induction rule: menu_reach.induct)
  case (init sa S p)
  then show ?case by simp
next
  case (step S s s')
  then have "ms_status s \<in> S" by (simp add: menu_reach_status)
  with step show ?case by (auto elim: menu_stepE)
qed

text \<open>From a render that accepts jobs, the menu opens and its settings handler runs.\<close>

lemma menu_reach_open:
  assumes "sa \<in> S" and "sa_can_accept_jobs sa"
  shows "menu_reach S \<lparr>ms_props = p, ms_status = sa, ms_open = True, ms_handlers = []\<rparr>"
proof -
  have "menu_reach S \<lparr>ms_props = p, ms_status = sa, ms_open = False, ms_handlers = []\<rparr>"
    using assms(1) by (rule menu_reach.init)
  moreover have "menu_step S \<lparr>ms_props = p, ms_status = sa, ms_open = False, ms_handlers = []\<rparr>
                   \<lparr>ms_props = p, ms_status = sa, ms_open = True, ms_handlers = []\<rparr>"
    using open_menu [of "\<lparr>ms_props = p, ms_status = sa, ms_open = False, ms_handlers = []\<rparr>" S] assms(2) by simp
  ultimately show ?thesis by (rule menu_reach.step)
qed

section \<open>Properties\<close>

text \<open>
  C36.  The options menu can call one of its handlers exactly when some
  status the workspace passes through can accept jobs.  But the open flag
  survives a re-render: once the menu was opened under a status that
  accepts jobs, a re-render with any other status (one that disables the
  options button included) leaves it open, and its delete item still calls
  \<open>handleDelete\<close>.
\<close>

theorem menu_handlers_after_rerender:
  "((\<exists>s. menu_reach S s \<and> ms_handlers s \<noteq> []) \<longleftrightarrow> (\<exists>sa \<in> S. sa_can_accept_jobs sa)) \<and>
   (sa1 \<in> S \<and> sa_can_accept_jobs sa1 \<and> sa2 \<in> S \<longrightarrow>
      (\<exists>s. menu_reach S s \<and> ms_status s = sa2 \<and>
           menu_step S s (s\<lparr>ms_open := False, ms_handlers := ms_handlers s @ [MenuDelete]\<rparr>)))"
proof (intro conjI impI iffI)
  assume "\<exists>s. menu_reach S s \<and> ms_handlers s \<noteq> []"
  then show "\<exists>sa \<in> S. sa_can_accept_jobs sa" using menu_reach_disabled by blast
next
  assume "\<exists>sa \<in> S. sa_can_accept_jobs sa"
  then obtain sa where sa: "sa \<in> S" "sa_can_accept_jobs sa" by blast
  define s where "s = \<lparr>ms_props = p, ms_status = sa, ms_open = True, ms_handlers = []\<rparr>"
  have "menu_reach S s" unfolding s_def using sa by (rule menu_reach_open)
  moreover have "menu_step S s (s\<lparr>ms_open := False, ms_handlers := ms_handlers s @ [MenuSettings]\<rparr>)"
    by (rule click_item) (simp_all add: s_def)
  ultimately have "menu_reach S (s\<lparr>ms_open := False, ms_handlers := ms_handlers s @ [MenuSettings]\<rparr>)"
    by (rule menu_reach.step)
  then show "\<exists>s. menu_reach S s \<and> ms_handlers s \<noteq> []" by fastforce
next
  assume a: "sa1 \<in> S \<and> sa_can_accept_jobs sa1 \<and> sa2 \<in> S"
  define s where "s = \<lparr>ms_props = p, ms_status = sa1, ms_open = True, ms_handlers = []\<rparr>"
  have "menu_reach S s" unfolding s_def using a by (intro menu_reach_open) simp_all
  moreover have "menu_step S s (s\<lparr>ms_props := p, ms_status := sa2\<rparr>)" using a by (intro rerender) simp
  ultimately have r: "menu_reach S (s\<lparr>ms_props := p, ms_status := sa2\<rparr>)" by (rule menu_reach.step)
  have "menu_step S (s\<lparr>ms_props := p, ms_status := sa2\<rparr>)
          ((s\<lparr>ms_props := p, ms_status := sa2\<rparr>)\<lparr>ms_open := False,
             ms_handlers := ms_handlers (s\<lparr>ms_props := p, ms_status := sa2\<rparr>) @ [MenuDelete]\<rparr>)"
    by (rule click_item) (simp_all add: s_def)
  with r show "\<exists>s. menu_reach S s \<and> ms_status s = sa2 \<and>
           menu_step S s (s\<lparr>ms_open := False, ms_handlers := ms_handlers s @ [MenuDelete]\<rparr>)"
    by fastforce
qed

theorem menu_handlers_after_rerender_witness:
  "\<exists>s. menu_reach {ex_running, ex_deleting} s \<and> ms_status s = ex_deleting \<and>
       wav_options_disabled (menu_view s) \<and>
       menu_step {ex_running, ex_deleting} s (s\<lparr>ms_open := False, ms_handlers := ms_handlers s @ [MenuDelete]\<rparr>)"
proof -
  obtain s where "menu_reach {ex_running, ex_deleting} s" "ms_status s = ex_deleting"
    "menu_step {ex_running, ex_deleting} s (s\<lparr>ms_open := False, ms_handlers := ms_handlers s @ [MenuDelete]\<rparr>)"
    using menu_handlers_after_rerender [of "{ex_running, ex_deleting}" ex_running ex_deleting]
    by (auto simp: ex_running_def)
  moreover have "\<not> sa_can_accept_jobs ex_deleting" by (simp add: ex_deleting_def)
  ultimately show ?thesis by auto
qed

end
