(* ===== verification/TerraformServe.thy ===== *)
theory TerraformServe
  imports Prelude
begin

text \<open>
  The terraform provisioner's start-up (\<open>src/unnamed/part_002\<close>):
  \<open>absoluteBinaryPath\<close>, which finds terraform on the \<open>PATH\<close> and checks
  its version, \<open>Serve\<close>, which falls back to installing the pinned version
  and fills the option defaults, and \<open>server.executor\<close>.  The operating
  system and the libraries they call (\<open>safeexec.LookPath\<close>,
  \<open>filepath.Abs\<close>, \<open>versionFromBinaryPath\<close>, \<open>Install\<close>) and the version
  bounds are the fields of the record \<open>terraform_env\<close>; versions are
  any linear order, as \<open>go-version\<close> compares them.  The dRPC serving
  itself (\<open>provisionersdk.Serve\<close>) is not modelled: \<open>Serve\<close> returns the
  server it hands over.
\<close>

section \<open>Errors\<close>

text \<open>
  Go errors as far as \<open>xerrors.Is\<close> inspects them: \<open>context.Canceled\<close>,
  the sentinel \<open>terraformMinorVersionMismatch\<close>, other errors, and a
  wrapping \<open>xerrors.Errorf("...: %w", err)\<close>.
\<close>

datatype go_error = ErrContextCanceled | ErrMinorVersionMismatch | ErrText string | ErrWrap string go_error

primrec errors_is_canceled :: "go_error \<Rightarrow> bool" where
  "errors_is_canceled ErrContextCanceled = True"
| "errors_is_canceled ErrMinorVersionMismatch = False"
| "errors_is_canceled (ErrText s) = False"
| "errors_is_canceled (ErrWrap s e) = errors_is_canceled e"

section \<open>The environment\<close>

record 'v terraform_env =
  te_look_path :: "go_error + string"
  te_abs :: "string \<Rightarrow> go_error + string"
  te_version :: "string \<Rightarrow> go_error + 'v"
  te_install :: "string \<Rightarrow> go_error + string"
  te_min_version :: 'v
  te_max_version :: 'v

section \<open>Start-up\<close>

definition absoluteBinaryPath :: "('v :: linorder) terraform_env \<Rightarrow> go_error + string" where
  "absoluteBinaryPath env =
     (case te_look_path env of
        Inl err \<Rightarrow> Inl (ErrWrap ''Terraform binary not found'' err)
      | Inr binaryPath \<Rightarrow>
          (case te_abs env binaryPath of
             Inl err \<Rightarrow> Inl (ErrWrap ''Terraform binary absolute path not found'' err)
           | Inr absoluteBinary \<Rightarrow>
               (case te_version env absoluteBinary of
                  Inl err \<Rightarrow> Inl (ErrWrap ''Terraform binary get version failed'' err)
                | Inr version \<Rightarrow>
                    if version < te_min_version env \<or> te_max_version env < version
                    then Inl ErrMinorVersionMismatch else Inr absoluteBinary)))"

text \<open>\<open>ServeOptions\<close>: the tracer is \<^const>\<open>None\<close> when nil.\<close>

record serve_options =
  so_binary_path :: string
  so_cache_path :: string
  so_tracer :: "string option"
  so_exit_timeout :: duration

text \<open>\<open>unhanger.HungJobExitTimeout\<close>, three minutes by the options' comment.\<close>

definition HungJobExitTimeout :: duration where
  "HungJobExitTimeout = 3 * minute"

record server =
  srv_binary_path :: string
  srv_cache_path :: string
  srv_tracer :: string
  srv_exit_timeout :: duration

text \<open>The binary \<open>Serve\<close> settles on: the given one, the one on the \<open>PATH\<close>, or an installed one.\<close>

definition serve_binary_path :: "('v :: linorder) terraform_env \<Rightarrow> serve_options \<Rightarrow> go_error + string" where
  "serve_binary_path env opts =
     (if so_binary_path opts = [] then
        (case absoluteBinaryPath env of
           Inl err \<Rightarrow>
             if errors_is_canceled err then Inl (ErrWrap ''absolute binary context canceled'' err)
             else (case te_install env (so_cache_path opts) of
                     Inl err' \<Rightarrow> Inl (ErrWrap ''install terraform'' err')
                   | Inr binPath \<Rightarrow> Inr binPath)
         | Inr absoluteBinary \<Rightarrow> Inr absoluteBinary)
      else Inr (so_binary_path opts))"

definition Serve :: "('v :: linorder) terraform_env \<Rightarrow> serve_options \<Rightarrow> go_error + server" where
  "Serve env opts =
     (case serve_binary_path env opts of
        Inl err \<Rightarrow> Inl err
      | Inr binaryPath \<Rightarrow>
          Inr \<lparr>srv_binary_path = binaryPath, srv_cache_path = so_cache_path opts,
               srv_tracer = (case so_tracer opts of None \<Rightarrow> ''noop'' | Some t \<Rightarrow> t),
               srv_exit_timeout = (if so_exit_timeout opts = 0 then HungJobExitTimeout else so_exit_timeout opts)\<rparr>)"

record executor =
  exe_binary_path :: string
  exe_cache_path :: string
  exe_workdir :: string

definition server_executor :: "server \<Rightarrow> string \<Rightarrow> executor" where
  "server_executor s workdir =
     \<lparr>exe_binary_path = srv_binary_path s, exe_cache_path = srv_cache_path s, exe_workdir = workdir\<rparr>"

section \<open>Lemmas\<close>

text \<open>The \<open>PATH\<close> binary is accepted exactly when it is found and its version is within the bounds.\<close>

lemma absoluteBinaryPath_ok:
  "absoluteBinaryPath env = Inr b \<longleftrightarrow>
   (\<exists>p v. te_look_path env = Inr p \<and> te_abs env p = Inr b \<and> te_version env b = Inr v \<and>
          te_min_version env \<le> v \<and> v \<le> te_max_version env)"
  by (auto simp: absoluteBinaryPath_def not_less split: sum.splits)

text \<open>
  With no binary given, a found \<open>PATH\<close> binary is used when its version is
  within the bounds and an installed one otherwise.
\<close>

lemma serve_binary_choice:
  "so_binary_path opts = [] \<Longrightarrow> te_look_path env = Inr p \<Longrightarrow> te_abs env p = Inr b \<Longrightarrow>
   te_version env b = Inr v \<Longrightarrow> te_install env (so_cache_path opts) = Inr i \<Longrightarrow>
   map_sum id srv_binary_path (Serve env opts) =
     Inr (if te_min_version env \<le> v \<and> v \<le> te_max_version env then b else i)"
  by (auto simp: Serve_def serve_binary_path_def absoluteBinaryPath_def not_less)

text \<open>A server that \<open>Serve\<close> hands over never has a zero exit timeout.\<close>

lemma serve_exit_timeout:
  "Serve env opts = Inr s \<Longrightarrow> srv_exit_timeout s \<noteq> 0"
  by (auto simp: Serve_def HungJobExitTimeout_def minute_def second_def split: sum.splits if_splits)

end
