(* ===== verification/Spec2Isabelle.thy ===== *)
theory Spec2Isabelle
  imports CoordinatorProps ExecutorProps WorkspaceApps CliUI DbProps TemplateProps OrgProps AgentProps AuditProps WorkspaceListProps StatsProps DbAuthz CliDemo RemovedEndpoints InsightProps WorkspaceActionsUI TerraformServe
begin

text \<open>
  \<^bold>\<open>A verification library for the tailnet coordinator, the workspace
  executor and their neighbours in coder.\<close>

  \<^bold>\<open>The program's parts.\<close>  A workspace proxy reaches the tailnet
  coordinator through \<open>GET /workspaceproxies/me/coordinate\<close>
  (\<open>src/enterprise/coderd/workspaceproxycoordinate.go\<close>,
  \<open>workspaceProxyCoordinate\<close>), which opens a multi-agent handle
  (\<open>MultiAgentConn\<close>, whose method set is the mock
  \<open>src/tailnet/tailnettest/multiagentmock.go\<close>) on the coordinator; the
  proxy asks through \<open>agentIsLegacy\<close> (same file) whether an agent's node
  uses the legacy address.  The coordinator keeps connected peers, a
  subscription graph and per-peer coalescing send queues; its code is not
  under \<open>src/\<close>, so it is modelled from the specification.  The workspace
  executor (\<open>src/coderd/deprecated.go\<close>, package \<open>autobuild\<close>) decides on
  every tick which workspaces to start, stop, lock or delete, over the
  in-memory database fake (\<open>src/unnamed/part_005\<close>, package \<open>dbfake\<close>).
  Workspace applications report errors through the page writers of
  \<open>src/coderd/workspaceapps/errors.go\<close>, and \<open>src/cmd/cliui/main.go\<close> is a
  demo program for the CLI widgets.

  \<^bold>\<open>Theories.\<close>
  \<^item> \<^theory_text>\<open>Prelude\<close>: identifiers, \<open>time\<close> as an \<open>int\<close> of nanoseconds,
    Go's saturating \<open>Time.Sub\<close> (the result is clamped to the int64
    range, as in the Go library), \<open>Truncate\<close>, and the shared lemmas.
  \<^item> \<^theory_text>\<open>Queue\<close>: the coalescing send queue (\<open>enqueue\<close>, \<open>dequeue\<close>,
    \<open>purge_node\<close>) and a refinement of a plain FIFO: a receiver applying
    the queue learns what it would learn from every update in order.
  \<^item> \<^theory_text>\<open>Coordinator\<close>: the record \<open>coord\<close> of peers and the two
    adjacency maps, one definition per operation under the coordinator's
    lock (\<open>register\<close>, \<open>subscribe\<close>, \<open>unsubscribe\<close>, \<open>self_update\<close>,
    \<open>disconnect\<close>, \<open>fanout\<close>, \<open>receive\<close>, \<open>send_next\<close>, \<open>shutdown\<close>),
    errors as \<open>coord_error + _\<close>, the step relation \<open>coord_step\<close> and its
    invariant by rule induction.
  \<^item> \<^theory_text>\<open>MultiAgent\<close>: the multi-agent state machine
    (\<open>Fresh\<close>/\<open>Open\<close>/\<open>Closed\<close>), \<open>ma_call\<close> dispatching every method of
    \<open>MultiAgentConn\<close> (\<open>ma_op\<close>), the system state \<open>sys\<close> with the
    websocket wait group, and the interleaving \<open>sys_step\<close> with its
    reachability \<open>sys_reach\<close> and invariant.
  \<^item> \<^theory_text>\<open>Legacy\<close> and \<^theory_text>\<open>WorkspaceProxy\<close>: the two HTTP handlers of
    \<open>workspaceproxycoordinate.go\<close>; the proxy's session
    (\<open>tailnet.ServeWorkspaceProxy\<close>, not under \<open>src/\<close>) is a finite list
    of multi-agent calls run by \<open>run_session\<close> until one fails, so no fuel
    is needed.
  \<^item> \<^theory_text>\<open>GoSlice\<close>: the slice loops the database fake repeats,
    each once: find-first (\<open>first_index\<close>), update-first-by-id
    (\<open>update_first\<close>), swap-remove, backward deletion, and deletion inside
    a \<open>for i, x := range t\<close> loop (\<open>range_delete\<close>).  The last keeps the
    loop's fixed-length backing array, so it skips the row after a deleted
    one and panics (\<open>None\<close>) when \<open>t[i+1:]\<close> leaves the shrunk slice.
  \<^item> \<^theory_text>\<open>DbRows\<close>: the rows of the fake's tables as records
    (\<open>sql.Null*\<close> values as records with a \<open>Valid\<close> flag) and the job
    status \<open>ProvisionerJobStatus\<close> as \<open>db2sdk\<close> derives it.
  \<^item> \<^theory_text>\<open>DbFake\<close>: the store \<open>fake_db\<close> (one list per table, in
    insertion order, as the Go slices), \<open>New\<close>, the lookups, the candidate
    query \<open>getWorkspacesEligibleForTransition\<close>,
    \<open>getLatestWorkspaceBuildByWorkspaceID\<close>, the lock update, and
    \<open>InTx\<close> with its advisory locks.
  \<^item> \<^theory_text>\<open>DbUsers\<close>, \<^theory_text>\<open>DbJobs\<close>, \<^theory_text>\<open>DbMisc\<close>,
    \<^theory_text>\<open>DbWorkspaces\<close>: the fake's queries on users, API keys and SSH
    keys; provisioner jobs (acquisition with tag matching, queue position)
    and their logs; replicas, licenses and groups; workspaces and builds.
    Each query is one definition named as the Go method; a query returns
    \<open>string + _\<close> with \<open>Inl\<close> the error (\<open>sql.ErrNoRows\<close>,
    \<open>errDuplicateKey\<close>, the code's messages), and a panic is \<open>None\<close>.
    License ids are \<open>32 word\<close>s, so \<open>+ 1\<close> wraps as Go's \<open>int32\<close>
    does; the millisecond product of \<open>UpdateWorkspacesDeletingAtByTemplateID\<close>
    wraps at 64 bits (\<open>wrap_int64\<close>).  The key loop of
    \<open>UpdateUserDeletedByID\<close>, which decrements its index after a
    swap-remove, is a \<open>partial_function (option)\<close>; that it returns is
    proved by induction on \<open>2 * length keys - i\<close>, which every iteration
    decreases.  Go's unstable \<open>slices.SortFunc\<close> and \<open>sort.Slice\<close> are
    the stable \<open>sort_key\<close>, and Go's map iteration order is the order of
    first appearance; claims do not depend on either order.
  \<^item> \<^theory_text>\<open>DbTemplates\<close>: templates, template versions, their
    parameters and variables, and the ACL role queries; the cursor paging
    shared with the build history is \<open>paginate\<close> in \<^theory_text>\<open>GoSlice\<close>.
  \<^item> \<^theory_text>\<open>DbOrgs\<close>: organizations and their members, the quota
    queries (sums in \<open>int64\<close>, \<open>wrap_int64\<close>), workspace proxies (region
    ids as \<open>32 word\<close>s; the hostname regexes as the predicates
    \<open>valid_proxy_hostname\<close> and \<open>access_url_match\<close>), files, git-auth
    links and user links.
  \<^item> \<^theory_text>\<open>DbAgents\<close>: workspace agents, their logs and metadata,
    workspace apps, resources and resource metadata, and the walk from an
    agent to its workspace (\<open>getWorkspaceByAgentIDNoLock\<close>, an option
    chain in \<open>Monad_Syntax\<close>).  An agent's logs length and the batch
    length are \<open>32 word\<close>s: the batch is summed with wrap-around as
    \<open>int32(len(output))\<close> does, and the 1 MiB check reads the sum with
    \<open>sint\<close>.
  \<^item> \<^theory_text>\<open>DbAudit\<close>: the deployment settings (the byte-slice ones as
    string options, \<open>nil\<close> being \<^const>\<open>None\<close>), the audit log with
    its filtered, offset and limited reader \<open>GetAuditLogsOffset\<close> (the loop
    as the primitive recursion \<open>audit_scan\<close>), workspace build
    parameters, parameter schemas, provisioner daemons and hung jobs.
  \<^item> \<^theory_text>\<open>DbWorkspaceList\<close>: the workspace listing
    \<open>GetAuthorizedWorkspaces\<close>: the filter loop \<open>ws_scan\<close> with its
    early errors, \<open>mapAgentStatus\<close> (its \<open>panic\<close> as \<^const>\<open>None\<close>), the
    comparator \<open>workspace_less\<close> and the order \<open>ws_sort_key\<close> it sorts
    by, the page and the rows.  The wall clock read by \<open>time.Since\<close> and
    \<open>database.Now\<close> is one argument \<open>now\<close>.
  \<^item> \<^theory_text>\<open>DbAgentStats\<close>: agent statistics, their per-agent and
    deployment aggregates with the percentile \<open>tryPercentile\<close>, and the
    deployment's workspace counters.  Latencies (\<open>float64\<close>) are reals:
    only their order is used, and the index \<open>int(len * p / 100)\<close> is exact
    in \<open>float64\<close> for the constant percentiles and realistic lengths.
  \<^item> \<^theory_text>\<open>DbInsights\<close>: the insight queries of the dashboard.
    \<open>GetDeploymentDAUs\<close> and \<open>GetTemplateDAUs\<close> are the fold
    \<open>dau_seens\<close> into a map of dates to user sets and the rows
    \<open>dau_rows\<close>.  \<open>GetTemplateAverageBuildTime\<close> is the build loop
    \<open>build_time_scan\<close> and \<open>tryPercentile\<close>.
    \<open>GetTemplateDailyInsights\<close> is built from the day windows
    \<open>daily_windows\<close>, a \<open>function\<close> whose termination measure is
    the time left to \<open>EndTime\<close>.  \<open>GetTemplateInsights\<close> keeps
    five-minute usage intervals per user.  \<open>GetTemplateParameterInsights\<close>
    is the map of latest builds, the template filter
    \<open>drop_template_builds\<close>, the unique parameters and their value counts.
    \<open>GetUserLatencyInsights\<close> gives per-user latency percentiles.  Go
    maps are association lists (\<open>AList.update\<close>) in first-insertion
    order, and days are 24 hours.
  \<^item> \<^theory_text>\<open>DbProps\<close>, \<^theory_text>\<open>TemplateProps\<close>, \<^theory_text>\<open>OrgProps\<close>,
    \<^theory_text>\<open>AgentProps\<close>, \<^theory_text>\<open>AuditProps\<close>,
    \<^theory_text>\<open>WorkspaceListProps\<close>, \<^theory_text>\<open>StatsProps\<close> and
    \<^theory_text>\<open>InsightProps\<close>: the properties
    of these queries on small stores.
  \<^item> \<^theory_text>\<open>Autobuild\<close>: the eligibility checks, \<open>getNextTransition\<close>,
    the per-workspace transaction (\<open>transition_ws\<close>), \<open>runOnce\<close> and the
    tick loop \<open>run_ticks\<close> over a finite list of ticks; the cron parser, the
    template schedule store, \<open>wsbuilder\<close> and \<open>database.Now\<close> are fields of
    the record \<open>autobuild_env\<close>.
  \<^item> \<^theory_text>\<open>WorkspaceApps\<close>: each error-page writer as the log entries it
    emits and the \<open>ErrorPageData\<close> it renders.
  \<^item> \<^theory_text>\<open>CliUI\<close>: the prompt's validation, the fake job's log stream, the
    job's status written by two unsynchronised threads as the step relation
    \<open>job_step\<close>, and the scripted agent of the demo.
  \<^item> \<^theory_text>\<open>CliDemo\<close>: the demo's prompt handler
    (\<open>prompt_handler\<close>, with \<open>Answered\<close>, \<open>PromptCanceled\<close> and
    \<open>PromptFailed\<close> for the prompt's three outcomes) and the git-auth
    demo of \<open>src/cmd/cliui/main.go\<close>: its two provider flags, the fetch
    counter and the results as the record \<open>git_auth_state\<close>, the handlers
    storing a provider and the two halves of the fetch callback as the
    step relation \<open>git_auth_step\<close>, the reachable states as
    \<open>git_auth_reach\<close>.
  \<^item> \<^theory_text>\<open>DbAuthz\<close>: \<open>GetAuthorizationUserRoles\<close> (site roles,
    \<open>member\<close>, the organization roles and groups named by
    \<open>uuid_string\<close>, the canonical 36-character text of a UUID) and
    \<open>GetAuthorizedUsers\<close>.  Its lemmas show that the text of a 128-bit
    identifier orders as the number (\<open>uuid_string_less\<close>), so the
    fake's sorts by \<open>a.String() < b.String()\<close> are numeric sorts
    (\<open>sort_key_uuid_string\<close>).
  \<^item> \<^theory_text>\<open>WorkspaceActionsUI\<close>: the web UI's workspace actions
    (\<open>src/unnamed/part_003\<close>).  The rendered buttons are
    \<open>WorkspaceActions\<close> with \<open>buttonMapping\<close>, for every result of the
    status table \<open>actionsByWorkspaceStatus\<close>, which is not under
    \<open>src/\<close>.  The options menu's state (\<open>menu_state\<close>: the current
    render's props and status, the open flag, the handlers called) evolves
    by the step relation \<open>menu_step\<close>, whose re-render replaces the props
    and the status and keeps the open flag, with reachability
    \<open>menu_reach\<close> from a first render.
  \<^item> \<^theory_text>\<open>TerraformServe\<close>: the terraform provisioner's start-up
    (\<open>src/unnamed/part_002\<close>).  \<open>absoluteBinaryPath\<close> and
    \<open>Serve\<close> run over the record \<open>terraform_env\<close> of the
    operating-system and library calls, with \<open>xerrors.Is\<close> on wrapped
    errors as \<open>errors_is_canceled\<close>.  A found \<open>PATH\<close> binary is used
    exactly when its version is within the bounds, and an installed one
    otherwise (\<open>serve_binary_choice\<close>); a zero exit timeout becomes
    three minutes.
  \<^item> \<^theory_text>\<open>RemovedEndpoints\<close>: the two deprecated template-version
    endpoints of \<open>deprecated.go\<close>, which reply \<open>200\<close> with an empty
    list.
  \<^item> \<^theory_text>\<open>CoordinatorProps\<close> and \<^theory_text>\<open>ExecutorProps\<close>: the properties of
    the coordinator seen through \<open>MultiAgentConn\<close> and of the executor,
    with concrete states that witness them.

  \<^bold>\<open>What the lemmas show.\<close>  The coordinator invariant (symmetric
  subscription maps, subscriptions held only by connected peers, at most
  one pending node per source in every queue) holds in every reachable
  state; a multi-agent never receives a node of a peer that is gone; a
  subscription delivers a snapshot, a disconnect a gone entry; coalescing
  refines a FIFO; sequence numbers, close and drain behave as the
  specification says.  The proxy handler restores the wait group on every
  path and keeps the system reachable.  For the executor: the candidate
  query misses exactly the workspaces whose deadline equals a minute tick,
  and in every store such a workspace is due for autostop at that tick
  yet gets no transition from the run there;
  locked workspaces are never autostarted; \<open>InTx\<close> releases its locks;
  \<open>runOnce\<close> transitions only candidates; the saturating \<open>Sub\<close> agrees with
  the unbounded comparison below the maximum duration.  For the demo: the
  job's final states; once \<open>Cancel\<close> has returned while the goroutine is
  past its pending check, every run that returns ends succeeded; the dead skip in the log stream, the
  prompt's rejected default.  For the database fake: the key loop of
  \<open>UpdateUserDeletedByID\<close> returns and removes exactly the user's keys;
  the backward deletions are filters; \<open>AcquireProvisionerJob\<close> refines
  ``take the first acquirable job''; the queue position counts the pending
  jobs before a job while the queue size stays \<open>0\<close>; the log table keeps
  increasing ids and a reader after the old last id gets exactly the new
  logs; an inserted build with the greatest number is the latest; license
  ids wrap at the \<open>int32\<close> bound.  The deletions inside a range loop
  skip the row after a deleted one and panic whenever the last row and an
  earlier one are deleted (\<open>range_delete_skips_next\<close>,
  \<open>range_delete_last_panics\<close> in \<open>GoSlice\<close>), \<open>InsertUserGroupsByName\<close> makes duplicates that make
  the membership deletion panic, \<open>InsertUser\<close> orders creation times by
  the alphabetically last user, and the deletion-time update ignores the
  template.  Paging a template's versions by cursor continues right after
  the cursor; the previous version is the latest older one; a user missing
  from the table fails the template's user roles instead of being skipped.
  A new proxy's region id exceeds every region id until it wraps, and the
  proxy lookup by hostname accepts any URL containing the hostname.  An
  agent's logs are refused exactly above 1 MiB while the sums fit in an
  \<open>int32\<close>, and a batch of \<open>2^31\<close> bytes wraps and is accepted; an
  update of an agent's metadatum erases its script, name, timeout and
  interval; a new agent of a new resource of a build's job leads back to
  the build's workspace.  The audit reader returns a page of the filtered
  rows after the offset, with the offset spent before the filters, at
  least one row, and the page size as the count; the insertion keeps the
  log oldest first, against the reader's comment.  The listing's rows are
  kept workspaces, running first and by owner, counted before paging; a
  status filter fails the listing on a workspace without a build; the
  comparator is not strict, so workspace names never order the rows.  The
  percentile is a nearest-rank percentile; the deployment counters cover
  every workspace except those in no branch of the counter loop.  In the
  git-auth demo every reachable state satisfies the invariant that GitLab
  is stored only after GitHub, yet a reachable result reports GitLab
  without GitHub, because the two flags are read in two steps with a
  store in between; from every reachable state the demo can still finish
  with both providers authenticated.  The daily active users are the
  distinct pairs of local date and user of the connected statistics, in
  date order.  For a non-empty range the daily insights' windows are
  ordered, disjoint, at most a day long and cover the range exactly, and
  each counts the distinct users of its window.  The parameter insights'
  template filter is inverted: the
  insights asked for the templates of every workspace are empty.  A build
  with a missing version fails the build-time query for every template,
  and \<open>uniqueSortedUUIDs\<close> is the sorted list of the identifiers' set.
  The workspace actions' menu can call a handler exactly when some status
  the workspace passes through can accept jobs, but its open flag survives
  a re-render that disables the options button, and its delete item still
  calls \<open>handleDelete\<close>.
  \<open>CliUI\<close>, \<open>CliDemo\<close>, \<open>WorkspaceActionsUI\<close> and the \<open>*Props\<close> theories hold the claims, except the
  claim on the proxy handler below.

  \<^bold>\<open>Not modelled.\<close>  Transports, the wire format, HTML rendering,
  logging back ends, wall-clock sleeps, the CLI widgets, the terraform
  provisioner's dRPC serving, tracing and logging (\<open>src/unnamed/part_002\<close>), the CLI
  test (\<open>part_001\<close>), documentation and the docs site's manifest
  (\<open>part_000\<close>, \<open>part_004\<close>), and the styling and layout of the web UI's
  workspace actions (\<open>part_003\<close>), whose status table is not under \<open>src/\<close>
  and enters as a parameter.
  Of the database fake: \<open>validateDatabaseType\<close>, which inspects
  parameter types by reflection and is taken to succeed; the tailnet
  tables, which the fake leaves unimplemented; and the locking wrappers
  that only call a modelled \<open>NoLock\<close> lookup.  The removed endpoints at
  the top of \<open>deprecated.go\<close> other than the two modelled ones
  delegate to handlers not under \<open>src/\<close>.  Concurrency is modelled where a claim depends
  on it (the coordinator's steps, the two job threads); the executor's
  errgroup runs its transactions in candidate order, since they touch
  disjoint workspaces.
\<close>

text \<open>
  The legacy query answers 400 with \<open>Missing UUID in URL.\<close> when the path
  parameter does not parse; otherwise 200 with \<open>Found\<close> exactly when the
  coordinator holds a node for the agent, and \<open>Legacy\<close> exactly when that node
  exists, has an address, and its first address is \<open>WorkspaceAgentIP\<close>.
\<close>

theorem agentIsLegacy_reply:
  "Legacy.agentIsLegacy s None = HttpMessage 400 ''Missing UUID in URL.'' \<and>
   Legacy.agentIsLegacy s (Some a) =
     HttpJson 200 \<lparr>Found = (node_of s a \<noteq> None),
                    Legacy = (\<exists>n. node_of s a = Some n \<and> node_addresses n \<noteq> [] \<and>
                                   prefix_addr (hd (node_addresses n)) = WorkspaceAgentIP)\<rparr>"
  by (cases "node_of s a") (auto simp: agentIsLegacy_def Let_def node_is_legacy_def hd_conv_nth)

text \<open>
  C8.  The proxy-coordinate handler leaves the API's websocket wait group
  as it found it on every path, and, when the proxy's session makes only
  external calls, leaves the system in a reachable state, so every
  invariant of the coordinator holds after it.
\<close>

theorem proxy_handler_balanced_reach:
  assumes "sys_reach S" and "list_all external_op ops"
  shows "sys_waiting (snd (workspaceProxyCoordinate accepted pid ops S)) = sys_waiting S \<and>
         sys_reach (snd (workspaceProxyCoordinate accepted pid ops S))"
proof (cases accepted)
  case False
  then show ?thesis using assms(1) by (simp add: workspaceProxyCoordinate_def)
next
  case True
  show ?thesis
  proof (cases "serve_multi_agent pid S")
    case (Inl e)
    then show ?thesis using True assms(1)
      by (simp add: workspaceProxyCoordinate_def serve_multi_agent_waiting_upd)
  next
    case (Inr S2)
    have r2: "sys_reach S2" using assms(1) Inr by (rule sys_reach.sys_reach_step [OF _ sys_step.sys_serve])
    have w2: "sys_waiting S2 = sys_waiting S" using Inr by (rule serve_multi_agent_waiting)
    have "sys_reach (snd (run_session pid ops S2))" using r2 assms(2) by (rule run_session_reach)
    moreover have "sys_waiting (snd (run_session pid ops S2)) = sys_waiting S"
      using w2 run_session_waiting by simp
    ultimately show ?thesis using True Inr
      by (simp add: workspaceProxyCoordinate_def serve_multi_agent_waiting_upd run_session_waiting_upd
                    case_prod_unfold Let_def sys_waiting_same)
  qed
qed

theorem proxy_handler_balanced_reach_witness:
  "sys_waiting (snd (workspaceProxyCoordinate True 4 [SubscribeAgent 2, NextUpdate] ex_sys)) = 0 \<and>
   sys_reach (snd (workspaceProxyCoordinate True 4 [SubscribeAgent 2, NextUpdate] ex_sys))"
proof -
  have "list_all external_op [SubscribeAgent 2, NextUpdate]" by (simp add: external_op_def)
  then show ?thesis using proxy_handler_balanced_reach [OF ex_sys_reach] by (simp add: ex_sys_def)
qed

text \<open>
  When the websocket cannot be accepted the handler answers 400 with
  \<open>Failed to accept websocket.\<close> and the state, wait group included, is
  unchanged.
\<close>

theorem proxy_accept_failure:
  "workspaceProxyCoordinate False pid ops S = (ProxyBadRequest ''Failed to accept websocket.'', S)"
  by (simp add: workspaceProxyCoordinate_def)

text \<open>
  The handler defers only the connection's close: when the proxy's
  session ends without closing the multi-agent, the handler returns with
  the multi-agent bound to the fresh id still registered and open.
\<close>

theorem proxy_session_leaves_multi_agent:
  assumes "\<not> c_closed (sys_coord S)" and "pid \<notin> dom (c_peers (sys_coord S))"
  shows "\<exists>S'. workspaceProxyCoordinate True pid [] S = (ProxySession [], S') \<and>
              kind_of (sys_coord S') pid = Some MultiAgent \<and>
              ma_call pid IsClosed S' = Some (MABool False, S')"
  using assms
  by (auto simp: workspaceProxyCoordinate_def serve_multi_agent_def register_def kind_of_def new_peer_def
                 ma_call_def)

theorem proxy_session_leaves_multi_agent_witness:
  "\<exists>S'. workspaceProxyCoordinate True 4 [] ex_sys = (ProxySession [], S') \<and>
        kind_of (sys_coord S') 4 = Some MultiAgent \<and> ma_call 4 IsClosed S' = Some (MABool False, S')"
proof -
  have "\<not> c_closed (sys_coord ex_sys)" and "4 \<notin> dom (c_peers (sys_coord ex_sys))"
    by (simp_all add: ex_sys_def)
  then show ?thesis by (rule proxy_session_leaves_multi_agent)
qed

end
